(* ===== verification/Go_Prelude.thy ===== *)
theory Go_Prelude
  imports Main "HOL-Library.Word"
begin

text \<open>
  The fragment of Go's semantics that every component of the development shares: the
  outcomes of a computation (a value, a run-time panic, or no return at all), byte slices
  as views into an underlying array (a Go slice expression is checked against the
  capacity, not the length), and the little-endian reading of bytes.
\<close>

unbundle bit_operations_syntax

named_theorems go_simps \<open>unfolding rules for the Go operations: outcomes and slices\<close>

section \<open>Machine types\<close>

type_synonym byte = "8 word"
type_synonym u8 = "8 word"
type_synonym u16 = "16 word"
type_synonym u32 = "32 word"
type_synonym u64 = "64 word"
type_synonym i64 = "64 word" \<comment> \<open>Go's \<open>int64\<close>, and \<open>int\<close> on 64-bit targets; read by \<open>sint\<close>\<close>

section \<open>Outcomes\<close>

text \<open>
  A computation of type \<open>'a go\<close> is \<open>Some (Inr v)\<close> when the code returns \<open>v\<close>,
  \<open>Some (Inl c)\<close> when it panics with \<open>c\<close>, and \<open>None\<close> when it never returns (a loop for ever, or a
  recursion without end). A Go
  function with an \<open>error\<close> result returns a value that carries the error.
\<close>

datatype crash =
    Index_out_of_range
  | Slice_bounds_out_of_range
  | Nil_dereference
  | Failed_type_assertion
  | Divide_by_zero
  | Explicit_panic string

type_synonym 'a go = "(crash + 'a) option"

definition ret :: "'a \<Rightarrow> 'a go" where
  "ret x = Some (Inr x)"

definition panic :: "crash \<Rightarrow> 'a go" where
  "panic c = Some (Inl c)"

definition gbind :: "'a go \<Rightarrow> ('a \<Rightarrow> 'b go) \<Rightarrow> 'b go" where
  "gbind m f = Option.bind m (\<lambda>r. case r of Inl c \<Rightarrow> Some (Inl c) | Inr x \<Rightarrow> f x)"

definition returns :: "'a go \<Rightarrow> bool" where
  "returns m \<longleftrightarrow> (case m of None \<Rightarrow> False | Some r \<Rightarrow> (case r of Inl _ \<Rightarrow> False | Inr _ \<Rightarrow> True))"

definition ends :: "'a go \<Rightarrow> bool" where \<comment> \<open>a value or a panic, not a loop for ever\<close>
  "ends m \<longleftrightarrow> m \<noteq> None"

definition crashes :: "'a go \<Rightarrow> bool" where
  "crashes m \<longleftrightarrow> (case m of None \<Rightarrow> False | Some r \<Rightarrow> (case r of Inl _ \<Rightarrow> True | Inr _ \<Rightarrow> False))"

lemma gbind_ret [simp]: "gbind (ret x) f = f x"
  by (simp add: gbind_def ret_def)

lemma gbind_panic [simp]: "gbind (panic c) f = panic c"
  by (simp add: gbind_def panic_def)

lemma gbind_Some [simp]: "gbind (Some (Inr x)) f = f x" "gbind (Some (Inl c)) f = Some (Inl c)"
  by (simp_all add: gbind_def)

lemma gbind_None [simp]: "gbind None f = None"
  by (simp add: gbind_def)

lemma gbind_ret_right [simp]: "gbind m ret = m"
  by (cases m) (auto simp: gbind_def ret_def split: sum.splits)

lemma gbind_if: "gbind (if b then m else n) f = (if b then gbind m f else gbind n f)"
  by simp

lemma gbind_assoc: "gbind (gbind m f) g = gbind m (\<lambda>x. gbind (f x) g)"
  by (cases m) (auto simp: gbind_def split: sum.splits)

lemma ret_inject [simp]: "ret x = ret y \<longleftrightarrow> x = y"
  by (simp add: ret_def)

lemma panic_inject [simp]: "panic x = panic y \<longleftrightarrow> x = y"
  by (simp add: panic_def)

lemma ret_neq [simp]: "ret x \<noteq> panic c" "panic c \<noteq> ret x" "ret x \<noteq> None" "None \<noteq> ret x"
    "panic c \<noteq> None" "None \<noteq> panic c"
  by (simp_all add: ret_def panic_def)

lemma go_cases [case_names no_return crashed returned]:
  assumes "m = None \<Longrightarrow> P" "\<And>c. m = panic c \<Longrightarrow> P" "\<And>x. m = ret x \<Longrightarrow> P"
  shows P
  using assms by (cases m) (auto simp: ret_def panic_def elim: sumE)

lemma gbind_eq_ret: "gbind m f = ret y \<longleftrightarrow> (\<exists>x. m = ret x \<and> f x = ret y)"
  by (cases m rule: go_cases) auto

lemma gbind_retE [elim!]:
  assumes "gbind m f = ret y"
  obtains x where "m = ret x" "f x = ret y"
  using assms by (auto simp: gbind_eq_ret)

lemma gbind_cong [fundef_cong]:
  "m = m' \<Longrightarrow> (\<And>x. m' = ret x \<Longrightarrow> f x = g x) \<Longrightarrow> gbind m f = gbind m' g"
  by (cases m' rule: go_cases) auto

lemma returns_ret [simp]: "returns (ret x)" "\<not> returns (panic c)" "\<not> returns None"
  by (simp_all add: returns_def ret_def panic_def)

lemma crashes_panic [simp]: "crashes (panic c)" "\<not> crashes (ret x)" "\<not> crashes None"
  by (simp_all add: crashes_def ret_def panic_def)

lemma ends_simps [simp]: "ends (ret x)" "ends (panic c)" "\<not> ends None"
  by (simp_all add: ends_def ret_def panic_def)

lemma ends_gbind: "ends m \<Longrightarrow> (\<And>x. m = ret x \<Longrightarrow> ends (f x)) \<Longrightarrow> ends (gbind m f)"
  by (cases m rule: go_cases) auto

lemma returns_ends: "returns m \<Longrightarrow> ends m"
  by (cases m rule: go_cases) auto

lemma returns_iff: "returns m \<longleftrightarrow> (\<exists>x. m = ret x)"
  by (cases m rule: go_cases) auto

lemma crashes_iff: "crashes m \<longleftrightarrow> (\<exists>c. m = panic c)"
  by (cases m rule: go_cases) auto

lemma gbind_mono [partial_function_mono]:
  assumes "mono_option B" and "\<And>y. mono_option (\<lambda>f. C y f)"
  shows "mono_option (\<lambda>f. gbind (B f) (\<lambda>y. C y f))"
proof -
  have "mono_option (\<lambda>f. case r of Inl c \<Rightarrow> Some (Inl c) | Inr x \<Rightarrow> C x f)" for r
    using assms(2) by (cases r) (auto intro: option.const_mono)
  then show ?thesis unfolding gbind_def by (intro bind_mono assms(1))
qed

text \<open>Running an operation over a list, left to right, threading a state.\<close>

fun gfold :: "('x \<Rightarrow> 's \<Rightarrow> 's go) \<Rightarrow> 'x list \<Rightarrow> 's \<Rightarrow> 's go" where
  "gfold f [] s = ret s"
| "gfold f (x # xs) s = gbind (f x s) (gfold f xs)"

fun gmap :: "('x \<Rightarrow> 'y go) \<Rightarrow> 'x list \<Rightarrow> 'y list go" where
  "gmap f [] = ret []"
| "gmap f (x # xs) = gbind (f x) (\<lambda>y. gbind (gmap f xs) (\<lambda>ys. ret (y # ys)))"

text \<open>\<open>utils.Filter\<close>: the elements a predicate accepts, in order.\<close>

fun gfilter :: "('x \<Rightarrow> bool go) \<Rightarrow> 'x list \<Rightarrow> 'x list go" where
  "gfilter f [] = ret []"
| "gfilter f (x # xs) =
     gbind (f x) (\<lambda>b. gbind (gfilter f xs) (\<lambda>ys. ret (if b then x # ys else ys)))"

lemma gfilter_ret: "(\<And>x. x \<in> set xs \<Longrightarrow> f x = ret (P x)) \<Longrightarrow> gfilter f xs = ret (filter P xs)"
  by (induction xs) auto

lemma gfilter_eq_ret:
  "gfilter f xs = ret ys \<Longrightarrow> ys = filter (\<lambda>x. f x = ret True) xs \<and> (\<forall>x \<in> set xs. returns (f x))"
  by (induction xs arbitrary: ys) (auto simp: returns_iff split: if_splits)

lemma gfold_append: "gfold f (xs @ ys) s = gbind (gfold f xs s) (gfold f ys)"
  by (induction xs arbitrary: s) (simp_all add: gbind_assoc cong: gbind_cong)

lemma gfold_invariant:
  assumes "gfold f xs s = ret t" and "P s"
    and "\<And>x s s'. x \<in> set xs \<Longrightarrow> P s \<Longrightarrow> f x s = ret s' \<Longrightarrow> P s'"
  shows "P t"
  using assms
proof (induction xs arbitrary: s)
  case (Cons x xs)
  from Cons.prems(1) obtain s' where s': "f x s = ret s'" and t: "gfold f xs s' = ret t"
    by auto
  have "P s'" using Cons.prems(3) [OF _ Cons.prems(2) s'] by simp
  from Cons.IH [OF t this] Cons.prems(3) show ?case by (meson list.set_intros(2))
qed simp

lemma gmap_ret: "(\<And>x. x \<in> set xs \<Longrightarrow> f x = ret (g x)) \<Longrightarrow> gmap f xs = ret (map g xs)"
  by (induction xs) auto

lemma gmap_length: "gmap f xs = ret ys \<Longrightarrow> length ys = length xs"
  by (induction xs arbitrary: ys) auto

section \<open>Byte slices\<close>

text \<open>
  A slice header points into an array. \<open>arr\<close> is the array from the slice's first
  element to its capacity, \<open>slen\<close> the slice's length; the bytes behind the length are
  not visible but a slice expression may reach them.
\<close>

datatype slice = Slice (arr: "byte list") (slen: nat)

definition wf_slice :: "slice \<Rightarrow> bool" where
  "wf_slice s \<longleftrightarrow> slen s \<le> length (arr s)"

definition full :: "byte list \<Rightarrow> slice" where
  "full bs = Slice bs (length bs)"

definition bytes :: "slice \<Rightarrow> byte list" where
  "bytes s = take (slen s) (arr s)"

definition sub :: "slice \<Rightarrow> nat \<Rightarrow> nat \<Rightarrow> slice go" where \<comment> \<open>\<open>s[lo:hi]\<close>\<close>
  "sub s lo hi =
     (if lo \<le> hi \<and> hi \<le> length (arr s) then ret (Slice (drop lo (arr s)) (hi - lo))
      else panic Slice_bounds_out_of_range)"

definition sub_from :: "slice \<Rightarrow> nat \<Rightarrow> slice go" where \<comment> \<open>\<open>s[lo:]\<close>\<close>
  "sub_from s lo =
     (if lo \<le> slen s then ret (Slice (drop lo (arr s)) (slen s - lo))
      else panic Slice_bounds_out_of_range)"

definition at :: "slice \<Rightarrow> nat \<Rightarrow> byte go" where \<comment> \<open>\<open>s[i]\<close>\<close>
  "at s i = (if i < slen s then ret (arr s ! i) else panic Index_out_of_range)"

definition set_at :: "slice \<Rightarrow> nat \<Rightarrow> byte \<Rightarrow> slice go" where \<comment> \<open>\<open>s[i] = b\<close>\<close>
  "set_at s i b =
     (if i < slen s then ret (Slice ((arr s)[i := b]) (slen s)) else panic Index_out_of_range)"

lemma under_full [simp]: "arr (full bs) = bs"
  by (simp add: full_def)

lemma slen_full [simp]: "slen (full bs) = length bs"
  by (simp add: full_def)

lemma wf_full [simp]: "wf_slice (full bs)"
  by (simp add: full_def wf_slice_def)

lemma bytes_full [simp]: "bytes (full bs) = bs"
  by (simp add: full_def bytes_def)

lemma length_bytes: "wf_slice s \<Longrightarrow> length (bytes s) = slen s"
  by (simp add: bytes_def wf_slice_def)

lemma sub_ok [go_simps]:
  "lo \<le> hi \<Longrightarrow> hi \<le> length (arr s) \<Longrightarrow> sub s lo hi = ret (Slice (drop lo (arr s)) (hi - lo))"
  by (simp add: sub_def)

lemma sub_eq_ret:
  "sub s lo hi = ret t \<longleftrightarrow>
     lo \<le> hi \<and> hi \<le> length (arr s) \<and> t = Slice (drop lo (arr s)) (hi - lo)"
  by (auto simp: sub_def)

lemma sub_from_eq_ret:
  "sub_from s lo = ret t \<longleftrightarrow> lo \<le> slen s \<and> t = Slice (drop lo (arr s)) (slen s - lo)"
  by (auto simp: sub_from_def)

lemma at_eq_ret: "at s i = ret b \<longleftrightarrow> i < slen s \<and> b = arr s ! i"
  by (auto simp: at_def)

lemma set_at_eq_ret:
  "set_at s i b = ret t \<longleftrightarrow> i < slen s \<and> t = Slice ((arr s)[i := b]) (slen s)"
  by (auto simp: set_at_def)

lemmas slice_eq_ret = sub_eq_ret sub_from_eq_ret at_eq_ret set_at_eq_ret

lemma sub_wf: "sub s lo hi = ret t \<Longrightarrow> wf_slice t"
  by (auto simp: sub_eq_ret wf_slice_def)

lemma sub_from_wf: "wf_slice s \<Longrightarrow> sub_from s lo = ret t \<Longrightarrow> wf_slice t"
  by (auto simp: sub_from_eq_ret wf_slice_def)

text \<open>The slice primitives always end: they return or panic.\<close>

lemma slice_ops_end [simp]: "ends (sub s lo hi)" "ends (sub_from s lo)" "ends (at s i)"
    "ends (set_at s i b)"
  by (simp_all add: sub_def sub_from_def at_def set_at_def)

section \<open>Little-endian integers\<close>

fun le_nat :: "byte list \<Rightarrow> nat" where
  "le_nat [] = 0"
| "le_nat (b # bs) = unat b + 256 * le_nat bs"

fun le_bytes :: "nat \<Rightarrow> nat \<Rightarrow> byte list" where
  "le_bytes 0 n = []"
| "le_bytes (Suc k) n = of_nat n # le_bytes k (n div 256)"

lemma length_le_bytes [simp]: "length (le_bytes k n) = k"
  by (induction k arbitrary: n) auto

lemma le_bytes_numeral:
  "le_bytes (numeral k) n = of_nat n # le_bytes (pred_numeral k) (n div 256)"
  using le_bytes.simps(2) [of "pred_numeral k" n] by (simp only: numeral_eq_Suc [of k, symmetric])

lemma le_nat_bound: "le_nat bs < 256 ^ length bs"
proof (induction bs)
  case (Cons b bs)
  have "unat b < 256" using unsigned_less [of b] by simp
  with Cons show ?case by simp
qed simp

lemma unat_of_nat_byte: "unat (of_nat n :: byte) = n mod 256"
  by (simp add: unat_of_nat)

lemma le_nat_le_bytes: "le_nat (le_bytes k n) = n mod 256 ^ k"
  by (induction k arbitrary: n) (auto simp: unat_of_nat_byte mod_mult2_eq)

lemma le_bytes_le_nat: "le_bytes (length bs) (le_nat bs) = bs"
proof (induction bs)
  case (Cons b bs)
  have b: "unat b < 256" using unsigned_less [of b] by simp
  have "of_nat (unat b + 256 * le_nat bs) = (of_nat (unat b) :: byte)"
    using b by (simp only: word_unat_eq_iff unat_of_nat_byte) simp
  with Cons b show ?case by simp
qed simp

lemma le_nat_append: "le_nat (xs @ ys) = le_nat xs + 256 ^ length xs * le_nat ys"
  by (induction xs) (auto simp: algebra_simps)

lemma le_nat_replicate0 [simp]: "le_nat (replicate n 0) = 0"
  by (induction n) auto

text \<open>The value of an \<open>n\<close>-byte field at an offset of an array.\<close>

definition le_at :: "byte list \<Rightarrow> nat \<Rightarrow> nat \<Rightarrow> nat" where
  "le_at xs off n = le_nat (take n (drop off xs))"

lemma le_at_bound: "le_at xs off n < 256 ^ n"
proof -
  have "le_at xs off n < 256 ^ length (take n (drop off xs))"
    unfolding le_at_def by (rule le_nat_bound)
  also have "\<dots> \<le> 256 ^ n" by (rule power_increasing) auto
  finally show ?thesis .
qed

lemma le_at_drop [simp]: "le_at (drop a xs) off n = le_at xs (a + off) n"
  by (simp add: le_at_def add.commute)

lemma le_at_append:
  "off + n \<le> length xs \<Longrightarrow> le_at (xs @ ys) off n = le_at xs off n"
  by (simp add: le_at_def)

lemma le_at_append2:
  "length xs \<le> off \<Longrightarrow> le_at (xs @ ys) off n = le_at ys (off - length xs) n"
  by (simp add: le_at_def)

lemma unat_of_nat_u16: "n < 65536 \<Longrightarrow> unat (of_nat n :: u16) = n"
  by (simp add: unat_of_nat)

lemma unat_of_nat_u32: "n < 4294967296 \<Longrightarrow> unat (of_nat n :: u32) = n"
  by (simp add: unat_of_nat)

lemma unat_of_nat_u64: "n < 18446744073709551616 \<Longrightarrow> unat (of_nat n :: u64) = n"
  by (simp add: unat_of_nat)

lemma unat_u8_less: "unat (x :: u8) < 256"
  using unsigned_less [of x] by simp

lemma unat_u16_less: "unat (x :: u16) < 65536"
  using unsigned_less [of x] by simp

lemma unat_u32_less: "unat (x :: u32) < 4294967296"
  using unsigned_less [of x] by simp

lemma unat_u64_less: "unat (x :: u64) < 18446744073709551616"
  using unsigned_less [of x] by simp

lemma unat_ucast_up:
  assumes "LENGTH('a) \<le> LENGTH('b)"
  shows "unat (ucast (x :: 'a::len word) :: 'b::len word) = unat x"
proof -
  have "unat x < 2 ^ LENGTH('a)" by (rule unsigned_less)
  also have "\<dots> \<le> 2 ^ LENGTH('b)" using assms by (simp add: power_increasing)
  finally show ?thesis by (simp add: unsigned_ucast_eq take_bit_nat_eq_self)
qed

lemma unat_ucast_simps [simp]:
  "unat (ucast (a :: u8) :: u16) = unat a" "unat (ucast (a :: u8) :: u32) = unat a"
  "unat (ucast (a :: u8) :: u64) = unat a" "unat (ucast (b :: u16) :: u32) = unat b"
  "unat (ucast (b :: u16) :: u64) = unat b" "unat (ucast (c :: u32) :: u64) = unat c"
  by (simp_all add: unat_ucast_up)

text \<open>Go's signed division panics on a zero divisor and truncates towards zero; the quotient of the least
  integer by \<open>- 1\<close> wraps.\<close>

definition go_div :: "i64 \<Rightarrow> i64 \<Rightarrow> i64 go" where
  "go_div a b = (if b = 0 then panic Divide_by_zero
     else ret (of_int (sgn (sint a) * sgn (sint b) * (\<bar>sint a\<bar> div \<bar>sint b\<bar>))))"

lemma go_div_zero [simp]: "go_div a 0 = panic Divide_by_zero"
  by (simp add: go_div_def)

lemma go_div_returns: "b \<noteq> 0 \<Longrightarrow> \<exists>q. go_div a b = ret q"
  by (simp add: go_div_def)

text \<open>The result of an operation on Go's \<open>int\<close>, which wraps at 64 bits.\<close>

definition wrap64 :: "int \<Rightarrow> int" where
  "wrap64 x = sint (of_int x :: i64)"

lemma wrap64_id: "- (2 ^ 63) \<le> x \<Longrightarrow> x < 2 ^ 63 \<Longrightarrow> wrap64 x = x"
  by (simp add: wrap64_def signed_of_int signed_take_bit_int_eq_self)

text \<open>The largest number of bytes the allocator of a 64-bit target hands out: what asks for more panics.
  (Whether the machine has the memory for less is not modelled.)\<close>

definition max_alloc :: nat where
  "max_alloc = 2 ^ 48"

text \<open>Signed 64-bit integers that are not negative are their unsigned reading.\<close>

lemma sint_nonneg:
  assumes "0 \<le>s (x :: i64)"
  shows "sint x = int (unat x)"
proof -
  have "0 \<le> signed_take_bit 63 (uint x)" using assms by (simp add: word_sle_eq sint_uint)
  then have b: "\<not> bit (uint x) 63" by (simp add: signed_take_bit_nonnegative_iff)
  have "uint x < 2 ^ 64" using uint_lt2p [of x] by simp
  then have "uint x = take_bit (Suc 63) (uint x)" by (simp add: take_bit_int_eq_self)
  also have "\<dots> = take_bit 63 (uint x)" using b by (simp only: take_bit_Suc_from_most) simp
  finally have "take_bit 63 (uint x) = uint x" by simp
  moreover have "sint x = take_bit 63 (uint x)"
    using b by (simp add: sint_uint signed_take_bit_eq_if_positive)
  ultimately show ?thesis by simp
qed

lemma unat_le_signed: "0 \<le>s (x :: i64) \<Longrightarrow> \<not> y <s x \<Longrightarrow> unat x \<le> unat y"
proof -
  assume x: "0 \<le>s x" and y: "\<not> y <s x"
  then have "0 \<le>s y" by (simp add: word_sle_eq word_sless_alt)
  with x y have "int (unat x) \<le> int (unat y)" by (simp only: word_sless_alt sint_nonneg not_less)
  then show ?thesis by linarith
qed

lemma sint_small:
  assumes "unat (x :: i64) < 2 ^ 63"
  shows "sint x = int (unat x)"
proof -
  have "uint x < 2 ^ 63" using assms by (metis of_nat_less_iff of_nat_numeral of_nat_power uint_nat)
  then have "signed_take_bit 63 (uint x) = uint x" by (rule signed_take_bit_int_eq_self [rotated]) (rule order.trans [of _ 0], simp_all)
  moreover have "sint x = signed_take_bit 63 (uint x)" by (simp add: sint_uint)
  ultimately show ?thesis by (simp only: uint_nat)
qed

lemma small_nonneg: "unat (x :: i64) < 2 ^ 63 \<Longrightarrow> 0 \<le>s x"
  by (simp add: word_sle_eq sint_small)

end
