(* ===== verification/Unmarshal.thy ===== *)
theory Unmarshal
  imports Go_Prelude
begin

text \<open>
  The binary reader of \<open>utils/utils.go\<close>: \<open>Unmarshal\<close>, which fills a struct by
  reflection, and the little-endian readers beside it. A struct declaration is a
  \<open>layout\<close>: its field names with their \<open>reflect\<close> kinds, in order. Kinds without a
  case in the code's \<open>switch\<close> (strings, pointers, slices, 16- and 32-bit signed
  integers) are \<open>Kother\<close>: they are skipped and consume nothing.
\<close>

section \<open>Layouts and values\<close>

datatype kind =
    Kuint8 | Kuint16 | Kuint32 | Kuint64 | Kint64 | Kbool
  | Karray nat
  | Kstruct string
  | Kother

type_synonym layout = "(string \<times> kind) list"

record TimeSpec =
  Sec :: i64
  Nsec :: u32

record WindowsTime =
  Stamp :: u64

datatype val =
    VU8 u8 | VU16 u16 | VU32 u32 | VU64 u64 | VI64 i64 | VBool bool
  | VArr "byte list"
  | VTime TimeSpec
  | VWin WindowsTime
  | VKeep \<comment> \<open>the field keeps the value it had\<close>

definition TimeSpec_layout :: layout where
  "TimeSpec_layout = [(''Sec'', Kint64), (''Nsec'', Kother)]"

definition WindowsTime_layout :: layout where
  "WindowsTime_layout = [(''Stamp'', Kuint64)]"

text \<open>Storing an unmarshalled value into a field, and the field's value where it is kept.\<close>

fun put_u8 :: "val \<Rightarrow> u8 \<Rightarrow> u8" where "put_u8 (VU8 x) _ = x" | "put_u8 _ old = old"
fun put_u16 :: "val \<Rightarrow> u16 \<Rightarrow> u16" where "put_u16 (VU16 x) _ = x" | "put_u16 _ old = old"
fun put_u32 :: "val \<Rightarrow> u32 \<Rightarrow> u32" where "put_u32 (VU32 x) _ = x" | "put_u32 _ old = old"
fun put_u64 :: "val \<Rightarrow> u64 \<Rightarrow> u64" where "put_u64 (VU64 x) _ = x" | "put_u64 _ old = old"
fun put_i64 :: "val \<Rightarrow> i64 \<Rightarrow> i64" where "put_i64 (VI64 x) _ = x" | "put_i64 _ old = old"
fun put_bool :: "val \<Rightarrow> bool \<Rightarrow> bool" where "put_bool (VBool x) _ = x" | "put_bool _ old = old"
fun put_arr :: "val \<Rightarrow> byte list \<Rightarrow> byte list" where
  "put_arr (VArr x) _ = x" | "put_arr _ old = old"
fun put_time :: "val \<Rightarrow> TimeSpec \<Rightarrow> TimeSpec" where
  "put_time (VTime x) _ = x" | "put_time _ old = old"
fun put_win :: "val \<Rightarrow> WindowsTime \<Rightarrow> WindowsTime" where
  "put_win (VWin x) _ = x" | "put_win _ old = old"

section \<open>The field loop\<close>

text \<open>\<open>binary.Read(bytes.NewBuffer(data[idx:idx+n]), binary.LittleEndian, ..)\<close>\<close>

definition read_le :: "slice \<Rightarrow> nat \<Rightarrow> nat \<Rightarrow> nat go" where
  "read_le data idx n = gbind (sub data idx (idx + n)) (\<lambda>w. ret (le_nat (bytes w)))"

datatype field_result =
    Next val nat \<comment> \<open>the value and the index of the next field\<close>
  | Stop \<comment> \<open>the early \<open>return idx, errors.New("exceede available buffer")\<close>\<close>

fun unmarshal_basic :: "string \<Rightarrow> kind \<Rightarrow> slice \<Rightarrow> nat \<Rightarrow> field_result go" where
  "unmarshal_basic name Kuint8 data idx =
     gbind (read_le data idx 1) (\<lambda>n. ret (Next (VU8 (of_nat n)) (idx + 1)))"
| "unmarshal_basic name Kuint16 data idx =
     gbind (read_le data idx 2) (\<lambda>n. ret (Next (VU16 (of_nat n)) (idx + 2)))"
| "unmarshal_basic name Kuint32 data idx =
     gbind (read_le data idx 4) (\<lambda>n. ret (Next (VU32 (of_nat n)) (idx + 4)))"
| "unmarshal_basic name Kint64 data idx =
     gbind (read_le data idx 8) (\<lambda>n. ret (Next (VI64 (of_nat n)) (idx + 8)))"
| "unmarshal_basic name Kuint64 data idx =
     (if name = ''ParRef'' then
        gbind (read_le data idx 6) (\<lambda>n. ret (Next (VU64 (of_nat n)) (idx + 6)))
      else if name = ''ChildVCN'' then
        panic (Explicit_panic ''reflect: call of Elem on struct Value'')
      else gbind (read_le data idx 8) (\<lambda>n. ret (Next (VU64 (of_nat n)) (idx + 8))))"
| "unmarshal_basic name Kbool data idx = ret (Next (VBool False) (idx + 1))"
| "unmarshal_basic name (Karray n) data idx =
     (if slen data = 0 then panic Index_out_of_range
      else let e = (if idx + n > slen data then slen data else idx + n)
        in if idx > e then ret Stop
           else gbind (sub data idx e)
             (\<lambda>w. ret (Next (VArr (bytes w @ replicate (n - (e - idx)) 0)) (idx + n))))"
| "unmarshal_basic name (Kstruct t) data idx = ret (Next VKeep idx)"
| "unmarshal_basic name Kother data idx = ret (Next VKeep idx)"

fun unmarshal_with ::
  "(string \<Rightarrow> kind \<Rightarrow> slice \<Rightarrow> nat \<Rightarrow> field_result go) \<Rightarrow> layout \<Rightarrow> slice \<Rightarrow> nat
     \<Rightarrow> (val list \<times> nat \<times> bool) go" where
  "unmarshal_with f [] data idx = ret ([], idx, True)"
| "unmarshal_with f ((name, k) # fs) data idx =
     gbind (f name k data idx) (\<lambda>r. case r of
        Stop \<Rightarrow> ret (map (\<lambda>_. VKeep) ((name, k) # fs), idx, False)
      | Next v idx' \<Rightarrow> gbind (unmarshal_with f fs data idx')
          (\<lambda>(vs, i, ok). ret (v # vs, i, ok)))"

text \<open>The nested structs: a call of \<open>Unmarshal\<close> on a fresh value, over a sub-slice.\<close>

definition unmarshal_TimeSpec :: "slice \<Rightarrow> TimeSpec go" where
  "unmarshal_TimeSpec w =
     gbind (unmarshal_with unmarshal_basic TimeSpec_layout w 0)
       (\<lambda>(vs, _, _). ret \<lparr>Sec = put_i64 (vs ! 0) 0, Nsec = put_u32 (vs ! 1) 0\<rparr>)"

definition unmarshal_WindowsTime :: "slice \<Rightarrow> WindowsTime go" where
  "unmarshal_WindowsTime w =
     gbind (unmarshal_with unmarshal_basic WindowsTime_layout w 0)
       (\<lambda>(vs, _, _). ret \<lparr>Stamp = put_u64 (vs ! 0) 0\<rparr>)"

fun unmarshal_field :: "string \<Rightarrow> kind \<Rightarrow> slice \<Rightarrow> nat \<Rightarrow> field_result go" where
  "unmarshal_field name (Kstruct t) data idx =
     (if t = ''TimeSpec'' then
        gbind (sub data idx (idx + 12)) (\<lambda>w. gbind (unmarshal_TimeSpec w)
          (\<lambda>ts. ret (Next (VTime ts) (idx + 12))))
      else if t = ''WindowsTime'' then
        gbind (sub data idx (idx + 8)) (\<lambda>w. gbind (unmarshal_WindowsTime w)
          (\<lambda>wt. ret (Next (VWin wt) (idx + 8))))
      else ret (Next VKeep idx))"
| "unmarshal_field name k data idx = unmarshal_basic name k data idx"

definition Unmarshal :: "layout \<Rightarrow> slice \<Rightarrow> (val list \<times> nat \<times> bool) go" where
  "Unmarshal L data = unmarshal_with unmarshal_field L data 0"

section \<open>Reading at an offset\<close>

lemma read_le_eq [go_simps]:
  "read_le data idx n = (if idx + n \<le> length (arr data) then ret (le_at (arr data) idx n)
     else panic Slice_bounds_out_of_range)"
  by (simp add: read_le_def sub_def bytes_def le_at_def)

lemma unmarshal_TimeSpec_eq [go_simps]:
  "unmarshal_TimeSpec w = (if 8 \<le> length (arr w)
     then ret \<lparr>Sec = of_nat (le_at (arr w) 0 8), Nsec = 0\<rparr>
     else panic Slice_bounds_out_of_range)"
  by (simp add: unmarshal_TimeSpec_def TimeSpec_layout_def read_le_eq)

lemma unmarshal_WindowsTime_eq [go_simps]:
  "unmarshal_WindowsTime w = (if 8 \<le> length (arr w)
     then ret \<lparr>Stamp = of_nat (le_at (arr w) 0 8)\<rparr>
     else panic Slice_bounds_out_of_range)"
  by (simp add: unmarshal_WindowsTime_def WindowsTime_layout_def read_le_eq)

section \<open>Sizes\<close>

fun field_size :: "string \<Rightarrow> kind \<Rightarrow> nat" where
  "field_size name Kuint8 = 1"
| "field_size name Kuint16 = 2"
| "field_size name Kuint32 = 4"
| "field_size name Kint64 = 8"
| "field_size name Kuint64 = (if name = ''ParRef'' then 6 else 8)"
| "field_size name Kbool = 1"
| "field_size name (Karray n) = n"
| "field_size name (Kstruct t) = (if t = ''TimeSpec'' then 12 else if t = ''WindowsTime'' then 8 else 0)"
| "field_size name Kother = 0"

fun layout_size :: "layout \<Rightarrow> nat" where
  "layout_size [] = 0"
| "layout_size ((name, k) # fs) = field_size name k + layout_size fs"

definition plain_layout :: "layout \<Rightarrow> bool" where
  "plain_layout L \<longleftrightarrow> (''ChildVCN'', Kuint64) \<notin> set L"

text \<open>The value a field decodes to when the bytes are there.\<close>

fun field_value :: "string \<Rightarrow> kind \<Rightarrow> byte list \<Rightarrow> nat \<Rightarrow> val" where
  "field_value name Kuint8 xs i = VU8 (of_nat (le_at xs i 1))"
| "field_value name Kuint16 xs i = VU16 (of_nat (le_at xs i 2))"
| "field_value name Kuint32 xs i = VU32 (of_nat (le_at xs i 4))"
| "field_value name Kint64 xs i = VI64 (of_nat (le_at xs i 8))"
| "field_value name Kuint64 xs i = VU64 (of_nat (le_at xs i (if name = ''ParRef'' then 6 else 8)))"
| "field_value name Kbool xs i = VBool False"
| "field_value name (Karray n) xs i = VArr (take n (drop i xs))"
| "field_value name (Kstruct t) xs i =
     (if t = ''TimeSpec'' then VTime \<lparr>Sec = of_nat (le_at xs i 8), Nsec = 0\<rparr>
      else if t = ''WindowsTime'' then VWin \<lparr>Stamp = of_nat (le_at xs i 8)\<rparr> else VKeep)"
| "field_value name Kother xs i = VKeep"

fun layout_values :: "layout \<Rightarrow> byte list \<Rightarrow> nat \<Rightarrow> val list" where
  "layout_values [] xs i = []"
| "layout_values ((name, k) # fs) xs i =
     field_value name k xs i # layout_values fs xs (i + field_size name k)"

lemma length_layout_values [simp]: "length (layout_values L xs i) = length L"
  by (induction L xs i rule: layout_values.induct) auto

lemma unmarshal_field_ok:
  assumes "i + field_size name k \<le> slen s" "wf_slice s" "0 < slen s"
    "(name, k) \<noteq> (''ChildVCN'', Kuint64)"
  shows "unmarshal_field name k s i =
    ret (Next (field_value name k (arr s) i) (i + field_size name k))"
  using assms
  by (cases k) (auto simp: go_simps wf_slice_def Let_def bytes_def sub_def split: if_splits)

lemma unmarshal_with_ok:
  assumes "i + layout_size L \<le> slen s" "wf_slice s" "0 < slen s" "plain_layout L"
  shows "unmarshal_with unmarshal_field L s i =
    ret (layout_values L (arr s) i, i + layout_size L, True)"
  using assms
proof (induction L arbitrary: i)
  case (Cons f L)
  obtain name k where f: "f = (name, k)" by (cases f)
  from Cons.prems f have "unmarshal_field name k s i =
      ret (Next (field_value name k (arr s) i) (i + field_size name k))"
    by (intro unmarshal_field_ok) (auto simp: plain_layout_def)
  moreover have "unmarshal_with unmarshal_field L s (i + field_size name k) =
      ret (layout_values L (arr s) (i + field_size name k), i + field_size name k + layout_size L, True)"
    using Cons.prems f by (intro Cons.IH) (auto simp: plain_layout_def)
  ultimately show ?case by (simp add: f)
qed simp

lemma Unmarshal_ok:
  assumes "layout_size L \<le> slen s" "wf_slice s" "0 < slen s" "plain_layout L"
  shows "Unmarshal L s = ret (layout_values L (arr s) 0, layout_size L, True)"
  using unmarshal_with_ok [of 0 L s] assms by (simp add: Unmarshal_def)

lemma unmarshal_field_ends [simp]: "ends (unmarshal_field name k s i)"
  by (cases k) (auto simp: go_simps Let_def sub_def split: if_splits)

lemma unmarshal_with_ends: "ends (unmarshal_with unmarshal_field L s i)"
proof (induction L arbitrary: i)
  case (Cons f L)
  obtain name k where f: "f = (name, k)" by (cases f)
  show ?case unfolding f
    by (auto intro!: ends_gbind Cons.IH split: field_result.splits)
qed simp

lemma Unmarshal_ends [simp]: "ends (Unmarshal L s)"
  by (simp add: Unmarshal_def unmarshal_with_ends)

lemma Unmarshal_length:
  "unmarshal_with unmarshal_field L s i = ret (vs, j, ok) \<Longrightarrow> length vs = length L"
proof (induction L arbitrary: i vs j ok)
  case (Cons f L)
  obtain name k where f: "f = (name, k)" by (cases f)
  from Cons.prems show ?case
    by (auto simp: f split: field_result.splits) (metis Cons.IH)
qed simp

section \<open>Integers from variable-length fields\<close>

text \<open>
  \<open>ReadEndianInt\<close>: at most four bytes are copied over a buffer that the last byte's
  sign bit fills; \<open>ReadEndianUInt\<close> sums shifted bytes in 64 bits.
\<close>

definition copy_over :: "byte list \<Rightarrow> byte list \<Rightarrow> byte list" where \<comment> \<open>\<open>copy(dst, src)\<close>\<close>
  "copy_over dst src = take (length dst) src @ drop (length src) dst"

definition ReadEndianInt :: "byte list \<Rightarrow> i64" where
  "ReadEndianInt barray =
     (let buf = (if barray \<noteq> [] \<and> last barray AND 0x80 \<noteq> 0 then [0xff, 0xff, 0xff, 0xff]
                 else [0, 0, 0, 0]);
          sum = (of_nat (le_nat (copy_over buf barray)) :: u32)
      in scast sum)"

fun ReadEndianUInt_from :: "nat \<Rightarrow> byte list \<Rightarrow> u64 \<Rightarrow> u64" where
  "ReadEndianUInt_from index [] acc = acc"
| "ReadEndianUInt_from index (v # vs) acc =
     ReadEndianUInt_from (Suc index) vs (acc + push_bit (index * 8) (ucast v))"

definition ReadEndianUInt :: "byte list \<Rightarrow> u64" where
  "ReadEndianUInt barray = ReadEndianUInt_from 0 barray 0"

definition ToUint32 :: "byte list \<Rightarrow> u32" where \<comment> \<open>a short buffer: the read fails, 0\<close>
  "ToUint32 data = (if length data < 4 then 0 else of_nat (le_nat (take 4 data)))"

lemma ReadEndianUInt_from_eq:
  "ReadEndianUInt_from k bs acc = acc + push_bit (8 * k) (of_nat (le_nat bs))"
proof (induction bs arbitrary: k acc)
  case (Cons b bs)
  have "push_bit (8 * Suc k) (of_nat (le_nat bs) :: u64) = push_bit (8 * k) (256 * of_nat (le_nat bs))"
    by (simp add: push_bit_eq_mult power_add)
  then show ?case
    by (simp add: Cons.IH push_bit_add mult.commute [of k 8] add.assoc)
qed simp

lemma ReadEndianUInt_eq: "ReadEndianUInt bs = of_nat (le_nat bs)"
  by (simp add: ReadEndianUInt_def ReadEndianUInt_from_eq)

lemma le_nat_replicate255: "Suc (le_nat (replicate n 255)) = 256 ^ n"
proof (induction n)
  case (Suc n)
  have "unat (255 :: byte) = 255" by simp
  with Suc show ?case by (simp del: unsigned_numeral)
qed simp

text \<open>The two's complement value of a byte string.\<close>

definition signed_le :: "byte list \<Rightarrow> int" where
  "signed_le bs = (if bs \<noteq> [] \<and> 128 \<le> unat (last bs) then int (le_nat bs) - 256 ^ length bs
     else int (le_nat bs))"

lemma byte_sign_bit: "(b AND 0x80 \<noteq> 0) \<longleftrightarrow> 128 \<le> unat (b :: byte)"
proof -
  have "b AND 0x80 = (if bit b 7 then 0x80 else 0)"
    by (rule bit_word_eqI) (auto simp: bit_simps numeral_eq_Suc less_Suc_eq split: if_splits)
  moreover have "bit b 7 \<longleftrightarrow> bit (unat b) 7" by (simp add: bit_unsigned_iff)
  moreover have "bit (unat b) 7 \<longleftrightarrow> odd (unat b div 128)" by (simp only: bit_iff_odd) simp
  moreover have "odd (unat b div 128) \<longleftrightarrow> 128 \<le> unat b"
  proof -
    have "unat b div 128 < 2" using unat_u8_less [of b] by simp
    then show ?thesis by (cases "unat b div 128 = 0") (auto simp: div_eq_0_iff)
  qed
  ultimately show ?thesis by simp
qed

lemma sint_of_nat_u32:
  assumes "n < 4294967296"
  shows "sint (of_nat n :: u32) = (if n < 2147483648 then int n else int n - 4294967296)"
proof -
  have "bit n 31 \<longleftrightarrow> odd (n div 2147483648)" by (simp only: bit_iff_odd) simp
  also have "\<dots> \<longleftrightarrow> 2147483648 \<le> n"
  proof -
    have "n div 2147483648 < 2" using assms by simp
    then show ?thesis by (cases "n div 2147483648 = 0") (auto simp: div_eq_0_iff)
  qed
  finally have "bit (int n) 31 \<longleftrightarrow> 2147483648 \<le> n" by (simp add: bit_of_nat_iff_bit)
  moreover have "take_bit 32 (int n) = int n" using assms by (simp add: take_bit_int_eq_self)
  moreover have "sint (of_nat n :: u32) = signed_take_bit 31 (int n)" by (simp add: signed_of_nat)
  ultimately show ?thesis by (simp add: signed_take_bit_eq_take_bit_minus)
qed

lemma sint_scast_u32 [simp]: "sint (scast (w :: u32) :: i64) = sint w"
  by (simp add: signed_scast_eq) (simp add: sint_uint signed_take_bit_take_bit)

lemma copy_over_short:
  "length bs \<le> 4 \<Longrightarrow> copy_over (replicate 4 b) bs = bs @ replicate (4 - length bs) b"
  by (simp add: copy_over_def)

lemma last_le_nat: "bs \<noteq> [] \<Longrightarrow> 256 ^ (length bs - 1) * unat (last bs) \<le> le_nat bs"
  by (induction bs rule: rev_induct) (auto simp: le_nat_append)

lemma le_nat_last_bound: "bs \<noteq> [] \<Longrightarrow> le_nat bs < 256 ^ (length bs - 1) * Suc (unat (last bs))"
proof (induction bs rule: rev_induct)
  case (snoc b bs)
  from le_nat_bound [of bs] show ?case by (simp add: le_nat_append)
qed simp

lemma ReadEndianInt_signed:
  assumes l: "length bs \<le> 4"
  shows "sint (ReadEndianInt bs) = signed_le bs"
proof -
  define k where "k = 4 - length bs"
  have split: "(256::nat) ^ length bs * 256 ^ k = 4294967296"
    using l by (simp add: k_def flip: power_add)
  have buf: "[c, c, c, c] = replicate 4 c" for c :: byte by (simp add: numeral_eq_Suc)
  show ?thesis
  proof (cases "bs \<noteq> [] \<and> 128 \<le> unat (last bs)")
    case True
    let ?n = "le_nat (bs @ replicate k 255)"
    have top: "?n + 256 ^ length bs = le_nat bs + 4294967296"
      using arg_cong [OF le_nat_replicate255 [of k], of "\<lambda>m. 256 ^ length bs * m"] split
      by (simp add: le_nat_append)
    have small: "le_nat bs < 256 ^ length bs" by (rule le_nat_bound)
    have pow: "(256::nat) ^ length bs = 256 ^ (length bs - 1) * 256"
      using True by (cases bs) auto
    have "256 ^ (length bs - 1) * 128 \<le> le_nat bs"
      using last_le_nat [of bs] True mult_le_mono2 [of 128 "unat (last bs)" "256 ^ (length bs - 1)"]
      by (meson le_trans)
    moreover have "(256::nat) ^ length bs \<le> 4294967296"
      using l power_increasing [of "length bs" 4 "256::nat"] by simp
    ultimately have "2147483648 \<le> ?n" "?n < 4294967296" using top small pow by linarith+
    then have "sint (of_nat ?n :: u32) = int ?n - 4294967296" by (simp add: sint_of_nat_u32)
    also have "\<dots> = int (le_nat bs) - 256 ^ length bs"
      using arg_cong [OF top, of int] by simp
    finally show ?thesis
      using True copy_over_short [OF l, of 255]
      by (simp add: ReadEndianInt_def signed_le_def byte_sign_bit buf k_def del: of_nat_numeral)
  next
    case False
    have "le_nat bs < 2147483648"
    proof (cases "bs = []")
      case nonempty: False
      have "le_nat bs < 256 ^ (length bs - 1) * Suc (unat (last bs))"
        by (rule le_nat_last_bound [OF nonempty])
      also have "\<dots> \<le> 256 ^ 3 * 128"
        using False nonempty l by (intro mult_le_mono power_increasing) auto
      finally show ?thesis by simp
    qed simp
    then have "sint (of_nat (le_nat bs) :: u32) = int (le_nat bs)" by (simp add: sint_of_nat_u32)
    then show ?thesis
      using False copy_over_short [OF l, of 0]
      by (auto simp: ReadEndianInt_def signed_le_def byte_sign_bit buf le_nat_append)
  qed
qed

lemma ReadEndianUInt_unat:
  assumes "length bs \<le> 8"
  shows "unat (ReadEndianUInt bs) = le_nat bs"
proof -
  have "le_nat bs < 18446744073709551616"
    using le_nat_bound [of bs] assms power_increasing [of "length bs" 8 "256::nat"] by simp
  then show ?thesis by (simp add: ReadEndianUInt_eq unat_of_nat_u64)
qed

text \<open>For a field of at most four bytes \<open>ReadEndianInt\<close> returns its two's complement value
  (the buffer is sign-filled); \<open>ReadEndianUInt\<close> returns the unsigned value of a field of at
  most eight bytes. Both hold at every length in range, the empty field included.\<close>

theorem ReadEndian_correct:
  "(length bs \<le> 4 \<longrightarrow> sint (ReadEndianInt bs) = signed_le bs) \<and>
   (length bs \<le> 8 \<longrightarrow> unat (ReadEndianUInt bs) = le_nat bs)"
  by (simp add: ReadEndianInt_signed ReadEndianUInt_unat)

theorem ReadEndian_correct_witness:
  "sint (ReadEndianInt [0x00, 0x80]) = - 32768 \<and> unat (ReadEndianUInt [0x00, 0x80]) = 32768"
  using ReadEndian_correct [of "[0x00, 0x80]"] by (simp add: signed_le_def)

section \<open>Writing a struct\<close>

text \<open>The bytes of a struct value in its on-disk layout; \<open>decoded\<close> is what survives a read.\<close>

fun marshal_field :: "string \<Rightarrow> kind \<Rightarrow> val \<Rightarrow> byte list" where
  "marshal_field name Kuint8 v = (case v of VU8 x \<Rightarrow> le_bytes 1 (unat x) | _ \<Rightarrow> [])"
| "marshal_field name Kuint16 v = (case v of VU16 x \<Rightarrow> le_bytes 2 (unat x) | _ \<Rightarrow> [])"
| "marshal_field name Kuint32 v = (case v of VU32 x \<Rightarrow> le_bytes 4 (unat x) | _ \<Rightarrow> [])"
| "marshal_field name Kint64 v = (case v of VI64 x \<Rightarrow> le_bytes 8 (unat x) | _ \<Rightarrow> [])"
| "marshal_field name Kuint64 v =
     (case v of VU64 x \<Rightarrow> le_bytes (if name = ''ParRef'' then 6 else 8) (unat x) | _ \<Rightarrow> [])"
| "marshal_field name Kbool v = (case v of VBool b \<Rightarrow> [if b then 1 else 0] | _ \<Rightarrow> [])"
| "marshal_field name (Karray n) v = (case v of VArr bs \<Rightarrow> bs | _ \<Rightarrow> [])"
| "marshal_field name (Kstruct t) v =
     (case v of VTime ts \<Rightarrow> le_bytes 8 (unat (Sec ts)) @ le_bytes 4 (unat (Nsec ts))
      | VWin wt \<Rightarrow> le_bytes 8 (unat (Stamp wt)) | _ \<Rightarrow> [])"
| "marshal_field name Kother v = []"

fun fits :: "string \<Rightarrow> kind \<Rightarrow> val \<Rightarrow> bool" where
  "fits name Kuint8 v = (case v of VU8 _ \<Rightarrow> True | _ \<Rightarrow> False)"
| "fits name Kuint16 v = (case v of VU16 _ \<Rightarrow> True | _ \<Rightarrow> False)"
| "fits name Kuint32 v = (case v of VU32 _ \<Rightarrow> True | _ \<Rightarrow> False)"
| "fits name Kint64 v = (case v of VI64 _ \<Rightarrow> True | _ \<Rightarrow> False)"
| "fits name Kuint64 v = (case v of VU64 x \<Rightarrow> name = ''ParRef'' \<longrightarrow> unat x < 256 ^ 6 | _ \<Rightarrow> False)"
| "fits name Kbool v = (case v of VBool _ \<Rightarrow> True | _ \<Rightarrow> False)"
| "fits name (Karray n) v = (case v of VArr bs \<Rightarrow> length bs = n | _ \<Rightarrow> False)"
| "fits name (Kstruct t) v = (case v of VTime _ \<Rightarrow> t = ''TimeSpec'' | VWin _ \<Rightarrow> t = ''WindowsTime'' | _ \<Rightarrow> False)"
| "fits name Kother v = (v = VKeep)"

fun decoded :: "val \<Rightarrow> val" where
  "decoded (VBool _) = VBool False"
| "decoded (VTime ts) = VTime (ts\<lparr>Nsec := 0\<rparr>)"
| "decoded v = v"

fun marshal :: "layout \<Rightarrow> val list \<Rightarrow> byte list" where
  "marshal ((name, k) # fs) (v # vs) = marshal_field name k v @ marshal fs vs"
| "marshal _ _ = []"

fun all_fit :: "layout \<Rightarrow> val list \<Rightarrow> bool" where
  "all_fit [] [] = True"
| "all_fit ((name, k) # fs) (v # vs) = (fits name k v \<and> all_fit fs vs)"
| "all_fit _ _ = False"

lemma length_marshal_field: "fits name k v \<Longrightarrow> length (marshal_field name k v) = field_size name k"
  by (cases k) (auto split: val.splits)

lemma length_marshal: "all_fit L vs \<Longrightarrow> length (marshal L vs) = layout_size L"
  by (induction L vs rule: all_fit.induct) (auto simp: length_marshal_field)

lemma le_at_middle: "le_at (pre @ le_bytes k n @ post) (length pre) k = n mod 256 ^ k"
  by (simp add: le_at_def le_nat_le_bytes)

lemma le_at_middle1: "le_at (pre @ x # post) (length pre) (Suc 0) = unat x"
  by (simp add: le_at_def)

lemma unat_mod_size: "unat (x :: 'a::len word) mod 2 ^ LENGTH('a) = unat x"
  using unsigned_less [of x] by simp

lemma unat_mod_sizes:
  "unat (y :: u16) mod 65536 = unat y" "unat (z :: u32) mod 4294967296 = unat z"
  "unat (w :: u64) mod 18446744073709551616 = unat w"
  using unat_mod_size [of y] unat_mod_size [of z] unat_mod_size [of w] by simp_all

lemma field_value_marshal:
  "fits name k v \<Longrightarrow>
     field_value name k (pre @ marshal_field name k v @ post) (length pre) = decoded v"
  by (cases k) (auto simp: le_at_middle le_at_middle1 unat_mod_sizes split: val.splits if_splits)

lemma layout_values_marshal:
  "all_fit L vs \<Longrightarrow> layout_values L (pre @ marshal L vs @ post) (length pre) = map decoded vs"
proof (induction L vs arbitrary: pre rule: all_fit.induct)
  case (2 name k fs v vs)
  then have fv: "fits name k v" and fit: "all_fit fs vs" by auto
  have "layout_values fs ((pre @ marshal_field name k v) @ marshal fs vs @ post)
      (length (pre @ marshal_field name k v)) = map decoded vs"
    by (rule "2.IH") (rule fit)
  then show ?case
    using field_value_marshal [OF fv, of pre "marshal fs vs @ post"]
    by (simp add: length_marshal_field [OF fv])
qed auto

lemma unmarshal_ChildVCN:
  assumes "i + layout_size L \<le> slen s" "wf_slice s" "0 < slen s" "\<not> plain_layout L"
  shows "unmarshal_with unmarshal_field L s i = panic (Explicit_panic ''reflect: call of Elem on struct Value'')"
  using assms
proof (induction L arbitrary: i)
  case (Cons f L)
  obtain name k where f: "f = (name, k)" by (cases f)
  show ?case
  proof (cases "f = (''ChildVCN'', Kuint64)")
    case True
    then show ?thesis by simp
  next
    case False
    have "unmarshal_field name k s i = ret (Next (field_value name k (arr s) i) (i + field_size name k))"
      using Cons.prems f False by (intro unmarshal_field_ok) auto
    moreover have "unmarshal_with unmarshal_field L s (i + field_size name k) =
        panic (Explicit_panic ''reflect: call of Elem on struct Value'')"
      using Cons.prems f False by (intro Cons.IH) (auto simp: plain_layout_def)
    ultimately show ?thesis by (simp add: f)
  qed
qed (simp add: plain_layout_def)

lemma decoded_same: "(\<forall>b. v \<noteq> VBool b) \<and> (\<forall>t. v = VTime t \<longrightarrow> Nsec t = 0) \<Longrightarrow> decoded v = v"
  by (cases v) auto

text \<open>C6: Reading back a marshalled struct. \<open>Unmarshal\<close> over a slice that begins with the bytes of a struct
  returns, whatever follows in the slice, the values of the fields in order, the struct's size as the
  consumed length, and no error, but for what the code drops: a boolean is read as false and the
  nanoseconds of a \<open>TimeSpec\<close> as zero. A struct that has neither is read back as it was. A struct with
  a 64-bit field named \<open>ChildVCN\<close> is never read: its case calls a method that the value does not have
  and panics.\<close>

theorem Unmarshal_marshal:
  assumes "all_fit L vs" and "0 < n" and "layout_size L \<le> n" and "n \<le> layout_size L + length rest"
  shows "Unmarshal L (Slice (marshal L vs @ rest) n) =
      (if (''ChildVCN'', Kuint64) \<in> set L then panic (Explicit_panic ''reflect: call of Elem on struct Value'')
       else ret (map decoded vs, layout_size L, True)) \<and>
    ((\<forall>b. VBool b \<notin> set vs) \<and> (\<forall>t. VTime t \<in> set vs \<longrightarrow> Nsec t = 0) \<longrightarrow> map decoded vs = vs)"
proof
  have wf: "wf_slice (Slice (marshal L vs @ rest) n)"
    using assms by (simp add: wf_slice_def length_marshal)
  have "layout_values L ([] @ marshal L vs @ rest) (length ([] :: byte list)) = map decoded vs"
    by (rule layout_values_marshal) (rule assms(1))
  then show "Unmarshal L (Slice (marshal L vs @ rest) n) =
      (if (''ChildVCN'', Kuint64) \<in> set L then panic (Explicit_panic ''reflect: call of Elem on struct Value'')
       else ret (map decoded vs, layout_size L, True))"
    using assms wf Unmarshal_ok [of L "Slice (marshal L vs @ rest) n"]
      unmarshal_ChildVCN [of 0 L "Slice (marshal L vs @ rest) n"]
    by (simp add: Unmarshal_def plain_layout_def)
next
  show "(\<forall>b. VBool b \<notin> set vs) \<and> (\<forall>t. VTime t \<in> set vs \<longrightarrow> Nsec t = 0) \<longrightarrow> map decoded vs = vs"
    by (auto intro!: map_idI decoded_same)
qed

theorem Unmarshal_marshal_witness:
  "Unmarshal [(''ParRef'', Kuint64), (''ParSeq'', Kuint16), (''Name'', Kother), (''Sig'', Karray 2)]
     (Slice [5, 0, 0, 0, 0, 0, 3, 0, 0x46, 0x49, 0xff] 11) =
   ret ([VU64 5, VU16 3, VKeep, VArr [0x46, 0x49]], 10, True)"
  using Unmarshal_marshal
    [of "[(''ParRef'', Kuint64), (''ParSeq'', Kuint16), (''Name'', Kother), (''Sig'', Karray 2)]"
      "[VU64 5, VU16 3, VKeep, VArr [0x46, 0x49]]" 11 "[0xff]"]
  by (simp add: le_bytes_numeral)

section \<open>Structs with fields behind the data\<close>

text \<open>Trailing booleans and skipped fields are set without reading.\<close>

fun no_read :: "kind \<Rightarrow> bool" where
  "no_read Kbool = True"
| "no_read Kother = True"
| "no_read k = False"

lemma unmarshal_with_append:
  "unmarshal_with f L s i = ret (vs, j, True) \<Longrightarrow>
    unmarshal_with f (L @ M) s i = gbind (unmarshal_with f M s j) (\<lambda>(ws, k, ok). ret (vs @ ws, k, ok))"
proof (induction L arbitrary: i vs)
  case Nil
  then show ?case by (cases "unmarshal_with f M s j" rule: go_cases) auto
next
  case (Cons fl L)
  obtain name k where fl: "fl = (name, k)" by (cases fl)
  from Cons.prems show ?case
    by (auto simp: fl gbind_assoc Cons.IH split: field_result.splits
        intro!: arg_cong [of _ _ "gbind (unmarshal_with f M s j)"] ext)
qed

lemma unmarshal_no_read:
  "\<forall>f \<in> set L. no_read (snd f) \<Longrightarrow>
    unmarshal_with unmarshal_field L s i = ret (layout_values L [] 0, i + layout_size L, True)"
proof (induction L arbitrary: i)
  case (Cons f L)
  obtain name k where f: "f = (name, k)" by (cases f)
  have "layout_values L [] m = layout_values L [] n" for m n
    using Cons.prems by (induction L arbitrary: m n) (auto elim!: no_read.elims)
  from this [of 0 1] show ?case using Cons by (cases k) (auto simp: f)
qed simp

lemma Unmarshal_prefix:
  assumes "all_fit L vs" "plain_layout L" "\<forall>f \<in> set M. no_read (snd f)"
    and "wf_slice s" "0 < slen s" "layout_size L \<le> slen s"
    and "take (layout_size L) (arr s) = marshal L vs"
  shows "Unmarshal (L @ M) s =
    ret (map decoded vs @ layout_values M [] 0, layout_size L + layout_size M, True)"
proof -
  have "arr s = marshal L vs @ drop (layout_size L) (arr s)"
    using assms(7) by (metis append_take_drop_id)
  then have "layout_values L (arr s) 0 = map decoded vs"
    using layout_values_marshal [OF assms(1), of "[]" "drop (layout_size L) (arr s)"] by simp
  then have "Unmarshal L s = ret (map decoded vs, layout_size L, True)"
    using Unmarshal_ok [of L s] assms by simp
  then show ?thesis
    using unmarshal_with_append [of unmarshal_field L s 0] unmarshal_no_read [OF assms(3)]
    by (simp add: Unmarshal_def)
qed

section \<open>The size of a struct\<close>

text \<open>
  \<open>GetStructSize\<close> looks at a struct value field by field: integers of the kinds it lists, pointers to
  structs (none for a nil pointer, whose element cannot be taken), and everything else, arrays
  included, which it does not count. The size so far is passed on into a pointer and counted again.
\<close>

datatype shape = Sint nat | Spointer "shape list option" | Sother

fun GetStructSize :: "shape list \<Rightarrow> nat \<Rightarrow> nat go" where
  "GetStructSize [] n = ret n"
| "GetStructSize (Sint k # fs) n = GetStructSize fs (n + k)"
| "GetStructSize (Spointer None # fs) n = panic (Explicit_panic ''reflect: call of Interface on zero Value'')"
| "GetStructSize (Spointer (Some gs) # fs) n = gbind (GetStructSize gs n) (\<lambda>m. GetStructSize fs (n + m))"
| "GetStructSize (Sother # fs) n = GetStructSize fs n"

section \<open>Integers of any width\<close>

text \<open>\<open>binary.Read\<close> into an unsigned integer of \<open>n\<close> bytes: a short buffer fails and leaves 0.\<close>

definition binary_Read :: "nat \<Rightarrow> byte list \<Rightarrow> 'a::len word" where
  "binary_Read n b = (if length b < n then 0 else of_nat (le_nat (take n b)))"

datatype endian_value = VUint64 u64 | VUint32 u32 | VUint16 u16 | VUint8 u8

text \<open>\<open>binary.ReadUvarint\<close> with its error dropped: groups of seven bits until a byte without the high bit.\<close>

fun uvarint :: "nat \<Rightarrow> byte list \<Rightarrow> u64 \<Rightarrow> u64" where
  "uvarint i [] x = x"
| "uvarint i (b # bs) x =
     (if 10 \<le> i then x
      else if b < 0x80 then (if i = 9 \<and> b > 1 then x else x OR push_bit (7 * i) (ucast b))
      else uvarint (Suc i) bs (x OR push_bit (7 * i) (ucast (b AND 0x7f))))"

definition readEndianU :: "byte list \<Rightarrow> endian_value" where
  "readEndianU barray =
     (if length barray = 8 then VUint64 (binary_Read 8 barray)
      else if length barray = 6 then
        (let vale = binary_Read 4 (take 4 barray) :: u32; vale1 = binary_Read 2 (drop 4 barray) :: u16;
             buf = le_bytes 4 (unat vale) @ le_bytes 2 (unat vale1)
         in VUint64 (uvarint 0 buf 0))
      else if length barray = 4 then VUint32 (binary_Read 4 barray)
      else if length barray = 2 then VUint16 (binary_Read 2 barray)
      else if length barray = 1 then VUint8 (binary_Read 1 barray)
      else VUint64 (binary_Read 8 barray))"

definition readEndianFloat :: "byte list \<Rightarrow> u64" where
  "readEndianFloat barray = binary_Read 8 barray"

text \<open>Reading into an empty slice reads nothing.\<close>

definition readEndianString :: "byte list \<Rightarrow> byte list" where
  "readEndianString barray = []"

lemma readEndianU_words:
  "length b = 8 \<Longrightarrow> readEndianU b = VUint64 (of_nat (le_nat b))"
  "length b = 4 \<Longrightarrow> readEndianU b = VUint32 (of_nat (le_nat b))"
  "length b = 2 \<Longrightarrow> readEndianU b = VUint16 (of_nat (le_nat b))"
  "length b = 1 \<Longrightarrow> readEndianU b = VUint8 (of_nat (le_nat b))"
  by (simp_all add: readEndianU_def binary_Read_def)

text \<open>Six bytes are decoded as a variable-length integer instead of a number of 48 bits: the bytes of 0x180 are read as 128.\<close>

lemma readEndianU_six: "readEndianU [0x80, 1, 0, 0, 0, 0] = VUint64 128 \<and> le_nat [0x80, 1, 0, 0, 0, 0] = 0x180"
  by (simp add: readEndianU_def binary_Read_def le_bytes_numeral)

end
