(* ===== verification/Text.thy ===== *)
theory Text
  imports Go_Prelude
begin

text \<open>
  The string helpers of \<open>utils/utils.go\<close>. A Go string is a sequence of bytes, a HOL
  \<open>string\<close> here; UTF-16 names are decoded to runes and those encoded as UTF-8, as
  \<open>string(utf16.Decode(..))\<close> does.
\<close>

section \<open>Hexadecimal\<close>

definition hexdigit :: "nat \<Rightarrow> char" where
  "hexdigit n = (if n < 10 then char_of (48 + n) else char_of (87 + n))"

definition hexbyte :: "byte \<Rightarrow> string" where
  "hexbyte b = [hexdigit (unat b div 16), hexdigit (unat b mod 16)]"

definition Hexify :: "byte list \<Rightarrow> string" where
  "Hexify barray = concat (map hexbyte barray)"

definition Bytereverse :: "byte list \<Rightarrow> byte list" where
  "Bytereverse barray = rev barray"

definition byte_string :: "byte list \<Rightarrow> string" where \<comment> \<open>\<open>string(bs)\<close>\<close>
  "byte_string bs = map (\<lambda>b. char_of (unat b)) bs"

definition string_bytes :: "string \<Rightarrow> byte list" where
  "string_bytes s = map (\<lambda>c. of_nat (of_char c)) s"

text \<open>\<open>StringifyGUID\<close> reverses three parts of its argument in place; a 16-byte array.\<close>

definition GUID_reversed :: "byte list \<Rightarrow> byte list" where
  "GUID_reversed g = rev (take 4 g) @ rev (take 2 (drop 4 g)) @ rev (take 2 (drop 6 g)) @ drop 8 g"

definition StringifyGUID :: "byte list \<Rightarrow> string \<times> byte list" where
  "StringifyGUID g =
     (let r = GUID_reversed g in
      (Hexify (take 4 r) @ ''-'' @ Hexify (take 2 (drop 4 r)) @ ''-'' @ Hexify (take 2 (drop 6 r))
         @ ''-'' @ Hexify (take 2 (drop 8 r)) @ ''-'' @ Hexify (drop 10 r), r))"

text \<open>\<open>stringifyGuIDs\<close> leaves the bytes in their order.\<close>

definition stringifyGuIDs :: "slice \<Rightarrow> string go" where
  "stringifyGuIDs b =
     gbind (sub b 0 4) (\<lambda>p1. gbind (sub b 4 6) (\<lambda>p2. gbind (sub b 6 8) (\<lambda>p3. gbind (sub b 8 10) (\<lambda>p4. gbind (sub b 10 16) (\<lambda>p5.
       ret (Hexify (bytes p1) @ ''-'' @ Hexify (bytes p2) @ ''-'' @ Hexify (bytes p3) @ ''-'' @ Hexify (bytes p4) @ ''-'' @
         Hexify (bytes p5)))))))"

definition RemoveNulls :: "byte list \<Rightarrow> string" where
  "RemoveNulls val = byte_string (filter (\<lambda>v. v \<noteq> 0) val)"

lemma of_char_hexdigit:
  assumes "n < 16"
  shows "of_char (hexdigit n) = (if n < 10 then 48 + n else 87 + n)"
proof (cases "n < 10")
  case True
  then have "(48 + n) mod 256 = 48 + n" by (intro mod_less) linarith
  with True show ?thesis by (simp only: hexdigit_def if_True of_char_of)
next
  case False
  with assms have "(87 + n) mod 256 = 87 + n" by (intro mod_less) linarith
  with False show ?thesis by (simp only: hexdigit_def if_False of_char_of)
qed

lemma hexdigit_inj:
  assumes "m < 16" "n < 16"
  shows "hexdigit m = hexdigit n \<longleftrightarrow> m = n"
proof
  assume "hexdigit m = hexdigit n"
  then have "(if m < 10 then 48 + m else 87 + m) = (if n < 10 then 48 + n else 87 + n)"
    using of_char_hexdigit [OF assms(1)] of_char_hexdigit [OF assms(2)] by argo
  then show "m = n" using assms by (auto split: if_splits)
qed simp

lemma length_Hexify [simp]: "length (Hexify bs) = 2 * length bs"
  by (induction bs) (auto simp: Hexify_def hexbyte_def)

text \<open>Evaluating hexadecimal strings of concrete bytes.\<close>

lemmas hex_eval = Hexify_def hexbyte_def hexdigit_def char_of_def bit_0 bit_Suc

lemma Hexify_inject: "Hexify xs = Hexify ys \<longleftrightarrow> xs = ys"
proof (induction xs arbitrary: ys)
  case Nil
  then show ?case by (cases ys) (auto simp: Hexify_def hexbyte_def)
next
  case (Cons x xs)
  have b: "hexbyte x = hexbyte y \<longleftrightarrow> x = y" for y
  proof -
    have "unat x div 16 < 16" "unat x mod 16 < 16" "unat y div 16 < 16" "unat y mod 16 < 16"
      using unat_u8_less [of x] unat_u8_less [of y] by auto
    then show ?thesis
      by (auto simp: hexbyte_def hexdigit_inj word_unat_eq_iff) (metis div_mult_mod_eq)
  qed
  have l: "length (hexbyte y) = 2" for y by (simp add: hexbyte_def)
  show ?case
  proof (cases ys)
    case Nil
    then show ?thesis by (auto simp: Hexify_def hexbyte_def)
  next
    case (Cons y zs)
    have "Hexify (x # xs) = Hexify ys \<longleftrightarrow> hexbyte x = hexbyte y \<and> Hexify xs = Hexify zs"
      using l by (simp add: Hexify_def Cons)
    then show ?thesis using b Cons.IH by (simp add: Cons)
  qed
qed

lemma length_GUID_reversed: "length g = 16 \<Longrightarrow> length (GUID_reversed g) = 16"
  by (simp add: GUID_reversed_def)

lemma length_StringifyGUID: "length g = 16 \<Longrightarrow> length (fst (StringifyGUID g)) = 36"
  using length_GUID_reversed [of g] by (simp add: StringifyGUID_def Let_def)

lemma GUID_reversed_inject:
  assumes "length g = 16" and "length g' = 16" and "GUID_reversed g = GUID_reversed g'"
  shows "g = g'"
proof -
  have "take 4 g = take 4 g'" "take 2 (drop 4 g) = take 2 (drop 4 g')" "take 2 (drop 6 g) = take 2 (drop 6 g')" "drop 8 g = drop 8 g'"
    using assms by (simp_all add: GUID_reversed_def)
  then have "take 4 g @ take 2 (drop 4 g) @ take 2 (drop (4 + 2) g) @ drop (4 + 2 + 2) g =
      take 4 g' @ take 2 (drop 4 g') @ take 2 (drop (4 + 2) g') @ drop (4 + 2 + 2) g'" by simp
  then show ?thesis by (simp only: drop_drop [symmetric, of 2] drop_drop [symmetric, of _ 4] add.commute append_take_drop_id)
qed

text \<open>The text of a GUID determines its bytes.\<close>

lemma StringifyGUID_inject:
  assumes "length g = 16" and "length g' = 16"
  shows "fst (StringifyGUID g) = fst (StringifyGUID g') \<longleftrightarrow> g = g'"
proof
  assume e: "fst (StringifyGUID g) = fst (StringifyGUID g')"
  let ?r = "GUID_reversed g" let ?r' = "GUID_reversed g'"
  have l: "length ?r = 16" "length ?r' = 16" using assms by (simp_all add: length_GUID_reversed)
  have "take 4 ?r = take 4 ?r'" "take 2 (drop 4 ?r) = take 2 (drop 4 ?r')" "take 2 (drop 6 ?r) = take 2 (drop 6 ?r')"
      "take 2 (drop 8 ?r) = take 2 (drop 8 ?r')" "drop 10 ?r = drop 10 ?r'"
    using e l by (simp_all add: StringifyGUID_def Let_def Hexify_inject)
  moreover have "take 4 r @ take 2 (drop 4 r) @ take 2 (drop 6 r) @ take 2 (drop 8 r) @ drop 10 r = r" for r :: "byte list"
    using append_take_drop_id [of 2 "drop 4 r"] append_take_drop_id [of 2 "drop 6 r"] append_take_drop_id [of 2 "drop 8 r"]
    by (simp add: add.commute)
  ultimately have "?r = ?r'" by metis
  then show "g = g'" by (rule GUID_reversed_inject [OF assms])
qed simp

lemma Bytereverse_involutive: "Bytereverse (Bytereverse bs) = bs"
  by (simp add: Bytereverse_def)

section \<open>UTF-16\<close>

fun u16_units :: "byte list \<Rightarrow> u16 list" where \<comment> \<open>the loop of \<open>DecodeUTF16\<close>\<close>
  "u16_units (a # b # rest) = of_nat (unat a + 256 * unat b) # u16_units rest"
| "u16_units [a] = [0xfffd]"
| "u16_units [] = []"

text \<open>The standard library's \<open>utf16.Decode\<close>: pairs of surrogates, \<open>U+FFFD\<close> for a lone one.\<close>

fun utf16_decode :: "nat list \<Rightarrow> nat list" where
  "utf16_decode [] = []"
| "utf16_decode [u] = [if 0xD800 \<le> u \<and> u < 0xE000 then 0xFFFD else u]"
| "utf16_decode (u # v # us) =
     (if u < 0xD800 \<or> 0xE000 \<le> u then u # utf16_decode (v # us)
      else if u < 0xDC00 \<and> 0xDC00 \<le> v \<and> v < 0xE000 then
        (0x10000 + (u - 0xD800) * 0x400 + (v - 0xDC00)) # utf16_decode us
      else 0xFFFD # utf16_decode (v # us))"

definition utf8_rune :: "nat \<Rightarrow> nat list" where
  "utf8_rune r =
     (if r < 0x80 then [r]
      else if r < 0x800 then [0xC0 + r div 0x40, 0x80 + r mod 0x40]
      else if r < 0x10000 then
        [0xE0 + r div 0x1000, 0x80 + r div 0x40 mod 0x40, 0x80 + r mod 0x40]
      else [0xF0 + r div 0x40000, 0x80 + r div 0x1000 mod 0x40, 0x80 + r div 0x40 mod 0x40,
        0x80 + r mod 0x40])"

definition utf8_string :: "nat list \<Rightarrow> string" where
  "utf8_string rs = map char_of (concat (map utf8_rune rs))"

definition DecodeUTF16 :: "byte list \<Rightarrow> string" where
  "DecodeUTF16 b = utf8_string (utf16_decode (map unat (u16_units b)))"

text \<open>The encoder of a scalar value, for the round trip.\<close>

definition scalar :: "nat \<Rightarrow> bool" where
  "scalar r \<longleftrightarrow> r < 0xD800 \<or> (0xE000 \<le> r \<and> r < 0x110000)"

definition utf16_rune :: "nat \<Rightarrow> nat list" where
  "utf16_rune r = (if r < 0x10000 then [r]
     else [0xD800 + (r - 0x10000) div 0x400, 0xDC00 + (r - 0x10000) mod 0x400])"

definition encode_utf16 :: "nat list \<Rightarrow> byte list" where
  "encode_utf16 rs = concat (map (le_bytes 2) (concat (map utf16_rune rs)))"

lemma u16_units_le_bytes:
  "\<forall>u \<in> set us. u < 65536 \<Longrightarrow> map unat (u16_units (concat (map (le_bytes 2) us))) = us"
proof (induction us)
  case (Cons u us)
  have "u mod 256 + 256 * (u div 256 mod 256) = u"
  proof -
    have "u div 256 < 256" using Cons.prems by (simp add: div_less_iff_less_mult)
    then show ?thesis by simp
  qed
  with Cons show ?case
    by (simp add: numeral_2_eq_2 unat_of_nat_byte unat_of_nat_u16 del: of_nat_add of_nat_mult)
qed simp

lemma utf16_decode_bmp: "u < 0xD800 \<or> 0xE000 \<le> u \<Longrightarrow> utf16_decode (u # us) = u # utf16_decode us"
  by (cases us) auto

lemma utf16_decode_rune: "scalar r \<Longrightarrow> utf16_decode (utf16_rune r @ us) = r # utf16_decode us"
proof (cases "r < 0x10000")
  case True
  moreover assume "scalar r"
  ultimately show ?thesis by (simp add: utf16_rune_def scalar_def utf16_decode_bmp)
next
  case False
  assume "scalar r"
  define d where "d = r - 0x10000"
  from False \<open>scalar r\<close> have d: "d < 0x100000" and r: "r = 0x10000 + d"
    by (auto simp: scalar_def d_def)
  have "d div 0x400 < 0x400" using d by (simp add: div_less_iff_less_mult)
  moreover have "d mod 0x400 < 0x400" by simp
  moreover have "d div 0x400 * 0x400 + d mod 0x400 = d" by (rule div_mult_mod_eq)
  ultimately show ?thesis using False r by (simp add: utf16_rune_def)
qed

lemma utf16_decode_encode:
  "\<forall>r \<in> set rs. scalar r \<Longrightarrow> utf16_decode (concat (map utf16_rune rs) @ us) = rs @ utf16_decode us"
  by (induction rs) (auto simp: utf16_decode_rune)

lemma utf16_rune_units: "scalar r \<Longrightarrow> u \<in> set (utf16_rune r) \<Longrightarrow> u < 65536"
proof -
  assume "scalar r" and u: "u \<in> set (utf16_rune r)"
  then have "(r - 0x10000) div 0x400 < 0x400"
    by (auto simp: scalar_def div_less_iff_less_mult)
  moreover have "(r - 0x10000) mod 0x400 < 0x400" by simp
  ultimately show ?thesis using u by (auto simp: utf16_rune_def split: if_splits)
qed

lemma u16_units_append:
  "u16_units (concat (map (le_bytes 2) us) @ bs) = u16_units (concat (map (le_bytes 2) us)) @ u16_units bs"
  by (induction us) (auto simp: numeral_2_eq_2)

text \<open>Round trip of names. For every sequence of Unicode scalar values, decoding its UTF-16
  little-endian bytes gives exactly its UTF-8 string, surrogate pairs included; and with a
  trailing odd byte the string ends in a replacement character.\<close>

theorem DecodeUTF16_roundtrip:
  assumes "\<forall>r \<in> set rs. scalar r"
  shows "DecodeUTF16 (encode_utf16 rs) = utf8_string rs \<and>
    DecodeUTF16 (encode_utf16 rs @ [b]) = utf8_string (rs @ [0xFFFD])"
proof -
  have "\<forall>u \<in> set (concat (map utf16_rune rs)). u < 65536"
    using assms utf16_rune_units by auto
  then have units: "map unat (u16_units (encode_utf16 rs)) = concat (map utf16_rune rs)"
    unfolding encode_utf16_def by (rule u16_units_le_bytes)
  have "utf16_decode (map unat (u16_units (encode_utf16 rs))) = rs"
    using utf16_decode_encode [OF assms, of "[]"] units by simp
  moreover have "utf16_decode (map unat (u16_units (encode_utf16 rs @ [b]))) = rs @ [0xFFFD]"
    using utf16_decode_encode [OF assms, of "[0xFFFD]"] units
    by (simp add: encode_utf16_def u16_units_append)
  ultimately show ?thesis by (simp add: DecodeUTF16_def)
qed

theorem DecodeUTF16_roundtrip_witness:
  "DecodeUTF16 [0x61, 0x00, 0x3D, 0xD8, 0x00, 0xDE] = utf8_string [0x61, 0x1F600]"
proof -
  have "encode_utf16 [0x61, 0x1F600] = [0x61, 0x00, 0x3D, 0xD8, 0x00, 0xDE]"
    by (simp add: encode_utf16_def utf16_rune_def le_bytes_numeral)
  then show ?thesis
    using DecodeUTF16_roundtrip [of "[0x61, 0x1F600]" 0] by (simp add: scalar_def)
qed

section \<open>Strings of the command line\<close>

fun Split_on :: "char \<Rightarrow> string \<Rightarrow> string \<Rightarrow> string list" where
  "Split_on sep [] cur = [rev cur]"
| "Split_on sep (c # cs) cur =
     (if c = sep then rev cur # Split_on sep cs [] else Split_on sep cs (c # cur))"

definition GetEntries :: "string \<Rightarrow> string list" where
  "GetEntries input = Split_on (CHR '','') input []"

fun digits_value :: "string \<Rightarrow> int \<Rightarrow> int option" where
  "digits_value [] acc = Some acc"
| "digits_value (c # cs) acc =
     (let d = int (of_char c) - 48 in
      if 0 \<le> d \<and> d \<le> 9 then digits_value cs (10 * acc + d) else None)"

text \<open>\<open>strconv.Atoi\<close> with its error dropped: 0 for a malformed number, the nearest bound of
  the 64-bit range for one out of range.\<close>

definition Atoi_value :: "string \<Rightarrow> int" where
  "Atoi_value s =
     (let (neg, ds) = (case s of [] \<Rightarrow> (False, [])
         | c # cs \<Rightarrow> if c = CHR ''-'' then (True, cs) else if c = CHR ''+'' then (False, cs) else (False, s))
      in case (if ds = [] then None else digits_value ds 0) of
           None \<Rightarrow> 0
         | Some n \<Rightarrow> max (- (2 ^ 63)) (min (2 ^ 63 - 1) (if neg then - n else n)))"

fun entries_int :: "string list \<Rightarrow> int list" where
  "entries_int [] = []"
| "entries_int (e # es) = (if e = [] then entries_int es else Atoi_value e # entries_int es)"

definition GetEntriesInt :: "string \<Rightarrow> int list" where
  "GetEntriesInt input = entries_int (GetEntries input)"

definition HasPrefix :: "string \<Rightarrow> string \<Rightarrow> bool" where
  "HasPrefix s p \<longleftrightarrow> take (length p) s = p"

definition HasSuffix :: "string \<Rightarrow> string \<Rightarrow> bool" where
  "HasSuffix s p \<longleftrightarrow> length p \<le> length s \<and> drop (length s - length p) s = p"

text \<open>\<open>strings.ToUpper\<close> and \<open>strings.ToLower\<close> on ASCII letters.\<close>

definition ToUpper :: "string \<Rightarrow> string" where
  "ToUpper s = map (\<lambda>c. let n = of_char c :: nat in
     if 97 \<le> n \<and> n \<le> 122 then char_of (n - 32) else c) s"

definition ToLower :: "string \<Rightarrow> string" where
  "ToLower s = map (\<lambda>c. let n = of_char c :: nat in
     if 65 \<le> n \<and> n \<le> 90 then char_of (n + 32) else c) s"

section \<open>Decimal numbers\<close>

text \<open>A number as \<open>%d\<close> formats it.\<close>

fun decimal :: "nat \<Rightarrow> string" where
  "decimal n = (if n < 10 then [char_of (48 + n)] else decimal (n div 10) @ [char_of (48 + n mod 10)])"

declare decimal.simps [simp del]

definition show_int :: "int \<Rightarrow> string" where
  "show_int i = (if i < 0 then ''-'' @ decimal (nat (- i)) else decimal (nat i))"

section \<open>Large integers\<close>

record LargeInteger =
  QuadPart :: i64
  HighPart :: u32
  LowPart :: u32

definition NewLargeInteger :: "i64 \<Rightarrow> LargeInteger" where
  "NewLargeInteger val = \<lparr>QuadPart = val, HighPart = ucast (signed_drop_bit 32 val),
     LowPart = ucast (val AND 0xFFFFFFFF)\<rparr>"

lemma length_encode_utf16: "length (encode_utf16 rs) = 2 * length (concat (map utf16_rune rs))"
  by (simp add: encode_utf16_def length_concat comp_def sum_list_triv)

lemma DecodeUTF16_encode:
  assumes "\<forall>r \<in> set rs. scalar r"
  shows "DecodeUTF16 (encode_utf16 rs) = utf8_string rs"
proof -
  have "\<forall>u \<in> set (concat (map utf16_rune rs)). u < 65536"
    using assms utf16_rune_units by auto
  then have "map unat (u16_units (encode_utf16 rs)) = concat (map utf16_rune rs)"
    unfolding encode_utf16_def by (rule u16_units_le_bytes)
  then show ?thesis using utf16_decode_encode [OF assms, of "[]"] by (simp add: DecodeUTF16_def)
qed

end
