(* ===== verification/Attr_Header.thy ===== *)
theory Attr_Header
  imports Unmarshal Text
begin

text \<open>
  \<open>FS/NTFS/MFT/attributes/attributes.go\<close>: the header every MFT attribute starts with, its
  resident and non-resident parts, the attribute types, and the decoder of run lists.
\<close>

section \<open>Run lists\<close>

text \<open>The linked list of runs: an offset relative to the previous run, and a length.\<close>

datatype RunList = RunList (Offset: i64) (Length: u64) (Next: "RunList option")

definition empty_RunList :: RunList where \<comment> \<open>\<open>RunList{}\<close>\<close>
  "empty_RunList = RunList 0 0 None"

fun run_pairs :: "RunList \<Rightarrow> (i64 \<times> u64) list" where
  "run_pairs (RunList off len None) = [(off, len)]"
| "run_pairs (RunList off len (Some r)) = (off, len) # run_pairs r"

definition ClusterOffsB :: "byte \<Rightarrow> nat" where
  "ClusterOffsB b = unat (drop_bit 4 (b AND 0xf0))"

definition ClusterLenB :: "byte \<Rightarrow> nat" where
  "ClusterLenB b = unat (b AND 0x0f)"

function RunList_Process_from :: "slice \<Rightarrow> nat \<Rightarrow> (RunList option \<times> u64) go" where
  "RunList_Process_from runlists clusterPtr =
     (if clusterPtr < slen runlists then
        gbind (at runlists clusterPtr) (\<lambda>b.
          let offB = ClusterOffsB b; lenB = ClusterLenB b in
          if lenB \<noteq> 0 then
            gbind (sub runlists (clusterPtr + 1) (clusterPtr + lenB + 1)) (\<lambda>lenS.
            gbind (sub runlists (clusterPtr + 1 + lenB) (clusterPtr + lenB + offB + 1)) (\<lambda>offS.
              let clustersLen = ReadEndianUInt (bytes lenS); clustersOff = ReadEndianInt (bytes offS) in
              gbind (RunList_Process_from runlists (clusterPtr + lenB + offB + 1)) (\<lambda>(next, len).
                ret (Some (RunList clustersOff clustersLen next), clustersLen + len))))
          else ret (None, 0))
      else ret (None, 0))"
  by pat_completeness auto
termination
  by (relation "measure (\<lambda>(s, p). slen s - p)") auto

declare RunList_Process_from.simps [simp del]

definition RunList_Process :: "slice \<Rightarrow> (RunList \<times> u64) go" where
  "RunList_Process runlists =
     gbind (RunList_Process_from runlists 0) (\<lambda>(r, len).
       ret (case r of None \<Rightarrow> empty_RunList | Some rl \<Rightarrow> rl, len))"

section \<open>Headers\<close>

record ATRrecordResident =
  ContentSize :: u32
  OffsetContent :: u16
  IdxFlags :: u16
  Name :: string

record ATRrecordNoNResident =
  StartVcn :: u64
  LastVcn :: u64
  RunOff :: u16
  Compusize :: u16
  nr_F1 :: u32
  nr_Length :: u64
  ActualLength :: u64
  InitLength :: u64
  nr_RunList :: "RunList option"
  RunListTotalLenCl :: u64

record AttributeHeader =
  Type :: "byte list"
  AttrLen :: u16
  Uknown :: "byte list"
  NoNResident :: u8
  Nlen :: u8
  NameOff :: u16
  ah_Flags :: u16
  ah_ID :: u16
  Resident :: "ATRrecordResident option"
  NonResident :: "ATRrecordNoNResident option"

definition ATRrecordResident_layout :: layout where
  "ATRrecordResident_layout = [(''ContentSize'', Kuint32), (''OffsetContent'', Kuint16),
     (''IdxFlags'', Kuint16), (''Name'', Kother)]"

definition ATRrecordNoNResident_layout :: layout where
  "ATRrecordNoNResident_layout = [(''StartVcn'', Kuint64), (''LastVcn'', Kuint64),
     (''RunOff'', Kuint16), (''Compusize'', Kuint16), (''F1'', Kuint32), (''Length'', Kuint64),
     (''ActualLength'', Kuint64), (''InitLength'', Kuint64), (''RunList'', Kother),
     (''RunListTotalLenCl'', Kuint64)]"

definition AttributeHeader_layout :: layout where
  "AttributeHeader_layout = [(''Type'', Karray 4), (''AttrLen'', Kuint16), (''Uknown'', Karray 2),
     (''NoNResident'', Kuint8), (''Nlen'', Kuint8), (''NameOff'', Kuint16), (''Flags'', Kuint16),
     (''ID'', Kuint16), (''ATRrecordResident'', Kother), (''ATRrecordNoNResident'', Kother)]"

definition zero_ATRrecordResident :: ATRrecordResident where
  "zero_ATRrecordResident = \<lparr>ContentSize = 0, OffsetContent = 0, IdxFlags = 0, Name = []\<rparr>"

definition zero_ATRrecordNoNResident :: ATRrecordNoNResident where
  "zero_ATRrecordNoNResident = \<lparr>StartVcn = 0, LastVcn = 0, RunOff = 0, Compusize = 0, nr_F1 = 0,
     nr_Length = 0, ActualLength = 0, InitLength = 0, nr_RunList = None, RunListTotalLenCl = 0\<rparr>"

definition zero_AttributeHeader :: AttributeHeader where
  "zero_AttributeHeader = \<lparr>Type = [0, 0, 0, 0], AttrLen = 0, Uknown = [0, 0], NoNResident = 0,
     Nlen = 0, NameOff = 0, ah_Flags = 0, ah_ID = 0, Resident = None, NonResident = None\<rparr>"

definition set_ATRrecordResident :: "val list \<Rightarrow> ATRrecordResident \<Rightarrow> ATRrecordResident" where
  "set_ATRrecordResident v r = r\<lparr>ContentSize := put_u32 (v ! 0) (ContentSize r),
     OffsetContent := put_u16 (v ! 1) (OffsetContent r), IdxFlags := put_u16 (v ! 2) (IdxFlags r)\<rparr>"

definition set_ATRrecordNoNResident :: "val list \<Rightarrow> ATRrecordNoNResident \<Rightarrow> ATRrecordNoNResident" where
  "set_ATRrecordNoNResident v r = r\<lparr>StartVcn := put_u64 (v ! 0) (StartVcn r),
     LastVcn := put_u64 (v ! 1) (LastVcn r), RunOff := put_u16 (v ! 2) (RunOff r),
     Compusize := put_u16 (v ! 3) (Compusize r), nr_F1 := put_u32 (v ! 4) (nr_F1 r),
     nr_Length := put_u64 (v ! 5) (nr_Length r), ActualLength := put_u64 (v ! 6) (ActualLength r),
     InitLength := put_u64 (v ! 7) (InitLength r),
     RunListTotalLenCl := put_u64 (v ! 9) (RunListTotalLenCl r)\<rparr>"

definition set_AttributeHeader :: "val list \<Rightarrow> AttributeHeader \<Rightarrow> AttributeHeader" where
  "set_AttributeHeader v h = h\<lparr>Type := put_arr (v ! 0) (Type h), AttrLen := put_u16 (v ! 1) (AttrLen h),
     Uknown := put_arr (v ! 2) (Uknown h), NoNResident := put_u8 (v ! 3) (NoNResident h),
     Nlen := put_u8 (v ! 4) (Nlen h), NameOff := put_u16 (v ! 5) (NameOff h),
     ah_Flags := put_u16 (v ! 6) (ah_Flags h), ah_ID := put_u16 (v ! 7) (ah_ID h)\<rparr>"

definition unmarshal_AttributeHeader :: "slice \<Rightarrow> AttributeHeader go" where
  "unmarshal_AttributeHeader data = gbind (Unmarshal AttributeHeader_layout data)
     (\<lambda>(v, _, _). ret (set_AttributeHeader v zero_AttributeHeader))"

definition unmarshal_ATRrecordNoNResident :: "slice \<Rightarrow> ATRrecordNoNResident go" where
  "unmarshal_ATRrecordNoNResident data = gbind (Unmarshal ATRrecordNoNResident_layout data)
     (\<lambda>(v, _, _). ret (set_ATRrecordNoNResident v zero_ATRrecordNoNResident))"

definition ATRrecordResident_Parse :: "slice \<Rightarrow> ATRrecordResident go" where
  "ATRrecordResident_Parse data = gbind (sub data 0 8) (\<lambda>d.
     gbind (Unmarshal ATRrecordResident_layout d)
       (\<lambda>(v, _, _). ret (set_ATRrecordResident v zero_ATRrecordResident)))"

section \<open>Attribute types\<close>

definition AttrTypes :: "(string \<times> string) list" where
  "AttrTypes =
    [(''00000010'', ''Standard Information''), (''00000020'', ''Attribute List''),
     (''00000030'', ''FileName''), (''00000040'', ''Object ID''),
     (''00000050'', ''Security Descriptor''), (''00000060'', ''Volume Name''),
     (''00000070'', ''Volume Information''), (''00000080'', ''DATA''),
     (''00000090'', ''Index Root''), (''000000a0'', ''Index Allocation''),
     (''000000b0'', ''BitMap''), (''000000c0'', ''Reparse Point''),
     (''000000d0'', ''Extended Attribute Information''),
     (''000000e0'', ''Extended Attribute''), (''000000f0'', ''Extended Attribute Information''),
     (''00000100'', ''Logged Utility Stream''),
     (''ffffffff'', ''Last'')]"

text \<open>The header is a value receiver: \<open>Bytereverse\<close> reverses the copy's type bytes in place, and
  the fallback prints the reversed bytes.\<close>

definition GetType :: "AttributeHeader \<Rightarrow> string" where
  "GetType h = (let t = Bytereverse (Type h) in
     case map_of AttrTypes (Hexify t) of Some attrType \<Rightarrow> attrType | None \<Rightarrow> byte_string t @ '' '')"

definition IsLast :: "AttributeHeader \<Rightarrow> bool" where "IsLast h \<longleftrightarrow> GetType h = ''Last''"
definition IsFileName :: "AttributeHeader \<Rightarrow> bool" where "IsFileName h \<longleftrightarrow> GetType h = ''FileName''"
definition IsData :: "AttributeHeader \<Rightarrow> bool" where "IsData h \<longleftrightarrow> GetType h = ''DATA''"
definition IsReparse :: "AttributeHeader \<Rightarrow> bool" where "IsReparse h \<longleftrightarrow> GetType h = ''Reparse Point''"
definition IsObject :: "AttributeHeader \<Rightarrow> bool" where "IsObject h \<longleftrightarrow> GetType h = ''Object ID''"
definition IsAttrList :: "AttributeHeader \<Rightarrow> bool" where "IsAttrList h \<longleftrightarrow> GetType h = ''Attribute List''"
definition IsBitmap :: "AttributeHeader \<Rightarrow> bool" where "IsBitmap h \<longleftrightarrow> GetType h = ''BitMap''"
definition IsVolumeName :: "AttributeHeader \<Rightarrow> bool" where "IsVolumeName h \<longleftrightarrow> GetType h = ''Volume Name''"
definition IsIndexAllocation :: "AttributeHeader \<Rightarrow> bool" where
  "IsIndexAllocation h \<longleftrightarrow> GetType h = ''Index Allocation''"
definition IsVolumeInfo :: "AttributeHeader \<Rightarrow> bool" where
  "IsVolumeInfo h \<longleftrightarrow> GetType h = ''Volume Information''"
definition IsIndexRoot :: "AttributeHeader \<Rightarrow> bool" where "IsIndexRoot h \<longleftrightarrow> GetType h = ''Index Root''"
definition IsStdInfo :: "AttributeHeader \<Rightarrow> bool" where
  "IsStdInfo h \<longleftrightarrow> GetType h = ''Standard Information''"
definition IsLoggedUtility :: "AttributeHeader \<Rightarrow> bool" where
  "IsLoggedUtility h \<longleftrightarrow> GetType h = ''Logged Utility Stream''"
definition IsExtendedAttribute :: "AttributeHeader \<Rightarrow> bool" where
  "IsExtendedAttribute h \<longleftrightarrow> GetType h = ''Extended Attribute''"
definition IsExtendedInformationAttribute :: "AttributeHeader \<Rightarrow> bool" where
  "IsExtendedInformationAttribute h \<longleftrightarrow> GetType h = ''Extended Attribute Information''"
definition IsNoNResident :: "AttributeHeader \<Rightarrow> bool" where "IsNoNResident h \<longleftrightarrow> NoNResident h = 1"

definition GetName :: "AttributeHeader \<Rightarrow> string go" where
  "GetName h = (if \<not> IsNoNResident h then
       (case Resident h of None \<Rightarrow> panic Nil_dereference | Some r \<Rightarrow> ret (Name r))
     else ret [])"

section \<open>The run list decoder\<close>

lemma ClusterLenB_eq: "ClusterLenB b = unat b mod 16"
proof -
  have "b AND 0x0f = take_bit 4 b" by (simp add: take_bit_eq_mask mask_eq_exp_minus_1)
  then show ?thesis by (simp add: ClusterLenB_def take_bit_eq_mod unat_mod_distrib)
qed

lemma ClusterOffsB_eq: "ClusterOffsB b = unat b div 16"
proof -
  have "drop_bit 4 (b AND 0xf0) = drop_bit 4 b"
    by (rule bit_word_eqI) (auto simp: bit_simps numeral_eq_Suc less_Suc_eq dest: bit_imp_le_length)
  then show ?thesis by (simp add: ClusterOffsB_def drop_bit_eq_div unat_div_distrib)
qed

text \<open>An encoded run: the header byte, the length field, the offset field.\<close>

definition encode_run :: "byte list \<times> byte list \<Rightarrow> byte list" where
  "encode_run r = of_nat (length (fst r) + 16 * length (snd r)) # fst r @ snd r"

definition run_ok :: "byte list \<times> byte list \<Rightarrow> bool" where
  "run_ok r \<longleftrightarrow> fst r \<noteq> [] \<and> length (fst r) < 16 \<and> length (snd r) < 16"

definition decode_run :: "byte list \<times> byte list \<Rightarrow> i64 \<times> u64" where
  "decode_run r = (ReadEndianInt (snd r), ReadEndianUInt (fst r))"

fun link_runs :: "(i64 \<times> u64) list \<Rightarrow> RunList option" where
  "link_runs [] = None"
| "link_runs ((off, len) # rs) = Some (RunList off len (link_runs rs))"

lemma run_pairs_link: "link_runs rs = Some r \<Longrightarrow> run_pairs r = rs"
proof (induction rs arbitrary: r)
  case (Cons a rs)
  obtain off len where a: "a = (off, len)" by (cases a)
  with Cons show ?case by (cases "link_runs rs") (auto elim: link_runs.elims)
qed simp

lemma run_header:
  assumes "run_ok r"
  shows "ClusterLenB (hd (encode_run r)) = length (fst r)"
    and "ClusterOffsB (hd (encode_run r)) = length (snd r)"
proof -
  have "length (fst r) + 16 * length (snd r) < 256" using assms by (simp add: run_ok_def)
  then have "unat (hd (encode_run r)) = length (fst r) + 16 * length (snd r)"
    by (simp add: encode_run_def unat_of_nat_byte del: of_nat_add of_nat_mult)
  with assms show "ClusterLenB (hd (encode_run r)) = length (fst r)"
    "ClusterOffsB (hd (encode_run r)) = length (snd r)"
    by (auto simp: ClusterLenB_eq ClusterOffsB_eq run_ok_def)
qed

text \<open>One round of the loop, at a run that lies within the slice.\<close>

lemma RunList_Process_from_run:
  assumes "run_ok r" and "p + length (encode_run r) \<le> n" and "n \<le> length bs"
    and "take (length (encode_run r)) (drop p bs) = encode_run r"
  shows "RunList_Process_from (Slice bs n) p =
    gbind (RunList_Process_from (Slice bs n) (p + length (encode_run r))) (\<lambda>(next, len).
      ret (Some (RunList (fst (decode_run r)) (snd (decode_run r)) next), snd (decode_run r) + len))"
proof -
  obtain L F where r: "r = (L, F)" by (cases r)
  let ?k = "length (encode_run r)"
  have k: "?k = Suc (length L + length F)" by (simp add: encode_run_def r)
  have bs: "bs = take p bs @ encode_run r @ drop (p + ?k) bs"
    using assms(4) by (metis append_take_drop_id drop_drop add.commute)
  have p: "length (take p bs) = p" using assms(2,3) by simp
  have b: "bs ! p = hd (encode_run r)"
    using p by (subst bs) (simp add: nth_append encode_run_def)
  have dL: "take (length L) (drop (Suc p) bs) = L"
    using p by (subst bs) (simp add: encode_run_def r)
  have dF: "take (length F) (drop (Suc (p + length L)) bs) = F"
    using p by (subst bs) (simp add: encode_run_def r)
  have "p < n" "p + length L + 1 \<le> length bs" "p + length L + length F + 1 \<le> length bs"
    using assms(2,3) k by auto
  then have ops: "at (Slice bs n) p = ret (bs ! p)"
    "sub (Slice bs n) (p + 1) (p + length L + 1) = ret (Slice (drop (Suc p) bs) (length L))"
    "sub (Slice bs n) (p + 1 + length L) (p + length L + length F + 1) =
      ret (Slice (drop (Suc (p + length L)) bs) (length F))"
    by (simp_all add: at_def sub_def)
  have hdr: "ClusterLenB (bs ! p) = length L" "ClusterOffsB (bs ! p) = length F" "L \<noteq> []"
    using run_header [OF assms(1)] assms(1) b by (simp_all add: r run_ok_def)
  have nxt: "p + length L + length F + 1 = p + ?k" using k by simp
  show ?thesis
    unfolding RunList_Process_from.simps [of "Slice bs n" p]
    by (simp only: slice.sel \<open>p < n\<close> if_True ops gbind_ret Let_def hdr length_0_conv not_False_eq_True
        bytes_def dL dF decode_run_def r fst_conv snd_conv)
      (simp only: nxt r)
qed

lemma RunList_Process_from_end:
  assumes "p = n \<or> p < n \<and> ClusterLenB (bs ! p) = 0"
  shows "RunList_Process_from (Slice bs n) p = ret (None, 0)"
  using assms by (subst RunList_Process_from.simps) (auto simp: at_def)

lemma RunList_Process_from_runs:
  assumes "\<forall>r \<in> set rs. run_ok r" and "pre @ concat (map encode_run rs) @ post = bs"
    and "length pre + length (concat (map encode_run rs)) = q"
    and "q \<le> n" and "n \<le> length bs"
    and "q = n \<or> q < n \<and> ClusterLenB (bs ! q) = 0"
  shows "RunList_Process_from (Slice bs n) (length pre) =
    ret (link_runs (map decode_run rs), sum_list (map (snd \<circ> decode_run) rs))"
  using assms
proof (induction rs arbitrary: pre)
  case Nil
  then show ?case by (simp add: RunList_Process_from_end)
next
  case (Cons r rs)
  have "take (length (encode_run r)) (drop (length pre) bs) = encode_run r"
    using Cons.prems(2) [symmetric] by simp
  then have "RunList_Process_from (Slice bs n) (length pre) =
    gbind (RunList_Process_from (Slice bs n) (length (pre @ encode_run r))) (\<lambda>(next, len).
      ret (Some (RunList (fst (decode_run r)) (snd (decode_run r)) next), snd (decode_run r) + len))"
    using Cons.prems by (subst RunList_Process_from_run [of r]) auto
  also have "RunList_Process_from (Slice bs n) (length (pre @ encode_run r)) =
    ret (link_runs (map decode_run rs), sum_list (map (snd \<circ> decode_run) rs))"
    using Cons.prems by (intro Cons.IH) auto
  finally show ?case by (cases "decode_run r") (simp add: comp_def)
qed

lemma sum_list_u64: "unat (sum_list (ws :: u64 list)) = sum_list (map unat ws) mod 2 ^ 64"
  by (induction ws) (auto simp: unat_word_ariths mod_simps)

text \<open>C3: The run-list decoder is the inverse of the NTFS encoding. For every non-empty sequence of
  runs with length fields of at most eight and offset fields of at most four bytes, followed
  by the end of the slice or a byte whose low nibble is zero, \<open>Process\<close> returns the linked
  list of the runs in order, each with its signed relative offset and its unsigned length (a
  run without an offset field, a sparse one, has offset 0), and the lengths' sum.\<close>

theorem RunList_Process_encoded:
  assumes "rs \<noteq> []" and "\<forall>r \<in> set rs. run_ok r \<and> length (fst r) \<le> 8 \<and> length (snd r) \<le> 4"
    and "bs = concat (map encode_run rs) @ post"
    and "q = length (concat (map encode_run rs))" and "q \<le> n" and "n \<le> length bs"
    and "n = q \<or> ClusterLenB (bs ! q) = 0"
  shows "\<exists>rl total. RunList_Process (Slice bs n) = ret (rl, total) \<and>
    map (\<lambda>(off, len). (sint off, unat len)) (run_pairs rl) =
      map (\<lambda>r. (signed_le (snd r), le_nat (fst r))) rs \<and>
    unat total = sum_list (map (\<lambda>r. le_nat (fst r)) rs) mod 2 ^ 64"
proof -
  have "RunList_Process_from (Slice bs n) (length ([] :: byte list)) =
      ret (link_runs (map decode_run rs), sum_list (map (snd \<circ> decode_run) rs))"
    using assms by (intro RunList_Process_from_runs) auto
  moreover obtain rl where rl: "link_runs (map decode_run rs) = Some rl"
    using assms(1) by (cases rs; cases "decode_run (hd rs)") auto
  ultimately have "RunList_Process (Slice bs n) = ret (rl, sum_list (map (snd \<circ> decode_run) rs))"
    by (simp add: RunList_Process_def)
  moreover have "run_pairs rl = map decode_run rs" using run_pairs_link rl by blast
  moreover have dec: "sint (ReadEndianInt (snd r)) = signed_le (snd r) \<and>
      unat (ReadEndianUInt (fst r)) = le_nat (fst r)" if "r \<in> set rs" for r
    using assms(2) that ReadEndianInt_signed ReadEndianUInt_unat by auto
  ultimately show ?thesis
    by (auto simp: sum_list_u64 decode_run_def comp_def intro!: arg_cong [of _ _ sum_list]
        cong: map_cong)
qed

theorem RunList_Process_encoded_witness:
  "\<exists>rl total. RunList_Process (Slice [0x21, 0x18, 0x00, 0x01, 0x01, 0x08, 0x11, 0x05, 0xF0, 0x00, 0x77] 11)
     = ret (rl, total) \<and>
   map (\<lambda>(off, len). (sint off, unat len)) (run_pairs rl) = [(256, 24), (0, 8), (-16, 5)] \<and>
   unat total = 37"
proof -
  let ?rs = "[([0x18], [0x00, 0x01]), ([0x08], []), ([0x05], [0xF0])] :: (byte list \<times> byte list) list"
  let ?bs = "[0x21, 0x18, 0x00, 0x01, 0x01, 0x08, 0x11, 0x05, 0xF0, 0x00, 0x77] :: byte list"
  have "\<exists>rl total. RunList_Process (Slice ?bs 11) = ret (rl, total) \<and>
    map (\<lambda>(off, len). (sint off, unat len)) (run_pairs rl) =
      map (\<lambda>r. (signed_le (snd r), le_nat (fst r))) ?rs \<and>
    unat total = sum_list (map (\<lambda>r. le_nat (fst r)) ?rs) mod 2 ^ 64"
    by (rule RunList_Process_encoded [of ?rs ?bs "[0x00, 0x77]" 9 11])
      (simp_all add: run_ok_def encode_run_def ClusterLenB_eq)
  then show ?thesis by (simp add: signed_le_def)
qed

text \<open>The decoder reads at most 30 bytes behind the slice it is given.\<close>

lemma RunList_Process_from_returns:
  "wf_slice s \<Longrightarrow> slen s + 30 \<le> length (arr s) \<Longrightarrow> returns (RunList_Process_from s p)"
proof (induction s p rule: RunList_Process_from.induct)
  case (1 s p)
  show ?case
  proof (cases "p < slen s \<and> ClusterLenB (arr s ! p) \<noteq> 0")
    case True
    let ?b = "arr s ! p"
    have bounds: "ClusterLenB ?b < 16" "ClusterOffsB ?b < 16"
      using unat_u8_less [of ?b] by (simp_all add: ClusterLenB_eq ClusterOffsB_eq div_less_iff_less_mult)
    then have "returns (RunList_Process_from s (p + ClusterLenB ?b + ClusterOffsB ?b + 1))"
      using True "1.prems" by (intro "1.IH" [of ?b "ClusterOffsB ?b" "ClusterLenB ?b"]) (auto simp: at_def sub_def)
    with True bounds "1.prems" show ?thesis
      by (subst RunList_Process_from.simps) (auto simp: at_def sub_def Let_def returns_iff)
  next
    case False
    then show ?thesis by (subst RunList_Process_from.simps) (auto simp: at_def Let_def)
  qed
qed

lemma RunList_Process_from_ends: "ends (RunList_Process_from s p)"
proof (induction s p rule: RunList_Process_from.induct)
  case (1 s p)
  show ?case
    by (subst RunList_Process_from.simps) (auto simp: Let_def intro!: ends_gbind "1.IH" [simplified])
qed

text \<open>The run-list decoder always ends, and it can only panic when a run's fields reach past the
  capacity: with 30 bytes of capacity behind the slice it returns on every input, well formed
  or not.\<close>

theorem RunList_Process_total:
  assumes "wf_slice s"
  shows "ends (RunList_Process s) \<and> (slen s + 30 \<le> length (arr s) \<longrightarrow> returns (RunList_Process s))"
proof (intro conjI impI)
  show "ends (RunList_Process s)"
    by (auto simp: RunList_Process_def intro!: ends_gbind RunList_Process_from_ends)
next
  assume "slen s + 30 \<le> length (arr s)"
  with assms have "returns (RunList_Process_from s 0)" by (rule RunList_Process_from_returns)
  then show "returns (RunList_Process s)" by (auto simp: RunList_Process_def returns_iff)
qed

theorem RunList_Process_total_witness:
  "returns (RunList_Process (Slice (0xff # replicate 31 0) 1))"
  using RunList_Process_total [of "Slice (0xff # replicate 31 0) 1"] by (simp add: wf_slice_def)

end
