(* ===== verification/Attributes.thy ===== *)
theory Attributes
  imports Attr_Header
begin

text \<open>
  The attribute bodies of \<open>FS/NTFS/MFT/attributes/\<close>, apart from the two index
  attributes: their structs, and their \<open>Parse\<close> methods over the attribute's content
  slice. In the code each struct also holds a pointer to its header; the model keeps the
  header beside the body (theory \<open>MFT_Record\<close>).
\<close>

text \<open>Running \<open>Unmarshal\<close> into a struct: the layout, and the setter of its fields.\<close>

definition unmarshal_into :: "layout \<Rightarrow> (val list \<Rightarrow> 'r \<Rightarrow> 'r) \<Rightarrow> 'r \<Rightarrow> slice \<Rightarrow> 'r go" where
  "unmarshal_into L setter r data = gbind (Unmarshal L data) (\<lambda>(v, _, _). ret (setter v r))"

definition zero_WindowsTime :: WindowsTime where
  "zero_WindowsTime = \<lparr>Stamp = 0\<rparr>"

text \<open>Seconds since 1970 of a Windows timestamp, in unsigned 64-bit arithmetic.\<close>

definition ConvertToUnix :: "WindowsTime \<Rightarrow> i64" where
  "ConvertToUnix winTime = Stamp winTime div 10000000 - 11644473600"

section \<open>File name\<close>

record FNAttribute =
  fn_ParRef :: u64
  fn_ParSeq :: u16
  fn_Crtime :: WindowsTime
  fn_Mtime :: WindowsTime
  fn_MFTmtime :: WindowsTime
  fn_Atime :: WindowsTime
  AllocFsize :: u64
  RealFsize :: u64
  fn_Flags :: u32
  fn_Reparse :: u32
  fn_Nlen :: u8
  Nspace :: u8
  Fname :: string
  HexFlag :: bool
  UnicodeHack :: bool

definition FNAttribute_layout :: layout where
  "FNAttribute_layout = [(''ParRef'', Kuint64), (''ParSeq'', Kuint16),
     (''Crtime'', Kstruct ''WindowsTime''), (''Mtime'', Kstruct ''WindowsTime''),
     (''MFTmtime'', Kstruct ''WindowsTime''), (''Atime'', Kstruct ''WindowsTime''),
     (''AllocFsize'', Kuint64), (''RealFsize'', Kuint64), (''Flags'', Kuint32),
     (''Reparse'', Kuint32), (''Nlen'', Kuint8), (''Nspace'', Kuint8), (''Fname'', Kother),
     (''HexFlag'', Kbool), (''UnicodeHack'', Kbool), (''Header'', Kother)]"

definition zero_FNAttribute :: FNAttribute where
  "zero_FNAttribute = \<lparr>fn_ParRef = 0, fn_ParSeq = 0, fn_Crtime = zero_WindowsTime,
     fn_Mtime = zero_WindowsTime, fn_MFTmtime = zero_WindowsTime, fn_Atime = zero_WindowsTime,
     AllocFsize = 0, RealFsize = 0, fn_Flags = 0, fn_Reparse = 0, fn_Nlen = 0, Nspace = 0,
     Fname = [], HexFlag = False, UnicodeHack = False\<rparr>"

definition set_FNAttribute :: "val list \<Rightarrow> FNAttribute \<Rightarrow> FNAttribute" where
  "set_FNAttribute v f = f\<lparr>fn_ParRef := put_u64 (v ! 0) (fn_ParRef f),
     fn_ParSeq := put_u16 (v ! 1) (fn_ParSeq f), fn_Crtime := put_win (v ! 2) (fn_Crtime f),
     fn_Mtime := put_win (v ! 3) (fn_Mtime f), fn_MFTmtime := put_win (v ! 4) (fn_MFTmtime f),
     fn_Atime := put_win (v ! 5) (fn_Atime f), AllocFsize := put_u64 (v ! 6) (AllocFsize f),
     RealFsize := put_u64 (v ! 7) (RealFsize f), fn_Flags := put_u32 (v ! 8) (fn_Flags f),
     fn_Reparse := put_u32 (v ! 9) (fn_Reparse f), fn_Nlen := put_u8 (v ! 10) (fn_Nlen f),
     Nspace := put_u8 (v ! 11) (Nspace f), HexFlag := put_bool (v ! 13) (HexFlag f),
     UnicodeHack := put_bool (v ! 14) (UnicodeHack f)\<rparr>"

definition FNAttribute_Parse :: "slice \<Rightarrow> FNAttribute \<Rightarrow> FNAttribute go" where
  "FNAttribute_Parse data fnAttr =
     gbind (sub data 0 66) (\<lambda>d.
     gbind (unmarshal_into FNAttribute_layout set_FNAttribute fnAttr d) (\<lambda>f.
     gbind (sub data 66 (66 + unat (2 * ucast (fn_Nlen f) :: u16))) (\<lambda>nm.
       ret (f\<lparr>Fname := DecodeUTF16 (bytes nm)\<rparr>))))"

definition RecordTypes :: "(u32 \<times> string) list" where
  "RecordTypes = [(1, ''Read Only''), (2, ''Hidden''), (4, ''System''), (32, ''Archive''),
     (64, ''Device''), (128, ''Normal''), (256, ''Temporary''), (512, ''Sparse file''),
     (1024, ''Reparse''), (2048, ''Compressed''), (4096, ''Offline''),
     (8192, ''Content  is not being indexed for faster searches''), (16384, ''Encrypted''),
     (32768, ''FILE_ATTRIBUTE_INTEGRITY_STREAM''), (65536, ''FILE_ATTRIBUTE_VIRTUAL''),
     (131072, ''FILE_ATTRIBUTE_NO_SCRUB_DATA''), (262144, ''FILE_ATTRIBUTE_EA''),
     (524288, ''FILE_ATTRIBUTE_PINNED''), (1048576, ''FILE_ATTRIBUTE_UNPINNED''),
     (2097152, ''FILE_ATTRIBUTE_RECALL_ON_OPEN''),
     (4194304, ''FILE_ATTRIBUTE_RECALL_ON_DATA_ACCESS'')]"

definition NameSpaceFlags :: "(u8 \<times> string) list" where
  "NameSpaceFlags = [(0, ''POSIX''), (1, ''Win32''), (2, ''Dos''), (3, ''Win32 & Dos'')]"

text \<open>A lookup in a Go map of strings: the empty string for a missing key.\<close>

definition lookup_str :: "('k \<times> string) list \<Rightarrow> 'k \<Rightarrow> string" where
  "lookup_str m k = (case map_of m k of None \<Rightarrow> [] | Some v \<Rightarrow> v)"

definition FNAttribute_GetType :: "FNAttribute \<Rightarrow> string" where
  "FNAttribute_GetType fnAttr = lookup_str RecordTypes (fn_Flags fnAttr)"

definition GetFileNameType :: "FNAttribute \<Rightarrow> string" where
  "GetFileNameType fnAttr = lookup_str NameSpaceFlags (Nspace fnAttr)"

definition FNAttribute_GetTimestamps :: "FNAttribute \<Rightarrow> i64 \<times> i64 \<times> i64 \<times> i64" where
  "FNAttribute_GetTimestamps f = (ConvertToUnix (fn_Atime f), ConvertToUnix (fn_Crtime f),
     ConvertToUnix (fn_Mtime f), ConvertToUnix (fn_MFTmtime f))"

section \<open>Standard information\<close>

record SIAttribute =
  si_Crtime :: WindowsTime
  si_Mtime :: WindowsTime
  si_MFTmtime :: WindowsTime
  si_Atime :: WindowsTime
  Dos :: u32
  Maxver :: u32
  Ver :: u32
  ClassID :: u32
  OwnID :: u32
  SecID :: u32
  Quota :: u64
  si_USN :: u64

definition SIAttribute_layout :: layout where
  "SIAttribute_layout = [(''Crtime'', Kstruct ''WindowsTime''), (''Mtime'', Kstruct ''WindowsTime''),
     (''MFTmtime'', Kstruct ''WindowsTime''), (''Atime'', Kstruct ''WindowsTime''),
     (''Dos'', Kuint32), (''Maxver'', Kuint32), (''Ver'', Kuint32), (''ClassID'', Kuint32),
     (''OwnID'', Kuint32), (''SecID'', Kuint32), (''Quota'', Kuint64), (''USN'', Kuint64),
     (''Header'', Kother)]"

definition zero_SIAttribute :: SIAttribute where
  "zero_SIAttribute = \<lparr>si_Crtime = zero_WindowsTime, si_Mtime = zero_WindowsTime,
     si_MFTmtime = zero_WindowsTime, si_Atime = zero_WindowsTime, Dos = 0, Maxver = 0, Ver = 0,
     ClassID = 0, OwnID = 0, SecID = 0, Quota = 0, si_USN = 0\<rparr>"

definition set_SIAttribute :: "val list \<Rightarrow> SIAttribute \<Rightarrow> SIAttribute" where
  "set_SIAttribute v s = s\<lparr>si_Crtime := put_win (v ! 0) (si_Crtime s),
     si_Mtime := put_win (v ! 1) (si_Mtime s), si_MFTmtime := put_win (v ! 2) (si_MFTmtime s),
     si_Atime := put_win (v ! 3) (si_Atime s), Dos := put_u32 (v ! 4) (Dos s),
     Maxver := put_u32 (v ! 5) (Maxver s), Ver := put_u32 (v ! 6) (Ver s),
     ClassID := put_u32 (v ! 7) (ClassID s), OwnID := put_u32 (v ! 8) (OwnID s),
     SecID := put_u32 (v ! 9) (SecID s), Quota := put_u64 (v ! 10) (Quota s),
     si_USN := put_u64 (v ! 11) (si_USN s)\<rparr>"

definition SIAttribute_Parse :: "slice \<Rightarrow> SIAttribute \<Rightarrow> SIAttribute go" where
  "SIAttribute_Parse data siattr = unmarshal_into SIAttribute_layout set_SIAttribute siattr data"

definition SIAttribute_GetTimestamps :: "SIAttribute \<Rightarrow> i64 \<times> i64 \<times> i64 \<times> i64" where
  "SIAttribute_GetTimestamps s = (ConvertToUnix (si_Atime s), ConvertToUnix (si_Crtime s),
     ConvertToUnix (si_Mtime s), ConvertToUnix (si_MFTmtime s))"

section \<open>Attribute list\<close>

record AttributeList =
  al_Type :: string
  al_Len :: u16
  Namelen :: u8
  Nameoffset :: u8
  al_StartVcn :: u64
  al_ParRef :: u64
  al_ParSeq :: u16
  al_ID :: u8
  al_Name :: string

type_synonym AttributeListEntries = "AttributeList list"

definition AttributeList_layout :: layout where
  "AttributeList_layout = [(''Type'', Kother), (''Len'', Kuint16), (''Namelen'', Kuint8),
     (''Nameoffset'', Kuint8), (''StartVcn'', Kuint64), (''ParRef'', Kuint64), (''ParSeq'', Kuint16),
     (''ID'', Kuint8), (''Name'', Kother)]"

definition zero_AttributeList :: AttributeList where
  "zero_AttributeList = \<lparr>al_Type = [], al_Len = 0, Namelen = 0, Nameoffset = 0, al_StartVcn = 0,
     al_ParRef = 0, al_ParSeq = 0, al_ID = 0, al_Name = []\<rparr>"

definition set_AttributeList :: "val list \<Rightarrow> AttributeList \<Rightarrow> AttributeList" where
  "set_AttributeList v a = a\<lparr>al_Len := put_u16 (v ! 1) (al_Len a), Namelen := put_u8 (v ! 2) (Namelen a),
     Nameoffset := put_u8 (v ! 3) (Nameoffset a), al_StartVcn := put_u64 (v ! 4) (al_StartVcn a),
     al_ParRef := put_u64 (v ! 5) (al_ParRef a), al_ParSeq := put_u16 (v ! 6) (al_ParSeq a),
     al_ID := put_u8 (v ! 7) (al_ID a)\<rparr>"

definition AttributeList_GetType :: "AttributeList \<Rightarrow> string" where
  "AttributeList_GetType attrList = lookup_str AttrTypes (al_Type attrList)"

text \<open>One entry of the list at \<open>attrLen\<close>; offsets are 16-bit and wrap.\<close>

definition AttributeList_entry :: "slice \<Rightarrow> u16 \<Rightarrow> AttributeList go" where
  "AttributeList_entry data attrLen =
     gbind (sub data (unat attrLen) (unat (attrLen + 24))) (\<lambda>d.
     gbind (unmarshal_into AttributeList_layout set_AttributeList zero_AttributeList d) (\<lambda>a.
     let lo = attrLen + ucast (Nameoffset a) in
     gbind (sub data (unat lo) (unat (lo + 2 * ucast (Namelen a)))) (\<lambda>nm.
       ret (a\<lparr>al_Name := RemoveNulls (bytes nm)\<rparr>))))"

text \<open>The loop of \<open>AttributeListEntries.Parse\<close>: \<open>None\<close> when a wrap of the 16-bit offset makes it
  go round for ever.\<close>

partial_function (option) AttributeListEntries_loop ::
  "slice \<Rightarrow> u16 \<Rightarrow> AttributeListEntries \<Rightarrow> (crash + AttributeListEntries) option" where
  "AttributeListEntries_loop data attrLen entries =
     (if 24 + attrLen < of_nat (slen data) \<and> attrLen < 65535 - 24 then
        gbind (AttributeList_entry data attrLen) (\<lambda>a.
          let entries' = entries @ [a]; attrLen' = attrLen + al_Len a in
          if attrLen' = 0 \<or> al_Len a = 0 then ret entries'
          else AttributeListEntries_loop data attrLen' entries')
      else ret entries)"

definition AttributeListEntries_Parse :: "slice \<Rightarrow> AttributeListEntries \<Rightarrow> AttributeListEntries go" where
  "AttributeListEntries_Parse data entries = AttributeListEntries_loop data 0 entries"

section \<open>Bitmap\<close>

record BitMap =
  AllocationStatus :: "byte list"

definition BitMap_Parse :: "slice \<Rightarrow> BitMap \<Rightarrow> BitMap go" where
  "BitMap_Parse data bitmap = ret (bitmap\<lparr>AllocationStatus := bytes data\<rparr>)"

text \<open>The inner loop over one byte: \<open>for bitmask < 128 { bitmask = 1 << shifter; .. }\<close>.\<close>

partial_function (option) bits_loop ::
  "byte \<Rightarrow> u8 \<Rightarrow> nat \<Rightarrow> nat \<Rightarrow> nat list \<Rightarrow> (crash + nat list \<times> nat) option" where
  "bits_loop byteval bitmask shifter pos acc =
     (if bitmask < 128 then
        let bitmask' = push_bit shifter 1;
            acc' = (if byteval AND bitmask' = 0 then acc @ [pos] else acc)
        in bits_loop byteval bitmask' (shifter + 1) (pos + 1) acc'
      else ret (acc, pos))"

fun unallocated_from :: "byte list \<Rightarrow> nat \<Rightarrow> nat list \<Rightarrow> nat list go" where
  "unallocated_from [] pos acc = ret acc"
| "unallocated_from (byteval # rest) pos acc =
     gbind (bits_loop byteval 1 0 pos acc) (\<lambda>(acc', pos'). unallocated_from rest pos' acc')"

definition GetUnallocatedClusters :: "BitMap \<Rightarrow> nat list go" where
  "GetUnallocatedClusters bitmap = unallocated_from (AllocationStatus bitmap) 1 []"

section \<open>Data, volume and object attributes\<close>

record DATA =
  Content :: "byte list"

definition DATA_Parse :: "slice \<Rightarrow> DATA \<Rightarrow> DATA go" where
  "DATA_Parse datab data = ret (data\<lparr>Content := bytes datab\<rparr>)"

record VolumeName =
  vn_Name :: string

definition VolumeName_Parse :: "slice \<Rightarrow> VolumeName \<Rightarrow> VolumeName go" where
  "VolumeName_Parse data volName = ret (volName\<lparr>vn_Name := byte_string (bytes data)\<rparr>)"

record VolumeInfo =
  vi_F1 :: u64
  MajVer :: u8
  MinVer :: u8
  vi_Flags :: u16
  vi_F2 :: u32

definition VolumeInfo_layout :: layout where
  "VolumeInfo_layout = [(''F1'', Kuint64), (''MajVer'', Kuint8), (''MinVer'', Kuint8),
     (''Flags'', Kuint16), (''F2'', Kuint32), (''Header'', Kother)]"

definition zero_VolumeInfo :: VolumeInfo where
  "zero_VolumeInfo = \<lparr>vi_F1 = 0, MajVer = 0, MinVer = 0, vi_Flags = 0, vi_F2 = 0\<rparr>"

definition set_VolumeInfo :: "val list \<Rightarrow> VolumeInfo \<Rightarrow> VolumeInfo" where
  "set_VolumeInfo v i = i\<lparr>vi_F1 := put_u64 (v ! 0) (vi_F1 i), MajVer := put_u8 (v ! 1) (MajVer i),
     MinVer := put_u8 (v ! 2) (MinVer i), vi_Flags := put_u16 (v ! 3) (vi_Flags i),
     vi_F2 := put_u32 (v ! 4) (vi_F2 i)\<rparr>"

definition VolumeInfo_Parse :: "slice \<Rightarrow> VolumeInfo \<Rightarrow> VolumeInfo go" where
  "VolumeInfo_Parse data volInfo = unmarshal_into VolumeInfo_layout set_VolumeInfo volInfo data"

record ObjectID =
  ObjGUID :: "byte list"
  OrigVolGUID :: "byte list"
  OrigObjGUID :: "byte list"
  OrigDomGUID :: "byte list"

definition ObjectID_layout :: layout where
  "ObjectID_layout = [(''ObjGUID'', Karray 16), (''OrigVolGUID'', Karray 16),
     (''OrigObjGUID'', Karray 16), (''OrigDomGUID'', Karray 16), (''Header'', Kother)]"

definition zero_ObjectID :: ObjectID where
  "zero_ObjectID = \<lparr>ObjGUID = replicate 16 0, OrigVolGUID = replicate 16 0,
     OrigObjGUID = replicate 16 0, OrigDomGUID = replicate 16 0\<rparr>"

definition set_ObjectID :: "val list \<Rightarrow> ObjectID \<Rightarrow> ObjectID" where
  "set_ObjectID v i = i\<lparr>ObjGUID := put_arr (v ! 0) (ObjGUID i),
     OrigVolGUID := put_arr (v ! 1) (OrigVolGUID i), OrigObjGUID := put_arr (v ! 2) (OrigObjGUID i),
     OrigDomGUID := put_arr (v ! 3) (OrigDomGUID i)\<rparr>"

definition ObjectID_Parse :: "slice \<Rightarrow> ObjectID \<Rightarrow> ObjectID go" where
  "ObjectID_Parse data objectId = unmarshal_into ObjectID_layout set_ObjectID objectId data"

section \<open>Reparse points, extended attributes, logged utility streams\<close>

record Reparse =
  rp_Flags :: u32
  rp_Size :: u16
  Unused :: "byte list"
  TargetNameOffset :: u16
  TargetLen :: u16
  TargetPrintNameOffset :: u16
  TargetPrintNameLen :: u16
  rp_Name :: string
  PrintName :: string

definition Reparse_layout :: layout where
  "Reparse_layout = [(''Flags'', Kuint32), (''Size'', Kuint16), (''Unused'', Karray 2),
     (''TargetNameOffset'', Kother), (''TargetLen'', Kuint16), (''TargetPrintNameOffset'', Kother),
     (''TargetPrintNameLen'', Kuint16), (''Header'', Kother), (''Name'', Kother),
     (''PrintName'', Kother)]"

definition zero_Reparse :: Reparse where
  "zero_Reparse = \<lparr>rp_Flags = 0, rp_Size = 0, Unused = [0, 0], TargetNameOffset = 0, TargetLen = 0,
     TargetPrintNameOffset = 0, TargetPrintNameLen = 0, rp_Name = [], PrintName = []\<rparr>"

definition set_Reparse :: "val list \<Rightarrow> Reparse \<Rightarrow> Reparse" where
  "set_Reparse v r = r\<lparr>rp_Flags := put_u32 (v ! 0) (rp_Flags r), rp_Size := put_u16 (v ! 1) (rp_Size r),
     Unused := put_arr (v ! 2) (Unused r), TargetLen := put_u16 (v ! 4) (TargetLen r),
     TargetPrintNameLen := put_u16 (v ! 6) (TargetPrintNameLen r)\<rparr>"

definition Reparse_Parse :: "slice \<Rightarrow> Reparse \<Rightarrow> Reparse go" where
  "Reparse_Parse data reparse =
     gbind (sub data 0 16) (\<lambda>d.
     gbind (unmarshal_into Reparse_layout set_Reparse reparse d) (\<lambda>r.
     if slen data < 16 then ret r
     else
       gbind (sub data (unat (16 + TargetNameOffset r)) (unat (16 + TargetNameOffset r + TargetLen r))) (\<lambda>nm.
       let r' = r\<lparr>rp_Name := DecodeUTF16 (bytes nm)\<rparr> in
       gbind (sub data (unat (16 + TargetPrintNameOffset r)) (unat (16 + TargetPrintNameLen r))) (\<lambda>pn.
         ret (r'\<lparr>PrintName := DecodeUTF16 (bytes pn)\<rparr>)))))"

record EA_INFORMATION =
  SizeOfEntry :: u16
  NofEA :: u16
  ea_Size :: u32

definition EA_INFORMATION_layout :: layout where
  "EA_INFORMATION_layout = [(''SizeOfEntry'', Kuint16), (''NofEA'', Kuint16), (''Size'', Kuint32),
     (''Header'', Kother)]"

definition zero_EA_INFORMATION :: EA_INFORMATION where
  "zero_EA_INFORMATION = \<lparr>SizeOfEntry = 0, NofEA = 0, ea_Size = 0\<rparr>"

definition set_EA_INFORMATION :: "val list \<Rightarrow> EA_INFORMATION \<Rightarrow> EA_INFORMATION" where
  "set_EA_INFORMATION v i = i\<lparr>SizeOfEntry := put_u16 (v ! 0) (SizeOfEntry i),
     NofEA := put_u16 (v ! 1) (NofEA i), ea_Size := put_u32 (v ! 2) (ea_Size i)\<rparr>"

definition EA_INFORMATION_Parse :: "slice \<Rightarrow> EA_INFORMATION \<Rightarrow> EA_INFORMATION go" where
  "EA_INFORMATION_Parse data ea_info = unmarshal_into EA_INFORMATION_layout set_EA_INFORMATION ea_info data"

record ExtendedAttribute =
  NextAttrOffset :: u32
  xa_Flags :: u8
  NofChars :: u8
  DataSize :: u16
  xa_Name :: "byte list"
  xa_Value :: "byte list"

definition ExtendedAttribute_layout :: layout where
  "ExtendedAttribute_layout = [(''NextAttrOffset'', Kother), (''Flags'', Kuint8), (''NofChars'', Kuint8),
     (''DataSize'', Kuint16), (''Name'', Kother), (''Value'', Kother), (''Header'', Kother)]"

definition zero_ExtendedAttribute :: ExtendedAttribute where
  "zero_ExtendedAttribute = \<lparr>NextAttrOffset = 0, xa_Flags = 0, NofChars = 0, DataSize = 0,
     xa_Name = [], xa_Value = []\<rparr>"

definition set_ExtendedAttribute :: "val list \<Rightarrow> ExtendedAttribute \<Rightarrow> ExtendedAttribute" where
  "set_ExtendedAttribute v e = e\<lparr>xa_Flags := put_u8 (v ! 1) (xa_Flags e),
     NofChars := put_u8 (v ! 2) (NofChars e), DataSize := put_u16 (v ! 3) (DataSize e)\<rparr>"

definition ExtendedAttribute_Parse :: "slice \<Rightarrow> ExtendedAttribute \<Rightarrow> ExtendedAttribute go" where
  "ExtendedAttribute_Parse data ea =
     unmarshal_into ExtendedAttribute_layout set_ExtendedAttribute ea data"

record TXFDATA =
  tx_ParRef :: u64
  tx_ParSeq :: u16
  tx_Flags :: "byte list"
  tx_USN :: u64
  TxId :: u64
  LSN_NTFS_Metadata :: u64
  LSN_User_Data :: u64
  LSN_Directory_Index :: u64

definition TXFDATA_layout :: layout where
  "TXFDATA_layout = [(''ParRef'', Kuint64), (''ParSeq'', Kuint16), (''Flags'', Karray 8),
     (''USN'', Kuint64), (''TxId'', Kuint64), (''LSN_NTFS_Metadata'', Kuint64),
     (''LSN_User_Data'', Kuint64), (''LSN_Directory_Index'', Kuint64)]"

definition zero_TXFDATA :: TXFDATA where
  "zero_TXFDATA = \<lparr>tx_ParRef = 0, tx_ParSeq = 0, tx_Flags = replicate 8 0, tx_USN = 0, TxId = 0,
     LSN_NTFS_Metadata = 0, LSN_User_Data = 0, LSN_Directory_Index = 0\<rparr>"

definition set_TXFDATA :: "val list \<Rightarrow> TXFDATA \<Rightarrow> TXFDATA" where
  "set_TXFDATA v t = t\<lparr>tx_ParRef := put_u64 (v ! 0) (tx_ParRef t), tx_ParSeq := put_u16 (v ! 1) (tx_ParSeq t),
     tx_Flags := put_arr (v ! 2) (tx_Flags t), tx_USN := put_u64 (v ! 3) (tx_USN t),
     TxId := put_u64 (v ! 4) (TxId t), LSN_NTFS_Metadata := put_u64 (v ! 5) (LSN_NTFS_Metadata t),
     LSN_User_Data := put_u64 (v ! 6) (LSN_User_Data t),
     LSN_Directory_Index := put_u64 (v ! 7) (LSN_Directory_Index t)\<rparr>"

record LoggedUtilityStream =
  Kind :: string
  lu_TXFDATA :: "TXFDATA option"

definition LoggedUtilityStream_Parse :: "slice \<Rightarrow> LoggedUtilityStream \<Rightarrow> LoggedUtilityStream go" where
  "LoggedUtilityStream_Parse data lu =
     (if Kind lu = ''$TXF_DATA'' then
        gbind (unmarshal_into TXFDATA_layout set_TXFDATA zero_TXFDATA data) (\<lambda>t.
          ret (lu\<lparr>lu_TXFDATA := Some t\<rparr>))
      else ret lu)"

section \<open>The bitmap\<close>

lemma and_mask_zero:
  "b AND (1 :: byte) = 0 \<longleftrightarrow> \<not> bit b 0" "b AND (2 :: byte) = 0 \<longleftrightarrow> \<not> bit b 1"
  "b AND (4 :: byte) = 0 \<longleftrightarrow> \<not> bit b 2" "b AND (8 :: byte) = 0 \<longleftrightarrow> \<not> bit b 3"
  "b AND (16 :: byte) = 0 \<longleftrightarrow> \<not> bit b 4" "b AND (32 :: byte) = 0 \<longleftrightarrow> \<not> bit b 5"
  "b AND (64 :: byte) = 0 \<longleftrightarrow> \<not> bit b 6" "b AND (128 :: byte) = 0 \<longleftrightarrow> \<not> bit b 7"
  using and_exp_eq_0_iff_not_bit [of b 0] and_exp_eq_0_iff_not_bit [of b 1]
    and_exp_eq_0_iff_not_bit [of b 2] and_exp_eq_0_iff_not_bit [of b 3]
    and_exp_eq_0_iff_not_bit [of b 4] and_exp_eq_0_iff_not_bit [of b 5]
    and_exp_eq_0_iff_not_bit [of b 6] and_exp_eq_0_iff_not_bit [of b 7]
  by simp_all

lemma bits_loop_step:
  assumes "m < 128" "push_bit k 1 = m'" "b AND m' = 0 \<longleftrightarrow> \<not> bit b k"
    and "k' = k + 1" "pos' = pos + 1" "acc' = acc @ filter (\<lambda>_. \<not> bit b k) [pos]"
  shows "bits_loop b m k pos acc = bits_loop b m' k' pos' acc'"
  using assms by (subst bits_loop.simps) (simp add: Let_def)

lemma bits_loop_byte:
  "bits_loop b 1 0 pos acc = ret (acc @ filter (\<lambda>p. \<not> bit b (p - pos)) [pos..<pos + 8], pos + 8)"
proof -
  let ?ps = "[pos, pos + 1, pos + 2, pos + 3, pos + 4, pos + 5, pos + 6, pos + 7]"
  let ?c = "\<lambda>k. filter (\<lambda>p. \<not> bit b (p - pos)) (take k ?ps)"
  have upt: "[pos..<pos + 8] = ?ps"
    by (simp add: upt_rec numeral_eq_Suc)
  have "bits_loop b 1 0 pos acc = bits_loop b 1 1 (pos + 1) (acc @ ?c 1)"
    by (rule bits_loop_step) (simp_all add: and_mask_zero)
  also have "\<dots> = bits_loop b 2 2 (pos + 2) (acc @ ?c 2)"
    by (rule bits_loop_step) (simp_all add: and_mask_zero)
  also have "\<dots> = bits_loop b 4 3 (pos + 3) (acc @ ?c 3)"
    by (rule bits_loop_step) (simp_all add: and_mask_zero)
  also have "\<dots> = bits_loop b 8 4 (pos + 4) (acc @ ?c 4)"
    by (rule bits_loop_step) (simp_all add: and_mask_zero)
  also have "\<dots> = bits_loop b 16 5 (pos + 5) (acc @ ?c 5)"
    by (rule bits_loop_step) (simp_all add: and_mask_zero)
  also have "\<dots> = bits_loop b 32 6 (pos + 6) (acc @ ?c 6)"
    by (rule bits_loop_step) (simp_all add: and_mask_zero)
  also have "\<dots> = bits_loop b 64 7 (pos + 7) (acc @ ?c 7)"
    by (rule bits_loop_step) (simp_all add: and_mask_zero)
  also have "\<dots> = bits_loop b 128 8 (pos + 8) (acc @ ?c 8)"
    by (rule bits_loop_step) (simp_all add: and_mask_zero)
  also have "\<dots> = ret (acc @ ?c 8, pos + 8)"
    by (subst bits_loop.simps) simp
  finally show ?thesis unfolding upt by simp
qed

text \<open>The bit of a bitmap at a 1-based position.\<close>

definition bitmap_bit :: "byte list \<Rightarrow> nat \<Rightarrow> bool" where
  "bitmap_bit bs p = bit (bs ! ((p - 1) div 8)) ((p - 1) mod 8)"

lemma unallocated_from_eq:
  assumes "pos = 8 * length pre + 1"
  shows "unallocated_from bs pos acc =
    ret (acc @ filter (\<lambda>p. \<not> bitmap_bit (pre @ bs) p) [pos..<pos + 8 * length bs])"
  using assms
proof (induction bs arbitrary: pos pre acc)
  case (Cons b bs)
  have "bitmap_bit (pre @ b # bs) p = bit b (p - pos)" if "p \<in> {pos..<pos + 8}" for p
  proof -
    define q where "q = p - pos"
    with that Cons.prems have "q < 8" and p: "p - 1 = 8 * length pre + q" by auto
    then have "(p - 1) div 8 = length pre" "(p - 1) mod 8 = q" by auto
    then show ?thesis by (simp add: bitmap_bit_def q_def)
  qed
  then have here: "filter (\<lambda>p. \<not> bit b (p - pos)) [pos..<pos + 8] =
      filter (\<lambda>p. \<not> bitmap_bit (pre @ b # bs) p) [pos..<pos + 8]"
    by (intro filter_cong) auto
  have "unallocated_from bs (pos + 8) (acc @ filter (\<lambda>p. \<not> bit b (p - pos)) [pos..<pos + 8]) =
      ret ((acc @ filter (\<lambda>p. \<not> bit b (p - pos)) [pos..<pos + 8]) @
        filter (\<lambda>p. \<not> bitmap_bit ((pre @ [b]) @ bs) p) [pos + 8..<(pos + 8) + 8 * length bs])"
    using Cons.prems by (intro Cons.IH) simp
  moreover have "[pos..<pos + 8 * length (b # bs)] = [pos..<pos + 8] @ [pos + 8..<(pos + 8) + 8 * length bs]"
    using upt_add_eq_append [of pos "pos + 8" "8 * length bs"] by (simp add: add.assoc)
  ultimately show ?case by (simp add: bits_loop_byte here)
qed simp

lemma GetUnallocatedClusters_filter:
  "GetUnallocatedClusters bm = ret (filter (\<lambda>p. \<not> bitmap_bit (AllocationStatus bm) p) [1..<1 + 8 * length (AllocationStatus bm)])"
  using unallocated_from_eq [of 1 "[]" "AllocationStatus bm" "[]"] by (simp add: GetUnallocatedClusters_def)

lemma clusters_sorted: "GetUnallocatedClusters bm = ret cs \<Longrightarrow> sorted_wrt (<) cs"
  using sorted_wrt_filter [OF sorted_wrt_upt] by (metis GetUnallocatedClusters_filter ret_inject)

text \<open>\<open>GetUnallocatedClusters\<close> returns, for every bitmap, exactly the positions of the clear bits
  in increasing order, each once, counted from 1: cluster \<open>c\<close> of the volume (bit \<open>c\<close>, least
  significant bit of each byte first) is reported as \<open>c + 1\<close>.\<close>

theorem GetUnallocatedClusters_spec:
  "\<exists>cs. GetUnallocatedClusters bm = ret cs \<and> sorted_wrt (<) cs \<and>
     set cs = {c + 1 | c. c < 8 * length (AllocationStatus bm) \<and>
       \<not> bit (AllocationStatus bm ! (c div 8)) (c mod 8)}"
proof (intro exI conjI)
  let ?bs = "AllocationStatus bm"
  let ?cs = "filter (\<lambda>p. \<not> bitmap_bit ?bs p) [1..<1 + 8 * length ?bs]"
  show "GetUnallocatedClusters bm = ret ?cs"
    by (rule GetUnallocatedClusters_filter)
  show "sorted_wrt (<) ?cs" by (intro sorted_wrt_filter sorted_wrt_upt)
  show "set ?cs = {c + 1 | c. c < 8 * length ?bs \<and> \<not> bit (?bs ! (c div 8)) (c mod 8)}"
  proof -
    have "p \<in> set ?cs \<longleftrightarrow> (\<exists>c. p = c + 1 \<and> c < 8 * length ?bs \<and> \<not> bit (?bs ! (c div 8)) (c mod 8))"
      for p by (cases p) (auto simp: bitmap_bit_def)
    then show ?thesis by blast
  qed
qed

section \<open>The attribute list\<close>

lemma AttributeList_entry_Type: "AttributeList_entry data off = ret a \<Longrightarrow> al_Type a = []"
  by (auto simp: AttributeList_entry_def unmarshal_into_def set_AttributeList_def
      zero_AttributeList_def Let_def)

lemma AttributeListEntries_loop_Type:
  assumes "AttributeListEntries_loop data off es = Some r" and "\<forall>e \<in> set es. al_Type e = []"
    and "r = Inr es'"
  shows "\<forall>e \<in> set es'. al_Type e = []"
proof -
  have "(\<forall>e \<in> set es. al_Type e = []) \<longrightarrow> (\<forall>es'. r = Inr es' \<longrightarrow> (\<forall>e \<in> set es'. al_Type e = []))"
  proof (rule AttributeListEntries_loop.raw_induct [OF _ assms(1)])
    fix loop data off es r
    assume IH: "\<And>data off es r. loop data off es = Some r \<Longrightarrow>
        (\<forall>e \<in> set es. al_Type e = []) \<longrightarrow> (\<forall>es'. r = Inr es' \<longrightarrow> (\<forall>e \<in> set es'. al_Type e = []))"
      and eq: "(if 24 + off < of_nat (slen data) \<and> off < 65535 - 24 then
        gbind (AttributeList_entry data off) (\<lambda>a.
          let entries' = es @ [a]; attrLen' = off + al_Len a in
          if attrLen' = 0 \<or> al_Len a = 0 then ret entries' else loop data attrLen' entries')
      else ret es) = Some r"
    show "(\<forall>e \<in> set es. al_Type e = []) \<longrightarrow> (\<forall>es'. r = Inr es' \<longrightarrow> (\<forall>e \<in> set es'. al_Type e = []))"
    proof (cases "24 + off < of_nat (slen data) \<and> off < 65535 - 24")
      case False
      with eq show ?thesis by (auto simp: ret_def)
    next
      case True
      show ?thesis
      proof (cases "AttributeList_entry data off" rule: go_cases)
        case (returned a)
        then have "al_Type a = []" by (rule AttributeList_entry_Type)
        with True eq returned IH [of data "off + al_Len a" "es @ [a]" r] show ?thesis
          by (auto simp: Let_def ret_def split: if_splits)
      qed (use True eq in \<open>auto simp: panic_def\<close>)
    qed
  qed
  with assms(2,3) show ?thesis by blast
qed

lemma AttributeListEntries_untyped:
  assumes "AttributeListEntries_Parse data [] = ret es" and "e \<in> set es"
  shows "AttributeList_GetType e = []"
proof -
  have "al_Type e = []"
    using AttributeListEntries_loop_Type [of data 0 "[]" "Inr es" es] assms
    by (auto simp: AttributeListEntries_Parse_def ret_def)
  then show ?thesis by (simp add: AttributeList_GetType_def lookup_str_def AttrTypes_def)
qed

section \<open>File names on disk\<close>

definition FNAttribute_disk :: layout where
  "FNAttribute_disk = take 12 FNAttribute_layout"

definition FNAttribute_values :: "FNAttribute \<Rightarrow> val list" where
  "FNAttribute_values f = [VU64 (fn_ParRef f), VU16 (fn_ParSeq f), VWin (fn_Crtime f), VWin (fn_Mtime f),
     VWin (fn_MFTmtime f), VWin (fn_Atime f), VU64 (AllocFsize f), VU64 (RealFsize f),
     VU32 (fn_Flags f), VU32 (fn_Reparse f), VU8 (fn_Nlen f), VU8 (Nspace f)]"

definition encode_FNAttribute :: "FNAttribute \<Rightarrow> nat list \<Rightarrow> byte list" where
  "encode_FNAttribute f rs = marshal FNAttribute_disk (FNAttribute_values f) @ encode_utf16 rs"

lemma FNAttribute_layout_split:
  "FNAttribute_layout = FNAttribute_disk @
     [(''Fname'', Kother), (''HexFlag'', Kbool), (''UnicodeHack'', Kbool), (''Header'', Kother)]"
  by (simp add: FNAttribute_disk_def FNAttribute_layout_def)

lemma FNAttribute_disk_facts:
  "layout_size FNAttribute_disk = 66" "plain_layout FNAttribute_disk"
  "unat (fn_ParRef f) < 256 ^ 6 \<Longrightarrow> all_fit FNAttribute_disk (FNAttribute_values f)"
  by (simp_all add: FNAttribute_disk_def FNAttribute_layout_def plain_layout_def FNAttribute_values_def)

lemma set_FNAttribute_values:
  "set_FNAttribute (map decoded (FNAttribute_values f) @ [VKeep, VBool False, VBool False, VKeep]) f0 =
    f\<lparr>Fname := Fname f0, HexFlag := False, UnicodeHack := False\<rparr>"
  by (simp add: set_FNAttribute_def FNAttribute_values_def)

text \<open>C17: Round trip of a file name attribute. Parsing the 66-byte structure followed by the UTF-16
  name gives back every field (48-bit parent reference, sequence number, four timestamps, both
  sizes, flags, name space) and the name, for any sequence of Unicode scalars with the stated
  number of UTF-16 units, wherever the slice's length lies and whatever the receiver held.\<close>

theorem FNAttribute_roundtrip:
  assumes "unat (fn_ParRef f) < 2 ^ 48" and "\<forall>r \<in> set rs. scalar r"
    and "length (concat (map utf16_rune rs)) = unat (fn_Nlen f)"
  shows "FNAttribute_Parse (Slice (encode_FNAttribute f rs @ rest) n) f0 =
    ret (f\<lparr>Fname := utf8_string rs, HexFlag := False, UnicodeHack := False\<rparr>)"
proof -
  let ?m = "marshal FNAttribute_disk (FNAttribute_values f)"
  let ?xs = "encode_FNAttribute f rs @ rest"
  have fit: "all_fit FNAttribute_disk (FNAttribute_values f)"
    using assms(1) by (simp add: FNAttribute_disk_facts)
  then have len: "length ?m = 66" by (simp add: length_marshal FNAttribute_disk_facts)
  have "Unmarshal FNAttribute_layout (Slice ?xs 66) =
      ret (map decoded (FNAttribute_values f) @ [VKeep, VBool False, VBool False, VKeep], 68, True)"
    unfolding FNAttribute_layout_split
    using Unmarshal_prefix [OF fit, of "[(''Fname'', Kother), (''HexFlag'', Kbool),
        (''UnicodeHack'', Kbool), (''Header'', Kother)]" "Slice ?xs 66"] len
    by (simp add: FNAttribute_disk_facts wf_slice_def encode_FNAttribute_def)
  then have un: "unmarshal_into FNAttribute_layout set_FNAttribute f0 (Slice ?xs 66) =
      ret (f\<lparr>Fname := Fname f0, HexFlag := False, UnicodeHack := False\<rparr>)"
    by (simp add: unmarshal_into_def set_FNAttribute_values)
  have nlen: "unat (2 * ucast (fn_Nlen f) :: u16) = 2 * unat (fn_Nlen f)"
    using unat_u8_less [of "fn_Nlen f"] by (simp add: unat_word_ariths)
  have "take (2 * unat (fn_Nlen f)) (drop 66 ?xs) = encode_utf16 rs"
    using len assms(3) length_encode_utf16 [of rs] by (simp add: encode_FNAttribute_def)
  moreover have "66 + 2 * unat (fn_Nlen f) \<le> length ?xs"
    using len assms(3) length_encode_utf16 [of rs] by (simp add: encode_FNAttribute_def)
  ultimately show ?thesis
    using DecodeUTF16_encode [OF assms(2)]
    by (simp add: FNAttribute_Parse_def sub_def un nlen bytes_def)
qed

theorem FNAttribute_roundtrip_witness:
  "FNAttribute_Parse (Slice (encode_FNAttribute (zero_FNAttribute\<lparr>fn_ParRef := 5, fn_Nlen := 3\<rparr>)
      [0x61, 0x1F600] @ [0xff]) 0) zero_FNAttribute =
   ret (zero_FNAttribute\<lparr>fn_ParRef := 5, fn_Nlen := 3, Fname := utf8_string [0x61, 0x1F600]\<rparr>)"
  using FNAttribute_roundtrip [of "zero_FNAttribute\<lparr>fn_ParRef := 5, fn_Nlen := 3\<rparr>" "[0x61, 0x1F600]" "[0xff]" 0
      zero_FNAttribute]
  by (simp add: scalar_def utf16_rune_def zero_FNAttribute_def)

end
