(* ===== verification/Index.thy ===== *)
theory Index
  imports Attributes "HOL-Library.Multiset"
begin

text \<open>
  \<open>FS/NTFS/MFT/attributes/indexattributes.go\<close>: the directory index, its resident root and
  its non-resident allocation, and the list of entries they hold.
\<close>

section \<open>Index entries\<close>

record IndexEntry =
  ie_ParRef :: u64
  ie_ParSeq :: u16
  ie_Len :: u16
  ContentLen :: u16
  ie_Flags :: u32
  ChildVCN :: i64
  Fnattr :: "FNAttribute option"

type_synonym IndexEntries = "IndexEntry list"

definition IndexFlags :: "(u32 \<times> string) list" where
  "IndexFlags = [(1, ''Has VCN''), (2, ''Last'')]"

definition IndexEntry_layout :: layout where
  "IndexEntry_layout = [(''ParRef'', Kuint64), (''ParSeq'', Kuint16), (''Len'', Kuint16),
     (''ContentLen'', Kuint16), (''Flags'', Kuint32), (''ChildVCN'', Kint64), (''Fnattr'', Kother)]"

definition zero_IndexEntry :: IndexEntry where
  "zero_IndexEntry = \<lparr>ie_ParRef = 0, ie_ParSeq = 0, ie_Len = 0, ContentLen = 0, ie_Flags = 0,
     ChildVCN = 0, Fnattr = None\<rparr>"

definition set_IndexEntry :: "val list \<Rightarrow> IndexEntry \<Rightarrow> IndexEntry" where
  "set_IndexEntry v e = e\<lparr>ie_ParRef := put_u64 (v ! 0) (ie_ParRef e),
     ie_ParSeq := put_u16 (v ! 1) (ie_ParSeq e), ie_Len := put_u16 (v ! 2) (ie_Len e),
     ContentLen := put_u16 (v ! 3) (ContentLen e), ie_Flags := put_u32 (v ! 4) (ie_Flags e),
     ChildVCN := put_i64 (v ! 5) (ChildVCN e)\<rparr>"

definition IndexEntry_Parse :: "slice \<Rightarrow> IndexEntry go" where
  "IndexEntry_Parse data =
     gbind (sub data 0 16) (\<lambda>d.
     gbind (unmarshal_into IndexEntry_layout set_IndexEntry zero_IndexEntry d) (\<lambda>e.
     gbind (if lookup_str IndexFlags (ie_Flags e) = ''Has VCN'' then
              gbind (sub data (unat (16 + ie_Len e - 8)) (unat (16 + ie_Len e))) (\<lambda>c.
                ret (e\<lparr>ChildVCN := ReadEndianInt (bytes c)\<rparr>))
            else ret e) (\<lambda>e.
     if ContentLen e > 0 then
       gbind (sub data 16 (16 + unat (ContentLen e))) (\<lambda>c.
       gbind (unmarshal_into FNAttribute_layout set_FNAttribute zero_FNAttribute c) (\<lambda>f.
       gbind (sub data (16 + 66) (16 + 66 + 2 * unat (fn_Nlen f))) (\<lambda>nm.
         ret (e\<lparr>Fnattr := Some (f\<lparr>Fname := DecodeUTF16 (bytes nm)\<rparr>)\<rparr>))))
     else ret e)))"

text \<open>The loop of \<open>Parse\<close>: the offset is a 16-bit counter.\<close>

partial_function (option) Index_loop ::
  "slice \<Rightarrow> u16 \<Rightarrow> IndexEntries \<Rightarrow> (crash + IndexEntries) option" where
  "Index_loop data idxEntryOffset idxEntries =
     (if idxEntryOffset < of_nat (slen data) then
        gbind (sub_from data (unat idxEntryOffset)) (\<lambda>d.
        gbind (IndexEntry_Parse d) (\<lambda>e.
          Index_loop data (idxEntryOffset + ie_Len e) (idxEntries @ [e])))
      else ret idxEntries)"

definition Index_Parse :: "slice \<Rightarrow> IndexEntries go" where
  "Index_Parse data = Index_loop data 0 []"

section \<open>Index root and index allocation\<close>

record NodeHeader =
  OffsetEntryList :: u32
  OffsetEndUsedEntryList :: u32
  OffsetEndEntryListBuffer :: u32
  nh_Flags :: u32

record IndexRoot =
  ir_Type :: "byte list"
  CollationSortingRule :: "byte list"
  Sizebytes :: u32
  Sizeclusters :: u8
  ir_Nodeheader :: "NodeHeader option"
  ir_IndexEntries :: IndexEntries

record IndexAllocation =
  ia_Signature :: string
  FixupArrayOffset :: u16
  NumFixupEntries :: u16
  ia_LSN :: i64
  ia_VCN :: i64
  ia_Nodeheader :: "NodeHeader option"
  ia_IndexEntries :: IndexEntries

definition NodeHeader_layout :: layout where
  "NodeHeader_layout = [(''OffsetEntryList'', Kuint32), (''OffsetEndUsedEntryList'', Kuint32),
     (''OffsetEndEntryListBuffer'', Kuint32), (''Flags'', Kuint32)]"

definition IndexRoot_layout :: layout where
  "IndexRoot_layout = [(''Type'', Karray 4), (''CollationSortingRule'', Karray 4),
     (''Sizebytes'', Kuint32), (''Sizeclusters'', Kuint8), (''Nodeheader'', Kother),
     (''Header'', Kother), (''IndexEntries'', Kother)]"

definition IndexAllocation_layout :: layout where
  "IndexAllocation_layout = [(''Signature'', Kother), (''FixupArrayOffset'', Kother),
     (''NumFixupEntries'', Kother), (''LSN'', Kint64), (''VCN'', Kint64), (''Nodeheader'', Kother),
     (''Header'', Kother), (''IndexEntries'', Kother)]"

definition zero_NodeHeader :: NodeHeader where
  "zero_NodeHeader = \<lparr>OffsetEntryList = 0, OffsetEndUsedEntryList = 0, OffsetEndEntryListBuffer = 0,
     nh_Flags = 0\<rparr>"

definition zero_IndexRoot :: IndexRoot where
  "zero_IndexRoot = \<lparr>ir_Type = [0, 0, 0, 0], CollationSortingRule = [0, 0, 0, 0], Sizebytes = 0,
     Sizeclusters = 0, ir_Nodeheader = None, ir_IndexEntries = []\<rparr>"

definition zero_IndexAllocation :: IndexAllocation where
  "zero_IndexAllocation = \<lparr>ia_Signature = [], FixupArrayOffset = 0, NumFixupEntries = 0, ia_LSN = 0,
     ia_VCN = 0, ia_Nodeheader = None, ia_IndexEntries = []\<rparr>"

definition set_NodeHeader :: "val list \<Rightarrow> NodeHeader \<Rightarrow> NodeHeader" where
  "set_NodeHeader v n = n\<lparr>OffsetEntryList := put_u32 (v ! 0) (OffsetEntryList n),
     OffsetEndUsedEntryList := put_u32 (v ! 1) (OffsetEndUsedEntryList n),
     OffsetEndEntryListBuffer := put_u32 (v ! 2) (OffsetEndEntryListBuffer n),
     nh_Flags := put_u32 (v ! 3) (nh_Flags n)\<rparr>"

definition set_IndexRoot :: "val list \<Rightarrow> IndexRoot \<Rightarrow> IndexRoot" where
  "set_IndexRoot v r = r\<lparr>ir_Type := put_arr (v ! 0) (ir_Type r),
     CollationSortingRule := put_arr (v ! 1) (CollationSortingRule r),
     Sizebytes := put_u32 (v ! 2) (Sizebytes r), Sizeclusters := put_u8 (v ! 3) (Sizeclusters r)\<rparr>"

definition set_IndexAllocation :: "val list \<Rightarrow> IndexAllocation \<Rightarrow> IndexAllocation" where
  "set_IndexAllocation v a = a\<lparr>ia_LSN := put_i64 (v ! 3) (ia_LSN a), ia_VCN := put_i64 (v ! 4) (ia_VCN a)\<rparr>"

definition IndexRoot_Parse :: "slice \<Rightarrow> IndexRoot \<Rightarrow> IndexRoot go" where
  "IndexRoot_Parse data idxRoot =
     gbind (sub data 0 12) (\<lambda>d.
     gbind (unmarshal_into IndexRoot_layout set_IndexRoot idxRoot d) (\<lambda>r.
     gbind (sub data 16 32) (\<lambda>n.
     gbind (unmarshal_into NodeHeader_layout set_NodeHeader zero_NodeHeader n) (\<lambda>nodeheader.
     let r' = r\<lparr>ir_Nodeheader := Some nodeheader\<rparr>;
         idxEntryOffset = 16 + (ucast (OffsetEntryList nodeheader) :: u16) in
     gbind (sub data (unat idxEntryOffset) (unat (OffsetEndUsedEntryList nodeheader))) (\<lambda>entries.
     gbind (Index_Parse entries) (\<lambda>es. ret (r'\<lparr>ir_IndexEntries := es\<rparr>)))))))"

definition IndexAllocation_Parse :: "slice \<Rightarrow> IndexAllocation \<Rightarrow> IndexAllocation go" where
  "IndexAllocation_Parse data idxAllocation =
     gbind (sub data 0 24) (\<lambda>d.
     gbind (unmarshal_into IndexAllocation_layout set_IndexAllocation idxAllocation d) (\<lambda>a.
     if ia_Signature a = ''INDX'' then
       gbind (sub data 24 (24 + 16)) (\<lambda>n.
       gbind (unmarshal_into NodeHeader_layout set_NodeHeader zero_NodeHeader n) (\<lambda>nodeheader.
       let a' = a\<lparr>ia_Nodeheader := Some nodeheader\<rparr>;
           idxEntryOffset = OffsetEntryList nodeheader + 24 in
       if OffsetEndUsedEntryList nodeheader > idxEntryOffset then
         gbind (sub data (unat idxEntryOffset) (unat (OffsetEndUsedEntryList nodeheader))) (\<lambda>entries.
         gbind (Index_Parse entries) (\<lambda>es. ret (a'\<lparr>ia_IndexEntries := es\<rparr>)))
       else ret a'))
     else ret a))"

section \<open>Sorted entries\<close>

text \<open>
  \<open>GetIndexEntriesSortedByMFTEntry\<close> sorts with the standard library's \<open>sort.Sort\<close>, which
  is not stable: the sorting function is an argument of the model, and what the code relies
  on is the contract of \<open>sort.Sort\<close>, a permutation in the order of \<open>Less\<close>.
\<close>

definition ByMFTEntryID_key :: "IndexEntry \<Rightarrow> u64" where
  "ByMFTEntryID_key e = (case Fnattr e of Some f \<Rightarrow> fn_ParRef f | None \<Rightarrow> 0)"

definition ByMFTEntryID_Less :: "IndexEntry \<Rightarrow> IndexEntry \<Rightarrow> bool" where
  "ByMFTEntryID_Less a b \<longleftrightarrow> ByMFTEntryID_key a < ByMFTEntryID_key b"

definition GetIndexEntriesSortedByMFTEntry ::
  "(IndexEntries \<Rightarrow> IndexEntries) \<Rightarrow> IndexEntries \<Rightarrow> IndexEntries" where
  "GetIndexEntriesSortedByMFTEntry srt entries = srt (filter (\<lambda>e. Fnattr e \<noteq> None) entries)"

definition IndexAllocation_GetIndexEntriesSortedByMFTEntry ::
  "(IndexEntries \<Rightarrow> IndexEntries) \<Rightarrow> IndexAllocation \<Rightarrow> IndexEntries" where
  "IndexAllocation_GetIndexEntriesSortedByMFTEntry srt a = GetIndexEntriesSortedByMFTEntry srt (ia_IndexEntries a)"

text \<open>The other two methods that \<open>sort.Sort\<close> uses. Exchanging entries only permutes them, which is the part of the contract
  that holds for every algorithm.\<close>

definition ByMFTEntryID_Len :: "IndexEntries \<Rightarrow> nat" where
  "ByMFTEntryID_Len idxEntries = length idxEntries"

definition ByMFTEntryID_Swap :: "nat \<Rightarrow> nat \<Rightarrow> IndexEntries \<Rightarrow> IndexEntries go" where
  "ByMFTEntryID_Swap i j idxEntries =
     (if i < length idxEntries \<and> j < length idxEntries then ret (idxEntries[i := idxEntries ! j, j := idxEntries ! i])
      else panic Index_out_of_range)"

lemma swaps_permute: "gfold (\<lambda>(i, j). ByMFTEntryID_Swap i j) swaps es = ret es' \<Longrightarrow> mset es' = mset es"
proof (induction swaps arbitrary: es)
  case (Cons x swaps)
  obtain i j where x: "x = (i, j)" by (cases x)
  from Cons.prems obtain es1 where s: "ByMFTEntryID_Swap i j es = ret es1" "gfold (\<lambda>(i, j). ByMFTEntryID_Swap i j) swaps es1 = ret es'"
    by (auto simp: x)
  have "mset es1 = mset es" using s(1) mset_swap [of j es i]
    by (auto simp: ByMFTEntryID_Swap_def list_update_swap split: if_splits)
  with Cons.IH [OF s(2)] show ?case by simp
qed simp

locale sort_contract =
  fixes srt :: "IndexEntries \<Rightarrow> IndexEntries"
  assumes srt_perm: "mset (srt es) = mset es"
    and srt_ordered: "sorted_wrt (\<lambda>a b. \<not> ByMFTEntryID_Less b a) (srt es)"
begin

lemma sorted_entries_set: "set (GetIndexEntriesSortedByMFTEntry srt es) = {e \<in> set es. Fnattr e \<noteq> None}"
  using arg_cong [OF srt_perm, of set_mset] by (auto simp: GetIndexEntriesSortedByMFTEntry_def)

lemma sorted_entries_Fnattr: "e \<in> set (GetIndexEntriesSortedByMFTEntry srt es) \<Longrightarrow> \<exists>f. Fnattr e = Some f"
  using sorted_entries_set by auto

lemma sorted_entries_length:
  "length (GetIndexEntriesSortedByMFTEntry srt es) = length (filter (\<lambda>e. Fnattr e \<noteq> None) es)"
  using arg_cong [OF srt_perm, of size] by (simp add: GetIndexEntriesSortedByMFTEntry_def)

lemma sorted_entries_sorted: "sorted (map ByMFTEntryID_key (GetIndexEntriesSortedByMFTEntry srt es))"
  using srt_ordered [of "filter (\<lambda>e. Fnattr e \<noteq> None) es"]
  by (simp add: GetIndexEntriesSortedByMFTEntry_def ByMFTEntryID_Less_def sorted_map not_less)

end

text \<open>
  The library's algorithm for short slices: insertion sort, moving an element left while it
  is \<open>Less\<close> than its neighbour.
\<close>

fun insert_Less :: "IndexEntry \<Rightarrow> IndexEntries \<Rightarrow> IndexEntries" where
  "insert_Less e [] = [e]"
| "insert_Less e (x # xs) = (if ByMFTEntryID_Less x e then x # insert_Less e xs else e # x # xs)"

fun insertion_sort :: "IndexEntries \<Rightarrow> IndexEntries" where
  "insertion_sort [] = []"
| "insertion_sort (e # es) = insert_Less e (insertion_sort es)"

lemma mset_insert_Less: "mset (insert_Less e es) = add_mset e (mset es)"
  by (induction es) auto

lemma set_insert_Less: "set (insert_Less e es) = insert e (set es)"
  by (induction es) auto

lemma sorted_insert_Less:
  "sorted_wrt (\<lambda>a b. \<not> ByMFTEntryID_Less b a) es \<Longrightarrow>
   sorted_wrt (\<lambda>a b. \<not> ByMFTEntryID_Less b a) (insert_Less e es)"
  by (induction es) (auto simp: set_insert_Less ByMFTEntryID_Less_def)

interpretation short_sort: sort_contract insertion_sort
proof unfold_locales
  show "mset (insertion_sort es) = mset es" for es
    by (induction es) (auto simp: mset_insert_Less)
  show "sorted_wrt (\<lambda>a b. \<not> ByMFTEntryID_Less b a) (insertion_sort es)" for es
    by (induction es) (auto simp: sorted_insert_Less)
qed

section \<open>Walking the entries\<close>

text \<open>The fixed part of an entry, at its offsets; the child VCN field reads behind it.\<close>

lemma unmarshal_IndexEntry_eq:
  "unmarshal_into IndexEntry_layout set_IndexEntry e0 (Slice xs 16) =
    (if 24 \<le> length xs then ret (e0\<lparr>ie_ParRef := of_nat (le_at xs 0 6), ie_ParSeq := of_nat (le_at xs 6 2),
        ie_Len := of_nat (le_at xs 8 2), ContentLen := of_nat (le_at xs 10 2),
        ie_Flags := of_nat (le_at xs 12 4), ChildVCN := of_nat (le_at xs 16 8)\<rparr>)
     else panic Slice_bounds_out_of_range)"
  by (simp add: unmarshal_into_def Unmarshal_def IndexEntry_layout_def read_le_eq set_IndexEntry_def)

lemma IndexEntry_Parse_Len: "IndexEntry_Parse d = ret e \<Longrightarrow> ie_Len e = of_nat (le_at (arr d) 8 2)"
  by (auto simp: IndexEntry_Parse_def sub_eq_ret unmarshal_IndexEntry_eq gbind_eq_ret split: if_splits)

definition entry_at :: "slice \<Rightarrow> nat \<Rightarrow> IndexEntry go" where
  "entry_at data p = gbind (sub_from data p) IndexEntry_Parse"

fun offsets :: "nat \<Rightarrow> byte list list \<Rightarrow> nat list" where
  "offsets p [] = []"
| "offsets p (b # bs) = p # offsets (p + length b) bs"

definition entry_blob :: "byte list \<Rightarrow> bool" where
  "entry_blob b \<longleftrightarrow> 16 \<le> length b \<and> le_at b 8 2 = length b"

lemma Index_loop_entries:
  assumes "\<forall>b \<in> set blobs. entry_blob b" and "arr s = pre @ concat blobs @ rest"
    and "length pre + length (concat blobs) \<le> slen s" and "slen s < 65536"
  shows "Index_loop s (of_nat (length pre)) acc =
    gbind (gmap (entry_at s) (offsets (length pre) blobs)) (\<lambda>es.
      Index_loop s (of_nat (length pre + length (concat blobs))) (acc @ es))"
  using assms
proof (induction blobs arbitrary: pre acc)
  case (Cons b blobs)
  let ?p = "length pre"
  have blob: "16 \<le> length b" "le_at b 8 2 = length b" using Cons.prems(1) by (auto simp: entry_blob_def)
  have p: "?p < slen s" using Cons.prems(3) blob by simp
  then have less: "(of_nat ?p :: u16) < of_nat (slen s)" "unat (of_nat ?p :: u16) = ?p"
    using Cons.prems(4) by (simp_all add: word_less_nat_alt unat_of_nat_u16)
  have here: "IndexEntry_Parse d = ret e \<Longrightarrow> sub_from s ?p = ret d \<Longrightarrow> ie_Len e = of_nat (length b)" for d e
    using blob Cons.prems(2) le_at_append [of 8 2 b "concat blobs @ rest"]
    by (auto simp: sub_from_eq_ret dest: IndexEntry_Parse_Len)
  have IH: "Index_loop s (of_nat (?p + length b)) acc' =
      gbind (gmap (entry_at s) (offsets (?p + length b) blobs)) (\<lambda>es.
        Index_loop s (of_nat (?p + length b + length (concat blobs))) (acc' @ es))" for acc'
    using Cons.IH [of "pre @ b" acc'] Cons.prems by simp
  have "Index_loop s (of_nat ?p) acc =
      gbind (sub_from s ?p) (\<lambda>d. gbind (IndexEntry_Parse d) (\<lambda>e.
        Index_loop s (of_nat ?p + ie_Len e) (acc @ [e])))"
    by (subst Index_loop.simps) (simp add: less)
  also have "\<dots> = gbind (entry_at s ?p) (\<lambda>e. Index_loop s (of_nat (?p + length b)) (acc @ [e]))"
    unfolding entry_at_def gbind_assoc
    by (intro gbind_cong refl) (simp add: here)
  finally show ?case by (simp add: IH gbind_assoc add.assoc del: of_nat_add)
qed (simp add: gbind_assoc)

lemma Index_loop_zero_Len:
  assumes "off < of_nat (slen data)" and "sub_from data (unat off) = ret d"
    and "IndexEntry_Parse d = ret e" and "ie_Len e = 0"
  shows "Index_loop data off es = None"
proof (rule ccontr)
  assume "Index_loop data off es \<noteq> None"
  then obtain r where "Index_loop data off es = Some r" by blast
  then have "\<not> (data = data \<and> off = off)"
  proof (rule Index_loop.raw_induct [where P = "\<lambda>data' off' _ _. \<not> (data' = data \<and> off' = off)", rotated])
    fix loop data' off' es' r'
    assume IH: "\<And>x y es r. loop x y es = Some r \<Longrightarrow> \<not> (x = data \<and> y = off)"
      and eq: "(if off' < of_nat (slen data') then
        gbind (sub_from data' (unat off')) (\<lambda>d. gbind (IndexEntry_Parse d) (\<lambda>e.
          loop data' (off' + ie_Len e) (es' @ [e]))) else ret es') = Some r'"
    show "\<not> (data' = data \<and> off' = off)"
    proof
      assume "data' = data \<and> off' = off"
      with eq assms have "loop data off (es' @ [e]) = Some r'" by simp
      from IH [OF this] show False by simp
    qed
  qed
  then show False by simp
qed

text \<open>C18: Walking an index. Over a well-formed entry list (every entry's length field is its size, at
  least 16 bytes, the list below 64 KiB) \<open>Parse\<close> parses exactly the entries, at exactly their
  boundaries, in order, and stops. If instead an entry whose length field is zero follows,
  \<open>Parse\<close> never returns.\<close>

theorem Index_Parse_walk:
  assumes "\<forall>b \<in> set blobs. entry_blob b" and "arr s = concat blobs @ rest" and "slen s < 65536"
  shows "(slen s = length (concat blobs) \<longrightarrow> Index_Parse s = gmap (entry_at s) (offsets 0 blobs)) \<and>
    (length (concat blobs) < slen s \<and> returns (gmap (entry_at s) (offsets 0 blobs)) \<and>
      (\<exists>e. entry_at s (length (concat blobs)) = ret e \<and> ie_Len e = 0) \<longrightarrow> Index_Parse s = None)"
proof -
  let ?q = "length (concat blobs)"
  have loop: "?q \<le> slen s \<Longrightarrow> Index_Parse s = gbind (gmap (entry_at s) (offsets 0 blobs))
      (\<lambda>es. Index_loop s (of_nat ?q) es)"
    using Index_loop_entries [of blobs s "[]" rest "[]"] assms by (simp add: Index_Parse_def)
  show ?thesis
  proof (intro conjI impI)
    assume q: "slen s = ?q"
    have "Index_loop s (of_nat ?q) es = ret es" for es
      using q by (subst Index_loop.simps) simp
    then show "Index_Parse s = gmap (entry_at s) (offsets 0 blobs)"
      using loop q by (cases "gmap (entry_at s) (offsets 0 blobs)" rule: go_cases) auto
  next
    assume "?q < slen s \<and> returns (gmap (entry_at s) (offsets 0 blobs)) \<and>
      (\<exists>e. entry_at s ?q = ret e \<and> ie_Len e = 0)"
    then obtain es e d where q: "?q < slen s" and es: "gmap (entry_at s) (offsets 0 blobs) = ret es"
      and d: "sub_from s ?q = ret d" "IndexEntry_Parse d = ret e" "ie_Len e = 0"
      by (auto simp: returns_iff entry_at_def)
    have "Index_loop s (of_nat ?q) es = None"
      using q d assms(3) by (intro Index_loop_zero_Len) (auto simp: word_less_nat_alt unat_of_nat_u16)
    then show "Index_Parse s = None" using loop q es by simp
  qed
qed

text \<open>The non-resident part of a directory index is never read: the struct's \<open>Signature\<close> is a
  string, which \<open>Unmarshal\<close> skips, so a fresh \<open>IndexAllocation\<close> never sees \<open>INDX\<close> and keeps
  its empty entry list, whatever the disk holds.\<close>

theorem IndexAllocation_never_parsed:
  "24 \<le> length (arr data) \<Longrightarrow>
   \<exists>a. IndexAllocation_Parse data zero_IndexAllocation = ret a \<and> ia_IndexEntries a = [] \<and>
     ia_Nodeheader a = None"
  by (auto simp: IndexAllocation_Parse_def sub_def unmarshal_into_def Unmarshal_def
      IndexAllocation_layout_def read_le_eq set_IndexAllocation_def zero_IndexAllocation_def)

theorem IndexAllocation_never_parsed_witness:
  "\<exists>a. IndexAllocation_Parse (full ([0x49, 0x4E, 0x44, 0x58] @ replicate 60 1)) zero_IndexAllocation = ret a \<and>
     ia_IndexEntries a = [] \<and> ia_Nodeheader a = None"
  using IndexAllocation_never_parsed [of "full ([0x49, 0x4E, 0x44, 0x58] @ replicate 60 1)"] by simp

lemma entry_at_plain:
  assumes "p \<le> slen s" and "p + 24 \<le> length (arr s)" and "le_at (arr s) (p + 10) 2 = 0"
    and "le_at (arr s) (p + 12) 4 = 2 \<or> le_at (arr s) (p + 12) 4 = 0"
  shows "\<exists>e. entry_at s p = ret e \<and> ie_Len e = of_nat (le_at (arr s) (p + 8) 2)"
  using assms
  by (auto simp: entry_at_def sub_from_def IndexEntry_Parse_def sub_def unmarshal_IndexEntry_eq
      lookup_str_def IndexFlags_def)

theorem Index_Parse_walk_witness:
  "Index_Parse (Slice ([5, 0, 0, 0, 0, 0, 1, 0, 16, 0, 0, 0, 2, 0, 0, 0] @ replicate 24 0) 17) = None \<and>
   returns (Index_Parse (Slice ([5, 0, 0, 0, 0, 0, 1, 0, 16, 0, 0, 0, 2, 0, 0, 0] @ replicate 24 0) 16))"
proof -
  let ?b = "[5, 0, 0, 0, 0, 0, 1, 0, 16, 0, 0, 0, 2, 0, 0, 0] :: byte list"
  let ?xs = "?b @ replicate 24 0"
  have b: "\<forall>b \<in> set [?b]. entry_blob b" by (simp add: entry_blob_def le_at_def)
  have e0: "\<exists>e. entry_at (Slice ?xs n) 0 = ret e \<and> ie_Len e = 16" for n
    using entry_at_plain [of 0 "Slice ?xs n"] by (simp add: le_at_def)
  have e1: "\<exists>e. entry_at (Slice ?xs 17) 16 = ret e \<and> ie_Len e = 0"
    using entry_at_plain [of 16 "Slice ?xs 17"] by (simp add: le_at_def)
  have r: "returns (gmap (entry_at (Slice ?xs n)) (offsets 0 [?b]))" for n
    using e0 [of n] by (auto simp: returns_iff)
  have q: "length (concat [?b]) = 16" by simp
  have "16 < slen (Slice ?xs 17)" by simp
  then have "Index_Parse (Slice ?xs 17) = None"
    using Index_Parse_walk [OF b, of "Slice ?xs 17" "replicate 24 0", THEN conjunct2, unfolded q] r [of 17] e1
    by (auto simp del: offsets.simps)
  moreover have "returns (Index_Parse (Slice ?xs 16))"
    using Index_Parse_walk [OF b, of "Slice ?xs 16" "replicate 24 0", THEN conjunct1] r [of 16] by simp
  ultimately show ?thesis by simp
qed

end
