(* ===== verification/MFT_Record.thy ===== *)
theory MFT_Record
  imports Index
begin

text \<open>
  The MFT record of \<open>FS/NTFS/MFT/MFT.go\<close>: its fields, the attributes it holds, the fix-up
  of the record's buffer and \<open>Process\<close>, which walks the attributes. Pointers to records
  (\<open>Parent\<close>, \<open>OriginLinkedRecord\<close>, \<open>LinkedRecords\<close>) all point into the table's slice of
  records; they are indices into it.
\<close>

section \<open>Attributes of a record\<close>

datatype attr_body =
    BFileName FNAttribute
  | BReparse Reparse
  | BData DATA
  | BObject ObjectID
  | BAttrList AttributeListEntries
  | BBitmap BitMap
  | BVolumeName VolumeName
  | BVolumeInfo VolumeInfo
  | BIndexRoot IndexRoot
  | BIndexAllocation IndexAllocation
  | BStdInfo SIAttribute
  | BLoggedUtility LoggedUtilityStream
  | BExtended ExtendedAttribute
  | BEAInfo EA_INFORMATION

text \<open>The header every body points to, set once, when the attribute joins its record.\<close>

datatype Attribute = Attribute (GetHeader: AttributeHeader) (Body: attr_body)

definition SetHeader :: "AttributeHeader \<Rightarrow> Attribute \<Rightarrow> Attribute" where
  "SetHeader h a = Attribute h (Body a)"

definition FindType :: "Attribute \<Rightarrow> string" where
  "FindType a = GetType (GetHeader a)"

definition Attribute_IsNoNResident :: "Attribute \<Rightarrow> bool" where
  "Attribute_IsNoNResident a =
     (case Body a of BIndexRoot _ \<Rightarrow> False \<comment> \<open>always resident\<close> | _ \<Rightarrow> IsNoNResident (GetHeader a))"

fun body_Parse :: "slice \<Rightarrow> attr_body \<Rightarrow> attr_body go" where
  "body_Parse d (BFileName x) = gbind (FNAttribute_Parse d x) (\<lambda>y. ret (BFileName y))"
| "body_Parse d (BReparse x) = gbind (Reparse_Parse d x) (\<lambda>y. ret (BReparse y))"
| "body_Parse d (BData x) = gbind (DATA_Parse d x) (\<lambda>y. ret (BData y))"
| "body_Parse d (BObject x) = gbind (ObjectID_Parse d x) (\<lambda>y. ret (BObject y))"
| "body_Parse d (BAttrList x) = gbind (AttributeListEntries_Parse d x) (\<lambda>y. ret (BAttrList y))"
| "body_Parse d (BBitmap x) = gbind (BitMap_Parse d x) (\<lambda>y. ret (BBitmap y))"
| "body_Parse d (BVolumeName x) = gbind (VolumeName_Parse d x) (\<lambda>y. ret (BVolumeName y))"
| "body_Parse d (BVolumeInfo x) = gbind (VolumeInfo_Parse d x) (\<lambda>y. ret (BVolumeInfo y))"
| "body_Parse d (BIndexRoot x) = gbind (IndexRoot_Parse d x) (\<lambda>y. ret (BIndexRoot y))"
| "body_Parse d (BIndexAllocation x) = gbind (IndexAllocation_Parse d x) (\<lambda>y. ret (BIndexAllocation y))"
| "body_Parse d (BStdInfo x) = gbind (SIAttribute_Parse d x) (\<lambda>y. ret (BStdInfo y))"
| "body_Parse d (BLoggedUtility x) = gbind (LoggedUtilityStream_Parse d x) (\<lambda>y. ret (BLoggedUtility y))"
| "body_Parse d (BExtended x) = gbind (ExtendedAttribute_Parse d x) (\<lambda>y. ret (BExtended y))"
| "body_Parse d (BEAInfo x) = gbind (EA_INFORMATION_Parse d x) (\<lambda>y. ret (BEAInfo y))"

definition Attribute_Parse :: "slice \<Rightarrow> Attribute \<Rightarrow> Attribute go" where
  "Attribute_Parse d a = gbind (body_Parse d (Body a)) (\<lambda>b. ret (Attribute (GetHeader a) b))"

text \<open>The contract of the \<open>Attribute\<close> interface, as \<open>Record\<close> uses it.\<close>

locale attribute_interface =
  fixes find_type :: "'a \<Rightarrow> string"
    and set_header :: "AttributeHeader \<Rightarrow> 'a \<Rightarrow> 'a"
    and get_header :: "'a \<Rightarrow> AttributeHeader"
    and is_nonresident :: "'a \<Rightarrow> bool"
    and parse :: "slice \<Rightarrow> 'a \<Rightarrow> 'a go"
  assumes get_set: "get_header (set_header h a) = h"
    and find_type_header: "find_type a = GetType (get_header a)"
    and nonresident_header: "is_nonresident a \<Longrightarrow> IsNoNResident (get_header a)"
    and parse_header: "parse d a = ret b \<Longrightarrow> get_header b = get_header a"
    and parse_nonresident: "parse d a = ret b \<Longrightarrow> is_nonresident b = is_nonresident a"
begin

lemma parse_find_type: "parse d a = ret b \<Longrightarrow> find_type b = find_type a"
  by (simp add: find_type_header parse_header)

lemma find_type_set: "find_type (set_header h a) = GetType h"
  by (simp add: find_type_header get_set)

text \<open>Parsing in place keeps which attribute a search by type finds first.\<close>

lemma find_after_parse:
  assumes "list_all2 (\<lambda>a b. b = a \<or> (\<exists>d. parse d a = ret b)) as bs"
  shows "map find_type bs = map find_type as"
  using assms by (induction as bs rule: list_all2_induct) (auto dest: parse_find_type)

lemma nonresident_after_parse:
  assumes "list_all2 (\<lambda>a b. b = a \<or> (\<exists>d. parse d a = ret b)) as bs"
  shows "map is_nonresident bs = map is_nonresident as"
  using assms by (induction as bs rule: list_all2_induct) (auto dest: parse_nonresident)

end

lemma body_Parse_constructor:
  "body_Parse d b = ret b' \<Longrightarrow> (\<exists>x. b' = BIndexRoot x) \<longleftrightarrow> (\<exists>x. b = BIndexRoot x)"
  by (cases b) (auto simp del: gbind_retE elim!: gbind_retE)

interpretation attr: attribute_interface FindType SetHeader GetHeader Attribute_IsNoNResident Attribute_Parse
proof unfold_locales
  show "IsNoNResident (GetHeader a)" if "Attribute_IsNoNResident a" for a
    using that by (auto simp: Attribute_IsNoNResident_def split: attr_body.splits)
  show "Attribute_IsNoNResident b = Attribute_IsNoNResident a" if "Attribute_Parse d a = ret b" for d a b
  proof -
    from that obtain b' where "body_Parse d (Body a) = ret b'" and b: "b = Attribute (GetHeader a) b'"
      by (auto simp: Attribute_Parse_def)
    with body_Parse_constructor [OF this(1)] show ?thesis
      by (auto simp: Attribute_IsNoNResident_def split: attr_body.splits)
  qed
qed (auto simp: SetHeader_def FindType_def Attribute_Parse_def)

section \<open>The record\<close>

record LinkedRecordInfo =
  RefEntry :: u32
  RefSeq :: u16
  li_StartVCN :: u64

text \<open>
  \<open>FixUp\<close> keeps slices of the record's buffer, so a write to the buffer shows through them:
  positions in that buffer, \<open>None\<close> while it is the buffer \<open>Process\<close> works on.
\<close>

record FixUp =
  fx_buf :: "slice option"
  fx_Signature :: nat
  OriginalValues :: "nat list"

record Record =
  Signature :: "byte list"
  UpdateFixUpArrOffset :: u16
  UpdateFixUpArrSize :: u16
  Lsn :: u64
  Seq :: u16
  Linkcount :: u16
  AttrOff :: u16
  rec_Flags :: u16
  rec_Size :: u32
  AllocSize :: u32
  BaseRef :: u64
  NextAttrID :: u16
  rec_F1 :: u16
  Entry :: u32
  rec_FixUp :: "FixUp option"
  Attributes :: "Attribute list"
  Bitmap :: bool
  LinkedRecordsInfo :: "LinkedRecordInfo list"
  LinkedRecords :: "nat list"
  OriginLinkedRecord :: "nat option"
  I30Size :: u64
  Parent :: "nat option"

definition zero_Record :: Record where
  "zero_Record = \<lparr>Signature = [0, 0, 0, 0], UpdateFixUpArrOffset = 0, UpdateFixUpArrSize = 0, Lsn = 0,
     Seq = 0, Linkcount = 0, AttrOff = 0, rec_Flags = 0, rec_Size = 0, AllocSize = 0, BaseRef = 0,
     NextAttrID = 0, rec_F1 = 0, Entry = 0, rec_FixUp = None, Attributes = [], Bitmap = False,
     LinkedRecordsInfo = [], LinkedRecords = [], OriginLinkedRecord = None, I30Size = 0, Parent = None\<rparr>"

definition Record_layout :: layout where
  "Record_layout = [(''Signature'', Karray 4), (''UpdateFixUpArrOffset'', Kuint16),
     (''UpdateFixUpArrSize'', Kuint16), (''Lsn'', Kuint64), (''Seq'', Kuint16), (''Linkcount'', Kuint16),
     (''AttrOff'', Kuint16), (''Flags'', Kuint16), (''Size'', Kuint32), (''AllocSize'', Kuint32),
     (''BaseRef'', Kuint64), (''NextAttrID'', Kuint16), (''F1'', Kuint16), (''Entry'', Kuint32),
     (''FixUp'', Kother), (''Attributes'', Kother), (''Bitmap'', Kbool), (''LinkedRecordsInfo'', Kother),
     (''LinkedRecords'', Kother), (''OriginLinkedRecord'', Kother), (''I30Size'', Kuint64),
     (''Parent'', Kother)]"

definition set_Record :: "val list \<Rightarrow> Record \<Rightarrow> Record" where
  "set_Record v r = r\<lparr>Signature := put_arr (v ! 0) (Signature r),
     UpdateFixUpArrOffset := put_u16 (v ! 1) (UpdateFixUpArrOffset r),
     UpdateFixUpArrSize := put_u16 (v ! 2) (UpdateFixUpArrSize r), Lsn := put_u64 (v ! 3) (Lsn r),
     Seq := put_u16 (v ! 4) (Seq r), Linkcount := put_u16 (v ! 5) (Linkcount r),
     AttrOff := put_u16 (v ! 6) (AttrOff r), rec_Flags := put_u16 (v ! 7) (rec_Flags r),
     rec_Size := put_u32 (v ! 8) (rec_Size r), AllocSize := put_u32 (v ! 9) (AllocSize r),
     BaseRef := put_u64 (v ! 10) (BaseRef r), NextAttrID := put_u16 (v ! 11) (NextAttrID r),
     rec_F1 := put_u16 (v ! 12) (rec_F1 r), Entry := put_u32 (v ! 13) (Entry r),
     Bitmap := put_bool (v ! 16) (Bitmap r), I30Size := put_u64 (v ! 20) (I30Size r)\<rparr>"

definition GetSignature :: "Record \<Rightarrow> string" where
  "GetSignature r = byte_string (Signature r)"

section \<open>Fix-up arrays\<close>

function fixup_values :: "slice \<Rightarrow> nat \<Rightarrow> nat \<Rightarrow> nat list go" where
  "fixup_values fixuparray base val =
     (if val < slen fixuparray then
        gbind (sub fixuparray val (val + 2)) (\<lambda>_.
        gbind (fixup_values fixuparray base (val + 2)) (\<lambda>vs. ret ((base + val) # vs)))
      else ret [])"
  by pat_completeness auto
termination
  by (relation "measure (\<lambda>(s, base, v). slen s - v)") auto

declare fixup_values.simps [simp del]

definition ProcessFixUpArrays :: "slice \<Rightarrow> Record \<Rightarrow> Record go" where
  "ProcessFixUpArrays data record =
     (let size2 = 2 * UpdateFixUpArrSize record; off = UpdateFixUpArrOffset record in
      if slen data < unat size2 then ret record
      else
        gbind (sub data (unat off) (unat (off + size2))) (\<lambda>fixuparray.
        gbind (fixup_values fixuparray (unat off) 2) (\<lambda>fixupvals.
        gbind (sub fixuparray 0 2) (\<lambda>_.
          ret (record\<lparr>rec_FixUp := Some \<lparr>fx_buf = None, fx_Signature = unat off,
            OriginalValues = fixupvals\<rparr>\<rparr>)))))"

definition view_byte :: "FixUp \<Rightarrow> slice \<Rightarrow> nat \<Rightarrow> byte" where
  "view_byte fx bs i = arr (case fx_buf fx of Some b \<Rightarrow> b | None \<Rightarrow> bs) ! i"

text \<open>The \<open>fixup check\<close>: the last two bytes of the first sector are compared with the signature
  and replaced by the first original value. The second condition is read only if the first holds.\<close>

definition apply_fixup :: "slice \<Rightarrow> Record \<Rightarrow> slice go" where
  "apply_fixup bs record = (case rec_FixUp record of
       None \<Rightarrow> panic Nil_dereference
     | Some fx \<Rightarrow>
         gbind (at bs 510) (\<lambda>b510.
         if view_byte fx bs (fx_Signature fx) \<noteq> b510 then ret bs
         else gbind (at bs 511) (\<lambda>b511.
         if view_byte fx bs (fx_Signature fx + 1) \<noteq> b511 then ret bs
         else (case OriginalValues fx of
             [] \<Rightarrow> panic Index_out_of_range
           | v # _ \<Rightarrow>
               gbind (set_at bs 510 (view_byte fx bs v)) (\<lambda>bs'.
                 set_at bs' 511 (view_byte fx bs' (v + 1)))))))"

section \<open>Processing a record\<close>

text \<open>The linked records an attribute list names: only entries of type \<open>DATA\<close>.\<close>

definition linked_infos :: "AttributeListEntries \<Rightarrow> LinkedRecordInfo list" where
  "linked_infos entries = map (\<lambda>e. \<lparr>RefEntry = ucast (al_ParRef e), RefSeq = al_ParSeq e,
       li_StartVCN = al_StartVcn e\<rparr>)
     (filter (\<lambda>e. AttributeList_GetType e = ''DATA'') entries)"

text \<open>The \<open>if\<close> chain over the resident types; \<open>None\<close> for a type without a parser.\<close>

definition resident_body :: "AttributeHeader \<Rightarrow> attr_body option go" where
  "resident_body h =
     (if IsFileName h then ret (Some (BFileName zero_FNAttribute))
      else if IsReparse h then ret (Some (BReparse zero_Reparse))
      else if IsData h then ret (Some (BData \<lparr>Content = []\<rparr>))
      else if IsObject h then ret (Some (BObject zero_ObjectID))
      else if IsAttrList h then ret (Some (BAttrList []))
      else if IsBitmap h then ret (Some (BBitmap \<lparr>AllocationStatus = []\<rparr>))
      else if IsVolumeName h then ret (Some (BVolumeName \<lparr>vn_Name = []\<rparr>))
      else if IsVolumeInfo h then ret (Some (BVolumeInfo zero_VolumeInfo))
      else if IsIndexRoot h then ret (Some (BIndexRoot zero_IndexRoot))
      else if IsStdInfo h then ret (Some (BStdInfo zero_SIAttribute))
      else if IsLoggedUtility h then
        gbind (GetName h) (\<lambda>nm. ret (Some (BLoggedUtility \<lparr>Kind = nm, lu_TXFDATA = None\<rparr>)))
      else if IsExtendedAttribute h then ret (Some (BExtended zero_ExtendedAttribute))
      else if IsExtendedInformationAttribute h then ret (Some (BEAInfo zero_EA_INFORMATION))
      else ret None)"

definition resident_attribute ::
  "slice \<Rightarrow> u16 \<Rightarrow> AttributeHeader \<Rightarrow> (Attribute option \<times> LinkedRecordInfo list) go" where
  "resident_attribute bs ReadPtr h =
     gbind (sub_from bs (unat (ReadPtr + 16))) (\<lambda>rd.
     gbind (ATRrecordResident_Parse rd) (\<lambda>r.
     let nm = ReadPtr + NameOff h in
     gbind (sub bs (unat nm) (unat (nm + 2 * ucast (Nlen h)))) (\<lambda>nameS.
     let r' = r\<lparr>Name := DecodeUTF16 (bytes nameS)\<rparr>;
         h' = h\<lparr>Resident := Some r'\<rparr>;
         attrStartOffset = ReadPtr + OffsetContent r';
         attrEndOffset = (ucast attrStartOffset :: u32) + ContentSize r' in
     gbind (resident_body h') (\<lambda>body. case body of
         None \<Rightarrow> ret (None, [])
       | Some b \<Rightarrow>
           gbind (sub bs (unat attrStartOffset) (unat attrEndOffset)) (\<lambda>content.
           gbind (body_Parse content b) (\<lambda>b'.
             ret (Some (SetHeader h' (Attribute h' b')),
               (case b' of BAttrList es \<Rightarrow> linked_infos es | _ \<Rightarrow> []))))))))"

definition nonresident_body :: "AttributeHeader \<Rightarrow> attr_body option" where
  "nonresident_body h =
     (if IsData h then Some (BData \<lparr>Content = []\<rparr>)
      else if IsIndexAllocation h then Some (BIndexAllocation zero_IndexAllocation)
      else if IsBitmap h then Some (BBitmap \<lparr>AllocationStatus = []\<rparr>)
      else if IsAttrList h then Some (BAttrList [])
      else if IsReparse h then Some (BReparse zero_Reparse)
      else None)"

definition nonresident_attribute :: "slice \<Rightarrow> u16 \<Rightarrow> AttributeHeader \<Rightarrow> Attribute option go" where
  "nonresident_attribute bs ReadPtr h =
     gbind (sub bs (unat (ReadPtr + 16)) (unat (ReadPtr + 64))) (\<lambda>d.
     gbind (unmarshal_ATRrecordNoNResident d) (\<lambda>nr.
     gbind (if unat (ReadPtr + RunOff nr + AttrLen h) < slen bs then
              gbind (sub bs (unat (ReadPtr + RunOff nr)) (unat (ReadPtr + AttrLen h))) (\<lambda>rls.
              gbind (RunList_Process rls) (\<lambda>(runlist, lengthcl).
                ret (nr\<lparr>nr_RunList := Some runlist, RunListTotalLenCl := lengthcl\<rparr>)))
            else ret nr) (\<lambda>nr'.
     let h' = h\<lparr>NonResident := Some nr'\<rparr> in
       ret (map_option (\<lambda>b. SetHeader h' (Attribute h' b)) (nonresident_body h')))))"

text \<open>One attribute: what it adds to the attributes, to the linked records, to \<open>Bitmap\<close>.\<close>

definition process_attribute ::
  "slice \<Rightarrow> u16 \<Rightarrow> AttributeHeader \<Rightarrow> (Attribute list \<times> LinkedRecordInfo list) go" where
  "process_attribute bs ReadPtr h =
     (if \<not> IsNoNResident h then
        gbind (resident_attribute bs ReadPtr h) (\<lambda>(a, infos).
          ret (case a of None \<Rightarrow> [] | Some x \<Rightarrow> [x], infos))
      else gbind (nonresident_attribute bs ReadPtr h) (\<lambda>a.
          ret (case a of None \<Rightarrow> [] | Some x \<Rightarrow> [x], [])))"

text \<open>The header at \<open>ReadPtr\<close>; \<open>None\<close> at the end of the attributes.\<close>

definition next_header :: "slice \<Rightarrow> u16 \<Rightarrow> AttributeHeader option go" where
  "next_header bs ReadPtr =
     (if ReadPtr < 1024 then
        gbind (sub bs (unat ReadPtr) (unat (ReadPtr + 4))) (\<lambda>mark.
        if Hexify (bytes mark) = ''ffffffff'' then ret None
        else
          gbind (sub bs (unat ReadPtr) (unat (ReadPtr + 16))) (\<lambda>hd.
          gbind (unmarshal_AttributeHeader hd) (\<lambda>h.
            ret (if IsLast h then None else Some h))))
      else ret None)"

text \<open>The loop over the attributes. \<open>None\<close>: it never ends.\<close>

partial_function (option) Process_loop ::
  "slice \<Rightarrow> u16 \<Rightarrow> Attribute list \<Rightarrow> LinkedRecordInfo list \<Rightarrow> bool
     \<Rightarrow> (crash + Attribute list \<times> LinkedRecordInfo list \<times> bool) option" where
  "Process_loop bs ReadPtr attributes infos bitmap =
     gbind (next_header bs ReadPtr) (\<lambda>h. case h of
        None \<Rightarrow> ret (attributes, infos, bitmap)
      | Some hdr \<Rightarrow>
          gbind (process_attribute bs ReadPtr hdr) (\<lambda>(as, is).
            Process_loop bs (ReadPtr + AttrLen hdr) (attributes @ as) (infos @ is)
              (bitmap \<or> IsBitmap hdr)))"

datatype record_error = Record_corrupt | Record_signature "byte list"

definition Process :: "slice \<Rightarrow> Record \<Rightarrow> (record_error option \<times> Record \<times> slice) go" where
  "Process bs record =
     gbind (unmarshal_into Record_layout set_Record record bs) (\<lambda>r.
     if GetSignature r = ''BAAD'' then ret (Some Record_corrupt, r, bs)
     else if GetSignature r \<noteq> ''FILE'' then ret (Some (Record_signature (Signature r)), r, bs)
     else
       gbind (ProcessFixUpArrays bs r) (\<lambda>r1.
       let r2 = r1\<lparr>I30Size := 0\<rparr> in
       gbind (apply_fixup bs r2) (\<lambda>bs'.
       gbind (Process_loop bs' (AttrOff r2) [] [] (Bitmap r2)) (\<lambda>(attributes, infos, bitmap).
         ret (None, r2\<lparr>Attributes := attributes, LinkedRecordsInfo := infos, Bitmap := bitmap,
           rec_FixUp := map_option (\<lambda>fx. fx\<lparr>fx_buf :=
             Some (case fx_buf fx of Some b \<Rightarrow> b | None \<Rightarrow> bs')\<rparr>) (rec_FixUp r2)\<rparr>, bs')))))"

section \<open>The fix-up of a record\<close>

lemma fixup_values_eq:
  assumes "slen s \<le> length (arr s)" and "even (slen s)" and "even v"
  shows "fixup_values s base v = ret (map (\<lambda>i. base + (v + 2 * i)) [0..<(slen s - v) div 2])"
  using assms
proof (induction s base v rule: fixup_values.induct)
  case (1 s base v)
  show ?case
  proof (cases "v < slen s")
    case True
    with "1.prems" have v2: "v + 2 \<le> slen s" by presburger
    then have len: "(slen s - v) div 2 = Suc ((slen s - (v + 2)) div 2)" by simp
    have shift: "map (\<lambda>i. base + (v + 2 * i)) [0..<Suc n] =
        (base + v) # map (\<lambda>i. base + (v + 2 + 2 * i)) [0..<n]" for n
      by (simp add: upt_conv_Cons map_Suc_upt [symmetric] del: upt_Suc)
    obtain x where sub: "sub s v (v + 2) = ret x" using v2 "1.prems" by (simp add: sub_def)
    have "fixup_values s base (v + 2) =
        ret (map (\<lambda>i. base + (v + 2 + 2 * i)) [0..<(slen s - (v + 2)) div 2])"
      by (rule "1.IH" [OF True sub]) (use "1.prems" in simp_all)
    then show ?thesis
      using True sub by (subst fixup_values.simps) (simp add: len shift del: upt_Suc)
  next
    case False
    then show ?thesis by (subst fixup_values.simps) simp
  qed
qed

text \<open>The update sequence array of a record, when it lies within the buffer.\<close>

definition usa_ok :: "slice \<Rightarrow> Record \<Rightarrow> bool" where
  "usa_ok bs r \<longleftrightarrow> 1 \<le> UpdateFixUpArrSize r \<and>
     unat (UpdateFixUpArrOffset r) + 2 * unat (UpdateFixUpArrSize r) \<le> slen bs \<and>
     unat (UpdateFixUpArrOffset r) + 2 * unat (UpdateFixUpArrSize r) < 65536 \<and> wf_slice bs"

lemma usa_arith:
  assumes "usa_ok bs r"
  shows "unat (2 * UpdateFixUpArrSize r) = 2 * unat (UpdateFixUpArrSize r)"
    and "unat (UpdateFixUpArrOffset r + 2 * UpdateFixUpArrSize r) =
      unat (UpdateFixUpArrOffset r) + 2 * unat (UpdateFixUpArrSize r)"
    and "1 \<le> unat (UpdateFixUpArrSize r)"
proof -
  show d: "unat (2 * UpdateFixUpArrSize r) = 2 * unat (UpdateFixUpArrSize r)"
    using assms by (simp add: usa_ok_def unat_word_ariths)
  then show "unat (UpdateFixUpArrOffset r + 2 * UpdateFixUpArrSize r) =
      unat (UpdateFixUpArrOffset r) + 2 * unat (UpdateFixUpArrSize r)"
    using assms by (simp add: usa_ok_def unat_word_ariths(1))
  show "1 \<le> unat (UpdateFixUpArrSize r)"
    using assms by (simp add: usa_ok_def word_le_nat_alt)
qed

lemma ProcessFixUpArrays_eq:
  assumes "usa_ok bs r"
  shows "ProcessFixUpArrays bs r = ret (r\<lparr>rec_FixUp := Some \<lparr>fx_buf = None,
    fx_Signature = unat (UpdateFixUpArrOffset r),
    OriginalValues = map (\<lambda>i. unat (UpdateFixUpArrOffset r) + 2 * i) [1..<unat (UpdateFixUpArrSize r)]\<rparr>\<rparr>)"
proof -
  let ?off = "unat (UpdateFixUpArrOffset r)" and ?n = "unat (UpdateFixUpArrSize r)"
  let ?fa = "Slice (drop ?off (arr bs)) (2 * ?n)"
  have room: "?off + 2 * ?n \<le> length (arr bs)" using assms by (simp add: usa_ok_def wf_slice_def)
  have "fixup_values ?fa ?off 2 = ret (map (\<lambda>i. ?off + (2 + 2 * i)) [0..<?n - 1])"
  proof -
    have "(slen ?fa - 2) div 2 = ?n - 1" by simp
    then show ?thesis using fixup_values_eq [of ?fa 2 ?off] room by (simp del: One_nat_def)
  qed
  also have "map (\<lambda>i. ?off + (2 + 2 * i)) [0..<?n - 1] = map (\<lambda>i. ?off + 2 * i) [1..<?n]"
    by (rule nth_equalityI) auto
  finally show ?thesis
    using room usa_arith [OF assms] assms
    by (auto simp: ProcessFixUpArrays_def Let_def sub_def usa_ok_def)
qed

lemma fixup_buffer:
  assumes "usa_ok bs r" and "512 \<le> slen bs" and "u = unat (UpdateFixUpArrOffset r)" and "u + 4 \<le> 510"
  shows "gbind (ProcessFixUpArrays bs r) (apply_fixup bs) =
    (if take 2 (drop u (arr bs)) \<noteq> take 2 (drop 510 (arr bs)) then ret bs
     else if UpdateFixUpArrSize r = 1 then panic Index_out_of_range
     else ret (Slice ((arr bs)[510 := arr bs ! (u + 2), 511 := arr bs ! (u + 3)]) (slen bs)))"
proof -
  have len: "512 \<le> length (arr bs)" using assms by (simp add: usa_ok_def wf_slice_def)
  have two: "take 2 (drop i (arr bs)) = [arr bs ! i, arr bs ! (i + 1)]" if "i + 2 \<le> length (arr bs)" for i
    using that by (simp add: take_Suc_conv_app_nth numeral_2_eq_2)
  have one: "UpdateFixUpArrSize r = 1 \<longleftrightarrow> unat (UpdateFixUpArrSize r) = 1"
    using word_unat_eq_iff [of "UpdateFixUpArrSize r" 1] by simp
  have vals: "[1..<unat (UpdateFixUpArrSize r)] =
      (if UpdateFixUpArrSize r = 1 then [] else 1 # [2..<unat (UpdateFixUpArrSize r)])"
    using usa_arith(3) [OF assms(1)] by (auto simp: one upt_conv_Cons numeral_2_eq_2)
  show ?thesis
    unfolding ProcessFixUpArrays_eq [OF assms(1)] gbind_ret
    using assms(2,4) len two [of u] two [of 510]
    by (simp add: apply_fixup_def view_byte_def at_def set_at_def vals assms(3) [symmetric]
        add.commute [of u] del: add_2_eq_Suc' add_2_eq_Suc One_nat_def)
qed

text \<open>C2: The fix-up of a record whose update sequence array lies in its buffer. If the last two bytes
  of the first sector are the array's signature, they become the first original value, in
  every other case the buffer is unchanged; no other byte of the record is written, so the
  last two bytes of the second sector (1022 and 1023) keep the signature whatever the array
  says about them. A matching signature with an array that holds no original value panics.\<close>

theorem Process_fixup:
  assumes "usa_ok bs r" and "512 \<le> slen bs" and "u = unat (UpdateFixUpArrOffset r)" and "u + 4 \<le> 510"
  shows "gbind (ProcessFixUpArrays bs r) (apply_fixup bs) =
    (if take 2 (drop u (arr bs)) \<noteq> take 2 (drop 510 (arr bs)) then ret bs
     else if UpdateFixUpArrSize r = 1 then panic Index_out_of_range
     else ret (Slice ((arr bs)[510 := arr bs ! (u + 2), 511 := arr bs ! (u + 3)]) (slen bs)))"
  using assms by (rule fixup_buffer)

end
