(* ===== verification/Record_Walk.thy ===== *)
theory Record_Walk
  imports MFT_Record
begin

text \<open>
  What \<open>Record.Process\<close> of \<open>FS/NTFS/MFT/MFT.go\<close> computes: the record header it decodes, the
  errors it returns, and its walk over the attributes along their length fields, with the
  records on which the walk never ends.
\<close>

section \<open>The header of a record\<close>

text \<open>The fields at their offsets in the record. \<open>Bitmap\<close> and \<open>I30Size\<close> belong to the struct, not
  to the disk structure: reading them takes nine more bytes of the buffer.\<close>

definition record_fields :: "byte list \<Rightarrow> Record \<Rightarrow> Record" where
  "record_fields xs r = r\<lparr>Signature := take 4 xs,
     UpdateFixUpArrOffset := of_nat (le_at xs 4 2), UpdateFixUpArrSize := of_nat (le_at xs 6 2),
     Lsn := of_nat (le_at xs 8 8), Seq := of_nat (le_at xs 16 2), Linkcount := of_nat (le_at xs 18 2),
     AttrOff := of_nat (le_at xs 20 2), rec_Flags := of_nat (le_at xs 22 2),
     rec_Size := of_nat (le_at xs 24 4), AllocSize := of_nat (le_at xs 28 4),
     BaseRef := of_nat (le_at xs 32 8), NextAttrID := of_nat (le_at xs 40 2),
     rec_F1 := of_nat (le_at xs 42 2), Entry := of_nat (le_at xs 44 4), Bitmap := False,
     I30Size := of_nat (le_at xs 49 8)\<rparr>"

lemma unmarshal_Record:
  assumes "57 \<le> slen bs" and "wf_slice bs"
  shows "unmarshal_into Record_layout set_Record r bs = ret (record_fields (arr bs) r)"
proof -
  have "Unmarshal Record_layout bs = ret (layout_values Record_layout (arr bs) 0, layout_size Record_layout, True)"
    using assms by (intro Unmarshal_ok) (simp_all add: Record_layout_def plain_layout_def)
  then show ?thesis
    by (simp add: unmarshal_into_def Record_layout_def set_Record_def record_fields_def)
qed

definition is_FILE :: "byte list \<Rightarrow> bool" where
  "is_FILE xs \<longleftrightarrow> take 4 xs = [0x46, 0x49, 0x4C, 0x45]"

definition is_BAAD :: "byte list \<Rightarrow> bool" where
  "is_BAAD xs \<longleftrightarrow> take 4 xs = [0x42, 0x41, 0x41, 0x44]"
lemma byte_string_inject: "byte_string xs = byte_string ys \<longleftrightarrow> xs = ys"
proof -
  have "char_of (unat a) = (char_of (unat b) :: char) \<Longrightarrow> a = b" for a b :: byte
    using arg_cong [of "char_of (unat a) :: char" "char_of (unat b)" "of_char :: char \<Rightarrow> nat"]
      unat_u8_less [of a] unat_u8_less [of b] by (simp add: word_unat_eq_iff)
  then have "inj (\<lambda>b :: byte. char_of (unat b) :: char)" by (rule injI)
  then show ?thesis by (auto simp: byte_string_def inj_map_eq_map)
qed

lemma signature_FILE:
  "byte_string (take 4 xs) = ''FILE'' \<longleftrightarrow> is_FILE xs" "byte_string (take 4 xs) = ''BAAD'' \<longleftrightarrow> is_BAAD xs"
proof -
  have "byte_string [0x46, 0x49, 0x4C, 0x45] = ''FILE''" "byte_string [0x42, 0x41, 0x41, 0x44] = ''BAAD''"
    by (simp_all add: byte_string_def char_of_def bit_0)
  then show "byte_string (take 4 xs) = ''FILE'' \<longleftrightarrow> is_FILE xs"
    "byte_string (take 4 xs) = ''BAAD'' \<longleftrightarrow> is_BAAD xs"
    unfolding is_FILE_def is_BAAD_def by (metis byte_string_inject)+
qed

lemma GetSignature_fields: "GetSignature (record_fields xs r) = byte_string (take 4 xs)"
  by (simp add: GetSignature_def record_fields_def)

text \<open>A buffer without the \<open>FILE\<close> signature is rejected: \<open>Process\<close> returns the error for \<open>BAAD\<close>
  or the one that carries the signature, the buffer is not written, and the receiver has
  been overwritten with the decoded header fields while its attributes, fix-up and links
  are those it had before.\<close>

theorem Process_rejects:
  assumes "57 \<le> slen bs" and "wf_slice bs" and "\<not> is_FILE (arr bs)"
  shows "Process bs r = ret (Some (if is_BAAD (arr bs) then Record_corrupt
      else Record_signature (take 4 (arr bs))), record_fields (arr bs) r, bs) \<and>
    Attributes (record_fields (arr bs) r) = Attributes r \<and> rec_FixUp (record_fields (arr bs) r) = rec_FixUp r"
  using assms(3)
  by (simp add: Process_def unmarshal_Record [OF assms(1,2)] GetSignature_fields signature_FILE)
    (simp add: record_fields_def)

theorem Process_rejects_witness:
  "\<exists>r. Process (full (replicate 1024 0)) zero_Record =
     ret (Some (Record_signature [0, 0, 0, 0]), r, full (replicate 1024 0))"
proof -
  have "take 4 (replicate 1024 0 :: byte list) = [0, 0, 0, 0]" by (simp add: numeral_eq_Suc)
  then show ?thesis
    using Process_rejects [of "full (replicate 1024 0)" zero_Record]
    by (simp add: is_FILE_def is_BAAD_def)
qed

section \<open>The walk over the attributes\<close>

text \<open>The attributes of a record along their length fields, from a start offset to an end mark (or
  the end of the record), with the offset of each; no step wraps the 16-bit offset.\<close>

inductive attr_chain :: "slice \<Rightarrow> u16 \<Rightarrow> (u16 \<times> AttributeHeader) list \<Rightarrow> bool" for bs where
  chain_end: "next_header bs p = ret None \<Longrightarrow> attr_chain bs p []"
| chain_step: "next_header bs p = ret (Some h) \<Longrightarrow> 0 < AttrLen h \<Longrightarrow>
    unat p + unat (AttrLen h) < 65536 \<Longrightarrow> attr_chain bs (p + AttrLen h) hs \<Longrightarrow>
    attr_chain bs p ((p, h) # hs)"

inductive_cases attr_chain_NilE: "attr_chain bs p []"
inductive_cases attr_chain_ConsE: "attr_chain bs p (x # hs)"

lemma Process_loop_end:
  "next_header bs p = ret None \<Longrightarrow> Process_loop bs p as infos b = ret (as, infos, b)"
  by (subst Process_loop.simps) simp

lemma Process_loop_step:
  assumes "next_header bs p = ret (Some h)" and "process_attribute bs p h = ret (xs, ys)"
  shows "Process_loop bs p as infos b =
    Process_loop bs (p + AttrLen h) (as @ xs) (infos @ ys) (b \<or> IsBitmap h)"
  using assms by (subst Process_loop.simps) simp

lemma Process_loop_chain:
  assumes "attr_chain bs p hs" and "\<forall>x \<in> set hs. process_attribute bs (fst x) (snd x) = ret (items x)"
  shows "Process_loop bs p as infos b =
    ret (as @ concat (map (fst \<circ> items) hs), infos @ concat (map (snd \<circ> items) hs),
      b \<or> (\<exists>x \<in> set hs. IsBitmap (snd x)))"
  using assms
proof (induction arbitrary: as infos b)
  case (chain_end p)
  then show ?case by (simp add: Process_loop_end)
next
  case (chain_step p h hs)
  obtain xs ys where it: "items (p, h) = (xs, ys)" by fastforce
  with chain_step.prems have "process_attribute bs p h = ret (xs, ys)" by simp
  from Process_loop_step [OF chain_step.hyps(1) this] show ?case
    using chain_step.IH chain_step.prems by (simp add: it)
qed

text \<open>The offsets of the chain increase strictly, so it has at most 1024 members.\<close>

lemma next_header_bound: "next_header bs p = ret (Some h) \<Longrightarrow> unat p < 1024"
  by (auto simp: next_header_def word_less_nat_alt split: if_splits)

lemma chain_offsets:
  "attr_chain bs p hs \<Longrightarrow> sorted_wrt (<) (map (unat \<circ> fst) hs) \<and>
    (\<forall>x \<in> set hs. unat p \<le> unat (fst x) \<and> unat (fst x) < 1024)"
proof (induction rule: attr_chain.induct)
  case (chain_step p h hs)
  have "unat (p + AttrLen h) = unat p + unat (AttrLen h)"
    using chain_step.hyps(3) by (simp add: unat_word_ariths)
  moreover have "0 < unat (AttrLen h)" using chain_step.hyps(2) by (simp add: word_less_nat_alt)
  ultimately show ?case using chain_step.IH next_header_bound [OF chain_step.hyps(1)] by fastforce
qed simp

lemma chain_length: "attr_chain bs p hs \<Longrightarrow> length hs \<le> 1024 - unat p"
proof -
  assume ch: "attr_chain bs p hs"
  let ?offs = "map (unat \<circ> fst) hs"
  have "distinct ?offs" using chain_offsets [OF ch] strict_sorted_iff by blast
  moreover have "set ?offs \<subseteq> {unat p..<1024}" using chain_offsets [OF ch] by auto
  ultimately have "length ?offs \<le> card {unat p..<1024}"
    by (metis card_mono distinct_card finite_atLeastLessThan)
  then show ?thesis by simp
qed

text \<open>No entry of a resident attribute list has the type \<open>DATA\<close>, so no attribute names linked records.\<close>

lemma linked_infos_empty:
  "AttributeListEntries_Parse d [] = ret es \<Longrightarrow> linked_infos es = []"
  by (auto simp: linked_infos_def filter_empty_conv dest: AttributeListEntries_untyped)

lemma body_Parse_no_list:
  assumes "resident_body h = ret (Some b)" and "body_Parse d b = ret (BAttrList es)"
  shows "linked_infos es = []"
  using assms
  by (auto simp: resident_body_def linked_infos_empty split: if_splits)

lemma process_attribute_infos: "process_attribute bs p h = ret (xs, infos) \<Longrightarrow> infos = []"
  by (auto simp: process_attribute_def resident_attribute_def Let_def
      split: if_splits option.splits attr_body.splits) (auto dest: body_Parse_no_list)

section \<open>Processing a record\<close>

text \<open>What a terminating walk returns is made of what single attributes contribute.\<close>

lemma Process_loop_items:
  assumes "Process_loop bs p as infos b = Some r"
  shows "\<forall>as' infos' b'. r = Inr (as', infos', b') \<longrightarrow> (\<exists>its. as' = as @ concat (map fst its) \<and>
    infos' = infos @ concat (map snd its) \<and> (\<forall>it \<in> set its. \<exists>p h. process_attribute bs p h = ret it))"
    (is "?P bs as infos r")
proof (rule Process_loop.raw_induct [where P = "\<lambda>bs _ as infos _ r. ?P bs as infos r", OF _ assms])
  fix loop bs p as infos b r
  assume IH: "\<And>bs p as infos b r. loop bs p as infos b = Some r \<Longrightarrow> ?P bs as infos r"
    and eq: "gbind (next_header bs p) (\<lambda>h. case h of None \<Rightarrow> ret (as, infos, b)
      | Some hdr \<Rightarrow> gbind (process_attribute bs p hdr) (\<lambda>(as', is).
          loop bs (p + AttrLen hdr) (as @ as') (infos @ is) (b \<or> IsBitmap hdr))) = Some r"
  show "?P bs as infos r"
  proof (intro allI impI)
    fix as' infos' b' assume r: "r = Inr (as', infos', b')"
    with eq obtain h where h: "next_header bs p = ret h" and rest:
      "(case h of None \<Rightarrow> ret (as, infos, b)
        | Some hdr \<Rightarrow> gbind (process_attribute bs p hdr) (\<lambda>(as', is).
            loop bs (p + AttrLen hdr) (as @ as') (infos @ is) (b \<or> IsBitmap hdr))) = ret (as', infos', b')"
      by (auto simp: ret_def [symmetric])
    show "\<exists>its. as' = as @ concat (map fst its) \<and> infos' = infos @ concat (map snd its) \<and>
        (\<forall>it \<in> set its. \<exists>p h. process_attribute bs p h = ret it)"
    proof (cases h)
      case None
      with rest show ?thesis by (intro exI [of _ "[]"]) simp
    next
      case (Some hdr)
      with rest obtain xs ys where pa: "process_attribute bs p hdr = ret (xs, ys)"
        and l: "loop bs (p + AttrLen hdr) (as @ xs) (infos @ ys) (b \<or> IsBitmap hdr) = ret (as', infos', b')"
        by auto
      from IH [OF l [unfolded ret_def]] obtain its where "as' = (as @ xs) @ concat (map fst its)"
        "infos' = (infos @ ys) @ concat (map snd its)" "\<forall>it \<in> set its. \<exists>p h. process_attribute bs p h = ret it"
        by blast
      with pa show ?thesis by (intro exI [of _ "(xs, ys) # its"]) auto
    qed
  qed
qed

lemma Process_attributes_from:
  assumes "Process bs r = ret (None, r', bs')"
  shows "\<exists>its. Attributes r' = concat (map fst its) \<and> LinkedRecordsInfo r' = concat (map snd its) \<and>
    (\<forall>it \<in> set its. \<exists>p h. process_attribute bs' p h = ret it)"
  using assms
  by (auto simp: Process_def Let_def split: if_splits)
    (auto simp: ret_def dest: Process_loop_items)

text \<open>No record ever gets linked to the records that continue its attributes: whatever buffer
  \<open>Process\<close> accepts, the list of linked records it stores is empty, although the attribute
  list names the continuation records. The struct that reads a list entry declares the entry's type
  as a string, which \<open>Unmarshal\<close> skips, so no entry is ever of type \<open>DATA\<close>.\<close>

theorem Process_never_links:
  assumes "Process bs r = ret (None, r', bs')"
  shows "LinkedRecordsInfo r' = []"
  using Process_attributes_from [OF assms] process_attribute_infos by fastforce

lemma Process_chain:
  assumes "57 \<le> slen bs" and "is_FILE (arr bs)" and "usa_ok bs (record_fields (arr bs) r)"
    and "gbind (ProcessFixUpArrays bs (record_fields (arr bs) r)) (apply_fixup bs) = ret bs'"
    and "attr_chain bs' (of_nat (le_at (arr bs) 20 2)) hs"
    and "\<forall>x \<in> set hs. process_attribute bs' (fst x) (snd x) = ret (items x)"
  shows "\<exists>fx. Process bs r = ret (None, (record_fields (arr bs) r)\<lparr>I30Size := 0,
      Attributes := concat (map (fst \<circ> items) hs), LinkedRecordsInfo := [],
      Bitmap := (\<exists>x \<in> set hs. IsBitmap (snd x)), rec_FixUp := Some fx\<rparr>, bs') \<and> length hs \<le> 1024"
proof -
  let ?r = "record_fields (arr bs) r"
  have wf: "wf_slice bs" using assms(3) by (simp add: usa_ok_def)
  obtain fx where fx: "ProcessFixUpArrays bs ?r = ret (?r\<lparr>rec_FixUp := Some fx\<rparr>)" and buf: "fx_buf fx = None"
    using ProcessFixUpArrays_eq [OF assms(3)] by auto
  have apply_cong: "apply_fixup bs (?r\<lparr>rec_FixUp := Some fx, I30Size := 0\<rparr>) = ret bs'"
    using assms(4) by (simp add: fx apply_fixup_def)
  have FILE: "GetSignature ?r = ''FILE''" using assms(2) by (simp add: GetSignature_fields signature_FILE)
  have "\<forall>x \<in> set hs. snd (items x) = []"
    using assms(6) process_attribute_infos by (metis prod.collapse)
  then have infos: "concat (map (snd \<circ> items) hs) = []" by simp
  have "AttrOff ?r = of_nat (le_at (arr bs) 20 2)" "\<not> Bitmap ?r" by (simp_all add: record_fields_def)
  with Process_loop_chain [OF assms(5,6), of "[]" "[]" False] infos
  have "Process_loop bs' (AttrOff ?r) [] [] (Bitmap ?r) =
      ret (concat (map (fst \<circ> items) hs), [], \<exists>x \<in> set hs. IsBitmap (snd x))"
    by simp
  moreover have "length hs \<le> 1024" using chain_length [OF assms(5)] by simp
  ultimately show ?thesis
    by (intro exI [of _ "fx\<lparr>fx_buf := Some bs'\<rparr>"])
      (simp add: Process_def unmarshal_Record [OF assms(1) wf] FILE fx apply_cong Let_def buf)
qed

text \<open>C1: Processing a well-formed record. For a buffer with the \<open>FILE\<close> signature, an update sequence
  array inside it whose fix-up yields \<open>bs'\<close>, and an attribute chain from the first attribute's
  offset, \<open>Process\<close> returns without error: the header fields are decoded from their offsets,
  and the record's attributes are what the chain's members contribute, in the order of the
  buffer, each read from the fixed buffer; \<open>Bitmap\<close> tells whether one of them is a bitmap,
  \<open>I30Size\<close> is reset and no linked records are named. The chain has at most 1024 members.\<close>

theorem Process_record:
  assumes "57 \<le> slen bs" and "is_FILE (arr bs)" and "usa_ok bs (record_fields (arr bs) r)"
    and "gbind (ProcessFixUpArrays bs (record_fields (arr bs) r)) (apply_fixup bs) = ret bs'"
    and "attr_chain bs' (of_nat (le_at (arr bs) 20 2)) hs"
    and "\<forall>x \<in> set hs. process_attribute bs' (fst x) (snd x) = ret (items x)"
  shows "\<exists>fx. Process bs r = ret (None, (record_fields (arr bs) r)\<lparr>I30Size := 0,
      Attributes := concat (map (fst \<circ> items) hs), LinkedRecordsInfo := [],
      Bitmap := (\<exists>x \<in> set hs. IsBitmap (snd x)), rec_FixUp := Some fx\<rparr>, bs') \<and> length hs \<le> 1024"
  using assms by (rule Process_chain)

text \<open>A record with one resident data attribute, used as the concrete input below.\<close>

definition sample_record :: "byte list" where
  "sample_record = [0x46, 0x49, 0x4C, 0x45, 48, 0, 3, 0, 0, 0, 0, 0, 0, 0, 0, 0, 7, 0, 1, 0, 56, 0, 1, 0,
     0, 0, 0, 0, 0, 0, 0, 0, 0, 0, 0, 0, 0, 0, 0, 0, 0, 0, 0, 0, 42, 0, 0, 0, 1, 0, 0xAA, 0xBB, 0, 0, 0, 0,
     0x80, 0, 0, 0, 32, 0, 0, 0, 0, 0, 24, 0, 0, 0, 0, 0, 4, 0, 0, 0, 24, 0, 0, 0, 1, 2, 3, 4, 0, 0, 0, 0,
     0xff, 0xff, 0xff, 0xff] @ replicate 418 0 @ [1, 0] @ replicate 510 0 @ [1, 0]"

definition sample_fixed :: "byte list" where
  "sample_fixed = sample_record[510 := 0xAA, 511 := 0xBB]"

definition sample_header :: AttributeHeader where
  "sample_header = zero_AttributeHeader\<lparr>Type := [0x80, 0, 0, 0], AttrLen := 32, NameOff := 24\<rparr>"

lemma sample_fixup:
  "gbind (ProcessFixUpArrays (full sample_record) (record_fields sample_record zero_Record))
     (apply_fixup (full sample_record)) = ret (full sample_fixed)" 
  "usa_ok (full sample_record) (record_fields sample_record zero_Record)"
  "is_FILE sample_record" "le_at sample_record 20 2 = 56" "length sample_record = 1024"
proof -
  show *: "usa_ok (full sample_record) (record_fields sample_record zero_Record)"
    "is_FILE sample_record" "le_at sample_record 20 2 = 56" "length sample_record = 1024"
    by (simp_all add: sample_record_def usa_ok_def record_fields_def le_at_def is_FILE_def full_def wf_slice_def)
  have "gbind (ProcessFixUpArrays (full sample_record) (record_fields sample_record zero_Record))
      (apply_fixup (full sample_record)) =
    (if take 2 (drop 48 (arr (full sample_record))) \<noteq> take 2 (drop 510 (arr (full sample_record))) then ret (full sample_record)
     else if UpdateFixUpArrSize (record_fields sample_record zero_Record) = 1 then panic Index_out_of_range
     else ret (Slice ((arr (full sample_record))[510 := arr (full sample_record) ! (48 + 2), 511 := arr (full sample_record) ! (48 + 3)]) (slen (full sample_record))))"
    by (rule fixup_buffer [OF *(1)]) (simp_all add: sample_record_def record_fields_def le_at_def)
  then show "gbind (ProcessFixUpArrays (full sample_record) (record_fields sample_record zero_Record))
     (apply_fixup (full sample_record)) = ret (full sample_fixed)"
    by (simp add: sample_fixed_def sample_record_def record_fields_def le_at_def full_def)
qed

lemmas header_eval = next_header_def sub_def bytes_def unmarshal_AttributeHeader_def Unmarshal_def
  AttributeHeader_layout_def read_le_eq le_at_def set_AttributeHeader_def zero_AttributeHeader_def
  IsLast_def GetType_def Bytereverse_def AttrTypes_def hex_eval

lemma sample_headers:
  "next_header (full sample_fixed) 56 = ret (Some sample_header)"
  "next_header (full sample_fixed) 88 = ret None"
  by (simp_all add: header_eval sample_fixed_def sample_record_def sample_header_def)

abbreviation sample_attrs :: "(u16 \<times> AttributeHeader) list" where
  "sample_attrs \<equiv> [(56, sample_header)]"

lemma sample_chain: "attr_chain (full sample_fixed) 56 sample_attrs"
proof (rule chain_step)
  have "AttrLen sample_header = 32" by (simp add: sample_header_def)
  then show "0 < AttrLen sample_header" "unat (56 :: u16) + unat (AttrLen sample_header) < 65536"
    "attr_chain (full sample_fixed) (56 + AttrLen sample_header) []"
    using sample_headers(2) by (simp_all add: chain_end)
qed (rule sample_headers)

lemmas resident_eval = process_attribute_def resident_attribute_def sub_from_def sub_def
  ATRrecordResident_Parse_def Unmarshal_def ATRrecordResident_layout_def read_le_eq le_at_def
  set_ATRrecordResident_def zero_ATRrecordResident_def Let_def bytes_def DecodeUTF16_def
  u16_units.simps utf16_decode.simps utf8_string_def resident_body_def IsFileName_def IsReparse_def
  IsData_def IsNoNResident_def GetType_def Bytereverse_def AttrTypes_def hex_eval DATA_Parse_def SetHeader_def

lemma sample_attribute:
  "process_attribute (full sample_fixed) 56 sample_header =
    ret ([Attribute (sample_header\<lparr>Resident := Some \<lparr>ContentSize = 4, OffsetContent = 24, IdxFlags = 0, Name = []\<rparr>\<rparr>)
      (BData \<lparr>Content = [1, 2, 3, 4]\<rparr>)], [])"
  by (simp add: resident_eval sample_fixed_def sample_record_def sample_header_def zero_AttributeHeader_def)

definition sample_items :: "u16 \<times> AttributeHeader \<Rightarrow> Attribute list \<times> LinkedRecordInfo list" where
  "sample_items x = ([Attribute
     (sample_header\<lparr>Resident := Some \<lparr>ContentSize = 4, OffsetContent = 24, IdxFlags = 0, Name = []\<rparr>\<rparr>)
     (BData \<lparr>Content = [1, 2, 3, 4]\<rparr>)], [])"

lemma sample_items: "\<forall>x \<in> set sample_attrs.
    process_attribute (full sample_fixed) (fst x) (snd x) = ret (sample_items x)"
  by (simp add: sample_attribute sample_items_def)

lemma sample_Process:
  "\<exists>fx. Process (full sample_record) zero_Record = ret (None,
      (record_fields (arr (full sample_record)) zero_Record)\<lparr>I30Size := 0,
        Attributes := concat (map (fst \<circ> sample_items) sample_attrs), LinkedRecordsInfo := [],
        Bitmap := (\<exists>x \<in> set sample_attrs. IsBitmap (snd x)), rec_FixUp := Some fx\<rparr>, full sample_fixed) \<and>
      length sample_attrs \<le> 1024"
  by (rule Process_chain [OF _ _ _ _ _ sample_items]) (use sample_fixup sample_chain in simp_all)

theorem Process_record_witness:
  "\<exists>r' h. Process (full sample_record) zero_Record = ret (None, r', full sample_fixed) \<and>
     Attributes r' = [Attribute h (BData \<lparr>Content = [1, 2, 3, 4]\<rparr>)] \<and> Entry r' = 42 \<and> Seq r' = 7"
proof -
  have "\<exists>fx. Process (full sample_record) zero_Record = ret (None,
      (record_fields (arr (full sample_record)) zero_Record)\<lparr>I30Size := 0,
        Attributes := concat (map (fst \<circ> sample_items) sample_attrs), LinkedRecordsInfo := [],
        Bitmap := (\<exists>x \<in> set sample_attrs. IsBitmap (snd x)), rec_FixUp := Some fx\<rparr>, full sample_fixed) \<and>
      length sample_attrs \<le> 1024"
    by (rule Process_record [OF _ _ _ _ _ sample_items]) (use sample_fixup sample_chain in simp_all)
  then show ?thesis
    by (auto simp: sample_items_def record_fields_def sample_record_def le_at_def)
qed

theorem Process_never_links_witness:
  "\<exists>r'. Process (full sample_record) zero_Record = ret (None, r', full sample_fixed) \<and> LinkedRecordsInfo r' = []"
  using sample_Process Process_never_links by blast

theorem Process_fixup_witness:
  "gbind (ProcessFixUpArrays (full sample_record) (record_fields sample_record zero_Record))
     (apply_fixup (full sample_record)) = ret (full sample_fixed) \<and>
   sample_fixed ! 1022 = sample_record ! 48 \<and> sample_fixed ! 510 = sample_record ! 50"
proof -
  have "gbind (ProcessFixUpArrays (full sample_record) (record_fields sample_record zero_Record))
      (apply_fixup (full sample_record)) =
    (if take 2 (drop 48 (arr (full sample_record))) \<noteq> take 2 (drop 510 (arr (full sample_record))) then ret (full sample_record)
     else if UpdateFixUpArrSize (record_fields sample_record zero_Record) = 1 then panic Index_out_of_range
     else ret (Slice ((arr (full sample_record))[510 := arr (full sample_record) ! (48 + 2),
       511 := arr (full sample_record) ! (48 + 3)]) (slen (full sample_record))))"
    by (rule Process_fixup [OF sample_fixup(2)]) (simp_all add: sample_record_def record_fields_def le_at_def)
  then show ?thesis
    by (simp add: sample_fixed_def sample_record_def record_fields_def le_at_def full_def nth_append)
qed

section \<open>A walk that never ends\<close>

lemma Process_loop_stuck:
  assumes "next_header bs p = ret (Some h)" and "AttrLen h = 0" and "process_attribute bs p h = ret x"
  shows "Process_loop bs p as infos b = None"
proof (rule ccontr)
  assume "Process_loop bs p as infos b \<noteq> None"
  then obtain r where "Process_loop bs p as infos b = Some r" by blast
  then have "\<not> (bs = bs \<and> p = p)"
  proof (rule Process_loop.raw_induct [where P = "\<lambda>bs' p' _ _ _ _. \<not> (bs' = bs \<and> p' = p)", rotated])
    fix loop bs' p' as' infos' b' r'
    assume IH: "\<And>x y as infos b r. loop x y as infos b = Some r \<Longrightarrow> \<not> (x = bs \<and> y = p)"
      and eq: "gbind (next_header bs' p') (\<lambda>h. case h of None \<Rightarrow> ret (as', infos', b')
        | Some hdr \<Rightarrow> gbind (process_attribute bs' p' hdr) (\<lambda>(as, is).
            loop bs' (p' + AttrLen hdr) (as' @ as) (infos' @ is) (b' \<or> IsBitmap hdr))) = Some r'"
    show "\<not> (bs' = bs \<and> p' = p)"
    proof
      assume "bs' = bs \<and> p' = p"
      with eq assms have "loop bs p (as' @ fst x) (infos' @ snd x) (b' \<or> IsBitmap h) = Some r'"
        by (simp add: case_prod_beta)
      from IH [OF this] show False by simp
    qed
  qed
  then show False by simp
qed

lemma zeros_le_at:
  assumes "take n (drop p xs) = replicate n 0" and "q + k \<le> n"
  shows "le_at xs (p + q) k = 0"
proof -
  have "take k (drop (p + q) xs) = take k (drop q (take n (drop p xs)))"
    using assms(2) by (simp add: drop_take add.commute min_def)
  also have "\<dots> = replicate k 0" using assms by simp
  finally show ?thesis by (simp add: le_at_def)
qed

lemma zeros_take:
  "take n (drop p xs) = replicate n b \<Longrightarrow> k \<le> n \<Longrightarrow> take k (drop p xs) = replicate k b"
  by (metis min_absorb1 take_replicate take_take)

lemma zeroed_header:
  assumes z: "take 24 (drop (unat p) (arr bs)) = replicate 24 0" and p: "unat p < 1000"
    and wf: "wf_slice bs" and len: "1024 \<le> slen bs"
  shows "next_header bs p = ret (Some zero_AttributeHeader)"
    and "process_attribute bs p zero_AttributeHeader = ret ([], [])"
proof -
  have room: "unat p + 24 \<le> length (arr bs)" using p wf len by (simp add: wf_slice_def)
  have p16: "unat (p + 16) = unat p + 16" and p4: "unat (p + 4) = unat p + 4"
    using p by (simp_all add: unat_word_ariths)
  note zl = zeros_le_at [OF z]
  have t: "take 4 (drop (unat p) (arr bs)) = [0, 0, 0, 0]"
    using zeros_take [OF z, of 4] by (simp add: numeral_eq_Suc)
  have t2: "take 2 (drop (6 + unat p) (arr bs)) = [0, 0]"
  proof -
    have "take 2 (drop (6 + unat p) (arr bs)) = take 2 (drop 6 (take 24 (drop (unat p) (arr bs))))"
      by (simp add: drop_take add.commute min_def)
    then show ?thesis by (simp only: z drop_replicate take_replicate) (simp add: numeral_2_eq_2)
  qed
  have "Unmarshal AttributeHeader_layout (Slice (drop (unat p) (arr bs)) 16) =
      ret (layout_values AttributeHeader_layout (drop (unat p) (arr bs)) 0, 16, True)"
    using Unmarshal_ok [of AttributeHeader_layout "Slice (drop (unat p) (arr bs)) 16"] room
    by (simp add: AttributeHeader_layout_def plain_layout_def wf_slice_def)
  then have un: "unmarshal_AttributeHeader (Slice (drop (unat p) (arr bs)) 16) = ret zero_AttributeHeader"
    using zl [of 4 2] zl [of 8 1] zl [of 9 1] zl [of 10 2] zl [of 12 2] zl [of 14 2] t t2
    by (simp add: unmarshal_AttributeHeader_def AttributeHeader_layout_def set_AttributeHeader_def
        zero_AttributeHeader_def)
  have type: "GetType zero_AttributeHeader = [CHR 0x00, CHR 0x00, CHR 0x00, CHR 0x00, CHR '' '']"
    by (simp add: GetType_def zero_AttributeHeader_def Bytereverse_def AttrTypes_def hex_eval byte_string_def)
  have mark: "Hexify [0, 0, 0, 0] \<noteq> ''ffffffff''" by (simp add: hex_eval)
  show "next_header bs p = ret (Some zero_AttributeHeader)"
    using room p un mark by (simp add: next_header_def sub_def word_less_nat_alt p16 p4 bytes_def t IsLast_def type)
  have "Unmarshal ATRrecordResident_layout (Slice (drop (unat p + 16) (arr bs)) 8) =
      ret (layout_values ATRrecordResident_layout (drop (unat p + 16) (arr bs)) 0, 8, True)"
    using Unmarshal_ok [of ATRrecordResident_layout "Slice (drop (unat p + 16) (arr bs)) 8"] room
    by (simp add: ATRrecordResident_layout_def plain_layout_def wf_slice_def)
  then have res: "ATRrecordResident_Parse (Slice (drop (unat p + 16) (arr bs)) (slen bs - (unat p + 16))) =
      ret zero_ATRrecordResident"
    using room zl [of 16 4] zl [of 20 2] zl [of 22 2]
    by (simp add: ATRrecordResident_Parse_def sub_def ATRrecordResident_layout_def
        set_ATRrecordResident_def zero_ATRrecordResident_def add.assoc)
  have body: "resident_body (zero_AttributeHeader\<lparr>Resident := r\<rparr>) = ret None" for r
  proof -
    have "GetType (zero_AttributeHeader\<lparr>Resident := r\<rparr>) = GetType zero_AttributeHeader"
      by (simp add: GetType_def)
    then show ?thesis
      by (simp add: type resident_body_def IsFileName_def IsReparse_def IsData_def IsObject_def IsAttrList_def
          IsBitmap_def IsVolumeName_def IsVolumeInfo_def IsIndexRoot_def IsStdInfo_def IsLoggedUtility_def
          IsExtendedAttribute_def IsExtendedInformationAttribute_def)
  qed
  have "\<not> IsNoNResident zero_AttributeHeader" "Nlen zero_AttributeHeader = 0" "NameOff zero_AttributeHeader = 0"
    by (simp_all add: IsNoNResident_def zero_AttributeHeader_def)
  then show "process_attribute bs p zero_AttributeHeader = ret ([], [])"
    using room p len
    by (simp add: process_attribute_def resident_attribute_def sub_from_def sub_def p16 res body Let_def)
qed

text \<open>A record whose attribute area is zeroed makes the tool hang. If 24 zero bytes stand where the
  first attribute of a record with the \<open>FILE\<close> signature should start, \<open>Process\<close> never
  returns: the zero type is neither an end mark nor known, and the zero length never moves on.\<close>

theorem Process_zeroed_hangs:
  assumes "1024 \<le> slen bs" and "is_FILE (arr bs)" and "usa_ok bs (record_fields (arr bs) r)"
    and "gbind (ProcessFixUpArrays bs (record_fields (arr bs) r)) (apply_fixup bs) = ret bs'"
    and "wf_slice bs'" and "slen bs' = slen bs" and "le_at (arr bs) 20 2 < 1000"
    and "take 24 (drop (le_at (arr bs) 20 2) (arr bs')) = replicate 24 0"
  shows "Process bs r = None"
proof -
  let ?r = "record_fields (arr bs) r"
  have wf: "wf_slice bs" using assms(3) by (simp add: usa_ok_def)
  obtain fx where fx: "ProcessFixUpArrays bs ?r = ret (?r\<lparr>rec_FixUp := Some fx\<rparr>)"
    using ProcessFixUpArrays_eq [OF assms(3)] by auto
  have apply_cong: "apply_fixup bs (?r\<lparr>rec_FixUp := Some fx, I30Size := 0\<rparr>) = ret bs'"
    using assms(4) by (simp add: fx apply_fixup_def)
  have FILE: "GetSignature ?r = ''FILE''" using assms(2) by (simp add: GetSignature_fields signature_FILE)
  have off: "unat (AttrOff ?r) = le_at (arr bs) 20 2"
    using assms(7) by (simp add: record_fields_def unat_of_nat_u16)
  note zh = zeroed_header [of "AttrOff ?r" bs']
  have "Process_loop bs' (AttrOff ?r) as infos b = None" for as infos b
  proof (rule Process_loop_stuck)
    show "next_header bs' (AttrOff ?r) = ret (Some zero_AttributeHeader)"
      "process_attribute bs' (AttrOff ?r) zero_AttributeHeader = ret ([], [])"
      using assms off zh by simp_all
    show "AttrLen zero_AttributeHeader = 0" by (simp add: zero_AttributeHeader_def)
  qed
  then show ?thesis
    using assms(1) by (simp add: Process_def unmarshal_Record [OF _ wf] FILE fx apply_cong Let_def)
qed

theorem Process_zeroed_hangs_witness:
  "Process (full ([0x46, 0x49, 0x4C, 0x45, 48, 0, 3, 0] @ replicate 12 0 @ [56, 0] @ replicate 26 0 @
     [1, 0] @ replicate 974 0)) zero_Record = None"
proof -
  let ?xs = "[0x46, 0x49, 0x4C, 0x45, 48, 0, 3, 0] @ replicate 12 0 @ [56, 0] @ replicate 26 0 @
     [1, 0] @ replicate 974 0 :: byte list"
  let ?r = "record_fields (arr (full ?xs)) zero_Record"
  have l: "length ?xs = 1024" by simp
  have usa: "usa_ok (full ?xs) ?r"
    by (simp add: usa_ok_def record_fields_def le_at_def full_def wf_slice_def)
  have sig: "take 2 (drop 48 (arr (full ?xs))) = [1, 0]" by simp
  have "take 2 (drop 510 (arr (full ?xs))) = replicate 2 0" by simp
  also have "\<dots> = [0, 0]" by (simp add: numeral_2_eq_2)
  finally have ne: "take 2 (drop 48 (arr (full ?xs))) \<noteq> take 2 (drop 510 (arr (full ?xs)))"
    unfolding sig by simp
  have "gbind (ProcessFixUpArrays (full ?xs) ?r) (apply_fixup (full ?xs)) = ret (full ?xs)"
    by (rule trans [OF fixup_buffer [OF usa, of 48] if_P [OF ne]])
      (simp_all add: record_fields_def le_at_def)
  then show ?thesis
    by (rule Process_zeroed_hangs [rotated 3]) (use usa in \<open>simp_all add: is_FILE_def le_at_def\<close>)
qed

end
