(* ===== verification/Record_Access.thy ===== *)
theory Record_Access
  imports MFT_Record
begin

text \<open>
  The questions a processed record answers (\<open>FS/NTFS/MFT/MFT.go\<close>): searches among its
  attributes, its names, sizes, run lists and path, and the filters over slices of records.
  Where the code follows a pointer to another record the definition takes the table the
  pointer indexes. A nil pointer's dereference and a failed type assertion are crashes.
\<close>

type_synonym Records = "Record list"

section \<open>Flags\<close>

definition MFTflags :: "(u16 \<times> string) list" where
  "MFTflags = [(0, ''File Unallocated''), (1, ''File Allocated''), (2, ''Folder Unallocated''),
     (3, ''Folder Allocated'')]"

definition getType :: "Record \<Rightarrow> string" where
  "getType record = lookup_str MFTflags (rec_Flags record)"

definition IsFolder :: "Record \<Rightarrow> bool" where
  "IsFolder record \<longleftrightarrow> getType record = ''Folder Unallocated'' \<or> getType record = ''Folder Allocated''"

definition IsDeleted :: "Record \<Rightarrow> bool" where
  "IsDeleted record \<longleftrightarrow> getType record = ''File Unallocated'' \<or> getType record = ''Folder Unallocated''"

section \<open>Attributes\<close>

definition FindNonResidentAttributes :: "Record \<Rightarrow> Attribute list" where
  "FindNonResidentAttributes record = filter Attribute_IsNoNResident (Attributes record)"

definition FilterOutNonResidentAttributes :: "Record \<Rightarrow> string \<Rightarrow> Attribute list" where
  "FilterOutNonResidentAttributes record attrName =
     filter (\<lambda>a. Attribute_IsNoNResident a \<and> FindType a \<noteq> attrName) (Attributes record)"

fun find_attribute :: "string \<Rightarrow> Attribute list \<Rightarrow> Attribute option" where
  "find_attribute attributeName [] = None"
| "find_attribute attributeName (a # as) =
     (if FindType a = attributeName then Some a else find_attribute attributeName as)"

definition FindAttribute :: "Record \<Rightarrow> string \<Rightarrow> Attribute option" where
  "FindAttribute record attributeName = find_attribute attributeName (Attributes record)"

text \<open>The interface value itself, a pointer to the attribute: its position.\<close>

fun find_position :: "string \<Rightarrow> Attribute list \<Rightarrow> nat \<Rightarrow> nat option" where
  "find_position attributeName [] idx = None"
| "find_position attributeName (a # as) idx =
     (if FindType a = attributeName then Some idx else find_position attributeName as (idx + 1))"

definition FindAttributePtr :: "Record \<Rightarrow> string \<Rightarrow> nat option" where
  "FindAttributePtr record attributeName = find_position attributeName (Attributes record) 0"

definition HasAttr :: "Record \<Rightarrow> string \<Rightarrow> bool" where
  "HasAttr record attrName \<longleftrightarrow> FindAttribute record attrName \<noteq> None"

definition HasResidentDataAttr :: "Record \<Rightarrow> bool" where
  "HasResidentDataAttr record = (case FindAttribute record ''DATA'' of
       None \<Rightarrow> False | Some a \<Rightarrow> \<not> Attribute_IsNoNResident a)"

fun has_nonresident :: "Attribute list \<Rightarrow> bool" where
  "has_nonresident [] = False"
| "has_nonresident (a # as) = (if \<not> Attribute_IsNoNResident a then True else has_nonresident as)"

definition HasNonResidentAttr :: "Record \<Rightarrow> bool" where
  "HasNonResidentAttr record = has_nonresident (Attributes record)"

text \<open>\<open>attr.GetHeader().ATRrecordNoNResident\<close> and the run list behind it.\<close>

definition nonresident_part :: "Attribute \<Rightarrow> ATRrecordNoNResident go" where
  "nonresident_part a = (case NonResident (GetHeader a) of
       None \<Rightarrow> panic Nil_dereference | Some nr \<Rightarrow> ret nr)"

definition run_list_of :: "Attribute \<Rightarrow> RunList go" where
  "run_list_of a = gbind (nonresident_part a) (\<lambda>nr. case nr_RunList nr of
       None \<Rightarrow> panic Nil_dereference | Some rl \<Rightarrow> ret rl)"

definition attribute_run_list :: "Record \<Rightarrow> string \<Rightarrow> RunList go" where
  "attribute_run_list record attrType = (case FindAttribute record attrType of
       None \<Rightarrow> panic Nil_dereference | Some a \<Rightarrow> run_list_of a)"

definition GetRunList :: "Records \<Rightarrow> Record \<Rightarrow> string \<Rightarrow> RunList go" where
  "GetRunList tbl record attrType = (case LinkedRecords record of
       [] \<Rightarrow> attribute_run_list record attrType
     | l # _ \<Rightarrow> attribute_run_list (tbl ! l) attrType)"

definition GetRunLists :: "Record \<Rightarrow> RunList list go" where
  "GetRunLists record = gmap run_list_of (FindNonResidentAttributes record)"

fun first_vcns :: "Attribute list \<Rightarrow> (u64 \<times> u64) go" where
  "first_vcns [] = ret (0, 0)"
| "first_vcns (a # as) =
     (if Attribute_IsNoNResident a then
        gbind (nonresident_part a) (\<lambda>nr. ret (StartVcn nr, LastVcn nr))
      else first_vcns as)"

definition getVCNs :: "Record \<Rightarrow> (u64 \<times> u64) go" where
  "getVCNs record = first_vcns (Attributes record)"

definition GetResidentData :: "Record \<Rightarrow> byte list go" where
  "GetResidentData record = (case FindAttribute record ''DATA'' of
       None \<Rightarrow> panic Failed_type_assertion
     | Some a \<Rightarrow> (case Body a of BData d \<Rightarrow> ret (Content d) | _ \<Rightarrow> panic Failed_type_assertion))"

text \<open>\<open>attr.(*MFTAttributes.FNAttribute)\<close>\<close>

definition assert_FN :: "Attribute \<Rightarrow> FNAttribute go" where
  "assert_FN a = (case Body a of BFileName f \<Rightarrow> ret f | _ \<Rightarrow> panic Failed_type_assertion)"

definition find_FN :: "Record \<Rightarrow> FNAttribute go" where
  "find_FN record = (case FindAttribute record ''FileName'' of
       None \<Rightarrow> panic Failed_type_assertion | Some a \<Rightarrow> assert_FN a)"

section \<open>Sizes\<close>

definition GetPhysicalSize :: "Record \<Rightarrow> i64 go" where
  "GetPhysicalSize record = gbind (find_FN record) (\<lambda>fnattr. ret (AllocFsize fnattr))"

definition own_logical_size :: "Record \<Rightarrow> i64 go" where
  "own_logical_size record = (case FindAttribute record ''FileName'' of
       None \<Rightarrow> ret (I30Size record)
     | Some a \<Rightarrow> gbind (assert_FN a) (\<lambda>fnattr.
         ret (if RealFsize fnattr \<noteq> 0 then RealFsize fnattr else I30Size record)))"

partial_function (option) GetLogicalFileSize :: "Records \<Rightarrow> Record \<Rightarrow> (crash + i64) option" where
  "GetLogicalFileSize tbl record = (case OriginLinkedRecord record of
       Some o' \<Rightarrow> GetLogicalFileSize tbl (tbl ! o')
     | None \<Rightarrow> own_logical_size record)"

section \<open>Names\<close>

definition put_fname :: "Attribute \<Rightarrow> (string \<rightharpoonup> string) \<Rightarrow> (string \<rightharpoonup> string) go" where
  "put_fname a fnames =
     gbind (assert_FN a) (\<lambda>fnattr. ret (fnames(GetFileNameType fnattr \<mapsto> Fname fnattr)))"

definition GetFnames :: "Record \<Rightarrow> (string \<rightharpoonup> string) go" where
  "GetFnames record =
     gfold put_fname (filter (\<lambda>a. FindType a = ''FileName'') (Attributes record)) Map.empty"

fun first_name :: "(string \<rightharpoonup> string) \<Rightarrow> string list \<Rightarrow> string" where
  "first_name fnames [] = ''-''"
| "first_name fnames (namescheme # rest) =
     (case fnames namescheme of Some name \<Rightarrow> name | None \<Rightarrow> first_name fnames rest)"

definition name_schemes :: "string list" where
  "name_schemes = [''Win32'', ''Win32 & Dos'', ''POSIX'', ''Dos'']"

definition own_fname :: "Record \<Rightarrow> string go" where
  "own_fname record = gbind (GetFnames record) (\<lambda>fnames. ret (first_name fnames name_schemes))"

partial_function (option) GetFname :: "Records \<Rightarrow> Record \<Rightarrow> (crash + string) option" where
  "GetFname tbl record = (case OriginLinkedRecord record of
       Some o' \<Rightarrow> GetFname tbl (tbl ! o')
     | None \<Rightarrow> own_fname record)"

definition HasFilenameExtension :: "Record \<Rightarrow> string \<Rightarrow> bool go" where
  "HasFilenameExtension record extension =
     (if HasAttr record ''FileName'' then
        gbind (find_FN record) (\<lambda>fnattr.
          ret (HasSuffix (Fname fnattr) (ToUpper (''.'' @ extension)) \<or>
               HasSuffix (Fname fnattr) (ToLower (''.'' @ extension))))
      else ret False)"

definition HasFilename :: "Records \<Rightarrow> Record \<Rightarrow> string \<Rightarrow> bool go" where
  "HasFilename tbl record filename = gbind (GetFname tbl record) (\<lambda>n. ret (n = filename))"

fun HasFilenames :: "Records \<Rightarrow> Record \<Rightarrow> string list \<Rightarrow> bool go" where
  "HasFilenames tbl record [] = ret False"
| "HasFilenames tbl record (filename # filenames) =
     gbind (HasFilename tbl record filename) (\<lambda>b. if b then ret True else HasFilenames tbl record filenames)"

definition Record_HasPrefix :: "Records \<Rightarrow> Record \<Rightarrow> string \<Rightarrow> bool go" where
  "Record_HasPrefix tbl record prefix = gbind (GetFname tbl record) (\<lambda>n. ret (HasPrefix n prefix))"

definition Record_HasSuffix :: "Records \<Rightarrow> Record \<Rightarrow> string \<Rightarrow> bool go" where
  "Record_HasSuffix tbl record suffix = gbind (GetFname tbl record) (\<lambda>n. ret (HasSuffix n suffix))"

section \<open>Paths\<close>

text \<open>The loop over the parents; \<open>None\<close> when they never reach the root or a record without parent.\<close>

partial_function (option) path_loop ::
  "Records \<Rightarrow> nat option \<Rightarrow> string list \<Rightarrow> (crash + string list) option" where
  "path_loop tbl parent fullpathArr = (case parent of
       None \<Rightarrow> ret fullpathArr
     | Some p \<Rightarrow>
         if Entry (tbl ! p) = 5 then ret fullpathArr
         else gbind (GetFname tbl (tbl ! p)) (\<lambda>name.
           path_loop tbl (Parent (tbl ! p)) (name # fullpathArr)))"

text \<open>\<open>join\<close> is \<open>filepath.Join\<close>, whose separator depends on the system.\<close>

definition GetFullPath :: "(string list \<Rightarrow> string) \<Rightarrow> Records \<Rightarrow> Record \<Rightarrow> string go" where
  "GetFullPath join tbl record =
     gbind (path_loop tbl (Parent record) []) (\<lambda>fullpathArr. ret (join fullpathArr))"

definition HasPath :: "(string list \<Rightarrow> string) \<Rightarrow> Records \<Rightarrow> Record \<Rightarrow> string \<Rightarrow> bool go" where
  "HasPath join tbl record filespath = gbind (GetFullPath join tbl record) (\<lambda>p. ret (p = filespath))"

section \<open>Filters over records\<close>

definition FilterDeleted :: "Records \<Rightarrow> bool \<Rightarrow> Records" where
  "FilterDeleted records includeDeleted =
     filter (\<lambda>r. if includeDeleted then IsDeleted r else \<not> IsDeleted r) records"

definition FilterOutFiles :: "Records \<Rightarrow> Records" where
  "FilterOutFiles records = filter IsFolder records"

definition FilterOutFolders :: "Records \<Rightarrow> Records" where
  "FilterOutFolders records = filter (\<lambda>r. \<not> IsFolder r) records"

definition FilterOrphans :: "Records \<Rightarrow> Records" where
  "FilterOrphans records = filter (\<lambda>r. IsDeleted r \<and> Parent r = None) records"

definition FilterByExtension :: "Records \<Rightarrow> string \<Rightarrow> Records go" where
  "FilterByExtension records extension = gfilter (\<lambda>r. HasFilenameExtension r extension) records"

definition FilterByExtensions :: "Records \<Rightarrow> string list \<Rightarrow> Records go" where
  "FilterByExtensions records extensions =
     gfold (\<lambda>extension filteredRecords.
        gbind (FilterByExtension records extension) (\<lambda>rs. ret (filteredRecords @ rs))) extensions []"

definition FilterByNames :: "Records \<Rightarrow> Records \<Rightarrow> string list \<Rightarrow> Records go" where
  "FilterByNames tbl records filenames = gfilter (\<lambda>r. HasFilenames tbl r filenames) records"

definition FilterByName :: "Records \<Rightarrow> Records \<Rightarrow> string \<Rightarrow> Records go" where
  "FilterByName tbl records filename = gfilter (\<lambda>r. HasFilename tbl r filename) records"

definition FilterByPath :: "(string list \<Rightarrow> string) \<Rightarrow> Records \<Rightarrow> Records \<Rightarrow> string \<Rightarrow> Records go" where
  "FilterByPath join tbl records filespath = gfilter (\<lambda>r. HasPath join tbl r filespath) records"

definition FilterByPrefixSuffix :: "Records \<Rightarrow> Records \<Rightarrow> string \<Rightarrow> string \<Rightarrow> Records go" where
  "FilterByPrefixSuffix tbl records prefix suffix =
     gfilter (\<lambda>r. gbind (Record_HasPrefix tbl r prefix) (\<lambda>p.
       if p then Record_HasSuffix tbl r suffix else ret False)) records"

text \<open>The parent by its slot; an error value for a reused parent. The check for a record
  without a file name comes after the assertion that already panics.\<close>

definition GetParent :: "Records \<Rightarrow> Record \<Rightarrow> Record option go" where
  "GetParent records record =
     gbind (find_FN record) (\<lambda>fnattr.
       if unat (fn_ParRef fnattr) < length records then
         (let p = records ! unat (fn_ParRef fnattr) in
          if Seq p - fn_ParSeq fnattr < 2 then ret (Some p) else ret None)
       else panic Index_out_of_range)"

end
