(* ===== verification/Record_Facts.thy ===== *)
theory Record_Facts
  imports Record_Walk Record_Access
begin

text \<open>
  What the questions of \<open>Record_Access\<close> answer: the type invariant of the attributes that
  \<open>Record.Process\<close> stores, under which no type assertion of \<open>FS/NTFS/MFT/MFT.go\<close> fails, the
  name a record reports, its path, and the filters.
\<close>

section \<open>Attributes match their headers\<close>

text \<open>The type that a body is made for, by the name the header's type code has.\<close>

primrec body_type :: "attr_body \<Rightarrow> string" where
  "body_type (BFileName _) = ''FileName''"
| "body_type (BReparse _) = ''Reparse Point''"
| "body_type (BData _) = ''DATA''"
| "body_type (BObject _) = ''Object ID''"
| "body_type (BAttrList _) = ''Attribute List''"
| "body_type (BBitmap _) = ''BitMap''"
| "body_type (BVolumeName _) = ''Volume Name''"
| "body_type (BVolumeInfo _) = ''Volume Information''"
| "body_type (BIndexRoot _) = ''Index Root''"
| "body_type (BIndexAllocation _) = ''Index Allocation''"
| "body_type (BStdInfo _) = ''Standard Information''"
| "body_type (BLoggedUtility _) = ''Logged Utility Stream''"
| "body_type (BExtended _) = ''Extended Attribute''"
| "body_type (BEAInfo _) = ''Extended Attribute Information''"

lemma body_type_eq:
  "body_type b = ''FileName'' \<longleftrightarrow> (\<exists>x. b = BFileName x)" "body_type b = ''DATA'' \<longleftrightarrow> (\<exists>x. b = BData x)"
  "body_type b = ''Index Root'' \<longleftrightarrow> (\<exists>x. b = BIndexRoot x)"
  "body_type b = ''Index Allocation'' \<longleftrightarrow> (\<exists>x. b = BIndexAllocation x)"
  "body_type b = ''Standard Information'' \<longleftrightarrow> (\<exists>x. b = BStdInfo x)"
  by (cases b; simp)+

text \<open>The body of an attribute is made for the type in its header, and the header has the part the
  attribute is read through. Attributes of five types are stored when they are not resident, an index
  allocation only then.\<close>

definition nonresident_types :: "string list" where
  "nonresident_types = [''DATA'', ''Index Allocation'', ''BitMap'', ''Attribute List'', ''Reparse Point'']"

definition typed_attribute :: "Attribute \<Rightarrow> bool" where
  "typed_attribute a \<longleftrightarrow> FindType a = body_type (Body a) \<and>
     (if Attribute_IsNoNResident a then NonResident (GetHeader a) \<noteq> None \<and> FindType a \<in> set nonresident_types
      else Resident (GetHeader a) \<noteq> None \<and> FindType a \<noteq> ''Index Allocation'')"

lemma typed_body:
  assumes "typed_attribute a"
  shows "FindType a = ''FileName'' \<Longrightarrow> \<exists>x. Body a = BFileName x" "FindType a = ''DATA'' \<Longrightarrow> \<exists>x. Body a = BData x"
    "FindType a = ''Index Root'' \<Longrightarrow> \<exists>x. Body a = BIndexRoot x"
    "FindType a = ''Index Allocation'' \<Longrightarrow> \<exists>x. Body a = BIndexAllocation x"
    "FindType a = ''Standard Information'' \<Longrightarrow> \<exists>x. Body a = BStdInfo x"
proof -
  have "body_type (Body a) = FindType a" using assms by (simp add: typed_attribute_def)
  then show "FindType a = ''FileName'' \<Longrightarrow> \<exists>x. Body a = BFileName x" "FindType a = ''DATA'' \<Longrightarrow> \<exists>x. Body a = BData x"
    "FindType a = ''Index Root'' \<Longrightarrow> \<exists>x. Body a = BIndexRoot x"
    "FindType a = ''Index Allocation'' \<Longrightarrow> \<exists>x. Body a = BIndexAllocation x"
    "FindType a = ''Standard Information'' \<Longrightarrow> \<exists>x. Body a = BStdInfo x"
    by (simp_all flip: body_type_eq)
qed

definition typed_record :: "Record \<Rightarrow> bool" where
  "typed_record r \<longleftrightarrow> (\<forall>a \<in> set (Attributes r). typed_attribute a)"

lemmas type_tests = IsFileName_def IsReparse_def IsData_def IsObject_def IsAttrList_def IsBitmap_def
  IsVolumeName_def IsVolumeInfo_def IsIndexRoot_def IsIndexAllocation_def IsStdInfo_def
  IsLoggedUtility_def IsExtendedAttribute_def IsExtendedInformationAttribute_def

lemma GetType_parts [simp]:
  "GetType (h\<lparr>Resident := x\<rparr>) = GetType h" "GetType (h\<lparr>NonResident := y\<rparr>) = GetType h"
  by (simp_all add: GetType_def)

lemma IsNoNResident_parts [simp]:
  "IsNoNResident (h\<lparr>Resident := x\<rparr>) = IsNoNResident h" "IsNoNResident (h\<lparr>NonResident := y\<rparr>) = IsNoNResident h"
  by (simp_all add: IsNoNResident_def)

text \<open>The two searches for an attribute agree.\<close>

lemma find_position_find: "map_option (\<lambda>i. as ! (i - n)) (find_position t as n) = find_attribute t as"
  and find_position_bounds: "find_position t as n = Some i \<Longrightarrow> n \<le> i \<and> i < n + length as"
proof (induction as arbitrary: n i)
  case (Cons a as)
  { case 1
    have "(a # as) ! (i - n) = as ! (i - Suc n)" if "find_position t as (Suc n) = Some i" for i
      using Cons(2) [OF that] by (simp add: nth_Cons' Suc_diff_Suc)
    then show ?case using Cons(1) [of "Suc n"] by (cases "find_position t as (Suc n)") auto }
  { case 2 then show ?case using Cons(2) [of "Suc n"] by (fastforce split: if_splits) }
qed auto

lemma FindAttributePtr_FindAttribute: "map_option ((!) (Attributes r)) (FindAttributePtr r t) = FindAttribute r t"
  using find_position_find [of "Attributes r" 0 t] by (simp add: FindAttributePtr_def FindAttribute_def)

text \<open>Parsing keeps the type of a body; a body is chosen by the type.\<close>

lemma body_Parse_type: "body_Parse d b = ret b' \<Longrightarrow> body_type b' = body_type b"
  by (cases b) auto

lemma resident_body_type:
  assumes "resident_body h = ret (Some b)"
  shows "GetType h = body_type b \<and> GetType h \<noteq> ''Index Allocation''"
  using assms by (auto simp: resident_body_def type_tests split: if_splits)

lemma nonresident_body_type:
  assumes "nonresident_body h = Some b"
  shows "GetType h = body_type b \<and> GetType h \<in> set nonresident_types"
  using assms by (auto simp: nonresident_body_def nonresident_types_def type_tests split: if_splits)

lemma typed_resident:
  assumes "resident_attribute bs p h = ret (Some a, infos)" and "\<not> IsNoNResident h"
  shows "typed_attribute a"
proof -
  from assms(1) obtain r b d b' where b: "resident_body (h\<lparr>Resident := Some r\<rparr>) = ret (Some b)"
    and p: "body_Parse d b = ret b'" and a: "a = Attribute (h\<lparr>Resident := Some r\<rparr>) b'"
    by (auto simp: resident_attribute_def Let_def SetHeader_def split: option.splits)
  have "\<not> Attribute_IsNoNResident a"
    using assms(2) by (auto simp: a Attribute_IsNoNResident_def split: attr_body.splits)
  then show ?thesis
    using resident_body_type [OF b] body_Parse_type [OF p] by (auto simp: typed_attribute_def a FindType_def)
qed

lemma typed_nonresident:
  assumes "nonresident_attribute bs p h = ret (Some a)" and "IsNoNResident h"
  shows "typed_attribute a"
proof -
  from assms(1) obtain nr b where b: "nonresident_body (h\<lparr>NonResident := Some nr\<rparr>) = Some b"
    and a: "a = Attribute (h\<lparr>NonResident := Some nr\<rparr>) b"
    by (auto simp: nonresident_attribute_def Let_def SetHeader_def)
  show ?thesis
    using nonresident_body_type [OF b] assms(2)
    by (auto simp: typed_attribute_def a FindType_def Attribute_IsNoNResident_def nonresident_types_def split: attr_body.splits)
qed

lemma typed_process_attribute:
  "process_attribute bs p h = ret it \<Longrightarrow> \<forall>a \<in> set (fst it). typed_attribute a"
  by (cases it, auto simp: process_attribute_def split: if_splits option.splits)
    (use typed_resident typed_nonresident in blast)+

lemma processed_typed: "Process bs r = ret (None, r', bs') \<Longrightarrow> typed_record r'"
  using Process_attributes_from [of bs r r' bs'] typed_process_attribute by (fastforce simp: typed_record_def)

text \<open>C12: Type invariant. Every attribute that \<open>Process\<close> stores in a record has, for each of the fourteen
  types, the body made for the type its header names, and the resident or non-resident part it is later read
  through; a non-resident attribute is one of five types, and an index allocation is never resident.\<close>

theorem Process_typed:
  assumes "Process bs r = ret (None, r', bs')"
  shows "typed_record r'"
  using assms by (rule processed_typed)

theorem Process_typed_witness: "\<exists>r'. Process (full sample_record) zero_Record = ret (None, r', full sample_fixed) \<and> typed_record r'"
  using sample_Process Process_typed by blast
section \<open>The name of a record\<close>

text \<open>The file names of a record in order, with their name spaces.\<close>

definition fn_pairs :: "Record \<Rightarrow> (string \<times> string) list" where
  "fn_pairs r = concat (map (\<lambda>a. case Body a of BFileName f \<Rightarrow> [(GetFileNameType f, Fname f)] | _ \<Rightarrow> [])
     (filter (\<lambda>a. FindType a = ''FileName'') (Attributes r)))"

lemma put_fnames_fold:
  assumes "\<forall>a \<in> set as. \<exists>f. Body a = BFileName f"
  shows "gfold put_fname as m = ret (m ++ map_of (rev (concat (map (\<lambda>a. case Body a of
    BFileName f \<Rightarrow> [(GetFileNameType f, Fname f)] | _ \<Rightarrow> []) as))))"
  using assms
proof (induction as arbitrary: m)
  case (Cons a as)
  then obtain f where "Body a = BFileName f" by auto
  with Cons show ?case by (simp add: put_fname_def assert_FN_def map_add_assoc)
qed simp

lemma GetFnames_eq: "typed_record r \<Longrightarrow> GetFnames r = ret (map_of (rev (fn_pairs r)))"
  using put_fnames_fold [of "filter (\<lambda>a. FindType a = ''FileName'') (Attributes r)" Map.empty]
  by (auto simp: GetFnames_def fn_pairs_def typed_record_def dest: typed_body(1))

lemma GetFname_own: "OriginLinkedRecord r = None \<Longrightarrow> GetFname tbl r = own_fname r"
  by (subst GetFname.simps) simp

lemma first_name_find: "first_name m schemes =
    (case find (\<lambda>s. m s \<noteq> None) schemes of None \<Rightarrow> ''-'' | Some s \<Rightarrow> the (m s))"
  by (induction schemes) auto

text \<open>The best name by name space: the last one of the first space that occurs.\<close>

definition best_name :: "(string \<times> string) list \<Rightarrow> string" where
  "best_name names = (case filter (\<lambda>s. s \<in> fst ` set names) name_schemes of
       [] \<Rightarrow> ''-'' | s # _ \<Rightarrow> snd (last (filter (\<lambda>p. fst p = s) names)))"

lemma map_of_rev_last:
  assumes "s \<in> fst ` set names"
  shows "map_of (rev names) s = Some (snd (last (filter (\<lambda>p. fst p = s) names)))"
  using assms
proof (induction names rule: rev_induct)
  case (snoc p names)
  then show ?case by (cases "fst p = s") (auto simp: map_add_def split: option.splits)
qed simp

lemma find_filter: "find P xs = (case filter P xs of [] \<Rightarrow> None | x # _ \<Rightarrow> Some x)"
  by (induction xs) auto

lemma own_fname_best: "typed_record r \<Longrightarrow> own_fname r = ret (best_name (fn_pairs r))"
proof -
  assume t: "typed_record r"
  let ?m = "map_of (rev (fn_pairs r))"
  have dom: "?m s \<noteq> None \<longleftrightarrow> s \<in> fst ` set (fn_pairs r)" for s
    by (simp add: map_of_eq_None_iff)
  show ?thesis
  proof (cases "filter (\<lambda>s. s \<in> fst ` set (fn_pairs r)) name_schemes")
    case (Cons s ss)
    then have "s \<in> fst ` set (fn_pairs r)" using filter_eq_ConsD [OF Cons] by auto
    from map_of_rev_last [OF this] show ?thesis
      unfolding own_fname_def GetFnames_eq [OF t] gbind_ret first_name_find dom find_filter best_name_def Cons
      by simp
  qed (simp only: own_fname_def GetFnames_eq [OF t] gbind_ret first_name_find dom find_filter best_name_def
      list.case option.case)
qed

text \<open>C16: The name a record reports. For a record that \<open>Process\<close> made and that no other record claims,
  \<open>GetFname\<close> returns (it neither panics nor loops) the name in the best name space the record
  has: Win32 before Win32 and DOS, before POSIX, before DOS; the last one of several in the same
  space, and a dash for a record without a name in these spaces.\<close>

theorem GetFname_best:
  assumes "Process bs r0 = ret (None, r, bs')" and "OriginLinkedRecord r = None"
  shows "GetFname tbl r = ret (best_name (fn_pairs r))"
  using processed_typed [OF assms(1)] by (simp add: GetFname_own assms(2) own_fname_best)

lemma sample_parts: "\<exists>r'. Process (full sample_record) zero_Record = ret (None, r', full sample_fixed) \<and>
    OriginLinkedRecord r' = None \<and> fn_pairs r' = []"
  using sample_Process
  by (auto simp: record_fields_def zero_Record_def fn_pairs_def sample_items_def FindType_def
      sample_header_def GetType_def Bytereverse_def AttrTypes_def hex_eval)

theorem GetFname_best_witness:
  "\<exists>r. Process (full sample_record) zero_Record = ret (None, r, full sample_fixed) \<and> GetFname [r] r = ret ''-''"
  using sample_parts GetFname_best by (fastforce simp: best_name_def)

section \<open>Paths\<close>

text \<open>The parents of a record up to, and without, the root.\<close>

inductive ancestors :: "Records \<Rightarrow> nat option \<Rightarrow> nat list \<Rightarrow> bool" for tbl where
  no_parent: "ancestors tbl None []"
| root: "Entry (tbl ! p) = 5 \<Longrightarrow> ancestors tbl (Some p) []"
| up: "Entry (tbl ! p) \<noteq> 5 \<Longrightarrow> ancestors tbl (Parent (tbl ! p)) ps \<Longrightarrow> ancestors tbl (Some p) (p # ps)"

inductive_cases ancestors_NoneE: "ancestors tbl None ps"
inductive_cases ancestors_SomeE: "ancestors tbl (Some p) ps"

lemma path_loop_ancestors:
  assumes "ancestors tbl q ps" and "\<forall>p \<in> set ps. GetFname tbl (tbl ! p) = ret (name p)"
  shows "path_loop tbl q acc = ret (map name (rev ps) @ acc)"
  using assms
proof (induction arbitrary: acc)
  case no_parent
  show ?case by (subst path_loop.simps) simp
next
  case (root p)
  then show ?case by (subst path_loop.simps) simp
next
  case (up p ps)
  then show ?case by (subst path_loop.simps) simp
qed

lemma path_loop_closed:
  assumes "p \<in> S" and "\<forall>q \<in> S. Entry (tbl ! q) \<noteq> 5 \<and> returns (GetFname tbl (tbl ! q)) \<and>
    (\<exists>q' \<in> S. Parent (tbl ! q) = Some q')"
  shows "path_loop tbl (Some p) acc = None"
proof (rule ccontr)
  assume "path_loop tbl (Some p) acc \<noteq> None"
  then obtain r where "path_loop tbl (Some p) acc = Some r" by blast
  then have "\<not> (tbl = tbl \<and> (\<exists>q \<in> S. Some p = Some q))"
  proof (rule path_loop.raw_induct [where P = "\<lambda>t x _ _. \<not> (t = tbl \<and> (\<exists>q \<in> S. x = Some q))", rotated])
    fix loop t x acc r
    assume IH: "\<And>t x acc r. loop t x acc = Some r \<Longrightarrow> \<not> (t = tbl \<and> (\<exists>q \<in> S. x = Some q))"
      and eq: "(case x of None \<Rightarrow> ret acc | Some p \<Rightarrow> if Entry (t ! p) = 5 then ret acc
        else gbind (GetFname t (t ! p)) (\<lambda>name. loop t (Parent (t ! p)) (name # acc))) = Some r"
    show "\<not> (t = tbl \<and> (\<exists>q \<in> S. x = Some q))"
    proof
      assume "t = tbl \<and> (\<exists>q \<in> S. x = Some q)"
      then obtain q where q: "q \<in> S" "x = Some q" and t: "t = tbl" by blast
      with assms(2) obtain nm q' where "GetFname tbl (tbl ! q) = ret nm" "q' \<in> S" "Parent (tbl ! q) = Some q'"
        "Entry (tbl ! q) \<noteq> 5" by (auto simp: returns_iff)
      with eq q t have "loop tbl (Some q') (nm # acc) = Some r" by simp
      from IH [OF this] \<open>q' \<in> S\<close> show False by blast
    qed
  qed
  with assms(1) show False by blast
qed

text \<open>C15: The path of a record. If following the parents from a record reaches the root (entry 5) or a
  record without a parent, \<open>GetFullPath\<close> joins the names of those ancestors from the top down,
  without the root's. If instead the ancestors form a closed set without the root, in which a
  record that names itself as its parent suffices, \<open>GetFullPath\<close> never returns.\<close>

theorem GetFullPath_ancestors:
  "(\<forall>ps name. ancestors tbl (Parent r) ps \<and> (\<forall>p \<in> set ps. GetFname tbl (tbl ! p) = ret (name p)) \<longrightarrow>
      GetFullPath join tbl r = ret (join (map name (rev ps)))) \<and>
   (\<forall>p S. Parent r = Some p \<and> p \<in> S \<and> (\<forall>q \<in> S. Entry (tbl ! q) \<noteq> 5 \<and> returns (GetFname tbl (tbl ! q)) \<and>
      (\<exists>q' \<in> S. Parent (tbl ! q) = Some q')) \<longrightarrow> GetFullPath join tbl r = None)"
proof (intro conjI allI impI)
  fix ps name
  assume "ancestors tbl (Parent r) ps \<and> (\<forall>p \<in> set ps. GetFname tbl (tbl ! p) = ret (name p))"
  then have "path_loop tbl (Parent r) [] = ret (map name (rev ps) @ [])"
    by (intro path_loop_ancestors) auto
  then show "GetFullPath join tbl r = ret (join (map name (rev ps)))"
    by (simp add: GetFullPath_def)
qed (auto simp: GetFullPath_def path_loop_closed)

lemma GetFname_zero: "Attributes r = [] \<Longrightarrow> OriginLinkedRecord r = None \<Longrightarrow> GetFname tbl r = ret ''-''"
  by (simp add: GetFname_own own_fname_def GetFnames_def name_schemes_def)

theorem GetFullPath_ancestors_witness:
  "GetFullPath concat [zero_Record\<lparr>Entry := 5\<rparr>, zero_Record\<lparr>Entry := 30, Parent := Some 0\<rparr>]
     (zero_Record\<lparr>Entry := 31, Parent := Some 1\<rparr>) = ret ''-'' \<and>
   GetFullPath concat [zero_Record\<lparr>Entry := 30, Parent := Some 0\<rparr>] (zero_Record\<lparr>Entry := 30, Parent := Some 0\<rparr>) = None"
proof -
  let ?t1 = "[zero_Record\<lparr>Entry := 5\<rparr>, zero_Record\<lparr>Entry := 30, Parent := Some 0\<rparr>]"
  let ?t2 = "[zero_Record\<lparr>Entry := 30, Parent := Some 0\<rparr>]"
  have "ancestors ?t1 (Some 1) [1]"
    by (intro ancestors.up) (simp_all add: ancestors.root)
  then have "GetFullPath concat ?t1 (zero_Record\<lparr>Entry := 31, Parent := Some 1\<rparr>) = ret (concat (map (\<lambda>_. ''-'') (rev [1 :: nat])))"
    by (intro GetFullPath_ancestors [THEN conjunct1, rule_format]) (simp add: GetFname_zero zero_Record_def)
  moreover have "GetFullPath concat ?t2 (zero_Record\<lparr>Entry := 30, Parent := Some 0\<rparr>) = None"
    by (intro GetFullPath_ancestors [THEN conjunct2, rule_format, of _ 0 "{0}"])
      (simp add: GetFname_zero zero_Record_def)
  ultimately show ?thesis by simp
qed

section \<open>Filters\<close>

definition extension_match :: "string \<Rightarrow> Record \<Rightarrow> bool" where
  "extension_match e r \<longleftrightarrow> (case FindAttribute r ''FileName'' of
       Some a \<Rightarrow> (case Body a of BFileName f \<Rightarrow> HasSuffix (Fname f) (ToUpper (''.'' @ e)) \<or>
         HasSuffix (Fname f) (ToLower (''.'' @ e)) | _ \<Rightarrow> False)
     | None \<Rightarrow> False)"

lemma find_attribute_Some: "find_attribute t as = Some a \<Longrightarrow> a \<in> set as \<and> FindType a = t"
  by (induction as) (auto split: if_splits)

lemma HasFilenameExtension_eq: "typed_record r \<Longrightarrow> HasFilenameExtension r e = ret (extension_match e r)"
  by (cases "FindAttribute r ''FileName''")
    (auto simp: HasFilenameExtension_def HasAttr_def find_FN_def assert_FN_def extension_match_def
      FindAttribute_def typed_record_def dest!: find_attribute_Some typed_body(1) [rotated])

text \<open>Filtering by extensions. Over records with well-typed attributes \<open>FilterByExtensions\<close>
  returns, for each extension in order, the records whose first file name ends in a dot and the
  extension in upper or in lower case. A record that two of the extensions match, such as the same
  extension in two spellings, is listed twice.\<close>

lemma FilterByExtensions_eq:
  assumes "\<forall>r \<in> set records. typed_record r"
  shows "FilterByExtensions records exts = ret (concat (map (\<lambda>e. filter (extension_match e) records) exts))"
proof -
  have "gfold (\<lambda>extension filteredRecords. gbind (FilterByExtension records extension)
      (\<lambda>rs. ret (filteredRecords @ rs))) exts acc = ret (acc @ concat (map (\<lambda>e. filter (extension_match e) records) exts))"
    for acc
    using assms
    by (induction exts arbitrary: acc)
      (simp_all add: FilterByExtension_def HasFilenameExtension_eq gfilter_ret)
  then show ?thesis by (simp add: FilterByExtensions_def)
qed

definition sample_named :: "string \<Rightarrow> Record" where
  "sample_named n = zero_Record\<lparr>Attributes := [Attribute
     (zero_AttributeHeader\<lparr>Type := [0x30, 0, 0, 0], Resident := Some zero_ATRrecordResident\<rparr>)
     (BFileName (zero_FNAttribute\<lparr>Fname := n, Nspace := 1\<rparr>))]\<rparr>"

lemma FindType_sample: "FindType (Attribute (zero_AttributeHeader\<lparr>Type := [0x30, 0, 0, 0], Resident := x\<rparr>) b) = ''FileName''"
  by (simp add: FindType_def GetType_def Bytereverse_def AttrTypes_def hex_eval)

lemma typed_sample_named: "typed_record (sample_named n)"
proof -
  have "NoNResident zero_AttributeHeader = 0" by (simp add: zero_AttributeHeader_def)
  then show ?thesis
    by (simp add: typed_record_def typed_attribute_def sample_named_def FindType_sample
        Attribute_IsNoNResident_def IsNoNResident_def)
qed

lemma sample_extension_match:
  "e \<in> {''txt'', ''TXT''} \<Longrightarrow> extension_match e (sample_named ''a.txt'') \<and> \<not> extension_match e (sample_named ''b.doc'')"
  by (auto simp: extension_match_def sample_named_def FindAttribute_def FindType_sample HasSuffix_def
      ToUpper_def ToLower_def zero_FNAttribute_def char_of_def bit_0 bit_Suc)

end
