(* ===== verification/Filters.thy ===== *)
theory Filters
  imports Record_Facts
begin

text \<open>
  The filters over records (\<open>filters/filters.go\<close>) and the manager that applies the registered ones
  in order (\<open>filtermanager/manager.go\<close>). The interface \<open>Filter\<close> is a locale; its implementations
  are a datatype.
\<close>

section \<open>Filters\<close>

datatype Filter =
    NameFilter (Filenames: "string list")
  | PathFilter (NamePath: string)
  | ExtensionsFilter (Extensions: "string list")
  | OrphansFilter (orphans_Include: bool)
  | DeletedFilter (deleted_Include: bool)
  | FoldersFilter (folders_Include: bool)
  | PrefixesSuffixesFilter (Prefixes: "string list") (Suffixes: "string list")

text \<open>The loop over the prefixes; the suffix of the same index may be missing.\<close>

fun prefixes_suffixes :: "Records \<Rightarrow> string list \<Rightarrow> string list \<Rightarrow> Records \<Rightarrow> Records go" where
  "prefixes_suffixes tbl [] suffixes records = ret records"
| "prefixes_suffixes tbl (prefix # prefixes) [] records = panic Index_out_of_range"
| "prefixes_suffixes tbl (prefix # prefixes) (suffix # suffixes) records =
     gbind (FilterByPrefixSuffix tbl records prefix suffix) (prefixes_suffixes tbl prefixes suffixes)"

fun Execute :: "(string list \<Rightarrow> string) \<Rightarrow> Records \<Rightarrow> Filter \<Rightarrow> Records \<Rightarrow> Records go" where
  "Execute join tbl (NameFilter filenames) records = FilterByNames tbl records filenames"
| "Execute join tbl (PathFilter namePath) records = FilterByPath join tbl records namePath"
| "Execute join tbl (ExtensionsFilter extensions) records = FilterByExtensions records extensions"
| "Execute join tbl (OrphansFilter include) records =
     (if include then ret (FilterOrphans records) else ret records)"
| "Execute join tbl (DeletedFilter include) records =
     (if include then ret (FilterDeleted records include) else ret records)"
| "Execute join tbl (FoldersFilter include) records =
     (if \<not> include then ret (FilterOutFolders records) else ret records)"
| "Execute join tbl (PrefixesSuffixesFilter prefixes suffixes) records =
     prefixes_suffixes tbl prefixes suffixes records"

record FilterManager =
  filters :: "Filter list"

definition Register :: "FilterManager \<Rightarrow> Filter \<Rightarrow> FilterManager" where
  "Register filterManager f = filterManager\<lparr>filters := filters filterManager @ [f]\<rparr>"

definition ApplyFilters :: "(string list \<Rightarrow> string) \<Rightarrow> Records \<Rightarrow> FilterManager \<Rightarrow> Records \<Rightarrow> Records go" where
  "ApplyFilters join tbl filterManager records = gfold (Execute join tbl) (filters filterManager) records"

section \<open>The contract of a filter\<close>

locale filter_contract =
  fixes execute :: "'f \<Rightarrow> 'r list \<Rightarrow> 'r list go"
  assumes execute_subset: "execute f rs = ret rs' \<Longrightarrow> set rs' \<subseteq> set rs"
    and execute_empty: "execute f [] = ret rs \<Longrightarrow> rs = []"
begin

lemma chain_subset: "gfold execute fs rs = ret rs' \<Longrightarrow> set rs' \<subseteq> set rs"
  by (induction fs arbitrary: rs) (auto dest: execute_subset)

lemma chain_empty: "gfold execute fs [] = ret rs' \<Longrightarrow> rs' = []"
  by (induction fs) (auto dest: execute_empty)

text \<open>A record that is rejected stays rejected by every longer chain.\<close>

lemma chain_append_subset:
  "gfold execute (fs @ gs) rs = ret rs' \<Longrightarrow> \<exists>ms. gfold execute fs rs = ret ms \<and> set rs' \<subseteq> set ms"
  by (auto simp: gfold_append dest: chain_subset)

end

lemma gfilter_subset: "gfilter f xs = ret ys \<Longrightarrow> set ys \<subseteq> set xs"
  using gfilter_eq_ret [of f xs ys] by auto

lemma FilterByExtensions_subset: "FilterByExtensions rs es = ret rs' \<Longrightarrow> set rs' \<subseteq> set rs"
  unfolding FilterByExtensions_def FilterByExtension_def
proof (erule gfold_invariant)
  fix x s s'
  assume "set s \<subseteq> set rs" and "gbind (gfilter (\<lambda>r. HasFilenameExtension r x) rs) (\<lambda>ys. ret (s @ ys)) = ret s'"
  then obtain ys where "gfilter (\<lambda>r. HasFilenameExtension r x) rs = ret ys" "s' = s @ ys" by auto
  with gfilter_subset [OF this(1)] \<open>set s \<subseteq> set rs\<close> show "set s' \<subseteq> set rs" by simp
qed simp

lemma prefixes_suffixes_subset: "prefixes_suffixes tbl ps ss rs = ret rs' \<Longrightarrow> set rs' \<subseteq> set rs"
proof (induction tbl ps ss rs rule: prefixes_suffixes.induct)
  case (3 tbl p ps s ss rs)
  then obtain ms where ms: "FilterByPrefixSuffix tbl rs p s = ret ms" "prefixes_suffixes tbl ps ss ms = ret rs'"
    by auto
  with "3.IH" gfilter_subset have "set rs' \<subseteq> set ms" "set ms \<subseteq> set rs"
    unfolding FilterByPrefixSuffix_def by blast+
  then show ?case by blast
qed auto

lemma Execute_subset: "Execute join tbl f rs = ret rs' \<Longrightarrow> set rs' \<subseteq> set rs"
  by (cases f) (auto simp: FilterByNames_def FilterByPath_def FilterOrphans_def FilterDeleted_def
      FilterOutFolders_def dest: gfilter_subset FilterByExtensions_subset prefixes_suffixes_subset split: if_splits)

interpretation filters: filter_contract "Execute join tbl" for join tbl
proof unfold_locales
  show "set rs' \<subseteq> set rs" if "Execute join tbl f rs = ret rs'" for f rs rs'
    using that by (rule Execute_subset)
  show "rs = []" if "Execute join tbl f [] = ret rs" for f rs
    using Execute_subset [OF that] by simp
qed

section \<open>What a chain of filters accepts\<close>

text \<open>The records a filter accepts, given the names and paths of the records.\<close>

fun accepts :: "(Record \<Rightarrow> string) \<Rightarrow> (Record \<Rightarrow> string) \<Rightarrow> Filter \<Rightarrow> Record \<Rightarrow> bool" where
  "accepts name path (NameFilter fs) r = (name r \<in> set fs)"
| "accepts name path (PathFilter p) r = (path r = p)"
| "accepts name path (ExtensionsFilter es) r = (\<exists>e \<in> set es. extension_match e r)"
| "accepts name path (OrphansFilter b) r = (b \<longrightarrow> IsDeleted r \<and> Parent r = None)"
| "accepts name path (DeletedFilter b) r = (b \<longrightarrow> IsDeleted r)"
| "accepts name path (FoldersFilter b) r = (\<not> b \<longrightarrow> \<not> IsFolder r)"
| "accepts name path (PrefixesSuffixesFilter ps ss) r =
     (\<forall>(p, s) \<in> set (zip ps ss). HasPrefix (name r) p \<and> HasSuffix (name r) s)"

lemma accepts_fun:
  "accepts name path (NameFilter fs) = (\<lambda>r. name r \<in> set fs)"
  "accepts name path (PathFilter p) = (\<lambda>r. path r = p)"
  "accepts name path (PrefixesSuffixesFilter ps ss) =
    (\<lambda>r. \<forall>(p, s) \<in> set (zip ps ss). HasPrefix (name r) p \<and> HasSuffix (name r) s)"
  "accepts name path (OrphansFilter b) = (\<lambda>r. b \<longrightarrow> IsDeleted r \<and> Parent r = None)"
  "accepts name path (DeletedFilter b) = (\<lambda>r. b \<longrightarrow> IsDeleted r)"
  "accepts name path (FoldersFilter b) = (\<lambda>r. \<not> b \<longrightarrow> \<not> IsFolder r)"
  by (rule ext, simp)+

definition well_formed_filter :: "Filter \<Rightarrow> bool" where
  "well_formed_filter f \<longleftrightarrow> (case f of PrefixesSuffixesFilter ps ss \<Rightarrow> length ps \<le> length ss | _ \<Rightarrow> True)"

text \<open>What one filter returns: a filter by extensions goes through the records once for every extension.\<close>

definition selects :: "(Record \<Rightarrow> string) \<Rightarrow> (Record \<Rightarrow> string) \<Rightarrow> Filter \<Rightarrow> Records \<Rightarrow> Records" where
  "selects name path f rs = (case f of
     ExtensionsFilter es \<Rightarrow> concat (map (\<lambda>e. filter (extension_match e) rs) es)
   | _ \<Rightarrow> filter (accepts name path f) rs)"

text \<open>What a chain of filters returns: for every choice of one extension from each of the filters by
  extensions, the last filter varying slowest, the records that match the choice and that the other filters
  accept.\<close>

definition extension_lists :: "Filter list \<Rightarrow> string list list" where
  "extension_lists fs = map Extensions (filter is_ExtensionsFilter fs)"

definition selection ::
  "(Record \<Rightarrow> string) \<Rightarrow> (Record \<Rightarrow> string) \<Rightarrow> Filter list \<Rightarrow> Records \<Rightarrow> Records" where
  "selection name path fs records = concat (map (\<lambda>es. filter (\<lambda>r. (\<forall>e \<in> set es. extension_match e r) \<and>
       (\<forall>f \<in> set fs. is_ExtensionsFilter f \<or> accepts name path f r)) records)
     (product_lists (rev (extension_lists fs))))"

definition answers ::
  "(string list \<Rightarrow> string) \<Rightarrow> Records \<Rightarrow> (Record \<Rightarrow> string) \<Rightarrow> (Record \<Rightarrow> string) \<Rightarrow> Record \<Rightarrow> bool" where
  "answers join tbl name path r \<longleftrightarrow> typed_record r \<and> GetFname tbl r = ret (name r) \<and>
     GetFullPath join tbl r = ret (path r)"

lemma HasFilenames_eq: "GetFname tbl r = ret n \<Longrightarrow> HasFilenames tbl r fs = ret (n \<in> set fs)"
  by (induction fs) (auto simp: HasFilename_def)

lemma prefixes_suffixes_eq:
  assumes "length ps \<le> length ss" and "\<forall>r \<in> set rs. GetFname tbl r = ret (name r)"
  shows "prefixes_suffixes tbl ps ss rs =
    ret (filter (\<lambda>r. \<forall>(p, s) \<in> set (zip ps ss). HasPrefix (name r) p \<and> HasSuffix (name r) s) rs)"
  using assms
proof (induction tbl ps ss rs rule: prefixes_suffixes.induct)
  case (3 tbl p ps s ss rs)
  have "FilterByPrefixSuffix tbl rs p s = ret (filter (\<lambda>r. HasPrefix (name r) p \<and> HasSuffix (name r) s) rs)"
    unfolding FilterByPrefixSuffix_def
    by (rule gfilter_ret) (use "3.prems" in \<open>simp add: Record_HasPrefix_def Record_HasSuffix_def\<close>)
  with 3 show ?case by (simp add: conj_commute conj_left_commute)
qed auto

lemma Execute_selects:
  assumes "well_formed_filter f" and "\<forall>r \<in> set rs. answers join tbl name path r"
  shows "Execute join tbl f rs = ret (selects name path f rs)"
proof (cases f)
  case (NameFilter fs)
  have "gfilter (\<lambda>r. HasFilenames tbl r fs) rs = ret (filter (\<lambda>r. name r \<in> set fs) rs)"
    by (rule gfilter_ret) (use assms(2) in \<open>simp add: answers_def HasFilenames_eq\<close>)
  then show ?thesis by (simp add: NameFilter FilterByNames_def accepts_fun selects_def)
next
  case (PathFilter p)
  have "gfilter (\<lambda>r. HasPath join tbl r p) rs = ret (filter (\<lambda>r. path r = p) rs)"
    by (rule gfilter_ret) (use assms(2) in \<open>simp add: answers_def HasPath_def\<close>)
  then show ?thesis by (simp add: PathFilter FilterByPath_def accepts_fun selects_def)
next
  case (ExtensionsFilter es)
  have "\<forall>r \<in> set rs. typed_record r" using assms(2) by (simp add: answers_def)
  from FilterByExtensions_eq [OF this] show ?thesis by (simp add: ExtensionsFilter selects_def)
next
  case (PrefixesSuffixesFilter ps ss)
  with assms show ?thesis
    using prefixes_suffixes_eq [of ps ss rs tbl name]
    by (simp add: answers_def well_formed_filter_def accepts_fun selects_def)
qed (simp_all add: FilterOrphans_def FilterDeleted_def FilterOutFolders_def accepts_fun selects_def)

lemma selects_subset: "set (selects name path f rs) \<subseteq> set rs"
  by (auto simp: selects_def split: Filter.splits)

lemma chain_selects:
  assumes "\<forall>f \<in> set fs. well_formed_filter f" and "\<forall>r \<in> set rs. answers join tbl name path r"
  shows "gfold (Execute join tbl) fs rs = ret (fold (selects name path) fs rs)"
  using assms
proof (induction fs arbitrary: rs)
  case (Cons f fs)
  then have "\<forall>r \<in> set (selects name path f rs). answers join tbl name path r" using selects_subset by blast
  with Cons show ?case by (simp add: Execute_selects)
qed simp

lemma concat_filter: "filter P (concat xss) = concat (map (filter P) xss)"
  by (induction xss) auto

lemma concat_concat: "concat (concat xsss) = concat (map concat xsss)"
  by (induction xsss) auto

lemma selection_step: "selects name path f (selection name path fs rs) = selection name path (fs @ [f]) rs"
proof (cases "is_ExtensionsFilter f")
  case True
  then obtain es where f: "f = ExtensionsFilter es" by (cases f) auto
  show ?thesis
    by (simp add: f selects_def selection_def extension_lists_def concat_filter map_concat concat_concat comp_def
        conj_commute conj_left_commute)
next
  case False
  then have "selects name path f = filter (accepts name path f)"
    by (cases f) (auto simp: selects_def fun_eq_iff)
  with False show ?thesis
    by (simp add: selection_def extension_lists_def concat_filter comp_def conj_commute conj_left_commute)
qed

lemma fold_selects: "fold (selects name path) fs rs = selection name path fs rs"
proof (induction fs rule: rev_induct)
  case Nil
  show ?case by (simp add: selection_def extension_lists_def)
qed (simp add: selection_step)

lemma selection_accepts: "set (selection name path fs rs) = {r \<in> set rs. \<forall>f \<in> set fs. accepts name path f r}"
proof -
  have "set (selects name path f xs) = {r \<in> set xs. accepts name path f r}" for f xs
    by (cases f) (auto simp: selects_def)
  then have "set (fold (selects name path) fs rs) = {r \<in> set rs. \<forall>f \<in> set fs. accepts name path f r}"
    by (induction fs arbitrary: rs) auto
  then show ?thesis by (simp add: fold_selects)
qed

text \<open>C23: What the filters of a manager select. Over records with well-typed attributes whose names
  and paths can be computed, and with a suffix for every prefix, the records that \<open>ApplyFilters\<close> returns are
  those that every registered filter accepts. Without a filter by extensions they come in their order. With a
  list of extensions, the records of the first extension come first, then those of the second, and so on, each
  in their order, so that a record that two of the extensions match, such as the same one in two spellings,
  comes twice. When several such filters are registered, that holds for every choice of an extension
  from each. The order in which the other filters are registered does not matter.\<close>

theorem ApplyFilters_accepts:
  assumes "\<forall>f \<in> set (filters fm). well_formed_filter f" and "\<forall>r \<in> set records. answers join tbl name path r"
  shows "ApplyFilters join tbl fm records = ret (selection name path (filters fm) records) \<and>
    set (selection name path (filters fm) records) = {r \<in> set records. \<forall>f \<in> set (filters fm). accepts name path f r} \<and>
    (extension_lists (filters fm) = [] \<longrightarrow> ApplyFilters join tbl fm records =
      ret (filter (\<lambda>r. \<forall>f \<in> set (filters fm). accepts name path f r) records)) \<and>
    (\<forall>fm'. set (filters fm') = set (filters fm) \<and> extension_lists (filters fm') = extension_lists (filters fm) \<longrightarrow>
      ApplyFilters join tbl fm' records = ApplyFilters join tbl fm records)"
proof -
  have all: "ApplyFilters join tbl m records = ret (selection name path (filters m) records)"
    if "set (filters m) = set (filters fm)" for m
    using assms that by (simp add: ApplyFilters_def chain_selects fold_selects)
  have "filter (\<lambda>r. \<forall>f \<in> set (filters fm). is_ExtensionsFilter f \<or> accepts name path f r) records =
      filter (\<lambda>r. \<forall>f \<in> set (filters fm). accepts name path f r) records" if "extension_lists (filters fm) = []"
    using that by (intro filter_cong) (auto simp: extension_lists_def filter_empty_conv)
  then have plain: "selection name path (filters fm) records = filter (\<lambda>r. \<forall>f \<in> set (filters fm). accepts name path f r) records"
    if "extension_lists (filters fm) = []"
    using that by (simp add: selection_def)
  have "selection name path (filters m) records = selection name path (filters fm) records"
    if "set (filters m) = set (filters fm)" "extension_lists (filters m) = extension_lists (filters fm)" for m
    using that by (simp add: selection_def)
  then have "ApplyFilters join tbl m records = ApplyFilters join tbl fm records"
    if "set (filters m) = set (filters fm)" "extension_lists (filters m) = extension_lists (filters fm)" for m
    using that all [of m] all [OF refl] by metis
  then show ?thesis using all [OF refl] plain by (simp add: selection_accepts)
qed

theorem ApplyFilters_accepts_witness:
  "ApplyFilters concat [] (Register (Register \<lparr>filters = []\<rparr> (FoldersFilter False)) (NameFilter [''a.txt'']))
      [sample_named ''a.txt'', sample_named ''b.doc''] = ret [sample_named ''a.txt''] \<and>
    ApplyFilters concat [] (Register (Register \<lparr>filters = []\<rparr> (FoldersFilter False)) (ExtensionsFilter [''txt'', ''TXT'']))
      [sample_named ''a.txt'', sample_named ''b.doc''] = ret [sample_named ''a.txt'', sample_named ''a.txt'']"
proof -
  let ?name = "\<lambda>r. if r = sample_named ''a.txt'' then ''a.txt'' else ''b.doc''"
  have o: "OriginLinkedRecord (sample_named n) = None" "Parent (sample_named n) = None" "rec_Flags (sample_named n) = 0" for n
    by (simp_all add: sample_named_def zero_Record_def)
  have "GetFnames (sample_named n) = ret [''Win32'' \<mapsto> n]" for n
    by (simp add: GetFnames_def sample_named_def FindType_sample put_fname_def assert_FN_def
        GetFileNameType_def lookup_str_def NameSpaceFlags_def)
  then have n: "GetFname [] (sample_named n) = ret n" for n
    by (simp add: GetFname_own o own_fname_def name_schemes_def)
  have p: "GetFullPath concat [] (sample_named n) = ret []" for n
    by (simp add: GetFullPath_def o path_loop.simps)
  have attrs: "Attributes (sample_named n) = [Attribute
     (zero_AttributeHeader\<lparr>Type := [0x30, 0, 0, 0], Resident := Some zero_ATRrecordResident\<rparr>)
     (BFileName (zero_FNAttribute\<lparr>Fname := n, Nspace := 1\<rparr>))]" for n
    by (simp add: sample_named_def)
  have "Attributes (sample_named ''b.doc'') \<noteq> Attributes (sample_named ''a.txt'')"
    unfolding attrs by (simp add: zero_FNAttribute_def)
  then have ne: "sample_named ''b.doc'' \<noteq> sample_named ''a.txt''" by metis
  have answers: "\<forall>r \<in> set [sample_named ''a.txt'', sample_named ''b.doc'']. answers concat [] ?name (\<lambda>_. []) r"
    using ne by (simp add: answers_def typed_sample_named n p)
  have no_folder: "\<not> IsFolder (sample_named n)" for n
    by (simp add: IsFolder_def getType_def o lookup_str_def MFTflags_def)
  have "ApplyFilters concat [] (Register (Register \<lparr>filters = []\<rparr> (FoldersFilter False)) (NameFilter [''a.txt'']))
      [sample_named ''a.txt'', sample_named ''b.doc''] = ret [sample_named ''a.txt'']"
    using ApplyFilters_accepts [OF _ answers, of "Register (Register \<lparr>filters = []\<rparr> (FoldersFilter False)) (NameFilter [''a.txt''])"] ne no_folder
    by (simp add: Register_def well_formed_filter_def extension_lists_def selection_def)
  moreover have "ApplyFilters concat [] (Register (Register \<lparr>filters = []\<rparr> (FoldersFilter False)) (ExtensionsFilter [''txt'', ''TXT'']))
      [sample_named ''a.txt'', sample_named ''b.doc''] = ret [sample_named ''a.txt'', sample_named ''a.txt'']"
    using ApplyFilters_accepts [OF _ answers, of "Register (Register \<lparr>filters = []\<rparr> (FoldersFilter False)) (ExtensionsFilter [''txt'', ''TXT''])"]
      sample_extension_match no_folder
    by (simp add: Register_def well_formed_filter_def extension_lists_def selection_def)
  ultimately show ?thesis by simp
qed

text \<open>No filter invents a record, whatever the filters and records are: every record that
  \<open>ApplyFilters\<close> returns was given to it, and an empty selection stays empty.\<close>

lemma ApplyFilters_subset:
  assumes "ApplyFilters join tbl fm records = ret selected"
  shows "set selected \<subseteq> set records \<and> (records = [] \<longrightarrow> selected = [])"
  using assms filters.chain_subset [of join tbl "filters fm" records selected]
  by (auto simp: ApplyFilters_def)

end
