(* ===== verification/Tree_Builder.thy ===== *)
theory Tree_Builder
  imports Record_Facts
begin

text \<open>
  The tree of files that \<open>tree/builder.go\<close> reconstructs from the records of an MFT. A node keeps the
  range of the entry numbers below it, which its ancestors widen too when a child is added; the
  pointer to the parent node only serves that, so a node here is its record, its children and its
  range. Arguments of log messages are evaluated by the code, so the calls of \<open>GetFname\<close> are kept.
\<close>

section \<open>Nodes\<close>

datatype Node = Node (node_record: Record) (children: "Node list") (MinChildEntry: u32) (MaxChildEntry: u32)

record Tree =
  tree_root :: "Node option"

definition contains :: "Node \<Rightarrow> u32 \<Rightarrow> bool" where
  "contains node e = (if MinChildEntry node \<le> e \<and> e \<le> MaxChildEntry node then True else False)"

text \<open>One round of \<open>updateEntryRange\<close>, at one node.\<close>

definition update_range :: "u32 \<Rightarrow> Node \<Rightarrow> Node" where
  "update_range e node = Node (node_record node) (children node)
     (if MinChildEntry node > e then e else MinChildEntry node)
     (if MaxChildEntry node < e then e else MaxChildEntry node)"

definition is_child :: "Record \<Rightarrow> FNAttribute \<Rightarrow> bool" where
  "is_child parent fnattr \<longleftrightarrow> ucast (Entry parent) = fn_ParRef fnattr \<and> Seq parent - fn_ParSeq fnattr < 2"

text \<open>\<open>insert\<close>: the new node, and whether a child was added below it, in which case the ranges of the
  nodes above are widened on the way back.\<close>

fun insert_node :: "Records \<Rightarrow> Record \<Rightarrow> Node \<Rightarrow> (Node \<times> bool) go"
and insert_nodes :: "Records \<Rightarrow> Record \<Rightarrow> u32 \<Rightarrow> Node list \<Rightarrow> (Node list \<times> bool) go" where
  "insert_node tbl r (Node nr cs mn mx) =
     (if \<not> IsFolder nr then ret (Node nr cs mn mx, False)
      else case FindAttribute r ''FileName'' of
          None \<Rightarrow> ret (Node nr cs mn mx, False)
        | Some attr \<Rightarrow>
            gbind (GetFname tbl nr) (\<lambda>_.
            gbind (assert_FN attr) (\<lambda>fnattr.
            if is_child nr fnattr then
              gbind (GetFname tbl r) (\<lambda>_.
              gbind (GetFname tbl nr) (\<lambda>_.
                ret (update_range (Entry r) (Node nr (cs @ [Node r [] (Entry r) (Entry r)]) mn mx), True)))
            else
              gbind (insert_nodes tbl r (ucast (fn_ParRef fnattr)) cs) (\<lambda>(cs', added).
                ret ((if added then update_range (Entry r) else id) (Node nr cs' mn mx), added)))))"
| "insert_nodes tbl r parRef [] = ret ([], False)"
| "insert_nodes tbl r parRef (c # cs) =
     (if \<not> contains c parRef then
        gbind (insert_nodes tbl r parRef cs) (\<lambda>(cs', added). ret (c # cs', added))
      else
        gbind (insert_node tbl r c) (\<lambda>(c', added).
        gbind (insert_nodes tbl r parRef cs) (\<lambda>(cs', added'). ret (c' # cs', added \<or> added'))))"

definition AddRecord :: "Records \<Rightarrow> Record \<Rightarrow> Tree \<Rightarrow> Tree go" where
  "AddRecord tbl r t = (case tree_root t of
       None \<Rightarrow> ret (t\<lparr>tree_root := Some (Node r [] 0 0)\<rparr>)
     | Some root \<Rightarrow> gbind (insert_node tbl r root) (\<lambda>(root', _). ret (t\<lparr>tree_root := Some root'\<rparr>)))"

text \<open>Records below entry 5, the root directory, are left out.\<close>

definition Build :: "Records \<Rightarrow> Records \<Rightarrow> Tree \<Rightarrow> Tree go" where
  "Build tbl records t =
     gfold (\<lambda>r t. if Entry r < 5 then ret t else AddRecord tbl r t) records t"

section \<open>Invariants\<close>

text \<open>The records in a tree, and its edges from parent to child.\<close>

fun node_records :: "Node \<Rightarrow> Record set" where
  "node_records (Node r cs mn mx) = Set.insert r (\<Union>c \<in> set cs. node_records c)"

fun edges :: "Node \<Rightarrow> (Record \<times> Record) set" where
  "edges (Node r cs mn mx) = {(r, node_record c) | c. c \<in> set cs} \<union> (\<Union>c \<in> set cs. edges c)"

text \<open>A node's range covers the entries below it; only folders have children; below the root a
  node's range covers its own entry too.\<close>

fun ranges_ok :: "Node \<Rightarrow> bool" where
  "ranges_ok (Node r cs mn mx) \<longleftrightarrow> (cs \<noteq> [] \<longrightarrow> IsFolder r) \<and>
     (\<forall>c \<in> set cs. ranges_ok c \<and> (\<forall>x \<in> node_records c. contains c (Entry x) \<and> mn \<le> Entry x \<and> Entry x \<le> mx))"

lemma update_range_simps [simp]: "node_record (update_range e n) = node_record n"
    "children (update_range e n) = children n"
    "node_records (update_range e n) = node_records n" "edges (update_range e n) = edges n"
  by (cases n, simp add: update_range_def)+

lemma contains_iff: "contains n e \<longleftrightarrow> MinChildEntry n \<le> e \<and> e \<le> MaxChildEntry n"
  by (simp add: contains_def)

lemma update_range_covers:
  "contains (update_range e n) e" "contains n x \<Longrightarrow> contains (update_range e n) x"
  by (auto simp: update_range_def contains_iff)

lemma is_child_ref: "is_child p f \<Longrightarrow> ucast (fn_ParRef f) = Entry p"
proof -
  assume "is_child p f"
  then have "fn_ParRef f = ucast (Entry p)" by (simp add: is_child_def)
  moreover have "(ucast (ucast (Entry p) :: u64) :: u32) = Entry p"
    by (rule bit_word_eqI) (auto simp: bit_simps)
  ultimately show ?thesis by simp
qed

lemma node_record_in [simp]: "node_record n \<in> node_records n"
  by (cases n) simp

lemma edges_alt: "edges (Node r cs mn mx) = Pair r ` set (map node_record cs) \<union> (\<Union>i < length cs. edges (cs ! i))"
proof -
  have "(\<Union>c \<in> set cs. edges c) = (\<Union>i < length cs. edges (cs ! i))" by (auto simp: set_conv_nth)
  moreover have "{(r, node_record c) | c. c \<in> set cs} = Pair r ` set (map node_record cs)" by auto
  ultimately show ?thesis by simp
qed

lemma edges_records: "(p, c) \<in> edges n \<Longrightarrow> p \<in> node_records n \<and> c \<in> node_records n"
  by (induction n) fastforce

section \<open>Insertion\<close>

text \<open>What inserting a record with file name \<open>f\<close> does to one node, and to a list of children.\<close>

definition inserted :: "FNAttribute \<Rightarrow> Record \<Rightarrow> Node \<Rightarrow> Node \<Rightarrow> bool \<Rightarrow> bool" where
  "inserted f r n n' b \<longleftrightarrow> b = (\<exists>x \<in> node_records n. IsFolder x \<and> is_child x f) \<and>
     node_record n' = node_record n \<and> ranges_ok n' \<and>
     node_records n' = node_records n \<union> (if b then {r} else {}) \<and> edges n \<subseteq> edges n' \<and>
     edges n' \<subseteq> edges n \<union> {(p, r) | p. p \<in> node_records n \<and> IsFolder p \<and> is_child p f} \<and>
     (b \<longrightarrow> (\<exists>p. is_child p f \<and> (p, r) \<in> edges n')) \<and> (\<not> b \<longrightarrow> n' = n) \<and>
     (\<forall>e. contains n e \<longrightarrow> contains n' e) \<and> (b \<longrightarrow> contains n' (Entry r))"

lemma contains_Node: "contains (Node r cs mn mx) e \<longleftrightarrow> mn \<le> e \<and> e \<le> mx"
  by (simp add: contains_iff)

lemma inserted_children:
  assumes "list_all2 (\<lambda>c (c', b). inserted f r c c' b) cs cbs" and "ranges_ok (Node nr cs mn mx)"
    and "\<not> is_child nr f" and "cs' = map fst cbs" and "b = (\<exists>x \<in> set cbs. snd x)" and "IsFolder nr"
  shows "inserted f r (Node nr cs mn mx) ((if b then update_range (Entry r) else id) (Node nr cs' mn mx)) b"
proof -
  let ?n = "Node nr cs mn mx" and ?m = "Node nr cs' mn mx"
  let ?n' = "(if b then update_range (Entry r) else id) ?m"
  have len: "length cbs = length cs" "length cs' = length cs" using assms(1,4) by (auto dest: list_all2_lengthD)
  have ins: "inserted f r (cs ! i) (cs' ! i) (snd (cbs ! i))" if "i < length cs" for i
    using list_all2_nthD [OF assms(1) that] len that assms(4) by (simp add: case_prod_beta)
  have bi: "b \<longleftrightarrow> (\<exists>i < length cs. snd (cbs ! i))"
    using assms(5) len by (metis in_set_conv_nth)
  have recs: "node_records ?m = node_records ?n \<union> (if b then {r} else {})"
  proof -
    have "(\<Union>c \<in> set cs'. node_records c) = (\<Union>i \<in> {..<length cs}. node_records (cs' ! i))"
      using len by (auto simp: set_conv_nth)
    also have "\<dots> = (\<Union>i \<in> {..<length cs}. node_records (cs ! i) \<union> (if snd (cbs ! i) then {r} else {}))"
      using ins by (simp add: inserted_def)
    also have "\<dots> = (\<Union>c \<in> set cs. node_records c) \<union> (if b then {r} else {})"
      by (auto simp: set_conv_nth bi split: if_splits)
    finally show ?thesis by simp
  qed
  have some: "b = (\<exists>x \<in> node_records ?n. IsFolder x \<and> is_child x f)"
  proof -
    have "(\<exists>x \<in> node_records ?n. IsFolder x \<and> is_child x f) \<longleftrightarrow>
        (\<exists>c \<in> set cs. \<exists>x \<in> node_records c. IsFolder x \<and> is_child x f)"
      using assms(3) by auto
    also have "\<dots> \<longleftrightarrow> (\<exists>i < length cs. \<exists>x \<in> node_records (cs ! i). IsFolder x \<and> is_child x f)"
      by (auto simp: set_conv_nth)
    also have "\<dots> \<longleftrightarrow> (\<exists>i < length cs. snd (cbs ! i))"
    proof -
      have "(\<exists>x \<in> node_records (cs ! i). IsFolder x \<and> is_child x f) = snd (cbs ! i)" if "i < length cs" for i
        using ins [OF that] unfolding inserted_def by blast
      then show ?thesis by blast
    qed
    also have "\<dots> \<longleftrightarrow> b" using bi by blast
    finally show ?thesis by simp
  qed
  have same: "?n' = ?n" if "\<not> b"
  proof -
    have "cs' ! i = cs ! i" if "i < length cs" for i
      using ins [OF that] bi \<open>\<not> b\<close> that unfolding inserted_def by blast
    then have "cs' = cs" using len by (intro nth_equalityI) auto
    then show ?thesis using that by simp
  qed
  have cov: "contains ?n e \<Longrightarrow> contains ?n' e" for e
    using update_range_covers(2) [of ?m e "Entry r"] by (simp add: contains_Node)
  have covr: "b \<Longrightarrow> contains ?n' (Entry r)" using update_range_covers(1) by simp
  have "node_record (cs' ! i) = node_record (cs ! i)" if "i < length cs" for i
    using ins [OF that] unfolding inserted_def by blast
  then have "map node_record cs' = map node_record cs"
    using len by (intro nth_equalityI) auto
  then have em: "edges ?m = Pair nr ` set (map node_record cs) \<union> (\<Union>i < length cs. edges (cs' ! i))"
    unfolding edges_alt by (simp only: len)
  have en: "edges ?n = Pair nr ` set (map node_record cs) \<union> (\<Union>i < length cs. edges (cs ! i))"
    by (rule edges_alt)
  have ei: "edges (cs ! i) \<subseteq> edges (cs' ! i)"
    "edges (cs' ! i) \<subseteq> edges (cs ! i) \<union> {(p, r) | p. p \<in> node_records ?n \<and> IsFolder p \<and> is_child p f}"
    if "i < length cs" for i
  proof -
    have "node_records (cs ! i) \<subseteq> node_records ?n" using that by auto
    then show "edges (cs ! i) \<subseteq> edges (cs' ! i)"
      "edges (cs' ! i) \<subseteq> edges (cs ! i) \<union> {(p, r) | p. p \<in> node_records ?n \<and> IsFolder p \<and> is_child p f}"
      using ins [OF that] unfolding inserted_def by blast+
  qed
  have edge1: "edges ?n \<subseteq> edges ?m"
    unfolding em en using ei(1) by (intro Un_mono UN_mono) auto
  have edge2: "edges ?m \<subseteq> edges ?n \<union> {(p, r) | p. p \<in> node_records ?n \<and> IsFolder p \<and> is_child p f}"
  proof -
    have "(\<Union>i < length cs. edges (cs' ! i)) \<subseteq> (\<Union>i < length cs. edges (cs ! i)) \<union>
        {(p, r) | p. p \<in> node_records ?n \<and> IsFolder p \<and> is_child p f}" (is "_ \<subseteq> _ \<union> ?R")
    proof (rule UN_least)
      fix i assume i: "i \<in> {..<length cs}"
      then have up: "edges (cs ! i) \<subseteq> (\<Union>i < length cs. edges (cs ! i))" by (rule UN_upper)
      from i have "i < length cs" by simp
      from subset_trans [OF ei(2) [OF this] Un_mono [OF up subset_refl]]
      show "edges (cs' ! i) \<subseteq> (\<Union>i < length cs. edges (cs ! i)) \<union> ?R" .
    qed
    then show ?thesis unfolding em en by (simp only: Un_assoc) (rule Un_mono [OF subset_refl])
  qed
  have edge3: "\<exists>p. is_child p f \<and> (p, r) \<in> edges ?m" if "b"
  proof -
    from that bi obtain i where i: "i < length cs" "snd (cbs ! i)" by blast
    then obtain p where "is_child p f" "(p, r) \<in> edges (cs' ! i)"
      using ins [OF i(1)] unfolding inserted_def by blast
    then show ?thesis unfolding em using i(1) by blast
  qed
  have "ranges_ok ?n'"
  proof -
    obtain mn' mx' where n': "?n' = Node nr cs' mn' mx'" by (cases b) (auto simp: update_range_def)
    have "ranges_ok c \<and> (\<forall>x \<in> node_records c. contains c (Entry x) \<and> mn' \<le> Entry x \<and> Entry x \<le> mx')"
      if c: "c \<in> set cs'" for c
    proof -
      from c len obtain i where i: "i < length cs" "c = cs' ! i" by (auto simp: in_set_conv_nth)
      have old: "\<forall>x \<in> node_records (cs ! i). contains (cs ! i) (Entry x) \<and> mn \<le> Entry x \<and> Entry x \<le> mx"
        using assms(2) nth_mem [OF i(1)] by auto
      note I = ins [OF i(1), folded i(2), unfolded inserted_def]
      have "contains c (Entry x) \<and> contains ?n' (Entry x)" if x: "x \<in> node_records c" for x
      proof (cases "x \<in> node_records (cs ! i)")
        case True
        then show ?thesis using old I cov by (auto simp: contains_Node)
      next
        case False
        with x I have "x = r" "snd (cbs ! i)" by (auto split: if_splits)
        then show ?thesis using I covr bi i(1) by blast
      qed
      then show ?thesis using I n' by (auto simp: contains_Node)
    qed
    then show ?thesis using n' assms(6) by simp
  qed
  moreover have "node_record ?n' = node_record ?n" "edges ?n' = edges ?m" "node_records ?n' = node_records ?m"
    by (cases b, simp_all del: edges.simps node_records.simps)+
  ultimately show ?thesis
    using some same cov covr edge1 edge2 edge3 recs unfolding inserted_def by (intro conjI) metis+
qed

lemma inserted_refl: "ranges_ok n \<Longrightarrow> \<not> (\<exists>x \<in> node_records n. IsFolder x \<and> is_child x f) \<Longrightarrow> inserted f r n n False"
  by (auto simp: inserted_def)

lemma insert_nodes_all:
  assumes "\<forall>c \<in> set cs. \<exists>c' b. insert_node tbl r c = ret (c', b) \<and> inserted f r c c' b"
    and "\<forall>c \<in> set cs. ranges_ok c \<and> (\<forall>x \<in> node_records c. contains c (Entry x))"
  shows "\<exists>cbs. insert_nodes tbl r (ucast (fn_ParRef f)) cs = ret (map fst cbs, \<exists>x \<in> set cbs. snd x) \<and>
    list_all2 (\<lambda>c (c', b). inserted f r c c' b) cs cbs"
  using assms
proof (induction cs)
  case Nil
  show ?case by (intro exI [of _ "[]"]) simp
next
  case (Cons c cs)
  then obtain cbs where cbs: "insert_nodes tbl r (ucast (fn_ParRef f)) cs = ret (map fst cbs, \<exists>x \<in> set cbs. snd x)"
    "list_all2 (\<lambda>c (c', b). inserted f r c c' b) cs cbs" by auto
  show ?case
  proof (cases "contains c (ucast (fn_ParRef f))")
    case True
    from Cons.prems(1) obtain c' b where "insert_node tbl r c = ret (c', b)" "inserted f r c c' b" by auto
    with True cbs show ?thesis by (intro exI [of _ "(c', b) # cbs"]) simp
  next
    case False
    then have "\<not> (\<exists>x \<in> node_records c. IsFolder x \<and> is_child x f)"
      using Cons.prems(2) is_child_ref by fastforce
    then have "inserted f r c c False" using Cons.prems(2) by (intro inserted_refl) auto
    with False cbs show ?thesis by (intro exI [of _ "(c, False) # cbs"]) simp
  qed
qed

lemma inserted_here:
  assumes "ranges_ok (Node nr cs mn mx)" and "IsFolder nr" and "is_child nr f"
  shows "inserted f r (Node nr cs mn mx)
    (update_range (Entry r) (Node nr (cs @ [Node r [] (Entry r) (Entry r)]) mn mx)) True"
proof -
  let ?n = "Node nr cs mn mx" and ?m = "Node nr (cs @ [Node r [] (Entry r) (Entry r)]) mn mx"
  obtain mn' mx' where n': "update_range (Entry r) ?m = Node nr (cs @ [Node r [] (Entry r) (Entry r)]) mn' mx'"
    by (auto simp: update_range_def)
  have old: "contains (update_range (Entry r) ?m) e" if "contains ?n e" for e
    using update_range_covers(2) [of ?m e "Entry r"] that by (simp add: contains_Node)
  have new: "contains (update_range (Entry r) ?m) (Entry r)" by (rule update_range_covers)
  have "ranges_ok (Node nr (cs @ [Node r [] (Entry r) (Entry r)]) mn' mx')"
    using assms(1,2) old new unfolding n' by (auto simp: contains_Node)
  moreover have "edges ?m = edges ?n \<union> {(nr, r)}" by auto (metis Node.sel(1))
  moreover have "node_records ?m = node_records ?n \<union> {r}" by auto
  ultimately show ?thesis
    using assms(2,3) old new unfolding inserted_def update_range_simps unfolding n' by auto
qed

lemma insert_node_inserted:
  assumes "FindAttribute r ''FileName'' = Some a" and "Body a = BFileName f"
  shows "ranges_ok n \<Longrightarrow> \<forall>x \<in> Set.insert r (node_records n). returns (GetFname tbl x) \<Longrightarrow>
      \<exists>n' b. insert_node tbl r n = ret (n', b) \<and> inserted f r n n' b"
proof (induction n)
  case (Node nr cs mn mx)
  let ?n = "Node nr cs mn mx"
  show ?case
  proof (cases "IsFolder nr")
    case False
    then have "cs = []" using Node.prems by auto
    with False show ?thesis by (auto simp: inserted_def)
  next
    case True
    from Node.prems obtain nm nm' where nm: "GetFname tbl nr = ret nm" "GetFname tbl r = ret nm'"
      by (auto simp: returns_iff)
    show ?thesis
    proof (cases "is_child nr f")
      case child: True
      have "insert_node tbl r ?n =
          ret (update_range (Entry r) (Node nr (cs @ [Node r [] (Entry r) (Entry r)]) mn mx), True)"
        using True child assms nm by (simp add: assert_FN_def)
      with inserted_here [OF Node.prems(1) True child] show ?thesis by blast
    next
      case other: False
      have ok: "\<forall>c \<in> set cs. ranges_ok c \<and> (\<forall>x \<in> node_records c. contains c (Entry x))"
        using Node.prems(1) by simp
      have "\<forall>c \<in> set cs. \<exists>c' b. insert_node tbl r c = ret (c', b) \<and> inserted f r c c' b"
        using Node.IH Node.prems(2) ok by auto
      from insert_nodes_all [OF this ok] obtain cbs where cbs: "insert_nodes tbl r (ucast (fn_ParRef f)) cs =
          ret (map fst cbs, \<exists>x \<in> set cbs. snd x)" and all: "list_all2 (\<lambda>c (c', b). inserted f r c c' b) cs cbs"
        by blast
      have "insert_node tbl r ?n = ret ((if \<exists>x \<in> set cbs. snd x then update_range (Entry r) else id)
          (Node nr (map fst cbs) mn mx), \<exists>x \<in> set cbs. snd x)"
        using True other assms nm cbs by (simp add: assert_FN_def)
      with inserted_children [OF all Node.prems(1) other refl refl True] show ?thesis by blast
    qed
  qed
qed

text \<open>C22: Adding a record to the tree. In a tree whose ranges are right, for a record with a
  well-typed first file name, \<open>AddRecord\<close> returns, keeps the ranges right and keeps every edge. The
  record is added exactly when some folder of the tree is its parent (entry number and sequence
  number agree), however deep that folder lies, so the pruning by ranges never misses it; every new
  edge leads from such a parent to the record. A record whose parent is not in the tree is dropped.\<close>

theorem AddRecord_spec:
  assumes "tree_root t = Some n" and "ranges_ok n"
    and "FindAttribute r ''FileName'' = Some a" and "Body a = BFileName f"
    and "\<forall>x \<in> Set.insert r (node_records n). returns (GetFname tbl x)"
  shows "\<exists>n'. AddRecord tbl r t = ret (t\<lparr>tree_root := Some n'\<rparr>) \<and> ranges_ok n' \<and> edges n \<subseteq> edges n' \<and>
    edges n' \<subseteq> edges n \<union> {(p, r) | p. p \<in> node_records n \<and> IsFolder p \<and> is_child p f} \<and>
    (if \<exists>p \<in> node_records n. IsFolder p \<and> is_child p f
     then \<exists>p. is_child p f \<and> (p, r) \<in> edges n' else n' = n)"
proof -
  from insert_node_inserted [OF assms(3,4,2,5)] obtain n' b
    where n': "insert_node tbl r n = ret (n', b)" and i: "inserted f r n n' b" by blast
  from n' assms(1) have "AddRecord tbl r t = ret (t\<lparr>tree_root := Some n'\<rparr>)" by (simp add: AddRecord_def)
  with i show ?thesis unfolding inserted_def by (cases b) auto
qed

text \<open>A root directory (entry 5) and a file in it.\<close>

definition sample_root :: Record where
  "sample_root = zero_Record\<lparr>Entry := 5, Seq := 5, rec_Flags := 3\<rparr>"

definition sample_file :: "u64 \<Rightarrow> u32 \<Rightarrow> Record" where
  "sample_file par e = zero_Record\<lparr>Entry := e, Attributes := [Attribute
     (zero_AttributeHeader\<lparr>Type := [0x30, 0, 0, 0], Resident := Some zero_ATRrecordResident\<rparr>)
     (BFileName (zero_FNAttribute\<lparr>fn_ParRef := par, fn_ParSeq := 5, Nspace := 1\<rparr>))]\<rparr>"

lemma sample_tree_facts:
  "FindAttribute (sample_file par e) ''FileName'' = Some (Attribute
     (zero_AttributeHeader\<lparr>Type := [0x30, 0, 0, 0], Resident := Some zero_ATRrecordResident\<rparr>)
     (BFileName (zero_FNAttribute\<lparr>fn_ParRef := par, fn_ParSeq := 5, Nspace := 1\<rparr>)))"
  "returns (GetFname tbl (sample_file par e))" "returns (GetFname tbl sample_root)" "IsFolder sample_root"
  by (simp_all add: sample_file_def sample_root_def FindAttribute_def FindType_sample GetFname_own own_fname_def
      GetFnames_def put_fname_def assert_FN_def IsFolder_def getType_def lookup_str_def MFTflags_def zero_Record_def)

theorem AddRecord_spec_witness:
  "\<exists>n'. AddRecord [] (sample_file 5 30) \<lparr>tree_root = Some (Node sample_root [] 0 0)\<rparr> = ret \<lparr>tree_root = Some n'\<rparr> \<and>
     (sample_root, sample_file 5 30) \<in> edges n'"
proof -
  let ?f = "zero_FNAttribute\<lparr>fn_ParRef := 5, fn_ParSeq := 5, Nspace := 1\<rparr>"
  have c: "is_child sample_root ?f" by (simp add: is_child_def sample_root_def)
  have "\<exists>n'. AddRecord [] (sample_file 5 30) \<lparr>tree_root = Some (Node sample_root [] 0 0)\<rparr> =
      ret (\<lparr>tree_root = Some (Node sample_root [] 0 0)\<rparr>\<lparr>tree_root := Some n'\<rparr>) \<and> ranges_ok n' \<and>
    edges (Node sample_root [] 0 0) \<subseteq> edges n' \<and> edges n' \<subseteq> edges (Node sample_root [] 0 0) \<union>
      {(p, sample_file 5 30) | p. p \<in> node_records (Node sample_root [] 0 0) \<and> IsFolder p \<and> is_child p ?f} \<and>
    (if \<exists>p \<in> node_records (Node sample_root [] 0 0). IsFolder p \<and> is_child p ?f
     then \<exists>p. is_child p ?f \<and> (p, sample_file 5 30) \<in> edges n' else n' = Node sample_root [] 0 0)"
    by (rule AddRecord_spec [OF _ _ sample_tree_facts(1)]) (simp_all add: sample_tree_facts)
  then show ?thesis using c sample_tree_facts(4) by auto
qed

text \<open>The tree depends on the order of the records. A record that precedes its parent directory, as
  every record of a directory with a higher entry number does, is dropped: building the tree from
  the root, a file whose parent is entry 40 and then directory 40 leaves a root with the one child
  40, although every record refers to its parent.\<close>

theorem Build_drops_early_children:
  assumes "IsFolder d" and "Entry d = 40" and "Seq d = 5" and "FindAttribute d ''FileName'' = Some a"
    and "Body a = BFileName g" and "fn_ParRef g = 5" and "fn_ParSeq g = 5" and "returns (GetFname tbl d)"
  shows "\<exists>t. Build tbl [sample_root, sample_file 40 30, d] \<lparr>tree_root = None\<rparr> = ret t \<and>
    (\<exists>n. tree_root t = Some n \<and> node_records n = {sample_root, d})"
proof -
  have e: "\<not> Entry sample_root < 5" "\<not> Entry (sample_file 40 30) < 5" "\<not> Entry d < 5"
    using assms(2) by (simp_all add: sample_root_def sample_file_def)
  obtain nm nm2 where nm: "GetFname tbl sample_root = ret nm" "GetFname tbl d = ret nm2"
    using sample_tree_facts(3) [of tbl] assms(8) by (auto simp: returns_iff)
  have "\<not> is_child sample_root (zero_FNAttribute\<lparr>fn_ParRef := 40, fn_ParSeq := 5, Nspace := 1\<rparr>)"
    by (simp add: is_child_def sample_root_def)
  then have "AddRecord tbl (sample_file 40 30) \<lparr>tree_root = Some (Node sample_root [] 0 0)\<rparr> =
      ret \<lparr>tree_root = Some (Node sample_root [] 0 0)\<rparr>"
    using sample_tree_facts(1,4) nm by (simp add: AddRecord_def assert_FN_def)
  moreover have "is_child sample_root g" using assms(6,7) by (simp add: is_child_def sample_root_def)
  then have "AddRecord tbl d \<lparr>tree_root = Some (Node sample_root [] 0 0)\<rparr> = ret \<lparr>tree_root = Some
      (update_range (Entry d) (Node sample_root [Node d [] (Entry d) (Entry d)] 0 0))\<rparr>"
    using sample_tree_facts(4) nm assms(4,5) by (simp add: AddRecord_def assert_FN_def)
  ultimately show ?thesis
    using e by (simp add: Build_def AddRecord_def [of _ sample_root])
qed

theorem Build_drops_early_children_witness:
  "\<exists>t n. Build [] [sample_root, sample_file 40 30, (sample_file 5 40)\<lparr>Seq := 5, rec_Flags := 3\<rparr>] \<lparr>tree_root = None\<rparr> = ret t \<and>
     tree_root t = Some n \<and> node_records n = {sample_root, (sample_file 5 40)\<lparr>Seq := 5, rec_Flags := 3\<rparr>}"
proof -
  let ?d = "(sample_file 5 40)\<lparr>Seq := 5, rec_Flags := 3\<rparr>"
  have "FindAttribute ?d ''FileName'' = FindAttribute (sample_file 5 40) ''FileName''"
    "OriginLinkedRecord ?d = None" "GetFnames ?d = GetFnames (sample_file 5 40)"
    by (simp_all add: FindAttribute_def GetFnames_def sample_file_def zero_Record_def)
  moreover have "returns (GetFname [] ?d)"
    using sample_tree_facts(2) [of "[]" 5 40] calculation
    by (simp add: GetFname_own own_fname_def sample_file_def zero_Record_def)
  ultimately have "returns (GetFname [] ?d)" "FindAttribute ?d ''FileName'' = FindAttribute (sample_file 5 40) ''FileName''"
    by auto
  note facts = this
  let ?f = "zero_FNAttribute\<lparr>fn_ParRef := 5, fn_ParSeq := 5, Nspace := 1\<rparr>"
  have "\<exists>t. Build [] [sample_root, sample_file 40 30, ?d] \<lparr>tree_root = None\<rparr> = ret t \<and>
      (\<exists>n. tree_root t = Some n \<and> node_records n = {sample_root, ?d})"
  proof (rule Build_drops_early_children [where g = ?f])
    show "FindAttribute ?d ''FileName'' = Some (Attribute
        (zero_AttributeHeader\<lparr>Type := [0x30, 0, 0, 0], Resident := Some zero_ATRrecordResident\<rparr>) (BFileName ?f))"
      unfolding facts(2) by (rule sample_tree_facts)
    show "returns (GetFname [] ?d)" by (rule facts(1))
  qed (simp_all add: IsFolder_def getType_def lookup_str_def MFTflags_def, simp_all add: sample_file_def)
  then show ?thesis by blast
qed

end
