(* ===== verification/MFT_Table.thy ===== *)
theory MFT_Table
  imports Record_Facts
begin

text \<open>
  The MFT table of \<open>FS/NTFS/MFT/Table.go\<close>: the slice of records that \<open>ProcessRecords\<close> fills from
  the bytes of the MFT, the search by reference, and the passes that link records, find
  parents and take file sizes from the directory indexes. A pointer into the slice is an
  index.
\<close>

record MFTTable =
  Records :: Records
  mft_Size :: int

definition RecordSize :: nat where "RecordSize = 1024"

section \<open>Filling the table\<close>

text \<open>The variable \<open>record\<close> lives across the rounds: \<open>Process\<close> overwrites it in place, also when it
  then returns an error. The buffer is written by the fix-ups.\<close>

function records_loop :: "slice \<Rightarrow> nat \<Rightarrow> Record \<Rightarrow> Records \<Rightarrow> (Records \<times> slice) go" where
  "records_loop data i record tbl =
     (if i < slen data then
        gbind (sub data i (i + 4)) (\<lambda>head.
        if Hexify (bytes head) = ''00000000'' then records_loop data (i + RecordSize) record tbl
        else
          gbind (sub data i (i + RecordSize)) (\<lambda>bs.
          gbind (Process bs record) (\<lambda>(err, record', bs').
          let data' = Slice (take i (arr data) @ arr bs') (slen data) in
          case err of
            Some _ \<Rightarrow> records_loop data' (i + RecordSize) record' tbl
          | None \<Rightarrow>
              if unat (Entry record') < length tbl
              then records_loop data' (i + RecordSize) record' (tbl[unat (Entry record') := record'])
              else panic Index_out_of_range)))
      else ret (tbl, data))"
  by pat_completeness auto
termination
  by (relation "measure (\<lambda>(data, i, _, _). slen data - i)") (auto simp: RecordSize_def)

declare records_loop.simps [simp del]

definition ProcessRecords :: "MFTTable \<Rightarrow> slice \<Rightarrow> (MFTTable \<times> slice) go" where
  "ProcessRecords mfttable data =
     gbind (records_loop data 0 zero_Record (replicate (slen data div RecordSize) zero_Record))
       (\<lambda>(tbl, data'). ret (mfttable\<lparr>Records := tbl\<rparr>, data'))"

section \<open>Finding a record\<close>

text \<open>The search by reference: the index of the record, \<open>None\<close> for an error. Behind the table's
  end the loop compares the sequence number of \<open>Records[referencedEntry]\<close>, which is out of
  range whenever an entry matches.\<close>

fun brute_force :: "u32 \<Rightarrow> Records \<Rightarrow> nat option go" where
  "brute_force referencedEntry [] = ret None"
| "brute_force referencedEntry (r # rs) =
     (if Entry r = referencedEntry then panic Index_out_of_range else brute_force referencedEntry rs)"

definition GetRecord :: "Records \<Rightarrow> u32 \<Rightarrow> u16 \<Rightarrow> nat option go" where
  "GetRecord tbl referencedEntry referencedSeq =
     (if unat referencedEntry < length tbl then
        (let r = tbl ! unat referencedEntry in
         if Entry r = referencedEntry then
           (if Seq r - referencedSeq > 1 then ret None else ret (Some (unat referencedEntry)))
         else ret None)
      else brute_force referencedEntry tbl)"

section \<open>Links, parents, sizes\<close>

definition link_record :: "nat \<Rightarrow> LinkedRecordInfo \<Rightarrow> Records \<Rightarrow> Records go" where
  "link_record idx info tbl =
     (if Entry (tbl ! idx) = RefEntry info then ret tbl
      else gbind (GetRecord tbl (RefEntry info) (RefSeq info)) (\<lambda>found. case found of
          None \<Rightarrow> ret tbl
        | Some l \<Rightarrow>
            (let tbl' = tbl[l := (tbl ! l)\<lparr>OriginLinkedRecord := Some idx\<rparr>] in
             ret (tbl'[idx := (tbl' ! idx)\<lparr>LinkedRecords := LinkedRecords (tbl' ! idx) @ [l]\<rparr>]))))"

definition CreateLinkedRecords :: "Records \<Rightarrow> Records go" where
  "CreateLinkedRecords tbl =
     gfold (\<lambda>idx t. gfold (link_record idx) (LinkedRecordsInfo (t ! idx)) t) [0..<length tbl] tbl"

definition find_parent :: "nat \<Rightarrow> Records \<Rightarrow> Records go" where
  "find_parent idx tbl = (case FindAttribute (tbl ! idx) ''FileName'' of
       None \<Rightarrow> ret tbl
     | Some attr \<Rightarrow>
         gbind (assert_FN attr) (\<lambda>fnattr.
         gbind (GetRecord tbl (ucast (fn_ParRef fnattr)) (fn_ParSeq fnattr)) (\<lambda>found. case found of
             None \<Rightarrow> ret tbl
           | Some p \<Rightarrow> ret (tbl[idx := (tbl ! idx)\<lparr>Parent := Some p\<rparr>]))))"

definition FindParentRecords :: "Records \<Rightarrow> Records go" where
  "FindParentRecords tbl = gfold find_parent [0..<length tbl] tbl"

text \<open>\<open>attr.(IndexAttributes)\<close>: the two index attributes implement the interface.\<close>

definition index_entries :: "Attribute option \<Rightarrow> IndexEntries go" where
  "index_entries attr = (case attr of
       None \<Rightarrow> panic Failed_type_assertion
     | Some a \<Rightarrow> (case Body a of BIndexRoot x \<Rightarrow> ret (ir_IndexEntries x)
         | BIndexAllocation x \<Rightarrow> ret (ia_IndexEntries x) | _ \<Rightarrow> panic Failed_type_assertion))"

definition entry_size :: "IndexEntry \<Rightarrow> Records \<Rightarrow> Records go" where
  "entry_size idxEntry tbl = (case Fnattr idxEntry of
       None \<Rightarrow> ret tbl
     | Some f \<Rightarrow>
         gbind (GetRecord tbl (ucast (ie_ParRef idxEntry)) (ie_ParSeq idxEntry)) (\<lambda>found. case found of
             None \<Rightarrow> ret tbl
           | Some p \<Rightarrow>
               if IsFolder (tbl ! p) then ret tbl
               else ret (tbl[p := (tbl ! p)\<lparr>I30Size :=
                 (if RealFsize f > AllocFsize f then AllocFsize f else RealFsize f)\<rparr>])))"

definition SetI30Size :: "(IndexEntries \<Rightarrow> IndexEntries) \<Rightarrow> nat \<Rightarrow> string \<Rightarrow> Records \<Rightarrow> Records go" where
  "SetI30Size srt recordId attrType tbl =
     gbind (index_entries (FindAttribute (tbl ! recordId) attrType)) (\<lambda>es.
       gfold entry_size (GetIndexEntriesSortedByMFTEntry srt es) tbl)"

definition record_sizes :: "(IndexEntries \<Rightarrow> IndexEntries) \<Rightarrow> nat \<Rightarrow> Records \<Rightarrow> Records go" where
  "record_sizes srt idx tbl =
     (if \<not> IsFolder (tbl ! idx) then ret tbl
      else
        gbind (if HasAttr (tbl ! idx) ''Index Root'' then SetI30Size srt idx ''Index Root'' tbl else ret tbl)
          (\<lambda>tbl'. if HasAttr (tbl' ! idx) ''Index Allocation''
            then SetI30Size srt idx ''Index Allocation'' tbl' else ret tbl'))"

definition CalculateFileSizes :: "(IndexEntries \<Rightarrow> IndexEntries) \<Rightarrow> Records \<Rightarrow> Records go" where
  "CalculateFileSizes srt tbl = gfold (record_sizes srt) [0..<length tbl] tbl"

text \<open>The MFT's own size in clusters, from the run list of its first record.\<close>

definition DetermineClusterOffsetLength :: "MFTTable \<Rightarrow> MFTTable go" where
  "DetermineClusterOffsetLength mfttable = (case Records mfttable of
       [] \<Rightarrow> panic Index_out_of_range
     | firstRecord # _ \<Rightarrow> (case FindAttribute firstRecord ''DATA'' of
         None \<Rightarrow> panic Nil_dereference
       | Some a \<Rightarrow> gbind (nonresident_part a) (\<lambda>nr.
           ret (mfttable\<lparr>mft_Size := sint (RunListTotalLenCl nr)\<rparr>))))"

section \<open>The table after \<open>ProcessRecords\<close>\<close>

text \<open>Every slot is untouched or holds a processed record at its own entry number.\<close>

definition slot_ok :: "nat \<Rightarrow> Record \<Rightarrow> bool" where
  "slot_ok i r \<longleftrightarrow> r = zero_Record \<or>
     (unat (Entry r) = i \<and> typed_record r \<and> LinkedRecordsInfo r = [] \<and> LinkedRecords r = [] \<and>
      OriginLinkedRecord r = None \<and> Parent r = None \<and> I30Size r = 0)"

definition table_ok :: "Records \<Rightarrow> bool" where
  "table_ok tbl \<longleftrightarrow> (\<forall>i < length tbl. slot_ok i (tbl ! i))"

definition fresh_links :: "Record \<Rightarrow> bool" where
  "fresh_links r \<longleftrightarrow> LinkedRecords r = [] \<and> OriginLinkedRecord r = None \<and> Parent r = None"

lemma Process_fresh_links:
  assumes "Process bs r = ret (err, r', bs')" and "fresh_links r"
  shows "fresh_links r'"
proof -
  have un: "unmarshal_into Record_layout set_Record r bs = ret x \<Longrightarrow> fresh_links x" for x
    using assms(2) by (auto simp: unmarshal_into_def set_Record_def fresh_links_def)
  have fx: "ProcessFixUpArrays bs x = ret y \<Longrightarrow> fresh_links x \<Longrightarrow> fresh_links y" for x y
    by (auto simp: ProcessFixUpArrays_def Let_def fresh_links_def split: if_splits)
  show ?thesis
    using assms(1)
    by (auto simp: Process_def Let_def split: if_splits dest!: un)
      (auto dest!: fx simp: fresh_links_def)
qed

lemma processed_slot:
  assumes "Process bs r = ret (None, r', bs')" and "fresh_links r"
  shows "slot_ok (unat (Entry r')) r'"
proof -
  have "I30Size r' = 0" using assms(1) by (auto simp: Process_def Let_def split: if_splits)
  moreover have "LinkedRecordsInfo r' = []"
    using Process_attributes_from [OF assms(1)] process_attribute_infos by fastforce
  ultimately show ?thesis
    using processed_typed [OF assms(1)] Process_fresh_links [OF assms]
    by (simp add: slot_ok_def fresh_links_def)
qed

lemma table_ok_update: "slot_ok k r \<Longrightarrow> table_ok tbl \<Longrightarrow> table_ok (tbl[k := r])"
  unfolding table_ok_def by (metis length_list_update nth_list_update_eq nth_list_update_neq)

lemma records_loop_ok:
  "records_loop data i r0 tbl = ret (tbl', data') \<Longrightarrow> table_ok tbl \<Longrightarrow> fresh_links r0 \<Longrightarrow>
    table_ok tbl' \<and> length tbl' = length tbl"
proof (induction data i r0 tbl rule: records_loop.induct)
  case (1 data i r0 tbl)
  show ?case
  proof (cases "i < slen data")
    case False
    with "1.prems" show ?thesis by (subst (asm) records_loop.simps) simp
  next
    case True
    from "1.prems"(1) True obtain head where head: "sub data i (i + 4) = ret head"
      by (subst (asm) records_loop.simps) auto
    show ?thesis
    proof (cases "Hexify (bytes head) = ''00000000''")
      case zero: True
      then have "records_loop data (i + RecordSize) r0 tbl = ret (tbl', data')"
        using "1.prems"(1) True head by (subst (asm) records_loop.simps) simp
      with "1.IH"(1) [OF True head zero] "1.prems" show ?thesis by blast
    next
      case nonzero: False
      then obtain bs err r' bs' where bs: "sub data i (i + RecordSize) = ret bs"
        and p: "Process bs r0 = ret (err, r', bs')"
        using "1.prems"(1) True head by (subst (asm) records_loop.simps) auto
      note fresh = Process_fresh_links [OF p "1.prems"(3)]
      let ?data = "Slice (take i (arr data) @ arr bs') (slen data)"
      show ?thesis
      proof (cases err)
        case (Some e)
        then have "records_loop ?data (i + RecordSize) r' tbl = ret (tbl', data')"
          using "1.prems"(1) True head nonzero bs p by (subst (asm) records_loop.simps) simp
        with "1.IH"(3) [OF True head nonzero bs p refl refl refl Some] fresh "1.prems" show ?thesis by blast
      next
        case None
        then have in_range: "unat (Entry r') < length tbl"
          and loop: "records_loop ?data (i + RecordSize) r' (tbl[unat (Entry r') := r']) = ret (tbl', data')"
          using "1.prems"(1) True head nonzero bs p
          by (subst (asm) records_loop.simps, simp split: if_splits)+
        have "slot_ok (unat (Entry r')) r'"
          using processed_slot [of bs r0 r' bs'] p None "1.prems"(3) by simp
        then have "table_ok (tbl[unat (Entry r') := r'])"
          using "1.prems"(2) by (rule table_ok_update)
        with "1.IH"(2) [OF True head nonzero bs p refl refl refl None in_range] loop fresh show ?thesis by simp
      qed
    qed
  qed
qed

lemma fresh_zero [simp]: "fresh_links zero_Record" "slot_ok i zero_Record"
  by (simp_all add: fresh_links_def slot_ok_def zero_Record_def)

lemma ProcessRecords_ok:
  assumes "ProcessRecords mfttable data = ret (mfttable', data')"
  shows "table_ok (Records mfttable') \<and> length (Records mfttable') = slen data div 1024"
proof -
  from assms obtain tbl where loop: "records_loop data 0 zero_Record (replicate (slen data div RecordSize) zero_Record)
      = ret (tbl, data')" and t: "mfttable' = mfttable\<lparr>Records := tbl\<rparr>"
    by (auto simp: ProcessRecords_def)
  have "table_ok (replicate (slen data div RecordSize) zero_Record)" by (simp add: table_ok_def)
  from records_loop_ok [OF loop this] show ?thesis by (simp add: t RecordSize_def)
qed

text \<open>Invariant of the table. Whatever the bytes, when \<open>ProcessRecords\<close> returns, the table has one
  slot per kilobyte, and every slot is the zero record or a processed record that lies at
  the index its own entry number says, with well-typed attributes and no links, no parent and no
  index size yet.\<close>

theorem ProcessRecords_slots:
  assumes "ProcessRecords mfttable data = ret (mfttable', data')" and "i < length (Records mfttable')"
  shows "length (Records mfttable') = slen data div 1024 \<and> slot_ok i (Records mfttable' ! i)"
  using ProcessRecords_ok [OF assms(1)] assms(2) by (simp add: table_ok_def)

lemma records_loop_skip:
  assumes "i < slen data" and "take 4 (drop i (arr data)) = [0, 0, 0, 0]"
  shows "records_loop data i r tbl = records_loop data (i + 1024) r tbl"
proof -
  have "length (take 4 (drop i (arr data))) = 4" using assms(2) by simp
  then have "i + 4 \<le> length (arr data)" by simp
  then have "sub data i (i + 4) = ret (Slice (drop i (arr data)) 4)" by (simp add: sub_def)
  moreover have "Hexify [0, 0, 0, 0] = ''00000000''" by (simp add: hex_eval)
  ultimately show ?thesis
    using assms by (subst records_loop.simps) (simp add: bytes_def RecordSize_def)
qed

lemma records_loop_store:
  assumes "i < slen data" and "is_FILE (drop i (arr data))" and "i + 1024 \<le> length (arr data)"
    and "Process (Slice (drop i (arr data)) 1024) r = ret (None, r', bs')"
  shows "records_loop data i r tbl = (if unat (Entry r') < length tbl
    then records_loop (Slice (take i (arr data) @ arr bs') (slen data)) (i + 1024) r' (tbl[unat (Entry r') := r'])
    else panic Index_out_of_range)"
proof -
  have "sub data i (i + 4) = ret (Slice (drop i (arr data)) 4)" using assms(3) by (simp add: sub_def)
  moreover have "sub data i (i + 1024) = ret (Slice (drop i (arr data)) 1024)" using assms(3) by (simp add: sub_def)
  moreover have "Hexify [0x46, 0x49, 0x4C, 0x45] \<noteq> ''00000000''" by (simp add: hex_eval)
  ultimately show ?thesis
    using assms by (subst records_loop.simps) (simp add: bytes_def RecordSize_def is_FILE_def)
qed

text \<open>C19: A selection of records crashes the tool. The table is as long as the bytes it is filled from,
  but a record is stored at its own entry number: when the first record of the buffer has an
  entry number that is not below the number of records in the buffer, as any selection of records
  read from the middle of an MFT has, \<open>ProcessRecords\<close> panics with an index out of range.\<close>

theorem ProcessRecords_selection_crashes:
  assumes "1024 \<le> slen data" and "wf_slice data" and "is_FILE (arr data)"
    and "Process (Slice (arr data) 1024) zero_Record = ret (None, r', bs')"
    and "slen data div 1024 \<le> unat (Entry r')"
  shows "ProcessRecords mfttable data = panic Index_out_of_range"
  using records_loop_store [of 0 data zero_Record r' bs' "replicate (slen data div 1024) zero_Record"] assms
  by (simp add: ProcessRecords_def RecordSize_def wf_slice_def)

lemma full_Slice: "full xs = Slice xs (length xs)"
  by (simp add: full_def)

lemma sample_slice: "Slice sample_record 1024 = full sample_record" "Slice (arr (full sample_record)) 1024 = full sample_record"
  using sample_fixup(5) by (simp_all add: full_def)

theorem ProcessRecords_selection_crashes_witness:
  "ProcessRecords \<lparr>Records = [], mft_Size = 0\<rparr> (full sample_record) = panic Index_out_of_range"
proof -
  obtain r' where p: "Process (full sample_record) zero_Record = ret (None, r', full sample_fixed)" and e: "Entry r' = 42"
    using sample_Process by (auto simp: record_fields_def sample_record_def le_at_def)
  have l: "slen (full sample_record) = 1024" using sample_fixup(5) by simp
  show ?thesis
    by (rule ProcessRecords_selection_crashes [where r' = r' and bs' = "full sample_fixed"])
      (use p e l sample_fixup(3) in \<open>simp_all add: sample_slice\<close>)
qed

lemma records_loop_zero_tail:
  assumes "arr data = xs @ replicate (1024 * k) 0" and "slen data = length (arr data)" and "m \<le> k"
  shows "records_loop data (length xs + 1024 * (k - m)) r tbl = ret (tbl, data)"
  using assms(3)
proof (induction m)
  case 0
  then show ?case using assms by (subst records_loop.simps) simp
next
  case (Suc m)
  let ?i = "length xs + 1024 * (k - Suc m)"
  have i: "?i < slen data" "?i + 1024 = length xs + 1024 * (k - m)" using assms Suc.prems by auto
  have "take 4 (drop ?i (arr data)) = replicate 4 0" using assms(1) Suc.prems by simp
  also have "\<dots> = [0, 0, 0, 0]" by (simp add: numeral_eq_Suc)
  finally have "records_loop data ?i r tbl = records_loop data (?i + 1024) r tbl"
    by (rule records_loop_skip [OF i(1)])
  also have "records_loop data (?i + 1024) r tbl = ret (tbl, data)"
    unfolding i(2) using Suc by simp
  finally show ?case .
qed

lemma zero_ProcessRecords:
  "ProcessRecords \<lparr>Records = [], mft_Size = s\<rparr> (full (replicate 4096 0)) =
     ret (\<lparr>Records = replicate 4 zero_Record, mft_Size = s\<rparr>, full (replicate 4096 0))"
proof -
  have "records_loop (full (replicate 4096 0)) (length ([] :: byte list) + 1024 * (4 - 4)) zero_Record
      (replicate 4 zero_Record) = ret (replicate 4 zero_Record, full (replicate 4096 0))"
    by (rule records_loop_zero_tail [of _ _ 4]) simp_all
  then show ?thesis by (simp add: ProcessRecords_def RecordSize_def)
qed

theorem ProcessRecords_slots_witness:
  "\<exists>t d. ProcessRecords \<lparr>Records = [], mft_Size = 0\<rparr> (full (replicate 4096 0)) = ret (t, d) \<and>
     length (Records t) = 4 \<and> slot_ok 3 (Records t ! 3)"
  using ProcessRecords_slots [OF zero_ProcessRecords, of 3] zero_ProcessRecords by auto

section \<open>References\<close>

lemma brute_force_eq: "brute_force e tbl = (if e \<in> Entry ` set tbl then panic Index_out_of_range else ret None)"
  by (induction tbl) auto

lemma slot_entry: "slot_ok i r \<Longrightarrow> Entry r \<noteq> 0 \<Longrightarrow> unat (Entry r) = i"
  by (auto simp: slot_ok_def zero_Record_def)

lemma table_ok_brute_force:
  assumes "table_ok tbl" and "length tbl \<le> unat e" and "tbl \<noteq> []"
  shows "e \<notin> Entry ` set tbl"
proof
  assume "e \<in> Entry ` set tbl"
  then obtain i where i: "i < length tbl" "Entry (tbl ! i) = e" by (auto simp: in_set_conv_nth)
  have "unat e \<noteq> 0" using assms(2,3) by (cases tbl) auto
  then have "e \<noteq> 0" by auto
  with i assms(1) slot_entry [of i "tbl ! i"] have "unat e = i" by (auto simp: table_ok_def)
  with i assms(2) show False by simp
qed

lemma GetRecord_eq:
  assumes "table_ok tbl" and "tbl \<noteq> []"
  shows "GetRecord tbl e s =
    ret (if unat e < length tbl \<and> Entry (tbl ! unat e) = e \<and>
            (Seq (tbl ! unat e) = s \<or> Seq (tbl ! unat e) = s + 1)
         then Some (unat e) else None)"
proof -
  have one: "(x > 1) = (x \<noteq> 0 \<and> x \<noteq> 1)" for x :: u16
    by (auto simp: word_less_nat_alt word_unat_eq_iff)
  have "Seq r - s > 1 \<longleftrightarrow> \<not> (Seq r = s \<or> Seq r = s + 1)" for r
    by (simp add: one algebra_simps)
  then show ?thesis
    using table_ok_brute_force [OF assms(1) _ assms(2), of e]
    by (auto simp: GetRecord_def Let_def brute_force_eq)
qed

text \<open>C13: Resolving a reference in a table filled by \<open>ProcessRecords\<close>: the search never panics, and it finds
  the record exactly when the slot of that number holds a record with that entry number whose
  sequence number equals the reference's or is one ahead of it in 16-bit arithmetic; what it returns
  is that slot. A reference behind the table's end finds nothing.\<close>

theorem GetRecord_spec:
  assumes "table_ok tbl" and "tbl \<noteq> []"
  shows "GetRecord tbl e s =
    ret (if unat e < length tbl \<and> Entry (tbl ! unat e) = e \<and>
            (Seq (tbl ! unat e) = s \<or> Seq (tbl ! unat e) = s + 1)
         then Some (unat e) else None)"
  using assms by (rule GetRecord_eq)

definition sample_table :: Records where
  "sample_table = [zero_Record, (sample_named ''d'')\<lparr>Entry := 1, Seq := 4\<rparr>]"

lemma sample_table_ok: "table_ok sample_table" "sample_table \<noteq> []"
proof -
  have "typed_record ((sample_named ''d'')\<lparr>Entry := 1, Seq := 4\<rparr>)"
    using typed_sample_named by (simp add: typed_record_def)
  then have "slot_ok (unat (1 :: u32)) ((sample_named ''d'')\<lparr>Entry := 1, Seq := 4\<rparr>)"
    by (simp add: slot_ok_def sample_named_def zero_Record_def)
  then have "slot_ok 1 ((sample_named ''d'')\<lparr>Entry := 1, Seq := 4\<rparr>)" by simp
  then show "table_ok sample_table" "sample_table \<noteq> []"
    by (auto simp: table_ok_def sample_table_def less_Suc_eq)
qed

theorem GetRecord_spec_witness:
  "GetRecord sample_table 1 3 = ret (Some 1) \<and> GetRecord sample_table 1 5 = ret None \<and>
   GetRecord sample_table 9 3 = ret None"
  using GetRecord_spec [OF sample_table_ok, of 1 3] GetRecord_spec [OF sample_table_ok, of 1 5]
    GetRecord_spec [OF sample_table_ok, of 9 3]
  by (simp add: sample_table_def)

lemma table_ok_links:
  assumes "table_ok tbl"
  shows "CreateLinkedRecords tbl = ret tbl"
proof -
  have none: "LinkedRecordsInfo (tbl ! i) = []" if "i < length tbl" for i
    using assms that by (auto simp: table_ok_def slot_ok_def zero_Record_def)
  have "gfold (\<lambda>idx t. gfold (link_record idx) (LinkedRecordsInfo (t ! idx)) t) is tbl = ret tbl"
    if "set is \<subseteq> {0..<length tbl}" for "is"
    using that by (induction "is") (simp_all add: none)
  then show ?thesis by (simp add: CreateLinkedRecords_def)
qed

text \<open>Linking is dead code. On every table that \<open>ProcessRecords\<close> returns, \<open>CreateLinkedRecords\<close>
  changes nothing: no record is ever linked to the record that continues its attributes, so
  the data of a file whose run list lies in an extension record is never found.\<close>

theorem CreateLinkedRecords_nothing:
  assumes "ProcessRecords mfttable data = ret (mfttable', data')"
  shows "CreateLinkedRecords (Records mfttable') = ret (Records mfttable')"
  using ProcessRecords_ok [OF assms] by (intro table_ok_links) simp

theorem CreateLinkedRecords_nothing_witness:
  "\<exists>t d. ProcessRecords \<lparr>Records = [], mft_Size = 0\<rparr> (full (replicate 4096 0)) = ret (t, d) \<and>
     CreateLinkedRecords (Records t) = ret (Records t)"
  using zero_ProcessRecords CreateLinkedRecords_nothing by blast

section \<open>Parents\<close>

definition parent_ref :: "Records \<Rightarrow> Record \<Rightarrow> nat option" where
  "parent_ref tbl r = (case FindAttribute r ''FileName'' of
       Some a \<Rightarrow> (case Body a of
           BFileName f \<Rightarrow>
             (let e = (ucast (fn_ParRef f) :: u32) in
              if unat e < length tbl \<and> Entry (tbl ! unat e) = e \<and>
                (Seq (tbl ! unat e) = fn_ParSeq f \<or> Seq (tbl ! unat e) = fn_ParSeq f + 1)
              then Some (unat e) else None)
         | _ \<Rightarrow> None)
     | None \<Rightarrow> None)"

text \<open>The pass writes nothing that resolving a reference reads.\<close>

definition same_refs :: "Records \<Rightarrow> Records \<Rightarrow> bool" where
  "same_refs t u \<longleftrightarrow> map Entry t = map Entry u \<and> map Seq t = map Seq u"

lemma same_refs_nth:
  assumes "same_refs t u"
  shows "length t = length u" and "i < length u \<Longrightarrow> Entry (t ! i) = Entry (u ! i) \<and> Seq (t ! i) = Seq (u ! i)"
    and "Entry ` set t = Entry ` set u"
proof -
  show l: "length t = length u" using assms by (auto simp: same_refs_def dest: map_eq_imp_length_eq)
  show "i < length u \<Longrightarrow> Entry (t ! i) = Entry (u ! i) \<and> Seq (t ! i) = Seq (u ! i)"
    using assms l nth_map [of i t Entry] nth_map [of i u Entry] nth_map [of i t Seq] nth_map [of i u Seq]
    by (simp add: same_refs_def)
  show "Entry ` set t = Entry ` set u"
    using arg_cong [of "map Entry t" "map Entry u" set] assms unfolding same_refs_def set_map by blast
qed

lemma GetRecord_same:
  assumes "same_refs t u"
  shows "GetRecord t e s = GetRecord u e s"
proof (cases "unat e < length u")
  case True
  then show ?thesis
    using same_refs_nth(2) [OF assms True] by (simp add: GetRecord_def same_refs_nth(1) [OF assms])
next
  case False
  then show ?thesis
    by (simp add: GetRecord_def same_refs_nth(1,3) [OF assms] brute_force_eq)
qed

definition set_parents :: "Records \<Rightarrow> nat \<Rightarrow> Records" where
  "set_parents tbl k = map (\<lambda>i. (tbl ! i)\<lparr>Parent := (if i < k \<and> parent_ref tbl (tbl ! i) \<noteq> None
     then parent_ref tbl (tbl ! i) else Parent (tbl ! i))\<rparr>) [0..<length tbl]"

lemma set_parents_same: "same_refs (set_parents tbl k) tbl"
  by (auto simp: same_refs_def set_parents_def intro!: nth_equalityI)

lemma find_parent_step:
  assumes ok: "table_ok tbl" and k: "k < length tbl"
  shows "find_parent k (set_parents tbl k) = ret (set_parents tbl (Suc k))"
proof -
  let ?s = "set_parents tbl k"
  have ne: "tbl \<noteq> []" using k by auto
  have attrs: "FindAttribute (?s ! k) t = FindAttribute (tbl ! k) t" for t
    using k by (simp add: FindAttribute_def set_parents_def)
  have typed: "typed_record (tbl ! k)"
    using ok k by (auto simp: table_ok_def slot_ok_def typed_record_def zero_Record_def)
  have keep: "set_parents tbl (Suc k) = ?s" if "parent_ref tbl (tbl ! k) = None"
  proof -
    have "(i < Suc k \<and> parent_ref tbl (tbl ! i) \<noteq> None) = (i < k \<and> parent_ref tbl (tbl ! i) \<noteq> None)" for i
      using that less_Suc_eq by metis
    then show ?thesis unfolding set_parents_def by presburger
  qed
  have upd: "?s[k := (?s ! k)\<lparr>Parent := Some p\<rparr>] = set_parents tbl (Suc k)"
    if "parent_ref tbl (tbl ! k) = Some p" for p
  proof (rule nth_equalityI)
    fix i assume "i < length (?s[k := (?s ! k)\<lparr>Parent := Some p\<rparr>])"
    then have i: "i < length tbl" by (simp add: set_parents_def)
    show "?s[k := (?s ! k)\<lparr>Parent := Some p\<rparr>] ! i = set_parents tbl (Suc k) ! i"
      using that k i by (cases "i = k") (simp_all add: set_parents_def less_Suc_eq)
  qed (simp add: set_parents_def)
  show ?thesis
  proof (cases "FindAttribute (tbl ! k) ''FileName''")
    case None
    then show ?thesis using keep by (simp add: find_parent_def attrs parent_ref_def)
  next
    case fn: (Some a)
    then obtain f where f: "Body a = BFileName f"
      using typed typed_body(1) by (fastforce simp: FindAttribute_def typed_record_def dest: find_attribute_Some)
    have found: "GetRecord ?s (ucast (fn_ParRef f)) (fn_ParSeq f) = ret (parent_ref tbl (tbl ! k))"
      using fn f
      by (simp add: GetRecord_same [OF set_parents_same] GetRecord_eq [OF ok ne] parent_ref_def Let_def)
    show ?thesis
    proof (cases "parent_ref tbl (tbl ! k)")
      case None
      then show ?thesis using keep found by (simp add: find_parent_def attrs fn f assert_FN_def)
    next
      case (Some p)
      then show ?thesis
        using upd [OF Some] found
        by (simp add: find_parent_def attrs fn f assert_FN_def)
    qed
  qed
qed

lemma FindParentRecords_eq:
  assumes "table_ok tbl"
  shows "FindParentRecords tbl = ret (map (\<lambda>r. r\<lparr>Parent :=
    (case parent_ref tbl r of Some p \<Rightarrow> Some p | None \<Rightarrow> Parent r)\<rparr>) tbl)"
proof -
  have "gfold find_parent [0..<k] tbl = ret (set_parents tbl k)" if "k \<le> length tbl" for k
    using that
  proof (induction k)
    case 0
    have "set_parents tbl 0 = tbl" by (auto simp: set_parents_def intro!: nth_equalityI)
    then show ?case by simp
  next
    case (Suc k)
    then show ?case by (simp add: gfold_append find_parent_step [OF assms])
  qed
  then have "FindParentRecords tbl = ret (set_parents tbl (length tbl))" by (simp add: FindParentRecords_def)
  also have "set_parents tbl (length tbl) = map (\<lambda>r. r\<lparr>Parent :=
      (case parent_ref tbl r of Some p \<Rightarrow> Some p | None \<Rightarrow> Parent r)\<rparr>) tbl"
    by (auto simp: set_parents_def intro!: nth_equalityI split: option.splits)
  finally show ?thesis .
qed

text \<open>C14: Finding parents. On a table filled by \<open>ProcessRecords\<close> the pass returns, and it sets, for every
  record whose first file name refers to a record of the table (by entry number, with the
  same sequence number or one less), the parent to the index of that record; every other field,
  and the parent of the other records, is unchanged. The order of the records does not matter.\<close>

theorem FindParentRecords_spec:
  assumes "table_ok tbl"
  shows "FindParentRecords tbl = ret (map (\<lambda>r. r\<lparr>Parent :=
    (case parent_ref tbl r of Some p \<Rightarrow> Some p | None \<Rightarrow> Parent r)\<rparr>) tbl)"
  using assms by (rule FindParentRecords_eq)

definition sample_tree :: Records where
  "sample_tree = [zero_Record, (sample_named ''d'')\<lparr>Entry := 1, Seq := 1\<rparr>]"

lemma sample_tree_ok: "table_ok sample_tree"
proof -
  have "typed_record ((sample_named ''d'')\<lparr>Entry := 1, Seq := 1\<rparr>)"
    using typed_sample_named by (simp add: typed_record_def)
  then have "slot_ok (unat (1 :: u32)) ((sample_named ''d'')\<lparr>Entry := 1, Seq := 1\<rparr>)"
    by (simp add: slot_ok_def sample_named_def zero_Record_def)
  then have "slot_ok 1 ((sample_named ''d'')\<lparr>Entry := 1, Seq := 1\<rparr>)" by simp
  then show "table_ok sample_tree"
    by (auto simp: table_ok_def sample_tree_def less_Suc_eq)
qed

theorem FindParentRecords_spec_witness:
  "FindParentRecords sample_tree = ret [zero_Record, (sample_named ''d'')\<lparr>Entry := 1, Seq := 1, Parent := Some 0\<rparr>]"
proof -
  have "parent_ref sample_tree zero_Record = None"
    by (simp add: parent_ref_def FindAttribute_def zero_Record_def)
  moreover have "parent_ref sample_tree ((sample_named ''d'')\<lparr>Entry := 1, Seq := 1\<rparr>) = Some 0"
    by (simp add: parent_ref_def FindAttribute_def sample_named_def FindType_sample sample_tree_def
        zero_Record_def zero_FNAttribute_def Let_def)
  moreover have "Parent zero_Record = None" by (simp add: zero_Record_def)
  then have "zero_Record\<lparr>Parent := None\<rparr> = zero_Record" by (simp add: zero_Record_def)
  ultimately show ?thesis
    using FindParentRecords_spec [OF sample_tree_ok] \<open>Parent zero_Record = None\<close>
    by (simp add: sample_tree_def)
qed

section \<open>File sizes\<close>

text \<open>What a step of \<open>CalculateFileSizes\<close> may do to the table: write the index size of records
  that are not folders, with the smaller of the two sizes of some index entry.\<close>

definition size_of_entry :: "IndexEntry \<Rightarrow> u64 option" where
  "size_of_entry e = map_option (\<lambda>f. min (RealFsize f) (AllocFsize f)) (Fnattr e)"

definition sizes_frame :: "Records \<Rightarrow> Records \<Rightarrow> bool" where
  "sizes_frame t u \<longleftrightarrow> length u = length t \<and>
     (\<forall>i < length t. (if IsFolder (t ! i) then u ! i = t ! i
        else (\<exists>s. u ! i = (t ! i)\<lparr>I30Size := s\<rparr>)))"

lemma sizes_frame_refl: "sizes_frame t t"
proof -
  have "\<exists>s. r = r\<lparr>I30Size := s\<rparr>" for r :: Record by (intro exI [of _ "I30Size r"]) simp
  then show ?thesis by (simp add: sizes_frame_def)
qed

lemma IsFolder_size [simp]: "IsFolder (r\<lparr>I30Size := s\<rparr>) = IsFolder r"
  by (simp add: IsFolder_def getType_def)

lemma sizes_frame_trans: "sizes_frame t u \<Longrightarrow> sizes_frame u v \<Longrightarrow> sizes_frame t v"
  unfolding sizes_frame_def
proof (intro conjI allI impI)
  fix i assume a: "length u = length t \<and> (\<forall>i < length t. if IsFolder (t ! i) then u ! i = t ! i
      else \<exists>s. u ! i = (t ! i)\<lparr>I30Size := s\<rparr>)"
    "length v = length u \<and> (\<forall>i < length u. if IsFolder (u ! i) then v ! i = u ! i
      else \<exists>s. v ! i = (u ! i)\<lparr>I30Size := s\<rparr>)" "i < length t"
  show "if IsFolder (t ! i) then v ! i = t ! i else \<exists>s. v ! i = (t ! i)\<lparr>I30Size := s\<rparr>"
  proof (cases "IsFolder (t ! i)")
    case True
    with a show ?thesis by metis
  next
    case False
    with a obtain s where s: "u ! i = (t ! i)\<lparr>I30Size := s\<rparr>" by metis
    with a False obtain s' where "v ! i = (u ! i)\<lparr>I30Size := s'\<rparr>" by (metis IsFolder_size)
    with s False show ?thesis by auto
  qed
qed simp

lemma sizes_frame_same: "sizes_frame t u \<Longrightarrow> same_refs t u"
proof -
  assume f: "sizes_frame t u"
  have "Entry (u ! i) = Entry (t ! i) \<and> Seq (u ! i) = Seq (t ! i)" if "i < length t" for i
    using f that unfolding sizes_frame_def by (cases "IsFolder (t ! i)") fastforce+
  with f show ?thesis by (auto simp: same_refs_def sizes_frame_def intro!: nth_equalityI)
qed

lemma entry_size_frame:
  assumes "entry_size e t = ret u"
  shows "sizes_frame t u"
proof -
  have upd: "sizes_frame t (t[p := (t ! p)\<lparr>I30Size := s\<rparr>])" if "\<not> IsFolder (t ! p)" for p s
    unfolding sizes_frame_def
  proof (intro conjI allI impI)
    fix i assume i: "i < length t"
    show "if IsFolder (t ! i) then t[p := (t ! p)\<lparr>I30Size := s\<rparr>] ! i = t ! i
        else \<exists>s'. t[p := (t ! p)\<lparr>I30Size := s\<rparr>] ! i = (t ! i)\<lparr>I30Size := s'\<rparr>"
    proof (cases "i = p")
      case True
      then show ?thesis using that i by auto
    next
      case False
      have "t ! i = (t ! i)\<lparr>I30Size := I30Size (t ! i)\<rparr>" by simp
      with False show ?thesis by (metis nth_list_update_neq)
    qed
  qed simp
  show ?thesis
    using assms
    by (auto simp: entry_size_def sizes_frame_refl upd split: option.splits if_splits)
qed

lemma gfold_frame:
  assumes "gfold f xs t = ret u" and "\<And>x t u. f x t = ret u \<Longrightarrow> sizes_frame t u"
  shows "sizes_frame t u"
  using gfold_invariant [OF assms(1), of "sizes_frame t"] assms(2) sizes_frame_refl sizes_frame_trans by blast

lemma SetI30Size_frame: "SetI30Size srt idx ty t = ret u \<Longrightarrow> sizes_frame t u"
  by (auto simp: SetI30Size_def intro: gfold_frame entry_size_frame)

lemma record_sizes_frame: "record_sizes srt idx t = ret u \<Longrightarrow> sizes_frame t u"
  using SetI30Size_frame sizes_frame_refl sizes_frame_trans
  by (auto simp: record_sizes_def split: if_splits) blast+

text \<open>Taking sizes from the directory indexes touches nothing else: whatever the order in which
  the entries are sorted, when \<open>CalculateFileSizes\<close> returns, the folders' records are what they were,
  and the record of a file differs at most in its index size; in particular entry and sequence
  numbers are kept, so that references resolve as before.\<close>

theorem CalculateFileSizes_frame:
  assumes "CalculateFileSizes srt tbl = ret tbl'"
  shows "length tbl' = length tbl \<and> (\<forall>e s. GetRecord tbl' e s = GetRecord tbl e s) \<and>
    (\<forall>i < length tbl. if IsFolder (tbl ! i) then tbl' ! i = tbl ! i
      else (\<exists>size. tbl' ! i = (tbl ! i)\<lparr>I30Size := size\<rparr>))"
proof -
  have f: "sizes_frame tbl tbl'"
    using assms by (auto simp: CalculateFileSizes_def intro: gfold_frame record_sizes_frame)
  then show ?thesis
    using GetRecord_same [OF sizes_frame_same [OF f]] by (simp add: sizes_frame_def)
qed

theorem CalculateFileSizes_frame_witness:
  "\<exists>t'. CalculateFileSizes insertion_sort [zero_Record] = ret t' \<and> length t' = 1"
proof -
  have "\<not> IsFolder zero_Record" by (simp add: IsFolder_def getType_def lookup_str_def MFTflags_def zero_Record_def)
  then have c: "CalculateFileSizes insertion_sort [zero_Record] = ret [zero_Record]"
    by (simp add: CalculateFileSizes_def record_sizes_def)
  from CalculateFileSizes_frame [OF c] c show ?thesis by simp
qed

end
