(* ===== verification/Disk_Reader.thy ===== *)
theory Disk_Reader
  imports Text
begin

text \<open>
  The interface to a disk, \<open>DiskReader\<close> of \<open>img/reader.go\<close>, and the reader of a Windows drive
  behind it (\<open>img/reader_windows.go\<close>). The other readers hand every call to a library outside
  the repository. A reader maps an offset and a number of bytes to the bytes it returns; offsets and
  lengths are 64-bit signed integers.
\<close>

type_synonym reader = "i64 \<Rightarrow> i64 \<Rightarrow> byte list go"

section \<open>The contract\<close>

text \<open>What the file systems rely on: a read of a length that is not negative, and not
  more than can be allocated, returns that many bytes.\<close>

locale disk_reader =
  fixes read_file :: reader
  assumes read_length: "0 \<le>s len \<Longrightarrow> unat len \<le> max_alloc \<Longrightarrow> \<exists>bs. read_file off len = ret bs \<and> length bs = unat len"
begin

lemma read_ends: "0 \<le>s len \<Longrightarrow> unat len \<le> max_alloc \<Longrightarrow> ends (read_file off len)"
  using read_length [of len off] by auto

lemma read_returns_length: "0 \<le>s len \<Longrightarrow> unat len \<le> max_alloc \<Longrightarrow> read_file off len = ret bs \<Longrightarrow> length bs = unat len"
  using read_length [of len off] by auto

text \<open>Reads one after the other, appended: the total length is the sum of the lengths.\<close>

lemma reads_length:
  assumes "\<forall>x \<in> set xs. 0 \<le>s snd x \<and> unat (snd x) \<le> max_alloc"
  shows "\<exists>bss. gmap (\<lambda>(off, len). read_file off len) xs = ret bss \<and>
    length (concat bss) = (\<Sum>x\<leftarrow>xs. unat (snd x))"
  using assms
proof (induction xs)
  case (Cons x xs)
  obtain off len where x: "x = (off, len)" by (cases x)
  from Cons obtain bss where "gmap (\<lambda>(off, len). read_file off len) xs = ret bss"
    "length (concat bss) = (\<Sum>x\<leftarrow>xs. unat (snd x))" by auto
  moreover from Cons.prems x obtain bs where "read_file off len = ret bs" "length bs = unat len"
    using read_length [of len off] by auto
  ultimately show ?case by (simp add: x)
qed simp

end

section \<open>The Windows reader\<close>

record DISK_GEOMETRY =
  Cylinders :: i64
  MediaType :: u32
  TracksPerCylinder :: u32
  SectorsPerTrack :: u32
  geo_BytesPerSector :: u32

text \<open>The size from the drive's geometry, whose 32-bit fields are signed.\<close>

definition GetDiskSize :: "DISK_GEOMETRY \<Rightarrow> i64" where
  "GetDiskSize g = Cylinders g * scast (TracksPerCylinder g) * scast (SectorsPerTrack g) *
     scast (geo_BytesPerSector g)"

text \<open>\<open>api low high n\<close>: the bytes the system call delivers into a buffer of \<open>n\<close> bytes after the file
  pointer was set to the two halves of the offset. The buffer keeps zeros behind them.\<close>

definition WindowsReader_ReadFile :: "(u32 \<Rightarrow> u32 \<Rightarrow> nat \<Rightarrow> byte list) \<Rightarrow> reader" where
  "WindowsReader_ReadFile api buf_pointer len =
     (if len <s 0 \<or> max_alloc < unat len then panic (Explicit_panic ''runtime error: makeslice: len out of range'')
      else let li = NewLargeInteger buf_pointer in
        ret (take (unat len) (api (LowPart li) (HighPart li) (unat len) @ replicate (unat len) 0)))"

interpretation windows: disk_reader "WindowsReader_ReadFile api" for api
  by unfold_locales (auto simp: WindowsReader_ReadFile_def Let_def word_sless_alt word_sle_eq)

end
