(* ===== verification/MFT_Data.thy ===== *)
theory MFT_Data
  imports MFT_Table Disk_Reader
begin

text \<open>
  Reading the data of attributes from the disk (\<open>FS/NTFS/MFT/MFT.go\<close>): the run lists of
  non-resident attributes, the content of files for export, and the pass over the table
  (\<open>FS/NTFS/MFT/Table.go\<close>). Offsets and lengths are 64-bit integers that wrap.
\<close>

section \<open>Buffers\<close>

text \<open>\<open>bytes.Buffer\<close>: \<open>Grow\<close> panics for a negative count, and with \<open>ErrTooLarge\<close> when the
  \<open>have\<close> bytes in the buffer and those to come are more than can be allocated; \<open>Bytes()\<close> is a slice
  whose capacity is what was grown or written, with \<open>slack\<close> more bytes where the allocator rounds up;
  the bytes behind the length are zero.\<close>

definition buffer_Grow :: "nat \<Rightarrow> i64 \<Rightarrow> unit go" where
  "buffer_Grow have n =
     (if n <s 0 then panic (Explicit_panic ''bytes.Buffer.Grow: negative count'')
      else if max_alloc < have + unat n then panic (Explicit_panic ''bytes.Buffer: too large'')
      else ret ())"

lemma buffer_Grow_ok: "0 \<le>s n \<Longrightarrow> have + unat n \<le> max_alloc \<Longrightarrow> buffer_Grow have n = ret ()"
  by (simp add: buffer_Grow_def word_sless_alt word_sle_eq)

lemma buffer_Grow_nonneg:
  "0 \<le>s n \<Longrightarrow> buffer_Grow have n = (if max_alloc < have + unat n then panic (Explicit_panic ''bytes.Buffer: too large'') else ret ())"
  by (simp add: buffer_Grow_def word_sless_alt word_sle_eq)

definition buffer_Bytes :: "nat \<Rightarrow> nat \<Rightarrow> byte list \<Rightarrow> slice" where
  "buffer_Bytes slack grown buf = Slice (buf @ replicate (grown - length buf + slack) 0) (length buf)"

text \<open>\<open>s[:n]\<close> for a signed \<open>n\<close>.\<close>

definition sub_to :: "slice \<Rightarrow> i64 \<Rightarrow> slice go" where
  "sub_to s n = (if n <s 0 then panic Slice_bounds_out_of_range else sub s 0 (unat n))"

section \<open>Non-resident attributes\<close>

text \<open>The loop over the runs, which ends at a run with all fields zero, at a run behind the partition,
  and behind the last run.\<close>

fun collect_runs :: "reader \<Rightarrow> i64 \<Rightarrow> i64 \<Rightarrow> i64 \<Rightarrow> RunList \<Rightarrow> i64 \<Rightarrow> byte list \<Rightarrow> byte list go" where
  "collect_runs rd diskSizeB partitionOffsetB clusterSizeB (RunList off len nxt) offset buf =
     (if off = 0 \<and> len = 0 \<and> nxt = None then ret buf
      else let offset' = offset + off in
        if diskSizeB - partitionOffsetB \<le>s offset' * clusterSizeB then ret buf
        else gbind (rd (partitionOffsetB + offset' * clusterSizeB) (len * clusterSizeB)) (\<lambda>data.
          case nxt of None \<Rightarrow> ret (buf @ data)
          | Some runlist \<Rightarrow>
              collect_runs rd diskSizeB partitionOffsetB clusterSizeB runlist offset' (buf @ data)))"

definition process_nonresident ::
  "reader \<Rightarrow> i64 \<Rightarrow> nat \<Rightarrow> i64 \<Rightarrow> i64 \<Rightarrow> Attribute \<Rightarrow> Attribute go" where
  "process_nonresident rd diskSizeB slack partitionOffsetB clusterSizeB attribute =
     gbind (nonresident_part attribute) (\<lambda>nr. case nr_RunList nr of
         None \<Rightarrow> ret attribute
       | Some runlist \<Rightarrow>
           let length' = RunListTotalLenCl nr * clusterSizeB in
           if length' = 0 then ret attribute
           else
             gbind (buffer_Grow 0 length') (\<lambda>_.
             gbind (collect_runs rd diskSizeB partitionOffsetB clusterSizeB runlist 0 []) (\<lambda>buf.
             let actualLen = ActualLength nr in
             if length' <s actualLen then ret attribute
             else gbind (sub_to (buffer_Bytes slack (unat length') buf) actualLen) (\<lambda>d.
               Attribute_Parse d attribute))))"

text \<open>Every non-resident attribute except \<open>DATA\<close> is parsed in place.\<close>

definition ProcessNoNResidentAttributes ::
  "reader \<Rightarrow> i64 \<Rightarrow> nat \<Rightarrow> i64 \<Rightarrow> i64 \<Rightarrow> Record \<Rightarrow> Record go" where
  "ProcessNoNResidentAttributes rd diskSizeB slack partitionOffsetB clusterSizeB record =
     gbind (gmap (\<lambda>a. if Attribute_IsNoNResident a \<and> FindType a \<noteq> ''DATA''
         then process_nonresident rd diskSizeB slack partitionOffsetB clusterSizeB a else ret a)
       (Attributes record)) (\<lambda>as. ret (record\<lparr>Attributes := as\<rparr>))"

definition ProcessNonResidentRecords ::
  "reader \<Rightarrow> i64 \<Rightarrow> nat \<Rightarrow> i64 \<Rightarrow> i64 \<Rightarrow> Records \<Rightarrow> Records go" where
  "ProcessNonResidentRecords rd diskSizeB slack partitionOffsetB clusterSizeB tbl =
     gmap (ProcessNoNResidentAttributes rd diskSizeB slack partitionOffsetB clusterSizeB) tbl"

section \<open>The content of a file\<close>

record AskedFile =
  af_Fname :: string
  af_Id :: int
  af_Content :: "byte list"

text \<open>The log entry of a run shows its distance from the start of the partition in clusters of \<open>cl\<close> bytes:
  the division is made whether logging is on or not.\<close>

definition logged_clusters :: "i64 \<Rightarrow> i64 \<Rightarrow> i64 \<Rightarrow> i64 go" where
  "logged_clusters part cl offset = go_div (offset - part) cl"

text \<open>The reads of the loop in \<open>LocateData\<close>, in order; \<open>cl\<close> is the size of a cluster. A run whose
  offset field is zero is not read. What is read is logged, after the read.\<close>

fun locate_runs :: "reader \<Rightarrow> i64 \<Rightarrow> i64 \<Rightarrow> i64 \<Rightarrow> RunList \<Rightarrow> i64 \<Rightarrow> byte list list go" where
  "locate_runs rd diskSize part cl (RunList off len nxt) offset =
     (if off = 0 \<and> len = 0 \<and> nxt = None then ret []
      else let offset' = offset + off * cl in
        if diskSize <s offset' then ret []
        else gbind (if off \<noteq> 0 \<and> len > 0 then
              gbind (rd offset' (len * cl)) (\<lambda>d. gbind (logged_clusters part cl offset') (\<lambda>_. ret [d])) else ret [])
          (\<lambda>piece. case nxt of None \<Rightarrow> ret piece
             | Some runlist \<Rightarrow> gbind (locate_runs rd diskSize part cl runlist offset') (\<lambda>ps. ret (piece @ ps))))"

text \<open>The loop in \<open>LocateDataAsync\<close> logs every run on the disk, before it is read.\<close>

fun locate_runs_async :: "reader \<Rightarrow> i64 \<Rightarrow> i64 \<Rightarrow> i64 \<Rightarrow> RunList \<Rightarrow> i64 \<Rightarrow> byte list list go" where
  "locate_runs_async rd diskSize part cl (RunList off len nxt) offset =
     (if off = 0 \<and> len = 0 \<and> nxt = None then ret []
      else let offset' = offset + off * cl in
        if diskSize <s offset' then ret []
        else gbind (logged_clusters part cl offset') (\<lambda>_.
          gbind (if off \<noteq> 0 \<and> len > 0 then gbind (rd offset' (len * cl)) (\<lambda>d. ret [d]) else ret [])
          (\<lambda>piece. case nxt of None \<Rightarrow> ret piece
             | Some runlist \<Rightarrow> gbind (locate_runs_async rd diskSize part cl runlist offset') (\<lambda>ps. ret (piece @ ps)))))"

text \<open>The fragments \<open>LocateDataAsync\<close> sends.\<close>

definition LocateDataAsync :: "reader \<Rightarrow> i64 \<Rightarrow> Records \<Rightarrow> i64 \<Rightarrow> i64 \<Rightarrow> i64 \<Rightarrow> Record \<Rightarrow> byte list list go" where
  "LocateDataAsync rd diskSize tbl partitionOffset sectorsPerCluster bytesPerSector record =
     (if HasResidentDataAttr record then gbind (GetResidentData record) (\<lambda>d. ret [d])
      else gbind (GetRunList tbl record ''DATA'') (\<lambda>runlist.
        locate_runs_async rd diskSize partitionOffset (sectorsPerCluster * bytesPerSector) runlist partitionOffset))"

text \<open>The file \<open>LocateData\<close> sends.\<close>

definition LocateData :: "reader \<Rightarrow> i64 \<Rightarrow> Records \<Rightarrow> i64 \<Rightarrow> i64 \<Rightarrow> i64 \<Rightarrow> Record \<Rightarrow> AskedFile go" where
  "LocateData rd diskSize tbl partitionOffset sectorsPerCluster bytesPerSector record =
     gbind (GetLogicalFileSize tbl record) (\<lambda>size.
     gbind (buffer_Grow 0 size) (\<lambda>_.
     gbind (if HasResidentDataAttr record then gbind (GetResidentData record) (\<lambda>d. ret [d])
        else gbind (GetRunList tbl record ''DATA'') (\<lambda>runlist.
          locate_runs rd diskSize partitionOffset (sectorsPerCluster * bytesPerSector) runlist partitionOffset)) (\<lambda>pieces.
     gbind (GetFname tbl record) (\<lambda>fname.
       ret \<lparr>af_Fname = fname, af_Id = int (unat (Entry record)), af_Content = concat pieces\<rparr>))))"

section \<open>Run lists as extents\<close>

text \<open>Absolute positions of the runs in clusters: each offset is relative to the run before.\<close>

fun extents :: "i64 \<Rightarrow> (i64 \<times> u64) list \<Rightarrow> (i64 \<times> u64) list" where
  "extents base [] = []"
| "extents base ((off, len) # rs) = (base + off, len) # extents (base + off) rs"

text \<open>The extents of the runs that are read, in byte offsets: without the sparse ones.\<close>

fun read_extents :: "i64 \<Rightarrow> i64 \<Rightarrow> (i64 \<times> u64) list \<Rightarrow> (i64 \<times> i64) list" where
  "read_extents cl base [] = []"
| "read_extents cl base ((off, len) # rs) =
     (if off \<noteq> 0 \<and> len > 0 then [(base + off * cl, len * cl)] else []) @ read_extents cl (base + off * cl) rs"

text \<open>Every run starts within the disk.\<close>

fun on_disk :: "i64 \<Rightarrow> i64 \<Rightarrow> i64 \<Rightarrow> (i64 \<times> u64) list \<Rightarrow> bool" where
  "on_disk diskSize cl base [] = True"
| "on_disk diskSize cl base ((off, len) # rs) =
     (\<not> diskSize <s base + off * cl \<and> on_disk diskSize cl (base + off * cl) rs)"

lemma gmap_append: "gmap f (xs @ ys) = gbind (gmap f xs) (\<lambda>a. gbind (gmap f ys) (\<lambda>b. ret (a @ b)))"
proof (induction xs)
  case Nil
  show ?case by (cases "gmap f ys" rule: go_cases) auto
qed (simp add: gbind_assoc cong: gbind_cong)

text \<open>What the loop does with an extent: read it, then log it.\<close>

definition logged_read :: "reader \<Rightarrow> i64 \<Rightarrow> i64 \<Rightarrow> i64 \<times> i64 \<Rightarrow> byte list go" where
  "logged_read rd part cl x = gbind (rd (fst x) (snd x)) (\<lambda>d. gbind (logged_clusters part cl (fst x)) (\<lambda>_. ret d))"

lemma locate_runs_extents:
  "on_disk diskSize cl base (run_pairs rl) \<Longrightarrow> locate_runs rd diskSize part cl rl base =
    gmap (logged_read rd part cl) (read_extents cl base (run_pairs rl))"
proof (induction rd diskSize part cl rl base rule: locate_runs.induct)
  case (1 rd diskSize part cl off len nxt offset)
  let ?o = "offset + off * cl"
  let ?m = "if off \<noteq> 0 \<and> len > 0 then
      gbind (rd ?o (len * cl)) (\<lambda>d. gbind (logged_clusters part cl ?o) (\<lambda>_. ret [d])) else ret []"
  have piece: "gmap (logged_read rd part cl) (if off \<noteq> 0 \<and> len > 0 then [(?o, len * cl)] else []) = ?m"
    by (simp add: logged_read_def gbind_assoc)
  show ?case
  proof (cases nxt)
    case None
    then show ?thesis using "1.prems" piece by (auto simp: Let_def)
  next
    case (Some r)
    have rest: "on_disk diskSize cl ?o (run_pairs r)" using "1.prems" Some by simp
    have "locate_runs rd diskSize part cl (RunList off len nxt) offset =
        gbind ?m (\<lambda>piece. gbind (locate_runs rd diskSize part cl r ?o) (\<lambda>ps. ret (piece @ ps)))"
      using "1.prems" Some by (simp add: Let_def)
    also have "\<dots> = gbind ?m (\<lambda>piece. gbind (gmap (logged_read rd part cl) (read_extents cl ?o (run_pairs r)))
        (\<lambda>ps. ret (piece @ ps)))"
    proof (rule gbind_cong [OF refl])
      fix piece assume "?m = ret piece"
      then show "gbind (locate_runs rd diskSize part cl r ?o) (\<lambda>ps. ret (piece @ ps)) =
          gbind (gmap (logged_read rd part cl) (read_extents cl ?o (run_pairs r))) (\<lambda>ps. ret (piece @ ps))"
        using "1.IH" [of ?o piece r] "1.prems" Some rest by simp
    qed
    finally show ?thesis using Some piece by (simp add: gmap_append)
  qed
qed

text \<open>With clusters of some size the log entries do not matter; with clusters of no size the first one panics.\<close>

lemma logged_read_cluster: "cl \<noteq> 0 \<Longrightarrow> logged_read rd part cl = (\<lambda>(off, len). rd off len)"
  by (auto simp: logged_read_def logged_clusters_def go_div_def fun_eq_iff)

lemma logged_read_returned: "logged_read rd part cl x = ret d \<Longrightarrow> rd (fst x) (snd x) = ret d"
  by (auto simp: logged_read_def)

lemma logged_reads_returned:
  "gmap (logged_read rd part cl) xs = ret ds \<Longrightarrow> gmap (\<lambda>(off, len). rd off len) xs = ret ds"
  by (induction xs arbitrary: ds) (auto dest!: logged_read_returned simp: case_prod_beta)

lemma logged_reads:
  assumes "\<forall>(off, len) \<in> set xs. rd off len = ret (content off len)"
  shows "gmap (logged_read rd part cl) xs = (if cl = 0 \<and> xs \<noteq> [] then panic Divide_by_zero
    else ret (map (\<lambda>(off, len). content off len) xs))"
proof (cases "cl = 0")
  case True
  with assms show ?thesis by (cases xs) (auto simp: logged_read_def logged_clusters_def)
next
  case False
  have "gmap (\<lambda>(off, len). rd off len) xs = ret (map (\<lambda>(off, len). content off len) xs)"
    using assms by (intro gmap_ret) auto
  with False show ?thesis by (simp add: logged_read_cluster)
qed

lemma LocateData_eq:
  assumes "\<not> HasResidentDataAttr r" and "GetRunList tbl r ''DATA'' = ret rl"
    and "on_disk diskSize (spc * bps) part (run_pairs rl)"
    and "GetLogicalFileSize tbl r = ret fsize" and "GetFname tbl r = ret name"
    and "\<forall>(off, len) \<in> set (read_extents (spc * bps) part (run_pairs rl)). rd off len = ret (content off len)"
  shows "LocateData rd diskSize tbl part spc bps r =
    (if fsize <s 0 then panic (Explicit_panic ''bytes.Buffer.Grow: negative count'')
     else if max_alloc < unat fsize then panic (Explicit_panic ''bytes.Buffer: too large'')
     else if spc * bps = 0 \<and> read_extents (spc * bps) part (run_pairs rl) \<noteq> [] then panic Divide_by_zero
     else ret \<lparr>af_Fname = name, af_Id = int (unat (Entry r)),
       af_Content = concat (map (\<lambda>(off, len). content off len) (read_extents (spc * bps) part (run_pairs rl)))\<rparr>)"
proof -
  define cl where "cl = spc * bps"
  note facts = assms [folded cl_def]
  show ?thesis
    unfolding LocateData_def cl_def [symmetric]
    using facts(1,2,4,5) locate_runs_extents [OF facts(3)] logged_reads [OF facts(6), of part cl]
    by (cases "cl = 0") (simp_all add: buffer_Grow_def)
qed

text \<open>C4: What is exported as a file's content. For a record with a non-resident data attribute whose runs
  all start on the disk, \<open>LocateData\<close> delivers the file's name, entry number and the bytes of the
  runs in order, each read at its absolute position (the sum of the relative offsets so far) and with
  its full length. Runs with a zero offset field contribute nothing, not even zeros: the sparse
  ranges of a file are missing from its content, as is a first run at cluster 0. It panics for a logical
  size that is negative or more than can be allocated, and, when clusters have no bytes, after the first run that
  is read: the text for the log divides by their size.\<close>

theorem LocateData_extents:
  assumes "\<not> HasResidentDataAttr r" and "GetRunList tbl r ''DATA'' = ret rl"
    and "on_disk diskSize (spc * bps) part (run_pairs rl)"
    and "GetLogicalFileSize tbl r = ret fsize" and "GetFname tbl r = ret name"
    and "\<forall>(off, len) \<in> set (read_extents (spc * bps) part (run_pairs rl)). rd off len = ret (content off len)"
  shows "LocateData rd diskSize tbl part spc bps r =
    (if fsize <s 0 then panic (Explicit_panic ''bytes.Buffer.Grow: negative count'')
     else if max_alloc < unat fsize then panic (Explicit_panic ''bytes.Buffer: too large'')
     else if spc * bps = 0 \<and> read_extents (spc * bps) part (run_pairs rl) \<noteq> [] then panic Divide_by_zero
     else ret \<lparr>af_Fname = name, af_Id = int (unat (Entry r)),
       af_Content = concat (map (\<lambda>(off, len). content off len) (read_extents (spc * bps) part (run_pairs rl)))\<rparr>)"
  using assms by (rule LocateData_eq)

text \<open>A record whose data lies in two runs with a sparse one between them, and a disk whose byte at
  offset \<open>n\<close> is \<open>n mod 256\<close>.\<close>

definition sample_runs :: RunList where
  "sample_runs = RunList 2 1 (Some (RunList 0 3 (Some (RunList (- 1) 1 None))))"

definition sample_nonresident :: Record where
  "sample_nonresident = (sample_named ''f'')\<lparr>Entry := 40, Attributes := Attributes (sample_named ''f'') @
     [Attribute (zero_AttributeHeader\<lparr>Type := [0x80, 0, 0, 0], NoNResident := 1,
        NonResident := Some (zero_ATRrecordNoNResident\<lparr>nr_RunList := Some sample_runs\<rparr>)\<rparr>) (BData \<lparr>Content = []\<rparr>)]\<rparr>"

definition sample_reader :: reader where
  "sample_reader off len = ret (map (\<lambda>i. of_nat (unat off + i)) [0..<unat len])"

lemma GetLogicalFileSize_own: "OriginLinkedRecord r = None \<Longrightarrow> GetLogicalFileSize tbl r = own_logical_size r"
  by (subst GetLogicalFileSize.simps) simp

lemma sample_nonresident_facts:
  "FindAttribute sample_nonresident ''FileName'' = Some (hd (Attributes (sample_named ''f'')))"
  "\<not> HasResidentDataAttr sample_nonresident" "GetRunList tbl sample_nonresident ''DATA'' = ret sample_runs"
  "GetLogicalFileSize tbl sample_nonresident = ret 0" "GetFname tbl sample_nonresident = ret ''f''"
proof -
  let ?h = "zero_AttributeHeader\<lparr>Type := [0x80, 0, 0, 0], NoNResident := 1,
        NonResident := Some (zero_ATRrecordNoNResident\<lparr>nr_RunList := Some sample_runs\<rparr>)\<rparr>"
  have data: "FindType (Attribute ?h b) = ''DATA''" for b
    by (simp add: FindType_def GetType_def Bytereverse_def AttrTypes_def hex_eval)
  show fn: "FindAttribute sample_nonresident ''FileName'' = Some (hd (Attributes (sample_named ''f'')))"
    by (simp add: sample_nonresident_def sample_named_def FindAttribute_def FindType_sample)
  have d: "FindAttribute sample_nonresident ''DATA'' = Some (Attribute ?h (BData \<lparr>Content = []\<rparr>))"
    by (simp add: sample_nonresident_def sample_named_def FindAttribute_def FindType_sample data)
  have none: "LinkedRecords sample_nonresident = []" "OriginLinkedRecord sample_nonresident = None"
    by (simp_all add: sample_nonresident_def sample_named_def zero_Record_def)
  show "\<not> HasResidentDataAttr sample_nonresident"
    by (simp add: HasResidentDataAttr_def d Attribute_IsNoNResident_def IsNoNResident_def)
  show "GetRunList tbl sample_nonresident ''DATA'' = ret sample_runs"
    by (simp add: GetRunList_def none attribute_run_list_def d run_list_of_def nonresident_part_def)
  show "GetLogicalFileSize tbl sample_nonresident = ret 0"
    unfolding GetLogicalFileSize_own [OF none(2)] own_logical_size_def fn
    by (simp add: sample_named_def assert_FN_def zero_FNAttribute_def sample_nonresident_def zero_Record_def)
  have "FindType (hd (Attributes (sample_named ''f''))) = ''FileName''"
    by (simp add: sample_named_def FindType_sample)
  then have "GetFnames sample_nonresident = ret [''Win32'' \<mapsto> ''f'']"
    by (simp add: GetFnames_def sample_nonresident_def sample_named_def data put_fname_def assert_FN_def
        GetFileNameType_def lookup_str_def NameSpaceFlags_def zero_FNAttribute_def)
  then show "GetFname tbl sample_nonresident = ret ''f''"
    by (simp add: GetFname_own none own_fname_def name_schemes_def)
qed

lemma sample_on_disk: "on_disk 1000 (1 * 8) 16 (run_pairs sample_runs)"
  by (simp add: sample_runs_def word_sless_alt)

lemma sample_reads: "\<forall>(off, len) \<in> set (read_extents cl part (run_pairs sample_runs)).
    sample_reader off len = ret (map (\<lambda>i. of_nat (unat off + i)) [0..<unat len])"
  by (auto simp: sample_reader_def)

lemma sample_LocateData:
  "LocateData sample_reader 1000 [] 16 1 8 sample_nonresident =
     ret \<lparr>af_Fname = ''f'', af_Id = 40, af_Content = [32, 33, 34, 35, 36, 37, 38, 39, 24, 25, 26, 27, 28, 29, 30, 31]\<rparr>"
  using LocateData_eq [OF sample_nonresident_facts(2,3) sample_on_disk sample_nonresident_facts(4,5) sample_reads]
  by (simp add: sample_runs_def sample_nonresident_def upt_rec word_sless_alt max_alloc_def)

theorem LocateData_extents_witness:
  "LocateData sample_reader 1000 [] 16 1 8 sample_nonresident =
      ret \<lparr>af_Fname = ''f'', af_Id = 40, af_Content = [32, 33, 34, 35, 36, 37, 38, 39, 24, 25, 26, 27, 28, 29, 30, 31]\<rparr> \<and>
    LocateData sample_reader 1000 [] 16 0 8 sample_nonresident = panic Divide_by_zero"
proof
  show "LocateData sample_reader 1000 [] 16 1 8 sample_nonresident =
      ret \<lparr>af_Fname = ''f'', af_Id = 40, af_Content = [32, 33, 34, 35, 36, 37, 38, 39, 24, 25, 26, 27, 28, 29, 30, 31]\<rparr>"
    using LocateData_extents [OF sample_nonresident_facts(2,3) sample_on_disk sample_nonresident_facts(4,5) sample_reads]
    by (simp add: sample_runs_def sample_nonresident_def upt_rec word_sless_alt max_alloc_def)
  have "on_disk 1000 (0 * 8) 16 (run_pairs sample_runs)" by (simp add: sample_runs_def word_sless_alt)
  from LocateData_extents [OF sample_nonresident_facts(2,3) this sample_nonresident_facts(4,5) sample_reads]
  show "LocateData sample_reader 1000 [] 16 0 8 sample_nonresident = panic Divide_by_zero"
    by (simp add: sample_runs_def word_sless_alt max_alloc_def)
qed

section \<open>The content of a non-resident attribute\<close>

definition within :: "i64 \<Rightarrow> i64 \<Rightarrow> (i64 \<times> u64) list \<Rightarrow> bool" where
  "within room cl es \<longleftrightarrow> (\<forall>(o', len) \<in> set es. \<not> room \<le>s o' * cl)"

lemma collect_runs_extents:
  assumes "within (diskSizeB - part) cl (extents offset (run_pairs rl))" and "(0, 0) \<notin> set (run_pairs rl)"
  shows "collect_runs rd diskSizeB part cl rl offset buf =
    gbind (gmap (\<lambda>(o', len). rd (part + o' * cl) (len * cl)) (extents offset (run_pairs rl)))
      (\<lambda>bss. ret (buf @ concat bss))"
  using assms
proof (induction rd diskSizeB part cl rl offset buf rule: collect_runs.induct)
  case (1 rd diskSizeB part cl off len nxt offset buf)
  show ?case
  proof (cases nxt)
    case None
    then show ?thesis using "1.prems" by (auto simp: within_def gbind_assoc)
  next
    case (Some r)
    have here: "\<not> diskSizeB - part \<le>s (offset + off) * cl"
      and rest: "within (diskSizeB - part) cl (extents (offset + off) (run_pairs r))"
      and nz: "(0, 0) \<notin> set (run_pairs r)"
      using "1.prems" Some by (auto simp: within_def)
    have "collect_runs rd diskSizeB part cl r (offset + off) (buf @ data) =
        gbind (gmap (\<lambda>(o', len). rd (part + o' * cl) (len * cl)) (extents (offset + off) (run_pairs r)))
          (\<lambda>bss. ret ((buf @ data) @ concat bss))"
      if "rd (part + (offset + off) * cl) (len * cl) = ret data" for data
      using "1.IH" [of "offset + off" data r] here rest nz Some that by simp
    then show ?thesis
      using here Some by (simp add: gbind_assoc Let_def cong: gbind_cong)
  qed
qed

text \<open>The reads a run list asks for.\<close>

definition run_reads :: "i64 \<Rightarrow> i64 \<Rightarrow> RunList \<Rightarrow> (i64 \<times> i64) list" where
  "run_reads part cl rl = map (\<lambda>(o', len). (part + o' * cl, len * cl)) (extents 0 (run_pairs rl))"

lemma gmap_map: "gmap f (map g xs) = gmap (f \<circ> g) xs"
  by (induction xs) auto

text \<open>C5: The content of a non-resident attribute on a Windows drive. If every run of the attribute
  starts inside the partition and has a length that is not negative and can be allocated, the attribute is
  parsed from exactly its actual length of the bytes of all its runs in order, each at the sum of the
  relative offsets before it, whatever the drive delivers; no read and no slice expression can fail, only
  the buffer, when the clusters of the attribute are more than can be allocated together. (A sparse run has
  relative offset zero: it is read again from where the run before it starts.)\<close>

theorem process_nonresident_content:
  assumes "NonResident (GetHeader a) = Some nr" and "nr_RunList nr = Some rl"
    and "within (diskSizeB - part) cl (extents 0 (run_pairs rl))" and "(0, 0) \<notin> set (run_pairs rl)"
    and "\<forall>x \<in> set (run_reads part cl rl). 0 \<le>s snd x \<and> unat (snd x) \<le> max_alloc"
    and "0 <s RunListTotalLenCl nr * cl" and "0 \<le>s ActualLength nr"
    and "\<not> RunListTotalLenCl nr * cl <s ActualLength nr"
  shows "\<exists>bss. gmap (\<lambda>(off, len). WindowsReader_ReadFile api off len) (run_reads part cl rl) = ret bss \<and>
    length (concat bss) = (\<Sum>x\<leftarrow>run_reads part cl rl. unat (snd x)) \<and>
    process_nonresident (WindowsReader_ReadFile api) diskSizeB slack part cl a =
      (if max_alloc < unat (RunListTotalLenCl nr * cl) then panic (Explicit_panic ''bytes.Buffer: too large'')
       else Attribute_Parse (Slice (concat bss @ replicate (unat (RunListTotalLenCl nr * cl) - length (concat bss) + slack) 0)
        (unat (ActualLength nr))) a)"
proof -
  let ?total = "RunListTotalLenCl nr * cl"
  obtain bss where bss: "gmap (\<lambda>(off, len). WindowsReader_ReadFile api off len) (run_reads part cl rl) = ret bss"
    and len: "length (concat bss) = (\<Sum>x\<leftarrow>run_reads part cl rl. unat (snd x))"
    using windows.reads_length [OF assms(5)] by blast
  have "gmap (\<lambda>(o', len). WindowsReader_ReadFile api (part + o' * cl) (len * cl)) (extents 0 (run_pairs rl)) = ret bss"
    using bss by (simp add: run_reads_def gmap_map comp_def split_def)
  then have "collect_runs (WindowsReader_ReadFile api) diskSizeB part cl rl 0 [] = ret (concat bss)"
    using collect_runs_extents [OF assms(3,4), of "WindowsReader_ReadFile api" "[]"] by simp
  moreover have "unat (ActualLength nr) \<le> unat ?total"
    using unat_le_signed assms(7,8) by blast
  moreover have "?total \<noteq> 0" "\<not> ?total <s 0" "\<not> ActualLength nr <s 0"
    using assms(6,7) by (auto simp: word_sless_alt word_sle_eq)
  moreover have "unat (ActualLength nr) \<le> length (concat bss) + (unat ?total - length (concat bss) + slack)"
    using unat_le_signed [OF assms(7,8)] by linarith
  ultimately have "process_nonresident (WindowsReader_ReadFile api) diskSizeB slack part cl a =
      (if max_alloc < unat ?total then panic (Explicit_panic ''bytes.Buffer: too large'')
       else Attribute_Parse (Slice (concat bss @ replicate (unat ?total - length (concat bss) + slack) 0)
        (unat (ActualLength nr))) a)"
    using assms(1,2,8)
    by (simp add: process_nonresident_def nonresident_part_def buffer_Grow_def sub_to_def buffer_Bytes_def
        sub_def Let_def del: length_concat)
  with bss len show ?thesis by blast
qed

theorem process_nonresident_content_witness:
  "process_nonresident (WindowsReader_ReadFile (\<lambda>_ _ _. [7, 8, 9])) 1000 0 0 4
     (Attribute (zero_AttributeHeader\<lparr>NonResident := Some (zero_ATRrecordNoNResident\<lparr>
        nr_RunList := Some (RunList 5 1 None), RunListTotalLenCl := 1, ActualLength := 2\<rparr>)\<rparr>)
        (BBitmap \<lparr>AllocationStatus = []\<rparr>)) =
   ret (Attribute (zero_AttributeHeader\<lparr>NonResident := Some (zero_ATRrecordNoNResident\<lparr>
        nr_RunList := Some (RunList 5 1 None), RunListTotalLenCl := 1, ActualLength := 2\<rparr>)\<rparr>)
        (BBitmap \<lparr>AllocationStatus = [7, 8]\<rparr>))"
proof -
  let ?nr = "zero_ATRrecordNoNResident\<lparr>nr_RunList := Some (RunList 5 1 None), RunListTotalLenCl := 1, ActualLength := 2\<rparr>"
  let ?a = "Attribute (zero_AttributeHeader\<lparr>NonResident := Some ?nr\<rparr>) (BBitmap \<lparr>AllocationStatus = []\<rparr>)"
  have "\<exists>bss. gmap (\<lambda>(off, len). WindowsReader_ReadFile (\<lambda>_ _ _. [7, 8, 9]) off len) (run_reads 0 4 (RunList 5 1 None)) = ret bss \<and>
    length (concat bss) = (\<Sum>x\<leftarrow>run_reads 0 4 (RunList 5 1 None). unat (snd x)) \<and>
    process_nonresident (WindowsReader_ReadFile (\<lambda>_ _ _. [7, 8, 9])) 1000 0 0 4 ?a =
      (if max_alloc < unat (RunListTotalLenCl ?nr * 4) then panic (Explicit_panic ''bytes.Buffer: too large'')
       else Attribute_Parse (Slice (concat bss @ replicate (unat (RunListTotalLenCl ?nr * 4) - length (concat bss) + 0) 0)
        (unat (ActualLength ?nr))) ?a)"
    by (rule process_nonresident_content)
      (simp_all add: within_def run_reads_def word_sle_eq word_sless_alt max_alloc_def)
  moreover have "gmap (\<lambda>(off, len). WindowsReader_ReadFile (\<lambda>_ _ _. [7, 8, 9]) off len)
      (run_reads 0 4 (RunList 5 1 None)) = ret [[7, 8, 9, 0]]"
    by (simp add: run_reads_def WindowsReader_ReadFile_def Let_def word_sless_alt max_alloc_def)
  ultimately have "process_nonresident (WindowsReader_ReadFile (\<lambda>_ _ _. [7, 8, 9])) 1000 0 0 4 ?a =
      Attribute_Parse (Slice [7, 8, 9, 0] 2) ?a" by (auto simp: max_alloc_def)
  then show ?thesis by (simp add: Attribute_Parse_def BitMap_Parse_def bytes_def)
qed

section \<open>The pass over the table\<close>

lemma process_nonresident_result:
  assumes "process_nonresident rd dsz slack part cl a = ret b"
  shows "b = a \<or> (\<exists>d. Attribute_Parse d a = ret b)"
  using assms by (auto simp: process_nonresident_def Let_def split: option.splits if_splits)

lemma typed_after_parse:
  assumes "Attribute_Parse d a = ret b" and "typed_attribute a"
  shows "typed_attribute b"
proof -
  from assms(1) obtain b' where p: "body_Parse d (Body a) = ret b'" and b: "b = Attribute (GetHeader a) b'"
    by (auto simp: Attribute_Parse_def)
  have "FindType b = FindType a" "Attribute_IsNoNResident b = Attribute_IsNoNResident a"
    using attr.parse_find_type [OF assms(1)] attr.parse_nonresident [OF assms(1)] by auto
  then show ?thesis
    using assms(2) body_Parse_type [OF p] by (auto simp: typed_attribute_def b)
qed

lemma gmap_list_all2: "gmap f xs = ret ys \<Longrightarrow> list_all2 (\<lambda>x y. f x = ret y) xs ys"
  by (induction xs arbitrary: ys) auto

lemma list_all2_source: "list_all2 P xs ys \<Longrightarrow> y \<in> set ys \<Longrightarrow> \<exists>x \<in> set xs. P x y"
  by (induction rule: list_all2_induct) auto

text \<open>The pass that reads the non-resident attributes changes bodies only: when
  \<open>ProcessNonResidentRecords\<close> returns, every record has the same fields and, position by position,
  attributes of the same types, resident or not as before, so every search by type finds what it
  found; well-typed records stay well typed.\<close>

theorem ProcessNonResidentRecords_frame:
  assumes "ProcessNonResidentRecords rd dsz slack part cl tbl = ret tbl'"
  shows "list_all2 (\<lambda>r r'. \<exists>as. r' = r\<lparr>Attributes := as\<rparr> \<and> map FindType as = map FindType (Attributes r) \<and>
    map Attribute_IsNoNResident as = map Attribute_IsNoNResident (Attributes r) \<and>
    (typed_record r \<longrightarrow> typed_record r')) tbl tbl'"
proof -
  have "list_all2 (\<lambda>r r'. ProcessNoNResidentAttributes rd dsz slack part cl r = ret r') tbl tbl'"
    using assms by (simp add: ProcessNonResidentRecords_def gmap_list_all2)
  moreover have "\<exists>as. r' = r\<lparr>Attributes := as\<rparr> \<and> map FindType as = map FindType (Attributes r) \<and>
      map Attribute_IsNoNResident as = map Attribute_IsNoNResident (Attributes r) \<and>
      (typed_record r \<longrightarrow> typed_record r')"
    if r: "ProcessNoNResidentAttributes rd dsz slack part cl r = ret r'" for r r'
  proof -
    let ?f = "\<lambda>a. if Attribute_IsNoNResident a \<and> FindType a \<noteq> ''DATA''
      then process_nonresident rd dsz slack part cl a else ret a"
    from r obtain as where as: "gmap ?f (Attributes r) = ret as" and r': "r' = r\<lparr>Attributes := as\<rparr>"
      by (auto simp: ProcessNoNResidentAttributes_def)
    have step: "b = a \<or> (\<exists>d. Attribute_Parse d a = ret b)" if "?f a = ret b" for a b
      using that process_nonresident_result by (auto split: if_splits)
    from gmap_list_all2 [OF as] have all: "list_all2 (\<lambda>a b. b = a \<or> (\<exists>d. Attribute_Parse d a = ret b)) (Attributes r) as"
      by (rule list_all2_mono) (rule step)
    have "typed_record r'" if "typed_record r"
    proof -
      have "\<exists>a \<in> set (Attributes r). b = a \<or> (\<exists>d. Attribute_Parse d a = ret b)" if b: "b \<in> set as" for b
      proof -
        from b obtain i where "i < length as" "as ! i = b" by (auto simp: in_set_conv_nth)
        with list_all2_nthD2 [OF all] list_all2_lengthD [OF all] show ?thesis
          by (intro bexI [of _ "Attributes r ! i"]) auto
      qed
      then show ?thesis
        using that typed_after_parse unfolding typed_record_def r' by (simp, blast)
    qed
    then show ?thesis
      using attr.find_after_parse [OF all] attr.nonresident_after_parse [OF all] r' by blast
  qed
  ultimately show ?thesis by (rule list_all2_mono)
qed

theorem ProcessNonResidentRecords_frame_witness:
  "\<exists>t. ProcessNonResidentRecords sample_reader 1000 0 0 8 [sample_nonresident] = ret t \<and> length t = 1"
proof -
  have "FindType (Attribute (zero_AttributeHeader\<lparr>Type := [0x80, 0, 0, 0], NoNResident := 1,
      NonResident := x\<rparr>) b) = ''DATA''" for x b
    by (simp add: FindType_def GetType_def Bytereverse_def AttrTypes_def hex_eval)
  moreover have "\<not> Attribute_IsNoNResident (hd (Attributes (sample_named ''f'')))"
    by (simp add: sample_named_def Attribute_IsNoNResident_def IsNoNResident_def) (simp add: zero_AttributeHeader_def)
  ultimately have "ProcessNoNResidentAttributes sample_reader 1000 0 0 8 sample_nonresident = ret sample_nonresident"
    by (simp add: ProcessNoNResidentAttributes_def sample_nonresident_def sample_named_def)
  then have p: "ProcessNonResidentRecords sample_reader 1000 0 0 8 [sample_nonresident] = ret [sample_nonresident]"
    by (simp add: ProcessNonResidentRecords_def)
  from ProcessNonResidentRecords_frame [OF p] p show ?thesis by (auto dest: list_all2_lengthD)
qed

end
