(* ===== verification/Volume_NTFS.thy ===== *)
theory Volume_NTFS
  imports MFT_Data
begin

text \<open>
  The NTFS volume of \<open>disk/volume/ntfs.go\<close>: its boot record, the reading of the MFT, the selection of
  entries, and the collection of unallocated clusters. \<open>Process\<close> composes the passes over the
  table in the code's order.
\<close>

section \<open>The boot record\<close>

record VBR =
  JumpInstruction :: "byte list"
  vbr_Signature :: "byte list"
  NotUsed1 :: "byte list"
  BytesPerSector :: u16
  SectorsPerCluster :: u8
  NotUsed2 :: "byte list"
  TotalSectors :: u64
  MFTOffset :: u64
  MFTMirrOffset :: u64

definition VBR_layout :: layout where
  "VBR_layout = [(''JumpInstruction'', Karray 3), (''Signature'', Karray 4), (''NotUsed1'', Karray 4),
     (''BytesPerSector'', Kuint16), (''SectorsPerCluster'', Kuint8), (''NotUsed2'', Karray 26),
     (''TotalSectors'', Kuint64), (''MFTOffset'', Kuint64), (''MFTMirrOffset'', Kuint64)]"

definition zero_VBR :: VBR where
  "zero_VBR = \<lparr>JumpInstruction = replicate 3 0, vbr_Signature = replicate 4 0, NotUsed1 = replicate 4 0,
     BytesPerSector = 0, SectorsPerCluster = 0, NotUsed2 = replicate 26 0, TotalSectors = 0,
     MFTOffset = 0, MFTMirrOffset = 0\<rparr>"

definition set_VBR :: "val list \<Rightarrow> VBR \<Rightarrow> VBR" where
  "set_VBR v b = b\<lparr>JumpInstruction := put_arr (v ! 0) (JumpInstruction b),
     vbr_Signature := put_arr (v ! 1) (vbr_Signature b), NotUsed1 := put_arr (v ! 2) (NotUsed1 b),
     BytesPerSector := put_u16 (v ! 3) (BytesPerSector b),
     SectorsPerCluster := put_u8 (v ! 4) (SectorsPerCluster b), NotUsed2 := put_arr (v ! 5) (NotUsed2 b),
     TotalSectors := put_u64 (v ! 6) (TotalSectors b), MFTOffset := put_u64 (v ! 7) (MFTOffset b),
     MFTMirrOffset := put_u64 (v ! 8) (MFTMirrOffset b)\<rparr>"

definition VBR_Parse :: "slice \<Rightarrow> VBR \<Rightarrow> VBR go" where
  "VBR_Parse data vbr = unmarshal_into VBR_layout set_VBR vbr data"

definition VBR_GetSignature :: "VBR \<Rightarrow> string" where
  "VBR_GetSignature vbr = byte_string (vbr_Signature vbr)"

section \<open>The volume\<close>

record NTFS =
  ntfs_VBR :: "VBR option"
  ntfs_MFT :: "MFTTable option"

definition AddVolume :: "slice \<Rightarrow> NTFS \<Rightarrow> NTFS go" where
  "AddVolume data ntfs = gbind (VBR_Parse data zero_VBR) (\<lambda>vbr. ret (ntfs\<lparr>ntfs_VBR := Some vbr\<rparr>))"

definition the_VBR :: "NTFS \<Rightarrow> VBR go" where
  "the_VBR ntfs = (case ntfs_VBR ntfs of None \<Rightarrow> panic Nil_dereference | Some v \<Rightarrow> ret v)"

definition the_MFT :: "NTFS \<Rightarrow> MFTTable go" where
  "the_MFT ntfs = (case ntfs_MFT ntfs of None \<Rightarrow> panic Nil_dereference | Some t \<Rightarrow> ret t)"

definition NTFS_GetSignature :: "NTFS \<Rightarrow> string go" where
  "NTFS_GetSignature ntfs = gbind (the_VBR ntfs) (\<lambda>v. ret (VBR_GetSignature v))"

definition HasValidSignature :: "NTFS \<Rightarrow> bool go" where
  "HasValidSignature ntfs = gbind (the_VBR ntfs) (\<lambda>v. ret (VBR_GetSignature v = ''NTFS''))"

definition GetSectorsPerCluster :: "NTFS \<Rightarrow> i64 go" where
  "GetSectorsPerCluster ntfs = gbind (the_VBR ntfs) (\<lambda>v. ret (ucast (SectorsPerCluster v)))"

definition GetBytesPerSector :: "NTFS \<Rightarrow> u64 go" where
  "GetBytesPerSector ntfs = gbind (the_VBR ntfs) (\<lambda>v. ret (ucast (BytesPerSector v)))"

definition GetFSMetadata :: "NTFS \<Rightarrow> Records go" where
  "GetFSMetadata ntfs = gbind (the_MFT ntfs) (\<lambda>t. ret (Records t))"

definition cluster_size :: "VBR \<Rightarrow> i64" where
  "cluster_size v = ucast (SectorsPerCluster v) * ucast (BytesPerSector v)"

definition first_record :: "MFTTable \<Rightarrow> Record go" where
  "first_record t = (case Records t of [] \<Rightarrow> panic Index_out_of_range | r # _ \<Rightarrow> ret r)"

section \<open>Reading the MFT\<close>

fun mft_runs :: "reader \<Rightarrow> i64 \<Rightarrow> i64 \<Rightarrow> RunList \<Rightarrow> i64 \<Rightarrow> byte list \<Rightarrow> byte list go" where
  "mft_runs rd part cl (RunList off len nxt) offset buf =
     (if off = 0 \<and> len = 0 \<and> nxt = None then ret buf
      else let offset' = offset + off in
        gbind (rd (part + offset' * cl) (len * cl)) (\<lambda>data.
          case nxt of None \<Rightarrow> ret (buf @ data)
          | Some runlist \<Rightarrow> mft_runs rd part cl runlist offset' (buf @ data)))"

text \<open>The MFT's bytes, and how far the buffer was grown for them.\<close>

definition CollectMFTArea :: "reader \<Rightarrow> i64 \<Rightarrow> NTFS \<Rightarrow> (byte list \<times> nat) go" where
  "CollectMFTArea rd part ntfs =
     gbind (the_MFT ntfs) (\<lambda>t.
     gbind (the_VBR ntfs) (\<lambda>v.
     let grown = (of_int (mft_Size t) :: i64) * cluster_size v in
     gbind (buffer_Grow 0 grown) (\<lambda>_.
     gbind (first_record t) (\<lambda>r.
     gbind (GetRunList (Records t) r ''DATA'') (\<lambda>runlist.
     gbind (mft_runs rd part (cluster_size v) runlist 0 []) (\<lambda>buf. ret (buf, unat grown)))))))"

section \<open>Selecting entries\<close>

definition MaxUint32 :: int where "MaxUint32 = 4294967295"

text \<open>The inner loop writes the record once for every selected entry that equals its number.\<close>

fun write_selected :: "slice \<Rightarrow> nat \<Rightarrow> int list \<Rightarrow> byte list \<Rightarrow> byte list go" where
  "write_selected data i [] buf = ret buf"
| "write_selected data i (e # es) buf =
     (if int (i div RecordSize) \<noteq> e then write_selected data i es buf
      else gbind (sub data i (i + RecordSize)) (\<lambda>r. write_selected data i es (buf @ bytes r)))"

function select_loop :: "slice \<Rightarrow> int list \<Rightarrow> int \<Rightarrow> int \<Rightarrow> nat \<Rightarrow> byte list \<Rightarrow> byte list go" where
  "select_loop data sel fromE toE i buf =
     (if i < slen data then
        if int (i div RecordSize) > toE then ret buf
        else
          gbind (write_selected data i sel buf) (\<lambda>buf'.
          if fromE > int (i div RecordSize) then select_loop data sel fromE toE (i + RecordSize) buf'
          else
            gbind (if sel = [] then gbind (sub data i (i + RecordSize)) (\<lambda>r. ret (buf' @ bytes r)) else ret buf')
              (\<lambda>buf''. if length buf'' = length sel * RecordSize then ret buf''
                 else select_loop data sel fromE toE (i + RecordSize) buf''))
      else ret buf)"
  by pat_completeness auto
termination
  by (relation "measure (\<lambda>(data, sel, f, t, i, buf). slen data - i)") (auto simp: RecordSize_def)

declare select_loop.simps [simp del]

text \<open>The number of records the buffer is grown for, with the checks of the bounds. The differences wrap.\<close>

definition total_records :: "slice \<Rightarrow> int list \<Rightarrow> int \<Rightarrow> int \<Rightarrow> int go" where
  "total_records data sel fromE toE =
     (let n = int (slen data div RecordSize); n1 = (if fromE \<noteq> - 1 then wrap64 (n - fromE) else n) in
      if fromE > n1 then panic (Explicit_panic ''MFT start entry exceeds $MFT number of records'')
      else if toE \<noteq> MaxUint32 \<and> toE > n1 then panic (Explicit_panic ''MFT end entry exceeds $MFT number of records'')
      else ret (if sel \<noteq> [] then int (length sel) else if toE \<noteq> MaxUint32 then wrap64 (n1 - toE) else n1))"

definition ProcessMFT :: "nat \<Rightarrow> slice \<Rightarrow> int list \<Rightarrow> int \<Rightarrow> int \<Rightarrow> NTFS \<Rightarrow> NTFS go" where
  "ProcessMFT slack data sel fromE toE ntfs =
     gbind (total_records data sel fromE toE) (\<lambda>total.
     let grown = (of_int total :: i64) * of_nat RecordSize in
     gbind (buffer_Grow 0 grown) (\<lambda>_.
     gbind (select_loop data sel fromE toE 0 []) (\<lambda>buf.
     gbind (the_MFT ntfs) (\<lambda>t.
     gbind (ProcessRecords t (buffer_Bytes slack (unat grown) buf)) (\<lambda>(t', _).
       ret (ntfs\<lparr>ntfs_MFT := Some t'\<rparr>))))))"

section \<open>Processing a volume\<close>

text \<open>\<open>slack\<close> is the spare capacity of buffers, \<open>srt\<close> the standard library's sort.\<close>

definition Volume_Process ::
  "reader \<Rightarrow> i64 \<Rightarrow> nat \<Rightarrow> (IndexEntries \<Rightarrow> IndexEntries) \<Rightarrow> i64 \<Rightarrow> int list \<Rightarrow> int \<Rightarrow> int \<Rightarrow> NTFS \<Rightarrow> NTFS go" where
  "Volume_Process rd diskSize slack srt part sel fromE toE ntfs =
     gbind (the_VBR ntfs) (\<lambda>v.
     gbind (rd (part + MFTOffset v * ucast (SectorsPerCluster v) * ucast (BytesPerSector v)) 1024) (\<lambda>data.
     gbind (ProcessRecords \<lparr>Records = [], mft_Size = 0\<rparr> (full data)) (\<lambda>(t, _).
     gbind (DetermineClusterOffsetLength t) (\<lambda>t.
     gbind (CollectMFTArea rd part (ntfs\<lparr>ntfs_MFT := Some t\<rparr>)) (\<lambda>(area, grown).
     gbind (ProcessMFT slack (buffer_Bytes slack grown area) sel fromE toE (ntfs\<lparr>ntfs_MFT := Some t\<rparr>)) (\<lambda>ntfs'.
     gbind (the_MFT ntfs') (\<lambda>t.
     gbind (ProcessNonResidentRecords rd diskSize slack part (cluster_size v) (Records t)) (\<lambda>rs.
     if sel = [] \<and> fromE = - 1 \<and> toE = MaxUint32 then
       gbind (CreateLinkedRecords rs) (\<lambda>rs.
       gbind (FindParentRecords rs) (\<lambda>rs.
       gbind (CalculateFileSizes srt rs) (\<lambda>rs. ret (ntfs'\<lparr>ntfs_MFT := Some (t\<lparr>Records := rs\<rparr>)\<rparr>))))
     else ret (ntfs'\<lparr>ntfs_MFT := Some (t\<lparr>Records := rs\<rparr>)\<rparr>)))))))))"

section \<open>Unallocated clusters\<close>

text \<open>The loop over the clusters; what it sends is the buffer so far, which is never reset.\<close>

fun unallocated_loop ::
  "reader \<Rightarrow> i64 \<Rightarrow> VBR \<Rightarrow> nat list \<Rightarrow> nat \<Rightarrow> nat list \<Rightarrow> nat \<Rightarrow> nat \<Rightarrow> byte list \<Rightarrow> byte list list go" where
  "unallocated_loop rd part v clusters idx [] blockSize prev buf = ret []"
| "unallocated_loop rd part v clusters idx (c # cs) blockSize prev buf =
     (if int c - int prev \<le> 1 then unallocated_loop rd part v clusters (idx + 1) cs (blockSize + 1) c buf
      else
        gbind (buffer_Grow (length buf) (of_nat blockSize * ucast (BytesPerSector v))) (\<lambda>_.
        let firstBlockCluster = clusters ! (idx - blockSize);
            offset = part + of_nat firstBlockCluster * ucast (SectorsPerCluster v * (ucast (BytesPerSector v) :: u8));
            len = (of_nat blockSize :: u16) * ((ucast (SectorsPerCluster v) :: u16) * BytesPerSector v) in
        gbind (rd offset (ucast len)) (\<lambda>d.
        gbind (unallocated_loop rd part v clusters (idx + 1) cs 1 c (buf @ d)) (\<lambda>blocks.
          ret ((buf @ d) # blocks)))))"

text \<open>The blocks that \<open>CollectUnallocated\<close> sends before it closes the channel.\<close>

definition CollectUnallocated :: "reader \<Rightarrow> i64 \<Rightarrow> NTFS \<Rightarrow> byte list list go" where
  "CollectUnallocated rd part ntfs =
     gbind (the_MFT ntfs) (\<lambda>t.
     gbind (first_record t) (\<lambda>r.
     gbind (case FindAttribute r ''BitMap'' of
         Some a \<Rightarrow> (case Body a of BBitmap b \<Rightarrow> ret b | _ \<Rightarrow> panic Failed_type_assertion)
       | None \<Rightarrow> panic Failed_type_assertion) (\<lambda>bitmap.
     gbind (GetUnallocatedClusters bitmap) (\<lambda>clusters.
     case clusters of
       [] \<Rightarrow> panic Index_out_of_range
     | c # cs \<Rightarrow>
         if cs = [] then ret []
         else gbind (the_VBR ntfs) (\<lambda>v. unallocated_loop rd part v clusters 1 cs 1 c [])))))"

section \<open>The bytes of the MFT\<close>

lemma mft_runs_extents:
  assumes "(0, 0) \<notin> set (run_pairs rl)"
  shows "mft_runs rd part cl rl offset buf =
    gbind (gmap (\<lambda>(o', len). rd (part + o' * cl) (len * cl)) (extents offset (run_pairs rl)))
      (\<lambda>bss. ret (buf @ concat bss))"
  using assms
proof (induction rd part cl rl offset buf rule: mft_runs.induct)
  case (1 rd part cl off len nxt offset buf)
  show ?case
  proof (cases nxt)
    case None
    then show ?thesis using "1.prems" by (auto simp: gbind_assoc)
  next
    case (Some r)
    then have nz: "(0, 0) \<notin> set (run_pairs r)" using "1.prems" by auto
    have "mft_runs rd part cl r (offset + off) (buf @ data) =
        gbind (gmap (\<lambda>(o', len). rd (part + o' * cl) (len * cl)) (extents (offset + off) (run_pairs r)))
          (\<lambda>bss. ret ((buf @ data) @ concat bss))"
      if "rd (part + (offset + off) * cl) (len * cl) = ret data" for data
      using "1.IH" [of "offset + off" data r] nz Some that by simp
    then show ?thesis
      using Some by (simp add: gbind_assoc Let_def cong: gbind_cong)
  qed
qed

text \<open>C20: The MFT that is read is the MFT that its own first record describes. On a reader that returns
  what it is asked for, \<open>CollectMFTArea\<close> delivers the bytes of the data runs of record 0 in order,
  each run read whole at the partition's offset plus the sum of the relative cluster offsets so
  far, in units of the cluster size of the boot record. When the clusters of the table are more bytes than
  can be allocated, the buffer for them panics.\<close>

theorem CollectMFTArea_extents:
  assumes "ntfs_VBR ntfs = Some v" and "ntfs_MFT ntfs = Some t" and "Records t = r # rs"
    and "GetRunList (Records t) r ''DATA'' = ret rl" and "(0, 0) \<notin> set (run_pairs rl)"
    and "0 \<le>s (of_int (mft_Size t) :: i64) * cluster_size v"
    and "\<forall>(o', len) \<in> set (extents 0 (run_pairs rl)).
      rd (part + o' * cluster_size v) (len * cluster_size v) = ret (content o' len)"
  shows "CollectMFTArea rd part ntfs =
    (if max_alloc < unat ((of_int (mft_Size t) :: i64) * cluster_size v) then panic (Explicit_panic ''bytes.Buffer: too large'')
     else ret (concat (map (\<lambda>(o', len). content o' len) (extents 0 (run_pairs rl))),
       unat ((of_int (mft_Size t) :: i64) * cluster_size v)))"
proof -
  have "gmap (\<lambda>(o', len). rd (part + o' * cluster_size v) (len * cluster_size v)) (extents 0 (run_pairs rl)) =
      ret (map (\<lambda>(o', len). content o' len) (extents 0 (run_pairs rl)))"
    using assms(7) by (intro gmap_ret) auto
  then have "mft_runs rd part (cluster_size v) rl 0 [] =
      ret (concat (map (\<lambda>(o', len). content o' len) (extents 0 (run_pairs rl))))"
    using mft_runs_extents [OF assms(5), of rd part "cluster_size v" 0 "[]"] by simp
  moreover have "\<not> (of_int (mft_Size t) :: i64) * cluster_size v <s 0"
    using assms(6) by (simp add: word_sless_alt word_sle_eq)
  ultimately show ?thesis
    using assms(1-4)
    by (simp add: CollectMFTArea_def the_MFT_def the_VBR_def buffer_Grow_def first_record_def Let_def)
qed

theorem CollectMFTArea_extents_witness:
  "\<exists>n. CollectMFTArea sample_reader 16 \<lparr>ntfs_VBR = Some (zero_VBR\<lparr>BytesPerSector := 4, SectorsPerCluster := 1\<rparr>),
      ntfs_MFT = Some \<lparr>Records = [sample_nonresident], mft_Size = 2\<rparr>\<rparr> =
    ret ([24, 25, 26, 27, 24, 25, 26, 27, 28, 29, 30, 31, 32, 33, 34, 35, 20, 21, 22, 23], n)"
proof -
  let ?v = "zero_VBR\<lparr>BytesPerSector := 4, SectorsPerCluster := 1\<rparr>"
  let ?t = "\<lparr>Records = [sample_nonresident], mft_Size = 2\<rparr>"
  let ?content = "\<lambda>o' len. map (\<lambda>i. of_nat (unat (16 + o' * cluster_size ?v) + i)) [0..<unat (len * cluster_size ?v)]"
  have cs: "cluster_size ?v = 4" by (simp add: cluster_size_def)
  have "CollectMFTArea sample_reader 16 \<lparr>ntfs_VBR = Some ?v, ntfs_MFT = Some ?t\<rparr> =
    (if max_alloc < unat ((of_int (mft_Size ?t) :: i64) * cluster_size ?v) then panic (Explicit_panic ''bytes.Buffer: too large'')
     else ret (concat (map (\<lambda>(o', len). ?content o' len) (extents 0 (run_pairs sample_runs))),
        unat ((of_int (mft_Size ?t) :: i64) * cluster_size ?v)))"
  proof (rule CollectMFTArea_extents)
    show "GetRunList (Records ?t) sample_nonresident ''DATA'' = ret sample_runs"
      by (rule sample_nonresident_facts)
  qed (simp_all add: sample_reader_def cs sample_runs_def word_sle_eq)
  then show ?thesis by (simp add: cs sample_runs_def upt_rec max_alloc_def)
qed

section \<open>The selection of entries\<close>

definition record_at :: "slice \<Rightarrow> nat \<Rightarrow> byte list" where
  "record_at data k = take 1024 (drop (1024 * k) (arr data))"

lemma length_record_at: "1024 * Suc k \<le> length (arr data) \<Longrightarrow> length (record_at data k) = 1024"
  by (simp add: record_at_def)

lemma sub_record:
  "1024 * Suc k \<le> length (arr data) \<Longrightarrow>
    \<exists>r. sub data (1024 * k) (1024 * k + RecordSize) = ret r \<and> bytes r = record_at data k"
  by (simp add: sub_def RecordSize_def bytes_def record_at_def)

lemma write_selected_eq:
  assumes "1024 * Suc k \<le> length (arr data)" and "distinct sel"
  shows "write_selected data (1024 * k) sel buf = ret (buf @ (if int k \<in> set sel then record_at data k else []))"
  using assms(2)
proof (induction sel arbitrary: buf)
  case (Cons e es)
  obtain r where r: "sub data (1024 * k) (1024 * k + RecordSize) = ret r" "bytes r = record_at data k"
    using sub_record [OF assms(1)] by blast
  have "1024 * k div RecordSize = k" by (simp add: RecordSize_def)
  with Cons r show ?case by auto
qed simp

definition selected :: "int list \<Rightarrow> int \<Rightarrow> int \<Rightarrow> nat \<Rightarrow> bool" where
  "selected sel fromE toE k \<longleftrightarrow> int k \<le> toE \<and> (if sel = [] then fromE \<le> int k else int k \<in> set sel)"

lemma length_records:
  "\<forall>k \<in> set ks. 1024 * Suc k \<le> length (arr data) \<Longrightarrow> length (concat (map (record_at data) ks)) = 1024 * length ks"
  by (induction ks) (auto simp: length_record_at)

lemma all_selected:
  assumes "distinct sel" and "length (filter (selected sel fromE toE) [0..<k]) = length sel" and "sel \<noteq> []"
    and "int j \<in> set sel"
  shows "j < k"
proof (rule ccontr)
  assume "\<not> j < k"
  let ?F = "filter (selected sel fromE toE) [0..<k]"
  have "set (map int ?F) \<subseteq> set sel - {int j}"
    using assms(3) \<open>\<not> j < k\<close> by (auto simp: selected_def)
  then have "card (set (map int ?F)) \<le> card (set sel - {int j})" by (intro card_mono) auto
  also have "\<dots> < card (set sel)" using assms(4) by (intro card_Diff1_less) auto
  also have "\<dots> = length sel" using assms(1) by (rule distinct_card)
  finally have "length ?F < length sel"
    by (metis distinct_card distinct_filter distinct_map distinct_upt inj_on_of_nat length_map)
  with assms(2) show False by simp
qed

lemma select_step_all:
  assumes "1024 * k < slen data" and "1024 * Suc k \<le> length (arr data)" and "fromE \<le> int k" and "int k \<le> toE"
  shows "select_loop data [] fromE toE (1024 * k) buf = select_loop data [] fromE toE (1024 * Suc k) (buf @ record_at data k)"
proof -
  obtain r where r: "sub data (1024 * k) (1024 * Suc k) = ret r" "bytes r = record_at data k"
    using sub_record [OF assms(2)] by (auto simp: RecordSize_def add.commute)
  have "record_at data k \<noteq> []" using length_record_at [OF assms(2)] by (metis list.size(3) zero_neq_numeral)
  with r assms show ?thesis by (subst select_loop.simps) (simp add: RecordSize_def add.commute)
qed

lemma select_loop_eq:
  assumes data: "slen data = 1024 * n" "wf_slice data" and sel: "distinct sel" and fr: "fromE \<le> 0 \<or> sel = []"
  shows "k \<le> n \<Longrightarrow> length (filter (selected sel fromE toE) [0..<k]) < length sel \<or> sel = [] \<Longrightarrow>
    select_loop data sel fromE toE (1024 * k) (concat (map (record_at data) (filter (selected sel fromE toE) [0..<k]))) =
      ret (concat (map (record_at data) (filter (selected sel fromE toE) [0..<n])))"
proof (induction "n - k" arbitrary: k)
  case 0
  then show ?case using data by (subst select_loop.simps) simp
next
  case (Suc m)
  let ?P = "selected sel fromE toE"
  let ?buf = "\<lambda>k. concat (map (record_at data) (filter ?P [0..<k]))"
  have k: "k < n" using Suc.hyps(2) by simp
  have cap: "1024 * Suc j \<le> length (arr data)" if "j < n" for j
    using data that by (simp add: wf_slice_def)
  have idx: "1024 * k div RecordSize = k" "1024 * k + RecordSize = 1024 * Suc k" by (simp_all add: RecordSize_def)
  have less: "1024 * k < slen data" using data k by simp
  show ?case
  proof (cases "int k > toE")
    case True
    have "filter ?P [k..<n] = []" using True by (auto simp: filter_empty_conv selected_def)
    then have "filter ?P [0..<n] = filter ?P [0..<k]"
      using k upt_add_eq_append [of 0 k "n - k"] by simp
    then show ?thesis using True less by (subst select_loop.simps) (simp add: idx)
  next
    case in_range: False
    have w: "write_selected data (1024 * k) sel (?buf k) = ret (?buf k @ (if int k \<in> set sel then record_at data k else []))"
      by (rule write_selected_eq [OF cap [OF k] sel])
    obtain r where r: "sub data (1024 * k) (1024 * Suc k) = ret r" "bytes r = record_at data k"
      using sub_record [OF cap [OF k]] by (auto simp: idx)
    have step: "?buf (Suc k) = ?buf k @ (if ?P k then record_at data k else [])" by simp
    have len: "length (?buf (Suc k)) = 1024 * length (filter ?P [0..<Suc k])"
      using k cap by (intro length_records) auto
    have IH: "select_loop data sel fromE toE (1024 * Suc k) (?buf (Suc k)) = ret (?buf n)"
      if "length (filter ?P [0..<Suc k]) < length sel \<or> sel = []"
      using Suc.hyps k that by (intro Suc.hyps(1)) auto
    have cnt: "length (filter ?P [0..<Suc k]) \<le> Suc (length (filter ?P [0..<k]))" by simp
    show ?thesis
    proof (cases "sel = []")
      case True
      show ?thesis
      proof (cases "fromE > int k")
        case skip: True
        then have "?buf (Suc k) = ?buf k" using True by (simp add: selected_def)
        then have "select_loop data sel fromE toE (1024 * k) (?buf k) = select_loop data sel fromE toE (1024 * Suc k) (?buf (Suc k))"
          using True skip in_range less w by (subst select_loop.simps) (simp add: idx del: upt_Suc)
        with IH True show ?thesis by simp
      next
        case take: False
        have "?buf (Suc k) = ?buf k @ record_at data k" using True in_range take step by (simp add: selected_def)
        then have "select_loop data sel fromE toE (1024 * k) (?buf k) = select_loop data sel fromE toE (1024 * Suc k) (?buf (Suc k))"
          using True select_step_all [OF less cap [OF k], of fromE toE "?buf k"] in_range take by simp
        with IH True show ?thesis by simp
      qed
    next
      case False
      then have "?P k \<longleftrightarrow> int k \<in> set sel" using in_range by (simp add: selected_def)
      then have w': "write_selected data (1024 * k) sel (?buf k) = ret (?buf (Suc k))" using w step by simp
      show ?thesis
      proof (cases "length (filter ?P [0..<Suc k]) < length sel")
        case more: True
        then have "length (?buf (Suc k)) \<noteq> length sel * RecordSize"
          using len by (simp add: RecordSize_def del: upt_Suc)
        then have "select_loop data sel fromE toE (1024 * k) (?buf k) = select_loop data sel fromE toE (1024 * Suc k) (?buf (Suc k))"
          using False in_range less w' by (subst select_loop.simps) (simp add: idx del: upt_Suc)
        with IH more show ?thesis by simp
      next
        case full: False
        then have all: "length (filter ?P [0..<Suc k]) = length sel"
          using Suc.prems(2) False cnt by linarith
        then have stop: "length (?buf (Suc k)) = length sel * RecordSize"
          using len by (simp add: RecordSize_def del: upt_Suc)
        have "filter ?P [Suc k..<n] = []"
          using all_selected [OF sel all False] by (fastforce simp: filter_empty_conv selected_def False)
        then have rest: "?buf n = ?buf (Suc k)"
          using k upt_add_eq_append [of 0 "Suc k" "n - Suc k"] by (simp del: upt_Suc)
        have "select_loop data sel fromE toE (1024 * k) (?buf k) = ret (?buf (Suc k))"
          using False in_range less w' stop fr by (subst select_loop.simps) (simp add: idx del: upt_Suc)
        then show ?thesis using rest by simp
      qed
    qed
  qed
qed


lemma ProcessMFT_cases:
  assumes "slen data = 1024 * n" and "wf_slice data" and "distinct sel" and "fromE \<le> 0 \<or> sel = []"
    and "ntfs_MFT ntfs = Some t"
  shows "ProcessMFT slack data sel fromE toE ntfs =
    (let left = (if fromE \<noteq> - 1 then wrap64 (int n - fromE) else int n);
         grown = (of_int (if sel \<noteq> [] then int (length sel) else if toE \<noteq> MaxUint32 then wrap64 (left - toE) else left) :: i64) * 1024
     in if left < fromE then panic (Explicit_panic ''MFT start entry exceeds $MFT number of records'')
     else if toE \<noteq> MaxUint32 \<and> left < toE then panic (Explicit_panic ''MFT end entry exceeds $MFT number of records'')
     else if grown <s 0 then panic (Explicit_panic ''bytes.Buffer.Grow: negative count'')
     else if max_alloc < unat grown then panic (Explicit_panic ''bytes.Buffer: too large'')
     else gbind (ProcessRecords t (buffer_Bytes slack (unat grown)
            (concat (map (record_at data) (filter (selected sel fromE toE) [0..<n])))))
          (\<lambda>(t', _). ret (ntfs\<lparr>ntfs_MFT := Some t'\<rparr>)))"
proof -
  have "select_loop data sel fromE toE 0 [] =
      ret (concat (map (record_at data) (filter (selected sel fromE toE) [0..<n])))"
    using select_loop_eq [OF assms(1-4), of 0 toE] by simp
  then show ?thesis
    using assms(1,5)
    by (simp add: ProcessMFT_def total_records_def the_MFT_def buffer_Grow_def RecordSize_def Let_def)
qed

text \<open>A selection for which the checks pass.\<close>

lemma ProcessMFT_eq:
  assumes "slen data = 1024 * n" and "wf_slice data" and "distinct sel" and "fromE \<le> 0 \<or> sel = []"
    and "ntfs_MFT ntfs = Some t" and "total_records data sel fromE toE = ret (int cnt)" and "1024 * cnt \<le> max_alloc"
  shows "ProcessMFT slack data sel fromE toE ntfs =
    gbind (ProcessRecords t (buffer_Bytes slack (1024 * cnt)
        (concat (map (record_at data) (filter (selected sel fromE toE) [0..<n])))))
      (\<lambda>(t', _). ret (ntfs\<lparr>ntfs_MFT := Some t'\<rparr>))"
proof -
  have small: "1024 * cnt < 2 ^ 63" using assms(7) by (simp add: max_alloc_def)
  have g: "(of_int (int cnt) :: i64) * of_nat RecordSize = of_nat (1024 * cnt)" by (simp add: RecordSize_def)
  have u: "unat (of_nat (1024 * cnt) :: i64) = 1024 * cnt"
    using small by (intro unat_of_nat_u64) simp
  have "buffer_Grow 0 (of_nat (1024 * cnt)) = ret ()"
    using u small assms(7) by (intro buffer_Grow_ok small_nonneg) (simp_all only: u add_0)
  moreover have "select_loop data sel fromE toE 0 [] =
      ret (concat (map (record_at data) (filter (selected sel fromE toE) [0..<n])))"
    using select_loop_eq [OF assms(1-4), of 0 toE] by simp
  ultimately show ?thesis
    using u assms(5,6) unfolding ProcessMFT_def by (simp only: g gbind_ret Let_def the_MFT_def option.case)
qed

text \<open>C21: The selection of entries. On a table of whole records, without a lower bound or without a
  list of entries, \<open>ProcessMFT\<close> parses exactly the records that are asked for: up to the upper
  bound, the listed ones or all from the lower bound on, each once, in the order of the table,
  however early the loop breaks off. It panics instead when a bound lies behind the number of
  records that are left after the lower bound is subtracted, or when the count of bytes it grows its
  buffer for, which wraps at 64 bits, is negative or more than can be allocated.\<close>

theorem ProcessMFT_selects:
  assumes "slen data = 1024 * n" and "wf_slice data" and "distinct sel" and "fromE \<le> 0 \<or> sel = []"
    and "ntfs_MFT ntfs = Some t"
  shows "ProcessMFT slack data sel fromE toE ntfs =
    (let left = (if fromE \<noteq> - 1 then wrap64 (int n - fromE) else int n);
         grown = (of_int (if sel \<noteq> [] then int (length sel) else if toE \<noteq> MaxUint32 then wrap64 (left - toE) else left) :: i64) * 1024
     in if left < fromE then panic (Explicit_panic ''MFT start entry exceeds $MFT number of records'')
     else if toE \<noteq> MaxUint32 \<and> left < toE then panic (Explicit_panic ''MFT end entry exceeds $MFT number of records'')
     else if grown <s 0 then panic (Explicit_panic ''bytes.Buffer.Grow: negative count'')
     else if max_alloc < unat grown then panic (Explicit_panic ''bytes.Buffer: too large'')
     else gbind (ProcessRecords t (buffer_Bytes slack (unat grown)
            (concat (map (record_at data) (filter (selected sel fromE toE) [0..<n])))))
          (\<lambda>(t', _). ret (ntfs\<lparr>ntfs_MFT := Some t'\<rparr>)))"
  using assms by (rule ProcessMFT_cases)

lemma zero_record_at: "Suc k * 1024 \<le> m \<Longrightarrow> record_at (full (replicate m 0)) k = replicate 1024 0"
  by (simp add: record_at_def)

theorem ProcessMFT_selects_witness:
  "ProcessMFT 0 (full (replicate 4096 0)) [2, 1, 7] (- 1) MaxUint32
      \<lparr>ntfs_VBR = None, ntfs_MFT = Some \<lparr>Records = [], mft_Size = 0\<rparr>\<rparr> =
    gbind (ProcessRecords \<lparr>Records = [], mft_Size = 0\<rparr> (buffer_Bytes 0 3072 (replicate 2048 0)))
      (\<lambda>(t', _). ret \<lparr>ntfs_VBR = None, ntfs_MFT = Some t'\<rparr>) \<and>
   ProcessMFT 0 (full (replicate 4096 0)) [1] (- (2 ^ 63)) 10
      \<lparr>ntfs_VBR = None, ntfs_MFT = Some \<lparr>Records = [], mft_Size = 0\<rparr>\<rparr> =
    panic (Explicit_panic ''MFT end entry exceeds $MFT number of records'')"
proof
  have "[0..<4] = [0, 1, 2, 3]" by (simp add: upt_rec)
  then have "filter (selected [2, 1, 7] (- 1) MaxUint32) [0..<4] = [1, 2]"
    by (simp add: selected_def MaxUint32_def)
  moreover have "replicate 1024 (0 :: byte) @ replicate 1024 0 = replicate 2048 0"
    by (simp flip: replicate_add)
  ultimately show "ProcessMFT 0 (full (replicate 4096 0)) [2, 1, 7] (- 1) MaxUint32
      \<lparr>ntfs_VBR = None, ntfs_MFT = Some \<lparr>Records = [], mft_Size = 0\<rparr>\<rparr> =
    gbind (ProcessRecords \<lparr>Records = [], mft_Size = 0\<rparr> (buffer_Bytes 0 3072 (replicate 2048 0)))
      (\<lambda>(t', _). ret \<lparr>ntfs_VBR = None, ntfs_MFT = Some t'\<rparr>)"
    using ProcessMFT_selects [of "full (replicate 4096 0)" 4 "[2, 1, 7]" "- 1"
        "\<lparr>ntfs_VBR = None, ntfs_MFT = Some \<lparr>Records = [], mft_Size = 0\<rparr>\<rparr>" "\<lparr>Records = [], mft_Size = 0\<rparr>" 0 MaxUint32]
    by (simp add: MaxUint32_def zero_record_at max_alloc_def word_sless_alt)
  show "ProcessMFT 0 (full (replicate 4096 0)) [1] (- (2 ^ 63)) 10
      \<lparr>ntfs_VBR = None, ntfs_MFT = Some \<lparr>Records = [], mft_Size = 0\<rparr>\<rparr> =
    panic (Explicit_panic ''MFT end entry exceeds $MFT number of records'')"
    using ProcessMFT_selects [of "full (replicate 4096 0)" 4 "[1]" "- (2 ^ 63)"
        "\<lparr>ntfs_VBR = None, ntfs_MFT = Some \<lparr>Records = [], mft_Size = 0\<rparr>\<rparr>" "\<lparr>Records = [], mft_Size = 0\<rparr>" 0 10]
    by (simp add: MaxUint32_def wrap64_def Let_def)
qed

text \<open>A lower bound in the upper half of the table is refused. The check compares the bound with
  a count from which the bound has been subtracted already, so \<open>ProcessMFT\<close> panics for every first
  entry beyond the middle of the table, although the entry exists.\<close>

theorem ProcessMFT_from_upper_half:
  assumes "int (slen data div 1024) < 2 * fromE" and "fromE < 2 ^ 63"
  shows "ProcessMFT slack data sel fromE toE ntfs =
    panic (Explicit_panic ''MFT start entry exceeds $MFT number of records'')"
proof -
  have "wrap64 (int (slen data div 1024) - fromE) = int (slen data div 1024) - fromE"
    using assms by (intro wrap64_id) simp_all
  then show ?thesis using assms by (simp add: ProcessMFT_def total_records_def RecordSize_def Let_def)
qed

theorem ProcessMFT_from_upper_half_witness:
  "ProcessMFT 0 (full (replicate 10240 0)) [] 6 MaxUint32 \<lparr>ntfs_VBR = None, ntfs_MFT = None\<rparr> =
    panic (Explicit_panic ''MFT start entry exceeds $MFT number of records'')"
  by (rule ProcessMFT_from_upper_half) simp_all


section \<open>The runs of unallocated clusters\<close>

text \<open>The maximal runs of consecutive clusters, as first cluster and length, and the read of a run.\<close>

fun cluster_runs :: "nat \<Rightarrow> nat \<Rightarrow> nat list \<Rightarrow> (nat \<times> nat) list" where
  "cluster_runs f n [] = [(f, n)]"
| "cluster_runs f n (c # cs) = (if c = f + n then cluster_runs f (n + 1) cs else (f, n) # cluster_runs c 1 cs)"

definition read_run :: "reader \<Rightarrow> i64 \<Rightarrow> VBR \<Rightarrow> nat \<times> nat \<Rightarrow> byte list go" where
  "read_run rd part v r = rd (part + of_nat (fst r) * ucast (SectorsPerCluster v * (ucast (BytesPerSector v) :: u8)))
     (ucast ((of_nat (snd r) :: u16) * ((ucast (SectorsPerCluster v) :: u16) * BytesPerSector v)))"

fun cumulative :: "byte list \<Rightarrow> byte list list \<Rightarrow> byte list list" where
  "cumulative buf [] = []"
| "cumulative buf (d # ds) = (buf @ d) # cumulative (buf @ d) ds"

lemma cluster_runs_not_Nil [simp]: "cluster_runs f n cs \<noteq> []"
  by (induction f n cs rule: cluster_runs.induct) auto

text \<open>Whether the buffer, which holds \<open>have\<close> bytes and takes in every run that is read, can always be grown:
  before a run of \<open>n\<close> clusters is read, by \<open>n\<close> sectors.\<close>

fun room_for :: "reader \<Rightarrow> i64 \<Rightarrow> VBR \<Rightarrow> nat \<Rightarrow> (nat \<times> nat) list \<Rightarrow> bool" where
  "room_for rd part v have [] = True"
| "room_for rd part v have (r # rs) = (have + snd r * unat (BytesPerSector v) \<le> max_alloc \<and>
     (case read_run rd part v r of Some (Inr d) \<Rightarrow> room_for rd part v (have + length d) rs | _ \<Rightarrow> True))"

lemma case_go [simp]:
  "(case ret x of None \<Rightarrow> a | Some (Inl c) \<Rightarrow> b c | Some (Inr y) \<Rightarrow> f y) = f x"
  "(case panic e of None \<Rightarrow> a | Some (Inl c) \<Rightarrow> b c | Some (Inr y) \<Rightarrow> f y) = b e"
  by (simp_all add: ret_def panic_def)

lemma grow_clusters:
  assumes "n * 65536 < 2 ^ 63"
  shows "buffer_Grow have (of_nat n * ucast (b :: u16)) =
    (if have + n * unat b \<le> max_alloc then ret () else panic (Explicit_panic ''bytes.Buffer: too large''))"
proof -
  have b: "unat b < 65536" by (rule unat_u16_less)
  then have "n * unat b \<le> n * 65536" by (intro mult_left_mono) simp_all
  with assms have lt: "n * unat b < 2 ^ 63" by linarith
  have "(ucast b :: i64) = of_nat (unat b)" by (simp add: word_unat_eq_iff unat_of_nat_u64 less_trans [OF b])
  then have "(of_nat n :: i64) * ucast b = of_nat (n * unat b)" by simp
  then have u: "unat ((of_nat n :: i64) * ucast b) = n * unat b"
    using lt by (simp only: unat_of_nat) simp
  then have "0 \<le>s (of_nat n :: i64) * ucast b" using lt by (intro small_nonneg) (simp only:)
  with u show ?thesis by (auto simp: buffer_Grow_nonneg)
qed

lemma unallocated_loop_runs:
  assumes "clusters = pre @ [f..<f + n] @ cs" and "1 \<le> n" and "sorted_wrt (<) ((f + n - 1) # cs)"
    and "length clusters * 65536 < 2 ^ 63"
  shows "unallocated_loop rd part v clusters (length pre + n) cs n (f + n - 1) buf =
    (if room_for rd part v (length buf) (butlast (cluster_runs f n cs))
     then gbind (gmap (read_run rd part v) (butlast (cluster_runs f n cs))) (\<lambda>ds. ret (cumulative buf ds))
     else panic (Explicit_panic ''bytes.Buffer: too large''))"
  using assms
proof (induction f n cs arbitrary: pre buf rule: cluster_runs.induct)
  case (2 f n c cs)
  have c: "f + n - 1 < c" using "2.prems"(3) by simp
  show ?case
  proof (cases "c = f + n")
    case True
    have "clusters = pre @ [f..<f + (n + 1)] @ cs" using "2.prems"(1) True by simp
    moreover have "sorted_wrt (<) ((f + (n + 1) - 1) # cs)" using "2.prems"(3) True by simp
    ultimately have "unallocated_loop rd part v clusters (length pre + (n + 1)) cs (n + 1) (f + (n + 1) - 1) buf =
      (if room_for rd part v (length buf) (butlast (cluster_runs f (n + 1) cs))
       then gbind (gmap (read_run rd part v) (butlast (cluster_runs f (n + 1) cs))) (\<lambda>ds. ret (cumulative buf ds))
       else panic (Explicit_panic ''bytes.Buffer: too large''))"
      using "2.IH"(1) [OF True] "2.prems"(4) by simp
    then show ?thesis using True "2.prems"(2) by simp
  next
    case False
    have idx: "clusters ! (length pre + n - n) = f" using "2.prems"(1,2) by (simp add: nth_append)
    have "n \<le> length clusters" using "2.prems"(1) by simp
    then have grow: "buffer_Grow (length buf) (of_nat n * ucast (BytesPerSector v)) =
        (if length buf + n * unat (BytesPerSector v) \<le> max_alloc then ret () else panic (Explicit_panic ''bytes.Buffer: too large''))"
      using "2.prems"(4) by (intro grow_clusters) linarith
    have "clusters = (pre @ [f..<f + n]) @ [c..<c + 1] @ cs" using "2.prems"(1) by simp
    moreover have "sorted_wrt (<) ((c + 1 - 1) # cs)" using "2.prems"(3) by simp
    ultimately have IH: "unallocated_loop rd part v clusters (length (pre @ [f..<f + n]) + 1) cs 1 (c + 1 - 1) buf' =
      (if room_for rd part v (length buf') (butlast (cluster_runs c 1 cs))
       then gbind (gmap (read_run rd part v) (butlast (cluster_runs c 1 cs))) (\<lambda>ds. ret (cumulative buf' ds))
       else panic (Explicit_panic ''bytes.Buffer: too large''))" for buf'
      using "2.prems"(4) by (intro "2.IH"(2) [OF False]) simp_all
    have far: "\<not> int c - int (f + n - 1) \<le> 1" using c False "2.prems"(2) by linarith
    have "unallocated_loop rd part v clusters (length pre + n) (c # cs) n (f + n - 1) buf =
        gbind (buffer_Grow (length buf) (of_nat n * ucast (BytesPerSector v))) (\<lambda>_.
        gbind (read_run rd part v (f, n)) (\<lambda>d.
        gbind (unallocated_loop rd part v clusters (length (pre @ [f..<f + n]) + 1) cs 1 (c + 1 - 1) (buf @ d))
          (\<lambda>blocks. ret ((buf @ d) # blocks))))"
      using far idx by (simp add: read_run_def Let_def)
    then show ?thesis
      unfolding grow IH using False
      by (cases "read_run rd part v (f, n)" rule: go_cases)
        (simp_all add: gbind_assoc)
  qed
qed simp

lemma CollectUnallocated_eq:
  assumes "ntfs_VBR ntfs = Some v" and "ntfs_MFT ntfs = Some t" and "Records t = r # rs"
    and "FindAttribute r ''BitMap'' = Some a" and "Body a = BBitmap b" and "GetUnallocatedClusters b = ret clusters"
    and "length clusters * 65536 < 2 ^ 63"
  shows "CollectUnallocated rd part ntfs =
    (if clusters = [] then panic Index_out_of_range
     else if \<not> room_for rd part v 0 (butlast (cluster_runs (hd clusters) 1 (tl clusters)))
       then panic (Explicit_panic ''bytes.Buffer: too large'')
     else gbind (gmap (read_run rd part v) (butlast (cluster_runs (hd clusters) 1 (tl clusters))))
            (\<lambda>ds. ret (cumulative [] ds)))"
proof (cases clusters)
  case Nil
  then show ?thesis using assms by (simp add: CollectUnallocated_def the_MFT_def first_record_def)
next
  case (Cons c cs)
  have "sorted_wrt (<) (c # cs)" using clusters_sorted [OF assms(6)] Cons by simp
  then have "unallocated_loop rd part v (c # cs) 1 cs 1 c [] =
      (if room_for rd part v 0 (butlast (cluster_runs c 1 cs))
       then gbind (gmap (read_run rd part v) (butlast (cluster_runs c 1 cs))) (\<lambda>ds. ret (cumulative [] ds))
       else panic (Explicit_panic ''bytes.Buffer: too large''))"
    using unallocated_loop_runs [of "c # cs" "[]" c 1 cs] assms(7) Cons by simp
  then show ?thesis
    using assms Cons by (simp add: CollectUnallocated_def the_MFT_def the_VBR_def first_record_def)
qed

text \<open>C24: What \<open>CollectUnallocated\<close> sends. For a bitmap with a clear bit, the clear clusters are grouped
  into maximal runs; every run but the last is read, and the block sent after run \<open>k\<close> holds the
  bytes of runs 1 to \<open>k\<close>: the last run is never sent and the buffer is never reset. The offset of
  a read multiplies the cluster by an 8-bit product (0 for sectors of 512 bytes, so that every
  read starts at the partition), the length is reduced to 16 bits. A bitmap without a clear bit
  panics, and so does a buffer that would be grown to more than can be allocated.\<close>

theorem CollectUnallocated_blocks:
  assumes "ntfs_VBR ntfs = Some v" and "ntfs_MFT ntfs = Some t" and "Records t = r # rs"
    and "FindAttribute r ''BitMap'' = Some a" and "Body a = BBitmap b" and "GetUnallocatedClusters b = ret clusters"
    and "length clusters * 65536 < 2 ^ 63"
  shows "CollectUnallocated rd part ntfs =
    (if clusters = [] then panic Index_out_of_range
     else if \<not> room_for rd part v 0 (butlast (cluster_runs (hd clusters) 1 (tl clusters)))
       then panic (Explicit_panic ''bytes.Buffer: too large'')
     else gbind (gmap (read_run rd part v) (butlast (cluster_runs (hd clusters) 1 (tl clusters))))
            (\<lambda>ds. ret (cumulative [] ds)))"
  using assms by (rule CollectUnallocated_eq)

definition sample_bitmap :: Attribute where
  "sample_bitmap = Attribute (zero_AttributeHeader\<lparr>Type := [0xb0, 0, 0, 0]\<rparr>) (BBitmap \<lparr>AllocationStatus = [0x35]\<rparr>)"

theorem CollectUnallocated_blocks_witness:
  "CollectUnallocated sample_reader 100 \<lparr>ntfs_VBR = Some (zero_VBR\<lparr>BytesPerSector := 2, SectorsPerCluster := 1\<rparr>),
      ntfs_MFT = Some \<lparr>Records = [zero_Record\<lparr>Attributes := [sample_bitmap]\<rparr>], mft_Size = 1\<rparr>\<rparr> =
    ret [[104, 105], [104, 105, 108, 109]]"
proof -
  let ?v = "zero_VBR\<lparr>BytesPerSector := 2, SectorsPerCluster := 1\<rparr>"
  have "FindType sample_bitmap = ''BitMap''"
    by (simp add: FindType_def GetType_def Bytereverse_def AttrTypes_def hex_eval sample_bitmap_def)
  then have a: "FindAttribute (zero_Record\<lparr>Attributes := [sample_bitmap]\<rparr>) ''BitMap'' = Some sample_bitmap"
    by (simp add: FindAttribute_def)
  have "GetUnallocatedClusters \<lparr>AllocationStatus = [0x35]\<rparr> = ret [2, 4, 7, 8]"
    by (simp add: GetUnallocatedClusters_filter bitmap_bit_def upt_rec bit_numeral_rec bit_iff_odd)
  from CollectUnallocated_blocks [OF _ _ _ a _ this, of _ ?v _ "[]" sample_reader 100]
  show ?thesis by (simp add: sample_bitmap_def read_run_def sample_reader_def upt_rec max_alloc_def)
qed

end
