(* ===== verification/CRC32.thy ===== *)
theory CRC32
  imports Go_Prelude
begin

text \<open>
  The checksum of \<open>utils/crc32.go\<close>: the table, and \<open>CalcCRC32\<close>, which hands the table to the
  standard library's table-driven \<open>crc32.Checksum\<close>. The lemmas show that the table is the one of
  the reflected Castagnoli polynomial, that the table-driven checksum is the bit-by-bit one, and
  which corruptions it detects.
\<close>

section \<open>The table-driven checksum\<close>

definition crctable :: "u32 list" where
  "crctable = [0x00000000, 0xf26b8303, 0xe13b70f7, 0x1350f3f4, 0xc79a971f, 0x35f1141c, 0x26a1e7e8, 0xd4ca64eb,
    0x8ad958cf, 0x78b2dbcc, 0x6be22838, 0x9989ab3b, 0x4d43cfd0, 0xbf284cd3, 0xac78bf27, 0x5e133c24,
    0x105ec76f, 0xe235446c, 0xf165b798, 0x030e349b, 0xd7c45070, 0x25afd373, 0x36ff2087, 0xc494a384,
    0x9a879fa0, 0x68ec1ca3, 0x7bbcef57, 0x89d76c54, 0x5d1d08bf, 0xaf768bbc, 0xbc267848, 0x4e4dfb4b,
    0x20bd8ede, 0xd2d60ddd, 0xc186fe29, 0x33ed7d2a, 0xe72719c1, 0x154c9ac2, 0x061c6936, 0xf477ea35,
    0xaa64d611, 0x580f5512, 0x4b5fa6e6, 0xb93425e5, 0x6dfe410e, 0x9f95c20d, 0x8cc531f9, 0x7eaeb2fa,
    0x30e349b1, 0xc288cab2, 0xd1d83946, 0x23b3ba45, 0xf779deae, 0x05125dad, 0x1642ae59, 0xe4292d5a,
    0xba3a117e, 0x4851927d, 0x5b016189, 0xa96ae28a, 0x7da08661, 0x8fcb0562, 0x9c9bf696, 0x6ef07595,
    0x417b1dbc, 0xb3109ebf, 0xa0406d4b, 0x522bee48, 0x86e18aa3, 0x748a09a0, 0x67dafa54, 0x95b17957,
    0xcba24573, 0x39c9c670, 0x2a993584, 0xd8f2b687, 0x0c38d26c, 0xfe53516f, 0xed03a29b, 0x1f682198,
    0x5125dad3, 0xa34e59d0, 0xb01eaa24, 0x42752927, 0x96bf4dcc, 0x64d4cecf, 0x77843d3b, 0x85efbe38,
    0xdbfc821c, 0x2997011f, 0x3ac7f2eb, 0xc8ac71e8, 0x1c661503, 0xee0d9600, 0xfd5d65f4, 0x0f36e6f7,
    0x61c69362, 0x93ad1061, 0x80fde395, 0x72966096, 0xa65c047d, 0x5437877e, 0x4767748a, 0xb50cf789,
    0xeb1fcbad, 0x197448ae, 0x0a24bb5a, 0xf84f3859, 0x2c855cb2, 0xdeeedfb1, 0xcdbe2c45, 0x3fd5af46,
    0x7198540d, 0x83f3d70e, 0x90a324fa, 0x62c8a7f9, 0xb602c312, 0x44694011, 0x5739b3e5, 0xa55230e6,
    0xfb410cc2, 0x092a8fc1, 0x1a7a7c35, 0xe811ff36, 0x3cdb9bdd, 0xceb018de, 0xdde0eb2a, 0x2f8b6829,
    0x82f63b78, 0x709db87b, 0x63cd4b8f, 0x91a6c88c, 0x456cac67, 0xb7072f64, 0xa457dc90, 0x563c5f93,
    0x082f63b7, 0xfa44e0b4, 0xe9141340, 0x1b7f9043, 0xcfb5f4a8, 0x3dde77ab, 0x2e8e845f, 0xdce5075c,
    0x92a8fc17, 0x60c37f14, 0x73938ce0, 0x81f80fe3, 0x55326b08, 0xa759e80b, 0xb4091bff, 0x466298fc,
    0x1871a4d8, 0xea1a27db, 0xf94ad42f, 0x0b21572c, 0xdfeb33c7, 0x2d80b0c4, 0x3ed04330, 0xccbbc033,
    0xa24bb5a6, 0x502036a5, 0x4370c551, 0xb11b4652, 0x65d122b9, 0x97baa1ba, 0x84ea524e, 0x7681d14d,
    0x2892ed69, 0xdaf96e6a, 0xc9a99d9e, 0x3bc21e9d, 0xef087a76, 0x1d63f975, 0x0e330a81, 0xfc588982,
    0xb21572c9, 0x407ef1ca, 0x532e023e, 0xa145813d, 0x758fe5d6, 0x87e466d5, 0x94b49521, 0x66df1622,
    0x38cc2a06, 0xcaa7a905, 0xd9f75af1, 0x2b9cd9f2, 0xff56bd19, 0x0d3d3e1a, 0x1e6dcdee, 0xec064eed,
    0xc38d26c4, 0x31e6a5c7, 0x22b65633, 0xd0ddd530, 0x0417b1db, 0xf67c32d8, 0xe52cc12c, 0x1747422f,
    0x49547e0b, 0xbb3ffd08, 0xa86f0efc, 0x5a048dff, 0x8ecee914, 0x7ca56a17, 0x6ff599e3, 0x9d9e1ae0,
    0xd3d3e1ab, 0x21b862a8, 0x32e8915c, 0xc083125f, 0x144976b4, 0xe622f5b7, 0xf5720643, 0x07198540,
    0x590ab964, 0xab613a67, 0xb831c993, 0x4a5a4a90, 0x9e902e7b, 0x6cfbad78, 0x7fab5e8c, 0x8dc0dd8f,
    0xe330a81a, 0x115b2b19, 0x020bd8ed, 0xf0605bee, 0x24aa3f05, 0xd6c1bc06, 0xc5914ff2, 0x37faccf1,
    0x69e9f0d5, 0x9b8273d6, 0x88d28022, 0x7ab90321, 0xae7367ca, 0x5c18e4c9, 0x4f48173d, 0xbd23943e,
    0xf36e6f75, 0x0105ec76, 0x12551f82, 0xe03e9c81, 0x34f4f86a, 0xc69f7b69, 0xd5cf889d, 0x27a40b9e,
    0x79b737ba, 0x8bdcb4b9, 0x988c474d, 0x6ae7c44e, 0xbe2da0a5, 0x4c4623a6, 0x5f16d052, 0xad7d5351]"

text \<open>One byte of \<open>crc32.Checksum\<close> with a table that is not one of the library's own.\<close>

definition table_step :: "u32 \<Rightarrow> byte \<Rightarrow> u32" where
  "table_step crc v = crctable ! unat ((ucast crc :: byte) XOR v) XOR drop_bit 8 crc"

definition CalcCRC32 :: "byte list \<Rightarrow> u32" where
  "CalcCRC32 data = NOT (fold (\<lambda>v crc. table_step crc v) data (NOT 0))"

section \<open>The polynomial\<close>

text \<open>Shifting one bit out of the reflected register, and the register over a message.\<close>

definition crc_poly :: u32 where
  "crc_poly = 0x82f63b78"

definition bit_step :: "u32 \<Rightarrow> u32" where
  "bit_step w = (if bit w 0 then drop_bit 1 w XOR crc_poly else drop_bit 1 w)"

definition crc32c :: "byte list \<Rightarrow> u32" where
  "crc32c data = NOT (fold (\<lambda>v crc. (bit_step ^^ 8) (crc XOR ucast v)) data (NOT 0))"


lemma bit_step_xor: "bit_step (x XOR y) = bit_step x XOR bit_step y"
  by (auto simp: bit_step_def bit_simps drop_bit_xor ac_simps intro!: bit_word_eqI)

lemma steps_xor: "(bit_step ^^ n) (x XOR y) = (bit_step ^^ n) x XOR (bit_step ^^ n) y"
  by (induction n) (simp_all add: bit_step_xor)

lemma eight_steps: "(bit_step ^^ 8) w = bit_step (bit_step (bit_step (bit_step (bit_step (bit_step (bit_step (bit_step w)))))))"
  by (simp add: eval_nat_numeral)

text \<open>The entries of a linear table, from those of the powers of two.\<close>

fun xor_table :: "u32 list \<Rightarrow> u32 list \<Rightarrow> u32 list" where
  "xor_table [] t = t"
| "xor_table (e # es) t = xor_table es (t @ map (\<lambda>x. e XOR x) t)"

lemma of_nat_xor_power:
  assumes "i < 2 ^ k"
  shows "(of_nat (2 ^ k + i) :: u32) = of_nat (2 ^ k) XOR of_nat i"
proof -
  have "bit i k = False" using assms by (metis bit_nat_iff bit_take_bit_iff less_irrefl take_bit_nat_eq_self)
  then have "2 ^ k + i = 2 ^ k XOR i"
    by (intro disjunctive_add_eq_xor) (auto intro!: bit_eqI simp: bit_simps)
  then show ?thesis by (simp only: of_nat_xor_eq)
qed

lemma table_doubles:
  fixes g :: "u32 \<Rightarrow> u32"
  assumes lin: "\<And>x y. g (x XOR y) = g x XOR g y"
  shows "xor_table (map (\<lambda>j. g (of_nat (2 ^ j))) [k..<k + n]) (map (\<lambda>i. g (of_nat i)) [0..<2 ^ k]) =
    map (\<lambda>i. g (of_nat i)) [0..<2 ^ (k + n)]"
proof (induction n arbitrary: k)
  case (Suc n)
  have "map (\<lambda>i. g (of_nat i)) [0..<2 ^ Suc k] = map (\<lambda>i. g (of_nat i)) [0..<2 ^ k] @
      map (\<lambda>i. g (of_nat (2 ^ k + i))) [0..<2 ^ k]"
    by (rule nth_equalityI) (auto simp: nth_append)
  also have "map (\<lambda>i. g (of_nat (2 ^ k + i))) [0..<2 ^ k] =
      map (\<lambda>x. g (of_nat (2 ^ k)) XOR x) (map (\<lambda>i. g (of_nat i)) [0..<2 ^ k])"
    by (simp add: of_nat_xor_power lin del: of_nat_add)
  finally have d: "map (\<lambda>i. g (of_nat i)) [0..<2 ^ k] @
      map (\<lambda>x. g (of_nat (2 ^ k)) XOR x) (map (\<lambda>i. g (of_nat i)) [0..<2 ^ k]) = map (\<lambda>i. g (of_nat i)) [0..<2 ^ Suc k]"
    by simp
  have "[k..<k + Suc n] = k # [Suc k..<Suc k + n]" by (simp add: upt_rec)
  then show ?case using Suc.IH [of "Suc k"] d by simp
qed simp

lemma crctable_powers:
  "map (\<lambda>j. (bit_step ^^ 8) (of_nat (2 ^ j))) [0..<8] = map (\<lambda>j. crctable ! (2 ^ j)) [0..<8]"
  by (simp add: crctable_def upt_rec eight_steps bit_step_def crc_poly_def bit_0)

lemma crctable_xor: "crctable = xor_table (map (\<lambda>j. crctable ! (2 ^ j)) [0..<8]) [0]"
  by (simp add: crctable_def upt_rec)

lemma crctable_entries: "crctable = map (\<lambda>i. (bit_step ^^ 8) (of_nat i)) [0..<256]"
proof -
  have z: "(bit_step ^^ 8) 0 = 0" by (simp add: eight_steps bit_step_def)
  have "crctable = xor_table (map (\<lambda>j. (bit_step ^^ 8) (of_nat (2 ^ j))) [0..<8]) [0]"
    by (subst crctable_xor) (simp only: crctable_powers)
  also have "\<dots> = map (\<lambda>i. (bit_step ^^ 8) (of_nat i)) [0..<2 ^ 8]"
    using table_doubles [of "bit_step ^^ 8" 0 8, OF steps_xor] z by simp
  finally show ?thesis by simp
qed

section \<open>The table-driven step\<close>

lemma byte_bit: "bit (v :: byte) n \<Longrightarrow> n < 8"
  using bit_imp_le_length [of v n] by simp

lemma steps_zero: "take_bit n w = 0 \<Longrightarrow> (bit_step ^^ n) w = drop_bit n w"
proof (induction n arbitrary: w)
  case (Suc n)
  have b: "\<not> bit w i" if "i < Suc n" for i
    using Suc.prems that by (metis bit_0_eq bit_take_bit_iff bot_apply bot_bool_def)
  have "bit_step w = drop_bit 1 w" using b [of 0] by (simp add: bit_step_def)
  moreover have "take_bit n (drop_bit 1 w) = 0"
    using b by (intro bit_word_eqI) (simp add: bit_simps)
  ultimately show ?case using Suc.IH [of "drop_bit 1 w"] by (simp add: funpow_swap1)
qed simp

lemma register_bit: "bit (w :: u32) n \<Longrightarrow> n < 32"
  using bit_imp_le_length [of w n] by simp

lemma table_step_eq: "table_step crc v = (bit_step ^^ 8) (crc XOR ucast v)"
proof -
  let ?w = "crc XOR ucast v"
  let ?i = "(ucast crc :: byte) XOR v"
  have "unat ?i < 256" by (rule unat_u8_less)
  then have "crctable ! unat ?i = (bit_step ^^ 8) (of_nat (unat ?i))" by (simp add: crctable_entries)
  also have "(of_nat (unat ?i) :: u32) = take_bit 8 ?w"
    by (rule bit_word_eqI) (auto simp: bit_simps dest: byte_bit)
  finally have t: "crctable ! unat ?i = (bit_step ^^ 8) (take_bit 8 ?w)" .
  have "w = take_bit 8 w XOR push_bit 8 (drop_bit 8 w)" for w :: u32
    by (rule bit_word_eqI) (auto simp: bit_simps not_less)
  then have "?w = take_bit 8 ?w XOR push_bit 8 (drop_bit 8 ?w)" .
  then have "(bit_step ^^ 8) ?w = (bit_step ^^ 8) (take_bit 8 ?w) XOR (bit_step ^^ 8) (push_bit 8 (drop_bit 8 ?w))"
    by (metis steps_xor)
  also have "(bit_step ^^ 8) (push_bit 8 (drop_bit 8 ?w)) = drop_bit 8 (push_bit 8 (drop_bit 8 ?w))"
    by (rule steps_zero) (rule bit_word_eqI, simp add: bit_simps)
  also have "\<dots> = drop_bit 8 crc"
    by (rule bit_word_eqI) (auto simp: bit_simps dest: byte_bit register_bit)
  finally show ?thesis by (simp add: table_step_def t)
qed

text \<open>C28: The table-driven checksum is the reflected CRC-32C: for every message, \<open>CalcCRC32\<close> with the
  table of the source equals the register of the Castagnoli polynomial run bit by bit, from all
  ones and inverted at the end.\<close>

theorem CalcCRC32_crc32c:
  "CalcCRC32 data = crc32c data"
  by (simp add: CalcCRC32_def crc32c_def table_step_eq)

section \<open>Detected corruptions\<close>

lemma xor_cancel: "a XOR c = b XOR c \<Longrightarrow> a = (b :: 'a::len word)"
  by (metis xor.assoc xor_self_eq xor.right_neutral)

lemma bit_step_inj: "bit_step x = bit_step y \<Longrightarrow> x = y"
proof (rule bit_word_eqI)
  fix n assume eq: "bit_step x = bit_step y" and n: "n < LENGTH(32)"
  have top: "bit (bit_step w) 31 \<longleftrightarrow> bit w 0" for w
    using bit_imp_le_length [of w 32] by (auto simp: bit_step_def bit_simps crc_poly_def bit_numeral_rec numeral_eq_Suc)
  have zero: "bit x 0 \<longleftrightarrow> bit y 0" using top [of x] top [of y] eq by simp
  then have d: "drop_bit 1 x = drop_bit 1 y"
    using eq by (auto simp: bit_step_def split: if_splits dest: xor_cancel)
  show "bit x n \<longleftrightarrow> bit y n"
  proof (cases n)
    case (Suc m)
    have "bit (drop_bit 1 x) m \<longleftrightarrow> bit (drop_bit 1 y) m" using d by simp
    then show ?thesis by (simp add: bit_simps Suc)
  qed (use zero in simp)
qed

lemma steps_inj: "(bit_step ^^ n) x = (bit_step ^^ n) y \<Longrightarrow> x = y"
  by (induction n) (auto dest: bit_step_inj)

lemma fold_steps_inj:
  "fold (\<lambda>v crc. table_step crc v) ys s = fold (\<lambda>v crc. table_step crc v) ys t \<Longrightarrow> s = t"
  by (induction ys arbitrary: s t) (auto simp: table_step_eq dest!: steps_inj intro: xor_cancel)

lemma fold_word:
  "length as \<le> 4 \<Longrightarrow> fold (\<lambda>v crc. table_step crc v) as s = (bit_step ^^ (8 * length as)) (s XOR of_nat (le_nat as))"
proof (induction as arbitrary: s)
  case (Cons a as)
  let ?l = "of_nat (le_nat as) :: u32"
  have "le_nat as < 256 ^ length as" by (rule le_nat_bound)
  also have "\<dots> \<le> 256 ^ 3" using Cons.prems by (intro power_increasing) simp_all
  finally have small: "le_nat as < 2 ^ 24" by simp
  have b: "bit (le_nat as) n \<Longrightarrow> n < 24" for n
    using small by (metis bit_take_bit_iff take_bit_nat_eq_self)
  have "(bit_step ^^ 8) (push_bit 8 ?l) = drop_bit 8 (push_bit 8 ?l)"
    by (rule steps_zero) (rule bit_word_eqI, simp add: bit_simps)
  also have "\<dots> = ?l" using b by (intro bit_word_eqI) (auto simp: bit_simps)
  finally have push: "?l = (bit_step ^^ 8) (push_bit 8 ?l)" by simp
  have split: "(of_nat (le_nat (a # as)) :: u32) = ucast a XOR push_bit 8 ?l"
  proof -
    have "(ucast a :: u32) + push_bit 8 ?l = ucast a XOR push_bit 8 ?l"
      by (intro disjunctive_add_eq_xor bit_word_eqI) (auto simp: bit_simps dest: byte_bit)
    moreover have "(of_nat (unat a) :: u32) = ucast a" by (rule bit_word_eqI) (simp add: bit_simps)
    ultimately show ?thesis by (simp add: push_bit_eq_mult mult.commute)
  qed
  have "fold (\<lambda>v crc. table_step crc v) (a # as) s =
      (bit_step ^^ (8 * length as)) ((bit_step ^^ 8) (s XOR ucast a) XOR (bit_step ^^ 8) (push_bit 8 ?l))"
    using Cons push by (simp add: table_step_eq)
  also have "\<dots> = (bit_step ^^ (8 * length as)) ((bit_step ^^ 8) ((s XOR ucast a) XOR push_bit 8 ?l))"
    by (simp only: steps_xor)
  also have "\<dots> = (bit_step ^^ (8 * length as + 8)) ((s XOR ucast a) XOR push_bit 8 ?l)"
    by (simp only: funpow_add o_apply)
  finally show ?case by (simp only: split xor.assoc) (simp add: algebra_simps)
qed simp

text \<open>Error detection: two messages that differ only within four consecutive bytes have
  different checksums, wherever those bytes lie and whatever surrounds them.\<close>

lemma CalcCRC32_inj:
  assumes "length as = length bs" and "length as \<le> 4"
  shows "CalcCRC32 (xs @ as @ ys) = CalcCRC32 (xs @ bs @ ys) \<longleftrightarrow> as = bs"
proof
  let ?f = "fold (\<lambda>v crc. table_step crc v)"
  assume "CalcCRC32 (xs @ as @ ys) = CalcCRC32 (xs @ bs @ ys)"
  then have "NOT (?f ys (?f as (?f xs (NOT 0)))) = NOT (?f ys (?f bs (?f xs (NOT 0))))"
    by (simp only: CalcCRC32_def fold_append o_apply)
  then have "?f ys (?f as (?f xs (NOT 0))) = ?f ys (?f bs (?f xs (NOT 0)))"
    by (simp only: bit.compl_eq_compl_iff)
  then have "?f as (?f xs (NOT 0)) = ?f bs (?f xs (NOT 0))" by (rule fold_steps_inj)
  then have "?f xs (NOT 0) XOR of_nat (le_nat as) = ?f xs (NOT 0) XOR (of_nat (le_nat bs) :: u32)"
    using assms by (simp add: fold_word) (metis steps_inj)
  then have "(of_nat (le_nat as) :: u32) = of_nat (le_nat bs)" by (metis xor_cancel xor.commute)
  moreover have "le_nat cs < 4294967296" if "length cs \<le> 4" for cs
  proof -
    have "256 ^ length cs \<le> (256 :: nat) ^ 4" using that by (intro power_increasing) simp_all
    then show ?thesis using le_nat_bound [of cs] by simp
  qed
  ultimately have "le_nat as = le_nat bs" using assms by (metis unat_of_nat_u32)
  then show "as = bs" using assms(1) by (metis le_bytes_le_nat)
qed simp

end
