(* ===== verification/BTRFS_Leaf.thy ===== *)
theory BTRFS_Leaf
  imports Attributes CRC32
begin

text \<open>
  The leaf nodes of a BTRFS tree, \<open>FS/BTRFS/leafnode\<close>: the tables of types (\<open>maps.go\<close>), the items and
  data items with their \<open>Parse\<close> methods, and the parser of a leaf (\<open>structures.go\<close>). Every \<open>Parse\<close>
  returns the struct and the number of bytes it consumed. The \<open>ShowInfo\<close> and \<open>GetInfo\<close> methods format
  a line of output and are left out.
\<close>

section \<open>Types\<close>

definition ItemTypes :: "(nat \<times> string) list" where
  "ItemTypes = [(0x01, ''INODE_ITEM''), (0x0C, ''INODE_REF''), (0x0D, ''INODE_EXTREF''),
     (0xB0, ''TREE_BLOCK_REF''), (0x18, ''XATTR_ITEM''), (0x30, ''ORPHAN_ITEM''),
     (0x48, ''DIR_LOG_INDEX''), (0x54, ''DIR_ITEM''), (0x60, ''DIR_INDEX''), (0x6C, ''EXTENT_DATA''),
     (0x80, ''EXTENT_CSUM''), (0x84, ''ROOT_ITEM''), (0x90, ''ROOT_BACKREF''), (0x9C, ''ROOT_REF''),
     (0xA8, ''EXTENT_ITEM''), (0xA9, ''METADATA_ITEM''), (0xB2, ''EXTENT_DATA_REF''),
     (0xB4, ''EXTENT_REF_V0''), (0xB6, ''SHARED_BLOCK_REF''), (0xB8, ''SHARED_DATA_REF''),
     (0xC0, ''BLOCK_GROUP_ITEM''), (0xC6, ''FREE_SPACE_INFO''), (0xC7, ''FREE_SPACE_EXTENT''),
     (0xC8, ''FREE_SPACE_BITMAP''), (0xC9, ''PERSISTENT_ITEM''), (0xCC, ''DEV_EXTENT''),
     (0x3C, ''DIR_LOG_ITEM''), (0xD8, ''DEV_ITEM''), (0xE4, ''CHUNK_ITEM''), (0xF8, ''TEMPORARY_ITEM''),
     (0xF9, ''DEV_STATS''), (0xFD, ''STRING_ITEM'')]"

definition ObjectTypes :: "(nat \<times> string) list" where
  "ObjectTypes = [(0, ''DEV_STATS''), (1, ''ROOT_TREE''), (2, ''EXTENT_TREE''), (3, ''CHUNK_TREE''),
     (4, ''DEV_TREE''), (5, ''FS_TREE''), (6, ''ROOT_DIR_TREE''), (7, ''CSUM_TREE''),
     (8, ''QUOTA_TREE''), (9, ''UUID_TREE''), (10, ''FREE_SPACE''), (11, ''BLOCK_GROUP''),
     (12, ''RAID_STRIPE'')]"

definition DirTypes :: "(u8 \<times> string) list" where
  "DirTypes = [(0, ''BTRFS_TYPE_UNKNOWN''), (1, ''BTRFS_TYPE_FILE''), (2, ''BTRFS_TYPE_DIRECTORY''),
     (3, ''BTRFS_TYPE_CHARDEV''), (4, ''BTRFS_TYPE_BLOCKDEV''), (5, ''BTRFS_TYPE_FIFO''),
     (6, ''BTRFS_TYPE_SOCKET''), (7, ''BTRFS_TYPE_SYMLINK''), (8, ''BTRFS_TYPE_EA'')]"

definition ExtentTypes :: "(u8 \<times> string) list" where
  "ExtentTypes = [(0, ''Inline Extent''), (1, ''Regular Extent''), (2, ''Pre-alloc Extent'')]"

definition ExtentItemTypes :: "(u8 \<times> string) list" where
  "ExtentItemTypes = [(1, ''BTRFS_EXTENT_FLAG_DATA''), (2, ''BTRFS_EXTENT_FLAG_TREE_BLOCK''),
     (128, ''BTRFS_BLOCK_FLAG_FULL_BACKREF'')]"

definition RefTypes :: "(u8 \<times> string) list" where
  "RefTypes = [(0, ''ROOT_REF''), (1, ''ROOT_BACKREF'')]"

definition InodeTypes :: "(u64 \<times> string) list" where
  "InodeTypes = [(1, ''NODATASUM''), (2, ''NODATACOW''), (4, ''READONLY''), (8, ''NOCOMPRESS''), (16, ''PREALLOC''),
     (32, ''SYNC''), (64, ''IMMUTABLE''), (128, ''APPEND''), (256, ''NODUMP''), (512, ''NOATIME''),
     (1024, ''DIRSYNC''), (2048, ''COMPRESS'')]"

definition Block_Group_Types :: "(nat \<times> string) list" where
  "Block_Group_Types = [(1, ''BLOCK_GROUP_DATA''), (8, ''BLOCK_GROUP_RAID0''), (16, ''BLOCK_GROUP_RAID1''),
     (32, ''BLOCK_GROUP_DUPLIATE''), (64, ''BLOCK_GROUP_RAID10''), (128, ''BLOCK_GROUP_RAID5''),
     (256, ''BLOCK_GROUP_RAID6'')]"

section \<open>Keys and items\<close>

text \<open>\<open>Unmarshal\<close> into a struct, with the number of bytes it reports.\<close>

definition unmarshal_count :: "layout \<Rightarrow> (val list \<Rightarrow> 'r \<Rightarrow> 'r) \<Rightarrow> 'r \<Rightarrow> slice \<Rightarrow> ('r \<times> nat) go" where
  "unmarshal_count L setter r data = gbind (Unmarshal L data) (\<lambda>(v, offset, _). ret (setter v r, offset))"

record Key =
  key_ObjectID :: u64
  key_ItemType :: u8
  key_Offset :: u64

definition Key_layout :: layout where
  "Key_layout = [(''ObjectID'', Kuint64), (''ItemType'', Kuint8), (''Offset'', Kuint64)]"

definition zero_Key :: Key where
  "zero_Key = \<lparr>key_ObjectID = 0, key_ItemType = 0, key_Offset = 0\<rparr>"

definition set_Key :: "val list \<Rightarrow> Key \<Rightarrow> Key" where
  "set_Key v r = r\<lparr>key_ObjectID := put_u64 (v ! 0) (key_ObjectID r), key_ItemType := put_u8 (v ! 1) (key_ItemType r),
     key_Offset := put_u64 (v ! 2) (key_Offset r)\<rparr>"

definition Key_Parse :: "slice \<Rightarrow> Key \<Rightarrow> (Key \<times> nat) go" where
  "Key_Parse data key = unmarshal_count Key_layout set_Key key data"

definition Key_GetType :: "Key \<Rightarrow> string" where
  "Key_GetType key = lookup_str ItemTypes (unat (key_ItemType key))"

definition IsDevItem :: "Key \<Rightarrow> bool" where
  "IsDevItem key \<longleftrightarrow> Key_GetType key = ''DEV_ITEM''"

definition IsDevExtentItem :: "Key \<Rightarrow> bool" where
  "IsDevExtentItem key \<longleftrightarrow> Key_GetType key = ''DEV_EXTENT''"

record Item =
  item_Key :: "Key option"
  item_DataOffset :: u32
  item_DataLen :: u32

definition Item_layout :: layout where
  "Item_layout = [(''Key'', Kother), (''DataOffset'', Kuint32), (''DataLen'', Kuint32)]"

definition zero_Item :: Item where
  "zero_Item = \<lparr>item_Key = None, item_DataOffset = 0, item_DataLen = 0\<rparr>"

text \<open>The length of an item is that of its struct: 25 bytes with a key, and none without.\<close>

definition Item_Len :: "Item \<Rightarrow> nat go" where
  "Item_Len item = GetStructSize [Spointer (map_option (\<lambda>_. [Sint 8, Sint 1, Sint 8]) (item_Key item)), Sint 4, Sint 4] 0"

lemma Item_Len_eq: "item_Key item = Some k \<Longrightarrow> Item_Len item = ret 25" "item_Key item = None \<Longrightarrow> crashes (Item_Len item)"
  by (simp_all add: Item_Len_def)

definition set_Item :: "val list \<Rightarrow> Item \<Rightarrow> Item" where
  "set_Item v r = r\<lparr>item_DataOffset := put_u32 (v ! 1) (item_DataOffset r), item_DataLen := put_u32 (v ! 2) (item_DataLen r)\<rparr>"

text \<open>The pointer to the key is a kind that \<open>Unmarshal\<close> skips: the two lengths are read from the start.\<close>

definition Item_Parse :: "slice \<Rightarrow> Item \<Rightarrow> (Item \<times> nat) go" where
  "Item_Parse data it =
     gbind (Key_Parse data zero_Key) (\<lambda>(k, _).
       unmarshal_count Item_layout set_Item (it\<lparr>item_Key := Some k\<rparr>) data)"

definition item_key :: "Item \<Rightarrow> Key go" where
  "item_key it = (case item_Key it of None \<Rightarrow> panic Nil_dereference | Some k \<Rightarrow> ret k)"

definition Item_GetType :: "Item \<Rightarrow> string go" where
  "Item_GetType it = gbind (item_key it) (\<lambda>k. ret (Key_GetType k))"

definition item_is :: "string \<Rightarrow> Item \<Rightarrow> bool go" where
  "item_is name it = gbind (Item_GetType it) (\<lambda>t. ret (t = name))"

definition object_is :: "string \<Rightarrow> Item \<Rightarrow> bool go" where
  "object_is name it = gbind (item_key it) (\<lambda>k. ret (lookup_str ObjectTypes (unat (key_ObjectID k)) = name))"

definition Item_IsDevType :: "Item \<Rightarrow> bool go" where
  "Item_IsDevType it = gbind (item_key it) (\<lambda>k. ret (IsDevItem k))"

definition Item_IsChunkType :: "Item \<Rightarrow> bool go" where "Item_IsChunkType it = item_is ''CHUNK_ITEM'' it"
definition Item_IsChecksumItem :: "Item \<Rightarrow> bool go" where "Item_IsChecksumItem it = item_is ''EXTENT_CSUM'' it"
definition Item_IsExtentItem :: "Item \<Rightarrow> bool go" where "Item_IsExtentItem it = item_is ''EXTENT_ITEM'' it"
definition Item_IsExtentData :: "Item \<Rightarrow> bool go" where "Item_IsExtentData it = item_is ''EXTENT_DATA'' it"
definition Item_IsRootRef :: "Item \<Rightarrow> bool go" where "Item_IsRootRef it = item_is ''ROOT_REF'' it"
definition Item_IsRootBackRef :: "Item \<Rightarrow> bool go" where "Item_IsRootBackRef it = item_is ''ROOT_BACKREF'' it"
definition Item_IsRootItem :: "Item \<Rightarrow> bool go" where "Item_IsRootItem it = item_is ''ROOT_ITEM'' it"
definition Item_IsBlockGroupItem :: "Item \<Rightarrow> bool go" where "Item_IsBlockGroupItem it = item_is ''BLOCK_GROUP_ITEM'' it"
definition Item_IsInodeRef :: "Item \<Rightarrow> bool go" where "Item_IsInodeRef it = item_is ''INODE_REF'' it"
definition Item_IsDevItem :: "Item \<Rightarrow> bool go" where "Item_IsDevItem it = item_is ''DEV_ITEM'' it"
definition Item_IsDirItem :: "Item \<Rightarrow> bool go" where "Item_IsDirItem it = item_is ''DIR_ITEM'' it"
definition Item_IsInodeItem :: "Item \<Rightarrow> bool go" where "Item_IsInodeItem it = item_is ''INODE_ITEM'' it"
definition Item_IsXAttr :: "Item \<Rightarrow> bool go" where "Item_IsXAttr it = item_is ''XATTR_ITEM'' it"
definition Item_IsDirIndex :: "Item \<Rightarrow> bool go" where "Item_IsDirIndex it = item_is ''DIR_INDEX'' it"
definition Item_IsMetadataItem :: "Item \<Rightarrow> bool go" where "Item_IsMetadataItem it = item_is ''METADATA_ITEM'' it"
definition Item_IsDevStats :: "Item \<Rightarrow> bool go" where "Item_IsDevStats it = item_is ''DEV_STATS'' it"

definition Item_IsFSTree :: "Item \<Rightarrow> bool go" where "Item_IsFSTree it = object_is ''FS_TREE'' it"
definition Item_IsDIRTree :: "Item \<Rightarrow> bool go" where "Item_IsDIRTree it = object_is ''ROOT_DIR_TREE'' it"
definition Item_IsExtentTree :: "Item \<Rightarrow> bool go" where "Item_IsExtentTree it = object_is ''EXTENT_TREE'' it"
definition Item_IsDEVTree :: "Item \<Rightarrow> bool go" where "Item_IsDEVTree it = object_is ''DEV_TREE'' it"

section \<open>Data items\<close>

record InlineRef =
  il_Type :: u8
  il_Offset :: u64

definition InlineRef_layout :: layout where
  "InlineRef_layout = [(''Type'', Kuint8), (''Offset'', Kuint64)]"

definition zero_InlineRef :: InlineRef where
  "zero_InlineRef = \<lparr>il_Type = 0, il_Offset = 0\<rparr>"

definition set_InlineRef :: "val list \<Rightarrow> InlineRef \<Rightarrow> InlineRef" where
  "set_InlineRef v r = r\<lparr>il_Type := put_u8 (v ! 0) (il_Type r), il_Offset := put_u64 (v ! 1) (il_Offset r)\<rparr>"

record ExtentDataRef =
  edr_Root :: u64
  edr_ObjectID :: u64
  edr_Offset :: u64
  edr_Count :: u32

definition ExtentDataRef_layout :: layout where
  "ExtentDataRef_layout = [(''Root'', Kuint64), (''ObjectID'', Kuint64), (''Offset'', Kuint64), (''Count'', Kuint32)]"

definition zero_ExtentDataRef :: ExtentDataRef where
  "zero_ExtentDataRef = \<lparr>edr_Root = 0, edr_ObjectID = 0, edr_Offset = 0, edr_Count = 0\<rparr>"

definition set_ExtentDataRef :: "val list \<Rightarrow> ExtentDataRef \<Rightarrow> ExtentDataRef" where
  "set_ExtentDataRef v r = r\<lparr>edr_Root := put_u64 (v ! 0) (edr_Root r), edr_ObjectID := put_u64 (v ! 1) (edr_ObjectID r),
     edr_Offset := put_u64 (v ! 2) (edr_Offset r), edr_Count := put_u32 (v ! 3) (edr_Count r)\<rparr>"

record ExtentDataRefKey =
  edk_Count :: u32

record ExtentItem =
  ei_RefCount :: u64
  ei_Generation :: u64
  ei_Flags :: u64
  ei_InlineRef :: "InlineRef option"
  ei_ExtentDataRef :: "ExtentDataRef option"
  ei_ExtentDataRefKey :: "ExtentDataRefKey option"

definition ExtentItem_layout :: layout where
  "ExtentItem_layout = [(''RefCount'', Kuint64), (''Generation'', Kuint64), (''Flags'', Kuint64), (''InlineRef'', Kother),
     (''ExtentDataRef'', Kother), (''ExtentDataRefKey'', Kother)]"

definition zero_ExtentItem :: ExtentItem where
  "zero_ExtentItem = \<lparr>ei_RefCount = 0, ei_Generation = 0, ei_Flags = 0, ei_InlineRef = None, ei_ExtentDataRef = None,
     ei_ExtentDataRefKey = None\<rparr>"

definition set_ExtentItem :: "val list \<Rightarrow> ExtentItem \<Rightarrow> ExtentItem" where
  "set_ExtentItem v r = r\<lparr>ei_RefCount := put_u64 (v ! 0) (ei_RefCount r), ei_Generation := put_u64 (v ! 1) (ei_Generation r),
     ei_Flags := put_u64 (v ! 2) (ei_Flags r)\<rparr>"

record ExtentDataRem =
  rem_LogicaAddress :: u64
  rem_Size :: u64
  rem_Offset :: u64
  rem_LogicalBytes :: u64

definition ExtentDataRem_layout :: layout where
  "ExtentDataRem_layout = [(''LogicaAddress'', Kuint64), (''Size'', Kuint64), (''Offset'', Kuint64), (''LogicalBytes'', Kuint64)]"

definition zero_ExtentDataRem :: ExtentDataRem where
  "zero_ExtentDataRem = \<lparr>rem_LogicaAddress = 0, rem_Size = 0, rem_Offset = 0, rem_LogicalBytes = 0\<rparr>"

definition set_ExtentDataRem :: "val list \<Rightarrow> ExtentDataRem \<Rightarrow> ExtentDataRem" where
  "set_ExtentDataRem v r = r\<lparr>rem_LogicaAddress := put_u64 (v ! 0) (rem_LogicaAddress r), rem_Size := put_u64 (v ! 1) (rem_Size r),
     rem_Offset := put_u64 (v ! 2) (rem_Offset r), rem_LogicalBytes := put_u64 (v ! 3) (rem_LogicalBytes r)\<rparr>"

record ExtentData =
  ed_Generation :: u64
  ed_LogicalDataLen :: u64
  ed_Compression :: u8
  ed_Encryption :: u8
  ed_OtherEncoding :: u16
  ed_Type :: u8
  ed_ExtentDataRem :: "ExtentDataRem option"
  ed_InlineData :: "byte list"

definition ExtentData_layout :: layout where
  "ExtentData_layout = [(''Generation'', Kuint64), (''LogicalDataLen'', Kuint64), (''Compression'', Kuint8),
     (''Encryption'', Kuint8), (''OtherEncoding'', Kuint16), (''Type'', Kuint8), (''ExtentDataRem'', Kother),
     (''InlineData'', Kother)]"

definition zero_ExtentData :: ExtentData where
  "zero_ExtentData = \<lparr>ed_Generation = 0, ed_LogicalDataLen = 0, ed_Compression = 0, ed_Encryption = 0, ed_OtherEncoding = 0,
     ed_Type = 0, ed_ExtentDataRem = None, ed_InlineData = []\<rparr>"

definition set_ExtentData :: "val list \<Rightarrow> ExtentData \<Rightarrow> ExtentData" where
  "set_ExtentData v r = r\<lparr>ed_Generation := put_u64 (v ! 0) (ed_Generation r),
     ed_LogicalDataLen := put_u64 (v ! 1) (ed_LogicalDataLen r),
     ed_Compression := put_u8 (v ! 2) (ed_Compression r), ed_Encryption := put_u8 (v ! 3) (ed_Encryption r),
     ed_OtherEncoding := put_u16 (v ! 4) (ed_OtherEncoding r), ed_Type := put_u8 (v ! 5) (ed_Type r)\<rparr>"

record DevItem =
  dev_DeviceID :: u64
  dev_NofBytes :: u64
  dev_NofUsedBytes :: u64
  dev_OptimalIOAlignment :: u32
  dev_OptimalIOWidth :: u32
  dev_MinimailIOSize :: u32
  dev_Type :: u64
  dev_Generation :: u64
  dev_StartOffset :: u64
  dev_DevGroup :: u32
  dev_SeekSpeed :: u8
  dev_Bandwidth :: u8
  dev_DeviceUUID :: "byte list"
  dev_FilesystemUUID :: "byte list"

definition DevItem_layout :: layout where
  "DevItem_layout = [(''DeviceID'', Kuint64), (''NofBytes'', Kuint64), (''NofUsedBytes'', Kuint64),
     (''OptimalIOAlignment'', Kuint32), (''OptimalIOWidth'', Kuint32), (''MinimailIOSize'', Kuint32),
     (''Type'', Kuint64), (''Generation'', Kuint64), (''StartOffset'', Kuint64), (''DevGroup'', Kuint32),
     (''SeekSpeed'', Kuint8), (''Bandwidth'', Kuint8), (''DeviceUUID'', Karray 16),
     (''FilesystemUUID'', Karray 16)]"

definition zero_DevItem :: DevItem where
  "zero_DevItem = \<lparr>dev_DeviceID = 0, dev_NofBytes = 0, dev_NofUsedBytes = 0, dev_OptimalIOAlignment = 0,
     dev_OptimalIOWidth = 0, dev_MinimailIOSize = 0, dev_Type = 0, dev_Generation = 0, dev_StartOffset = 0,
     dev_DevGroup = 0, dev_SeekSpeed = 0, dev_Bandwidth = 0, dev_DeviceUUID = replicate 16 0,
     dev_FilesystemUUID = replicate 16 0\<rparr>"

definition set_DevItem :: "val list \<Rightarrow> DevItem \<Rightarrow> DevItem" where
  "set_DevItem v r = r\<lparr>dev_DeviceID := put_u64 (v ! 0) (dev_DeviceID r), dev_NofBytes := put_u64 (v ! 1) (dev_NofBytes r),
     dev_NofUsedBytes := put_u64 (v ! 2) (dev_NofUsedBytes r),
     dev_OptimalIOAlignment := put_u32 (v ! 3) (dev_OptimalIOAlignment r),
     dev_OptimalIOWidth := put_u32 (v ! 4) (dev_OptimalIOWidth r),
     dev_MinimailIOSize := put_u32 (v ! 5) (dev_MinimailIOSize r), dev_Type := put_u64 (v ! 6) (dev_Type r),
     dev_Generation := put_u64 (v ! 7) (dev_Generation r),
     dev_StartOffset := put_u64 (v ! 8) (dev_StartOffset r),
     dev_DevGroup := put_u32 (v ! 9) (dev_DevGroup r), dev_SeekSpeed := put_u8 (v ! 10) (dev_SeekSpeed r),
     dev_Bandwidth := put_u8 (v ! 11) (dev_Bandwidth r),
     dev_DeviceUUID := put_arr (v ! 12) (dev_DeviceUUID r),
     dev_FilesystemUUID := put_arr (v ! 13) (dev_FilesystemUUID r)\<rparr>"

record ChunkItemStripe =
  stripe_DeviceID :: u64
  stripe_Offset :: u64
  stripe_DeviceUUID :: "byte list"

definition ChunkItemStripe_layout :: layout where
  "ChunkItemStripe_layout = [(''DeviceID'', Kuint64), (''Offset'', Kuint64), (''DeviceUUID'', Karray 16)]"

definition zero_ChunkItemStripe :: ChunkItemStripe where
  "zero_ChunkItemStripe = \<lparr>stripe_DeviceID = 0, stripe_Offset = 0, stripe_DeviceUUID = replicate 16 0\<rparr>"

definition set_ChunkItemStripe :: "val list \<Rightarrow> ChunkItemStripe \<Rightarrow> ChunkItemStripe" where
  "set_ChunkItemStripe v r = r\<lparr>stripe_DeviceID := put_u64 (v ! 0) (stripe_DeviceID r),
     stripe_Offset := put_u64 (v ! 1) (stripe_Offset r),
     stripe_DeviceUUID := put_arr (v ! 2) (stripe_DeviceUUID r)\<rparr>"

record ChunkItem =
  chunk_Size :: u64
  chunk_Owner :: u64
  chunk_StripeLen :: u64
  chunk_Type :: u64
  chunk_OptimalIOAlignment :: u32
  chunk_OptimalIOWidth :: u32
  chunk_MinimalIOSize :: u32
  chunk_NofStripes :: u16
  chunk_NofSubStripes :: u16
  chunk_Stripes :: "ChunkItemStripe list"

definition ChunkItem_layout :: layout where
  "ChunkItem_layout = [(''Size'', Kuint64), (''Owner'', Kuint64), (''StripeLen'', Kuint64), (''Type'', Kuint64),
     (''OptimalIOAlignment'', Kuint32), (''OptimalIOWidth'', Kuint32), (''MinimalIOSize'', Kuint32),
     (''NofStripes'', Kuint16), (''NofSubStripes'', Kuint16), (''Stripes'', Kother)]"

definition zero_ChunkItem :: ChunkItem where
  "zero_ChunkItem = \<lparr>chunk_Size = 0, chunk_Owner = 0, chunk_StripeLen = 0, chunk_Type = 0, chunk_OptimalIOAlignment = 0,
     chunk_OptimalIOWidth = 0, chunk_MinimalIOSize = 0, chunk_NofStripes = 0, chunk_NofSubStripes = 0,
     chunk_Stripes = []\<rparr>"

definition set_ChunkItem :: "val list \<Rightarrow> ChunkItem \<Rightarrow> ChunkItem" where
  "set_ChunkItem v r = r\<lparr>chunk_Size := put_u64 (v ! 0) (chunk_Size r), chunk_Owner := put_u64 (v ! 1) (chunk_Owner r),
     chunk_StripeLen := put_u64 (v ! 2) (chunk_StripeLen r), chunk_Type := put_u64 (v ! 3) (chunk_Type r),
     chunk_OptimalIOAlignment := put_u32 (v ! 4) (chunk_OptimalIOAlignment r),
     chunk_OptimalIOWidth := put_u32 (v ! 5) (chunk_OptimalIOWidth r),
     chunk_MinimalIOSize := put_u32 (v ! 6) (chunk_MinimalIOSize r),
     chunk_NofStripes := put_u16 (v ! 7) (chunk_NofStripes r),
     chunk_NofSubStripes := put_u16 (v ! 8) (chunk_NofSubStripes r)\<rparr>"

record InodeItem =
  ino_Generation :: u64
  ino_Transid :: u64
  ino_StSize :: u64
  ino_StBlock :: u64
  ino_BlockGroup :: u64
  ino_StNlink :: u32
  ino_StUid :: u32
  ino_StGid :: u32
  ino_StMode :: u32
  ino_StRdev :: u64
  ino_Flags :: u64
  ino_Sequence :: u64
  ino_Reserved :: "byte list"
  ino_ATime :: TimeSpec
  ino_CTime :: TimeSpec
  ino_MTime :: TimeSpec
  ino_OTime :: TimeSpec

definition InodeItem_layout :: layout where
  "InodeItem_layout = [(''Generation'', Kuint64), (''Transid'', Kuint64), (''StSize'', Kuint64), (''StBlock'', Kuint64),
     (''BlockGroup'', Kuint64), (''StNlink'', Kuint32), (''StUid'', Kuint32), (''StGid'', Kuint32),
     (''StMode'', Kuint32), (''StRdev'', Kuint64), (''Flags'', Kuint64), (''Sequence'', Kuint64),
     (''Reserved'', Karray 32), (''ATime'', Kstruct ''TimeSpec''), (''CTime'', Kstruct ''TimeSpec''),
     (''MTime'', Kstruct ''TimeSpec''), (''OTime'', Kstruct ''TimeSpec'')]"

definition zero_InodeItem :: InodeItem where
  "zero_InodeItem = \<lparr>ino_Generation = 0, ino_Transid = 0, ino_StSize = 0, ino_StBlock = 0, ino_BlockGroup = 0,
     ino_StNlink = 0, ino_StUid = 0, ino_StGid = 0, ino_StMode = 0, ino_StRdev = 0, ino_Flags = 0,
     ino_Sequence = 0, ino_Reserved = replicate 32 0, ino_ATime = \<lparr>Sec = 0, Nsec = 0\<rparr>,
     ino_CTime = \<lparr>Sec = 0, Nsec = 0\<rparr>, ino_MTime = \<lparr>Sec = 0, Nsec = 0\<rparr>,
     ino_OTime = \<lparr>Sec = 0, Nsec = 0\<rparr>\<rparr>"

definition set_InodeItem :: "val list \<Rightarrow> InodeItem \<Rightarrow> InodeItem" where
  "set_InodeItem v r = r\<lparr>ino_Generation := put_u64 (v ! 0) (ino_Generation r), ino_Transid := put_u64 (v ! 1) (ino_Transid r),
     ino_StSize := put_u64 (v ! 2) (ino_StSize r), ino_StBlock := put_u64 (v ! 3) (ino_StBlock r),
     ino_BlockGroup := put_u64 (v ! 4) (ino_BlockGroup r), ino_StNlink := put_u32 (v ! 5) (ino_StNlink r),
     ino_StUid := put_u32 (v ! 6) (ino_StUid r), ino_StGid := put_u32 (v ! 7) (ino_StGid r),
     ino_StMode := put_u32 (v ! 8) (ino_StMode r), ino_StRdev := put_u64 (v ! 9) (ino_StRdev r),
     ino_Flags := put_u64 (v ! 10) (ino_Flags r), ino_Sequence := put_u64 (v ! 11) (ino_Sequence r),
     ino_Reserved := put_arr (v ! 12) (ino_Reserved r), ino_ATime := put_time (v ! 13) (ino_ATime r),
     ino_CTime := put_time (v ! 14) (ino_CTime r), ino_MTime := put_time (v ! 15) (ino_MTime r),
     ino_OTime := put_time (v ! 16) (ino_OTime r)\<rparr>"

record RootItem =
  root_Inode :: "InodeItem option"
  root_Generation :: u64
  root_RootDirID :: u64
  root_Bytenr :: u64
  root_ByteLimit :: u64
  root_BytesUsed :: u64
  root_LastSnapshot :: u64
  root_Flags :: u64
  root_Refs :: u32
  root_DropProgress :: "Key option"
  root_DropLevel :: u8
  root_Level :: u8
  root_GenV2 :: u64
  root_Uuid :: "byte list"
  root_ParentUuid :: "byte list"
  root_ReceivedUuid :: "byte list"
  root_CtransID :: u64
  root_OtransID :: u64
  root_StransID :: u64
  root_RtransID :: u64
  root_ATime :: TimeSpec
  root_CTime :: TimeSpec
  root_MTime :: TimeSpec
  root_OTime :: TimeSpec

definition RootItem_layout :: layout where
  "RootItem_layout = [(''Inode'', Kother), (''Generation'', Kuint64), (''RootDirID'', Kuint64), (''Bytenr'', Kuint64),
     (''ByteLimit'', Kuint64), (''BytesUsed'', Kuint64), (''LastSnapshot'', Kuint64), (''Flags'', Kuint64),
     (''Refs'', Kuint32), (''DropProgress'', Kother), (''DropLevel'', Kuint8), (''Level'', Kuint8),
     (''GenV2'', Kuint64), (''Uuid'', Karray 16), (''ParentUuid'', Karray 16), (''ReceivedUuid'', Karray 16),
     (''CtransID'', Kuint64), (''OtransID'', Kuint64), (''StransID'', Kuint64), (''RtransID'', Kuint64),
     (''ATime'', Kstruct ''TimeSpec''), (''CTime'', Kstruct ''TimeSpec''), (''MTime'', Kstruct ''TimeSpec''),
     (''OTime'', Kstruct ''TimeSpec'')]"

definition zero_RootItem :: RootItem where
  "zero_RootItem = \<lparr>root_Inode = None, root_Generation = 0, root_RootDirID = 0, root_Bytenr = 0, root_ByteLimit = 0,
     root_BytesUsed = 0, root_LastSnapshot = 0, root_Flags = 0, root_Refs = 0, root_DropProgress = None,
     root_DropLevel = 0, root_Level = 0, root_GenV2 = 0, root_Uuid = replicate 16 0,
     root_ParentUuid = replicate 16 0, root_ReceivedUuid = replicate 16 0, root_CtransID = 0,
     root_OtransID = 0, root_StransID = 0, root_RtransID = 0, root_ATime = \<lparr>Sec = 0, Nsec = 0\<rparr>,
     root_CTime = \<lparr>Sec = 0, Nsec = 0\<rparr>, root_MTime = \<lparr>Sec = 0, Nsec = 0\<rparr>,
     root_OTime = \<lparr>Sec = 0, Nsec = 0\<rparr>\<rparr>"

definition set_RootItem :: "val list \<Rightarrow> RootItem \<Rightarrow> RootItem" where
  "set_RootItem v r = r\<lparr>root_Generation := put_u64 (v ! 1) (root_Generation r),
     root_RootDirID := put_u64 (v ! 2) (root_RootDirID r), root_Bytenr := put_u64 (v ! 3) (root_Bytenr r),
     root_ByteLimit := put_u64 (v ! 4) (root_ByteLimit r),
     root_BytesUsed := put_u64 (v ! 5) (root_BytesUsed r),
     root_LastSnapshot := put_u64 (v ! 6) (root_LastSnapshot r),
     root_Flags := put_u64 (v ! 7) (root_Flags r), root_Refs := put_u32 (v ! 8) (root_Refs r),
     root_DropLevel := put_u8 (v ! 10) (root_DropLevel r), root_Level := put_u8 (v ! 11) (root_Level r),
     root_GenV2 := put_u64 (v ! 12) (root_GenV2 r), root_Uuid := put_arr (v ! 13) (root_Uuid r),
     root_ParentUuid := put_arr (v ! 14) (root_ParentUuid r),
     root_ReceivedUuid := put_arr (v ! 15) (root_ReceivedUuid r),
     root_CtransID := put_u64 (v ! 16) (root_CtransID r),
     root_OtransID := put_u64 (v ! 17) (root_OtransID r),
     root_StransID := put_u64 (v ! 18) (root_StransID r),
     root_RtransID := put_u64 (v ! 19) (root_RtransID r), root_ATime := put_time (v ! 20) (root_ATime r),
     root_CTime := put_time (v ! 21) (root_CTime r), root_MTime := put_time (v ! 22) (root_MTime r),
     root_OTime := put_time (v ! 23) (root_OTime r)\<rparr>"

record RootRef =
  rr_DirID :: u64
  rr_Index :: u64
  rr_Length :: u16
  rr_Name :: string

definition RootRef_layout :: layout where
  "RootRef_layout = [(''DirID'', Kuint64), (''Index'', Kuint64), (''Length'', Kuint16), (''Name'', Kother)]"

definition zero_RootRef :: RootRef where
  "zero_RootRef = \<lparr>rr_DirID = 0, rr_Index = 0, rr_Length = 0, rr_Name = []\<rparr>"

definition set_RootRef :: "val list \<Rightarrow> RootRef \<Rightarrow> RootRef" where
  "set_RootRef v r = r\<lparr>rr_DirID := put_u64 (v ! 0) (rr_DirID r), rr_Index := put_u64 (v ! 1) (rr_Index r),
     rr_Length := put_u16 (v ! 2) (rr_Length r)\<rparr>"

record RootBackRef =
  rb_DirID :: u64
  rb_Index :: u64
  rb_Length :: u16
  rb_Name :: string

definition RootBackRef_layout :: layout where
  "RootBackRef_layout = [(''DirID'', Kuint64), (''Index'', Kuint64), (''Length'', Kuint16), (''Name'', Kother)]"

definition zero_RootBackRef :: RootBackRef where
  "zero_RootBackRef = \<lparr>rb_DirID = 0, rb_Index = 0, rb_Length = 0, rb_Name = []\<rparr>"

definition set_RootBackRef :: "val list \<Rightarrow> RootBackRef \<Rightarrow> RootBackRef" where
  "set_RootBackRef v r = r\<lparr>rb_DirID := put_u64 (v ! 0) (rb_DirID r), rb_Index := put_u64 (v ! 1) (rb_Index r),
     rb_Length := put_u16 (v ! 2) (rb_Length r)\<rparr>"

record InodeRef =
  ir_Index :: u64
  ir_Length :: u16
  ir_Name :: string

definition InodeRef_layout :: layout where
  "InodeRef_layout = [(''Index'', Kuint64), (''Length'', Kuint16), (''Name'', Kother)]"

definition zero_InodeRef :: InodeRef where
  "zero_InodeRef = \<lparr>ir_Index = 0, ir_Length = 0, ir_Name = []\<rparr>"

definition set_InodeRef :: "val list \<Rightarrow> InodeRef \<Rightarrow> InodeRef" where
  "set_InodeRef v r = r\<lparr>ir_Index := put_u64 (v ! 0) (ir_Index r), ir_Length := put_u16 (v ! 1) (ir_Length r)\<rparr>"

record DevExtentItem =
  de_ChunkTree :: u64
  de_ChunkObjectID :: u64
  de_ChunkOffset :: u64
  de_Length :: u64
  de_UUID :: "byte list"

definition DevExtentItem_layout :: layout where
  "DevExtentItem_layout = [(''ChunkTree'', Kuint64), (''ChunkObjectID'', Kuint64), (''ChunkOffset'', Kuint64),
     (''Length'', Kuint64), (''UUID'', Karray 16)]"

definition zero_DevExtentItem :: DevExtentItem where
  "zero_DevExtentItem = \<lparr>de_ChunkTree = 0, de_ChunkObjectID = 0, de_ChunkOffset = 0, de_Length = 0, de_UUID = replicate 16 0\<rparr>"

definition set_DevExtentItem :: "val list \<Rightarrow> DevExtentItem \<Rightarrow> DevExtentItem" where
  "set_DevExtentItem v r = r\<lparr>de_ChunkTree := put_u64 (v ! 0) (de_ChunkTree r),
     de_ChunkObjectID := put_u64 (v ! 1) (de_ChunkObjectID r),
     de_ChunkOffset := put_u64 (v ! 2) (de_ChunkOffset r), de_Length := put_u64 (v ! 3) (de_Length r),
     de_UUID := put_arr (v ! 4) (de_UUID r)\<rparr>"

record DirItem =
  di_Transid :: u64
  di_DataLen :: u16
  di_NameLen :: u16
  di_Type :: u8
  di_Name :: string
  di_XattValue :: string

definition DirItem_layout :: layout where
  "DirItem_layout = [(''Transid'', Kuint64), (''DataLen'', Kuint16), (''NameLen'', Kuint16), (''Type'', Kuint8),
     (''Name'', Kother), (''XattValue'', Kother)]"

definition zero_DirItem :: DirItem where
  "zero_DirItem = \<lparr>di_Transid = 0, di_DataLen = 0, di_NameLen = 0, di_Type = 0, di_Name = [], di_XattValue = []\<rparr>"

definition set_DirItem :: "val list \<Rightarrow> DirItem \<Rightarrow> DirItem" where
  "set_DirItem v r = r\<lparr>di_Transid := put_u64 (v ! 0) (di_Transid r), di_DataLen := put_u16 (v ! 1) (di_DataLen r),
     di_NameLen := put_u16 (v ! 2) (di_NameLen r), di_Type := put_u8 (v ! 3) (di_Type r)\<rparr>"

record DirIndex =
  dx_Transid :: u64
  dx_DataLen :: u16
  dx_NameLen :: u16
  dx_Type :: u8
  dx_Name :: string

definition DirIndex_layout :: layout where
  "DirIndex_layout = [(''Transid'', Kuint64), (''DataLen'', Kuint16), (''NameLen'', Kuint16), (''Type'', Kuint8),
     (''Name'', Kother)]"

definition zero_DirIndex :: DirIndex where
  "zero_DirIndex = \<lparr>dx_Transid = 0, dx_DataLen = 0, dx_NameLen = 0, dx_Type = 0, dx_Name = []\<rparr>"

definition set_DirIndex :: "val list \<Rightarrow> DirIndex \<Rightarrow> DirIndex" where
  "set_DirIndex v r = r\<lparr>dx_Transid := put_u64 (v ! 0) (dx_Transid r), dx_DataLen := put_u16 (v ! 1) (dx_DataLen r),
     dx_NameLen := put_u16 (v ! 2) (dx_NameLen r), dx_Type := put_u8 (v ! 3) (dx_Type r)\<rparr>"

record BlockGroupItem =
  bg_Used :: u64
  bg_ChunkObjectID :: u64
  bg_Flags :: u64

definition BlockGroupItem_layout :: layout where
  "BlockGroupItem_layout = [(''Used'', Kuint64), (''ChunkObjectID'', Kuint64), (''Flags'', Kuint64)]"

definition zero_BlockGroupItem :: BlockGroupItem where
  "zero_BlockGroupItem = \<lparr>bg_Used = 0, bg_ChunkObjectID = 0, bg_Flags = 0\<rparr>"

definition set_BlockGroupItem :: "val list \<Rightarrow> BlockGroupItem \<Rightarrow> BlockGroupItem" where
  "set_BlockGroupItem v r = r\<lparr>bg_Used := put_u64 (v ! 0) (bg_Used r), bg_ChunkObjectID := put_u64 (v ! 1) (bg_ChunkObjectID r),
     bg_Flags := put_u64 (v ! 2) (bg_Flags r)\<rparr>"

record ChecksumItem =
  Checksums :: "u32 list"

section \<open>Parsing data items\<close>

definition DevItem_Parse :: "slice \<Rightarrow> DevItem \<Rightarrow> (DevItem \<times> nat) go" where
  "DevItem_Parse data devItem = unmarshal_count DevItem_layout set_DevItem devItem data"

definition InodeItem_Parse :: "slice \<Rightarrow> InodeItem \<Rightarrow> (InodeItem \<times> nat) go" where
  "InodeItem_Parse data inodeItem = unmarshal_count InodeItem_layout set_InodeItem inodeItem data"

definition BlockGroupItem_Parse :: "slice \<Rightarrow> BlockGroupItem \<Rightarrow> (BlockGroupItem \<times> nat) go" where
  "BlockGroupItem_Parse data blockGroupItem = unmarshal_count BlockGroupItem_layout set_BlockGroupItem blockGroupItem data"

definition DevExtentItem_Parse :: "slice \<Rightarrow> DevExtentItem \<Rightarrow> (DevExtentItem \<times> nat) go" where
  "DevExtentItem_Parse data devExtentItem = unmarshal_count DevExtentItem_layout set_DevExtentItem devExtentItem data"

definition RootRef_Parse :: "slice \<Rightarrow> RootRef \<Rightarrow> (RootRef \<times> nat) go" where
  "RootRef_Parse data rootRef =
     gbind (unmarshal_count RootRef_layout set_RootRef rootRef data) (\<lambda>(r, offset).
     let len = unat (rr_Length r) in
     if len < offset then
       gbind (sub data offset (offset + len)) (\<lambda>n. ret (r\<lparr>rr_Name := byte_string (bytes n)\<rparr>, offset + len))
     else ret (r, offset))"

definition RootBackRef_Parse :: "slice \<Rightarrow> RootBackRef \<Rightarrow> (RootBackRef \<times> nat) go" where
  "RootBackRef_Parse data rootBackRef =
     gbind (unmarshal_count RootBackRef_layout set_RootBackRef rootBackRef data) (\<lambda>(r, offset).
     let len = unat (rb_Length r) in
     if len < offset then
       gbind (sub data offset (offset + len)) (\<lambda>n. ret (r\<lparr>rb_Name := byte_string (bytes n)\<rparr>, offset + len))
     else ret (r, offset))"

definition InodeRef_Parse :: "slice \<Rightarrow> InodeRef \<Rightarrow> (InodeRef \<times> nat) go" where
  "InodeRef_Parse data inodeRef =
     gbind (unmarshal_count InodeRef_layout set_InodeRef inodeRef data) (\<lambda>(r, offset).
     let len = unat (ir_Length r) in
     gbind (sub data offset (offset + len)) (\<lambda>n. ret (r\<lparr>ir_Name := byte_string (bytes n)\<rparr>, offset + len)))"

definition DirIndex_Parse :: "slice \<Rightarrow> DirIndex \<Rightarrow> (DirIndex \<times> nat) go" where
  "DirIndex_Parse data dirIndex =
     gbind (unmarshal_count DirIndex_layout set_DirIndex dirIndex data) (\<lambda>(r, offset).
     let len = unat (dx_NameLen r) in
     if offset + len < slen data then
       gbind (sub data offset (offset + len)) (\<lambda>n. ret (r\<lparr>dx_Name := byte_string (bytes n)\<rparr>, offset + len))
     else ret (r, slen data))"

definition DirIndex_GetType :: "DirIndex \<Rightarrow> string" where
  "DirIndex_GetType dirIndex = lookup_str DirTypes (dx_Type dirIndex)"

definition DirItem_Parse :: "slice \<Rightarrow> DirItem \<Rightarrow> (DirItem \<times> nat) go" where
  "DirItem_Parse data dirItem =
     gbind (unmarshal_count DirItem_layout set_DirItem dirItem data) (\<lambda>(r, offset).
     let len = unat (di_NameLen r); dlen = unat (di_DataLen r) in
     if offset + len < slen data then
       gbind (sub data offset (offset + len)) (\<lambda>n. let r = r\<lparr>di_Name := byte_string (bytes n)\<rparr> in
       if dlen > 1 then
         gbind (sub data (offset + len) (offset + len + dlen)) (\<lambda>x.
           ret (r\<lparr>di_XattValue := byte_string (bytes x)\<rparr>, offset + len + dlen))
       else ret (r, offset + len))
     else ret (r, slen data))"

definition DirItem_GetType :: "DirItem \<Rightarrow> string" where
  "DirItem_GetType dirItem = lookup_str DirTypes (di_Type dirItem)"

definition ExtentData_GetType :: "ExtentData \<Rightarrow> string" where
  "ExtentData_GetType extentData = lookup_str ExtentTypes (ed_Type extentData)"

text \<open>The copy of inline data goes into a slice that is still nil, so \<open>copy\<close> moves nothing.\<close>

definition ExtentData_Parse :: "slice \<Rightarrow> ExtentData \<Rightarrow> (ExtentData \<times> nat) go" where
  "ExtentData_Parse data extentData =
     gbind (unmarshal_count ExtentData_layout set_ExtentData extentData data) (\<lambda>(r, offset).
     if ed_Compression r = 0 \<and> ed_Encryption r = 0 \<and> ExtentData_GetType r \<noteq> ''Inline Extent'' then
       gbind (sub_from data offset) (\<lambda>d.
       gbind (unmarshal_count ExtentDataRem_layout set_ExtentDataRem zero_ExtentDataRem d) (\<lambda>(m, curOffset).
         ret (r\<lparr>ed_ExtentDataRem := Some m\<rparr>, offset + curOffset)))
     else if ed_Compression r = 0 \<and> ed_Encryption r = 0 \<and> ExtentData_GetType r = ''Inline Extent'' then
       gbind (sub_from data offset) (\<lambda>d.
         ret (r\<lparr>ed_InlineData := copy_over (ed_InlineData r) (bytes d)\<rparr>, slen data))
     else ret (r, offset))"

definition ExtentItem_Parse :: "slice \<Rightarrow> ExtentItem \<Rightarrow> (ExtentItem \<times> nat) go" where
  "ExtentItem_Parse data extentItem =
     gbind (unmarshal_count ExtentItem_layout set_ExtentItem extentItem data) (\<lambda>(r, curOffset).
     gbind (sub_from data curOffset) (\<lambda>d.
     gbind (unmarshal_count InlineRef_layout set_InlineRef zero_InlineRef d) (\<lambda>(il, offset).
     let r = r\<lparr>ei_InlineRef := Some il\<rparr>; curOffset = curOffset + offset in
     if lookup_str ExtentItemTypes (ucast (ei_Flags r)) = ''BTRFS_EXTENT_FLAG_DATA'' \<and> il_Type il = 0 then
       gbind (sub_from data curOffset) (\<lambda>d.
       gbind (unmarshal_count ExtentDataRef_layout set_ExtentDataRef zero_ExtentDataRef d) (\<lambda>(e, offset).
         ret (r\<lparr>ei_ExtentDataRef := Some e\<rparr>, offset)))
     else ret (r, offset))))"

definition RootItem_Parse :: "slice \<Rightarrow> RootItem \<Rightarrow> (RootItem \<times> nat) go" where
  "RootItem_Parse data rootItem =
     gbind (InodeItem_Parse data zero_InodeItem) (\<lambda>(ino, inodeOffset).
     gbind (sub_from data inodeOffset) (\<lambda>d.
     gbind (unmarshal_count RootItem_layout set_RootItem rootItem d) (\<lambda>(r, offset).
       ret (r\<lparr>root_Inode := Some ino\<rparr>, offset + inodeOffset))))"

text \<open>The stripes are parsed one after the other into the slice allocated for them.\<close>

fun parse_stripes :: "nat \<Rightarrow> slice \<Rightarrow> nat \<Rightarrow> (ChunkItemStripe list \<times> nat) go" where
  "parse_stripes 0 data startOffset = ret ([], startOffset)"
| "parse_stripes (Suc n) data startOffset =
     gbind (sub_from data startOffset) (\<lambda>d.
     gbind (unmarshal_count ChunkItemStripe_layout set_ChunkItemStripe zero_ChunkItemStripe d) (\<lambda>(st, offset).
     gbind (parse_stripes n data (startOffset + offset)) (\<lambda>(ss, endOffset). ret (st # ss, endOffset))))"

definition ChunkItem_Parse :: "slice \<Rightarrow> ChunkItem \<Rightarrow> (ChunkItem \<times> nat) go" where
  "ChunkItem_Parse data chunkItem =
     gbind (unmarshal_count ChunkItem_layout set_ChunkItem chunkItem data) (\<lambda>(r, startOffset).
     gbind (parse_stripes (unat (chunk_NofStripes r)) data startOffset) (\<lambda>(ss, endOffset).
       ret (r\<lparr>chunk_Stripes := ss\<rparr>, endOffset)))"

text \<open>Four bytes at a time; the loop is over the offset.\<close>

function checksums_from :: "slice \<Rightarrow> nat \<Rightarrow> u32 list \<Rightarrow> (u32 list \<times> nat) go" where
  "checksums_from data offset sums =
     (if offset < slen data then
        gbind (sub data offset (offset + 4)) (\<lambda>w. checksums_from data (offset + 4) (sums @ [ToUint32 (bytes w)]))
      else ret (sums, offset))"
  by pat_completeness auto
termination
  by (relation "measure (\<lambda>(data, offset, sums). slen data - offset)") auto

declare checksums_from.simps [simp del]

definition ChecksumItem_Parse :: "slice \<Rightarrow> ChecksumItem \<Rightarrow> (ChecksumItem \<times> nat) go" where
  "ChecksumItem_Parse data checkSumItem =
     gbind (checksums_from data 0 (Checksums checkSumItem)) (\<lambda>(sums, offset). ret (checkSumItem\<lparr>Checksums := sums\<rparr>, offset))"

definition DevStatsItem_Parse :: "slice \<Rightarrow> nat" where
  "DevStatsItem_Parse data = slen data"

section \<open>The leaf\<close>

datatype DataItem =
    DDevItem DevItem
  | DChunkItem ChunkItem
  | DInodeItem InodeItem
  | DExtentItem ExtentItem
  | DExtentData ExtentData
  | DRootItem RootItem
  | DInodeRef InodeRef
  | DDirItem DirItem
  | DDirIndex DirIndex
  | DBlockGroupItem BlockGroupItem
  | DDevStatsItem
  | DDevExtentItem DevExtentItem
  | DRootRef RootRef
  | DRootBackRef RootBackRef
  | DChecksumItem ChecksumItem

definition with_item :: "('x \<Rightarrow> DataItem) \<Rightarrow> ('x \<times> nat) go \<Rightarrow> (DataItem \<times> nat) go" where
  "with_item c m = gbind m (\<lambda>(x, offset). ret (c x, offset))"

fun DataItem_Parse :: "slice \<Rightarrow> DataItem \<Rightarrow> (DataItem \<times> nat) go" where
  "DataItem_Parse data DDevStatsItem = ret (DDevStatsItem, DevStatsItem_Parse data)"
| "DataItem_Parse data (DDevItem x) = with_item DDevItem (DevItem_Parse data x)"
| "DataItem_Parse data (DChunkItem x) = with_item DChunkItem (ChunkItem_Parse data x)"
| "DataItem_Parse data (DInodeItem x) = with_item DInodeItem (InodeItem_Parse data x)"
| "DataItem_Parse data (DExtentItem x) = with_item DExtentItem (ExtentItem_Parse data x)"
| "DataItem_Parse data (DExtentData x) = with_item DExtentData (ExtentData_Parse data x)"
| "DataItem_Parse data (DRootItem x) = with_item DRootItem (RootItem_Parse data x)"
| "DataItem_Parse data (DInodeRef x) = with_item DInodeRef (InodeRef_Parse data x)"
| "DataItem_Parse data (DDirItem x) = with_item DDirItem (DirItem_Parse data x)"
| "DataItem_Parse data (DDirIndex x) = with_item DDirIndex (DirIndex_Parse data x)"
| "DataItem_Parse data (DBlockGroupItem x) = with_item DBlockGroupItem (BlockGroupItem_Parse data x)"
| "DataItem_Parse data (DDevExtentItem x) = with_item DDevExtentItem (DevExtentItem_Parse data x)"
| "DataItem_Parse data (DRootRef x) = with_item DRootRef (RootRef_Parse data x)"
| "DataItem_Parse data (DRootBackRef x) = with_item DRootBackRef (RootBackRef_Parse data x)"
| "DataItem_Parse data (DChecksumItem x) = with_item DChecksumItem (ChecksumItem_Parse data x)"

text \<open>The empty data item for a type of item, in the order of the tests; none for an unknown type.\<close>

definition new_data_item :: "string \<Rightarrow> DataItem option" where
  "new_data_item t =
     (if t = ''DEV_ITEM'' then Some (DDevItem zero_DevItem)
      else if t = ''CHUNK_ITEM'' then Some (DChunkItem zero_ChunkItem)
      else if t = ''INODE_ITEM'' then Some (DInodeItem zero_InodeItem)
      else if t = ''EXTENT_ITEM'' then Some (DExtentItem zero_ExtentItem)
      else if t = ''EXTENT_DATA'' then Some (DExtentData zero_ExtentData)
      else if t = ''ROOT_ITEM'' then Some (DRootItem zero_RootItem)
      else if t = ''INODE_REF'' then Some (DInodeRef zero_InodeRef)
      else if t = ''DIR_ITEM'' then Some (DDirItem zero_DirItem)
      else if t = ''DIR_INDEX'' then Some (DDirIndex zero_DirIndex)
      else if t = ''BLOCK_GROUP_ITEM'' then Some (DBlockGroupItem zero_BlockGroupItem)
      else if t = ''METADATA_ITEM'' then Some (DExtentItem zero_ExtentItem)
      else if t = ''DEV_STATS'' then Some (DDevStatsItem)
      else if t = ''DEV_EXTENT'' then Some (DDevExtentItem zero_DevExtentItem)
      else if t = ''ROOT_REF'' then Some (DRootRef zero_RootRef)
      else if t = ''ROOT_BACKREF'' then Some (DRootBackRef zero_RootBackRef)
      else if t = ''EXTENT_CSUM'' then Some (DChecksumItem \<lparr>Checksums = []\<rparr>)
      else if t = ''XATTR_ITEM'' then Some (DDirItem zero_DirItem)
      else None)"

record LeafNode =
  leaf_Items :: "Item list"
  leaf_DataItems :: "DataItem option list"

fun parse_items :: "slice \<Rightarrow> nat \<Rightarrow> Item list \<Rightarrow> (Item list \<times> nat) go" where
  "parse_items data offset [] = ret ([], offset)"
| "parse_items data offset (it # its) =
     gbind (sub_from data offset) (\<lambda>d.
     gbind (Item_Parse d it) (\<lambda>(it', n).
     gbind (parse_items data (offset + n) its) (\<lambda>(its', endOffset). ret (it' # its', endOffset))))"

text \<open>The data of an item; the end of its range is computed in 32 bits.\<close>

definition parse_data_item :: "slice \<Rightarrow> Item \<Rightarrow> DataItem option go" where
  "parse_data_item data it =
     gbind (Item_GetType it) (\<lambda>t. case new_data_item t of
       None \<Rightarrow> ret None
     | Some x \<Rightarrow>
         gbind (sub data (unat (item_DataOffset it)) (unat (item_DataOffset it + item_DataLen it))) (\<lambda>d.
         gbind (DataItem_Parse d x) (\<lambda>(y, _). ret (Some y))))"

text \<open>The leaf's two slices have been allocated with the number of items of the header. An item of an
  unknown type keeps the data item it has, which is nil in a new leaf.\<close>

fun parse_data_items :: "slice \<Rightarrow> Item list \<Rightarrow> DataItem option list \<Rightarrow> DataItem option list go" where
  "parse_data_items data its [] = ret []"
| "parse_data_items data [] (x # xs) = panic Index_out_of_range"
| "parse_data_items data (it # its) (x # xs) =
     gbind (parse_data_item data it) (\<lambda>y.
     gbind (parse_data_items data its xs) (\<lambda>ys. ret ((if y = None then x else y) # ys)))"

definition LeafNode_Parse :: "slice \<Rightarrow> LeafNode \<Rightarrow> (LeafNode \<times> nat) go" where
  "LeafNode_Parse data leaf =
     gbind (parse_items data 0 (leaf_Items leaf)) (\<lambda>(items, offset).
     gbind (parse_data_items data items (leaf_DataItems leaf)) (\<lambda>ds.
       ret (leaf\<lparr>leaf_Items := items, leaf_DataItems := ds\<rparr>, offset)))"

section \<open>Where a leaf's items are read\<close>

definition key_at :: "byte list \<Rightarrow> nat \<Rightarrow> Key" where
  "key_at xs i = \<lparr>key_ObjectID = of_nat (le_at xs i 8), key_ItemType = of_nat (le_at xs (i + 8) 1),
     key_Offset = of_nat (le_at xs (i + 9) 8)\<rparr>"

lemma Key_Parse_eq:
  "Key_Parse d k = (if 17 \<le> length (arr d) then ret (key_at (arr d) 0, 17) else panic Slice_bounds_out_of_range)"
  by (simp add: Key_Parse_def unmarshal_count_def Unmarshal_def Key_layout_def set_Key_def go_simps key_at_def)

definition item_at :: "byte list \<Rightarrow> nat \<Rightarrow> Item" where
  "item_at xs i = \<lparr>item_Key = Some (key_at xs i), item_DataOffset = of_nat (le_at xs i 4),
     item_DataLen = of_nat (le_at xs (i + 4) 4)\<rparr>"

lemma Item_Parse_eq:
  "Item_Parse d it = (if 17 \<le> length (arr d) then ret (item_at (arr d) 0, 8) else panic Slice_bounds_out_of_range)"
  by (simp add: Item_Parse_def Key_Parse_eq unmarshal_count_def Unmarshal_def Item_layout_def set_Item_def go_simps item_at_def)

lemma key_at_drop [simp]: "key_at (drop a xs) i = key_at xs (a + i)"
  by (simp add: key_at_def add.assoc)

lemma item_at_drop [simp]: "item_at (drop a xs) i = item_at xs (a + i)"
  by (simp add: item_at_def add.assoc)

lemma parse_items_eq:
  assumes "wf_slice data"
  shows "i + 8 * length its + 9 \<le> slen data \<Longrightarrow>
    parse_items data i its = ret (map (\<lambda>k. item_at (arr data) (i + 8 * k)) [0..<length its], i + 8 * length its)"
proof (induction its arbitrary: i)
  case (Cons it its)
  have s: "sub_from data i = ret (Slice (drop i (arr data)) (slen data - i))"
    using Cons.prems by (simp add: sub_from_def)
  have "17 \<le> length (drop i (arr data))" using Cons.prems assms by (simp add: wf_slice_def)
  then have "Item_Parse (Slice (drop i (arr data)) (slen data - i)) it = ret (item_at (arr data) i, 8)"
    by (simp add: Item_Parse_eq)
  moreover have "map (\<lambda>k. item_at (arr data) (i + 8 * k)) [0..<Suc (length its)] =
      item_at (arr data) i # map (\<lambda>k. item_at (arr data) (i + 8 + 8 * k)) [0..<length its]"
    by (simp only: upt_conv_Cons zero_less_Suc map_Suc_upt [symmetric]) (simp add: add.assoc)
  ultimately show ?case using Cons.IH [of "i + 8"] Cons.prems s by (simp del: upt_Suc)
qed simp

text \<open>C31: The items of a leaf. \<open>Unmarshal\<close> skips the pointer to the key, so that the item is read
  from the bytes of its own key and eight bytes are consumed instead of 25: item \<open>k\<close> of the leaf is
  taken from offset \<open>8 k\<close>, its data offset and length are the two halves of its object id, and the
  data items are looked up with these.\<close>

theorem LeafNode_items_overlap:
  assumes "wf_slice data" and "8 * length (leaf_Items leaf) + 9 \<le> slen data"
  shows "LeafNode_Parse data leaf =
    (let items = map (\<lambda>k. item_at (arr data) (8 * k)) [0..<length (leaf_Items leaf)] in
     gbind (parse_data_items data items (leaf_DataItems leaf)) (\<lambda>ds.
       ret (leaf\<lparr>leaf_Items := items, leaf_DataItems := ds\<rparr>, 8 * length (leaf_Items leaf))))"
  using parse_items_eq [OF assms(1), of 0 "leaf_Items leaf"] assms(2) by (simp add: LeafNode_Parse_def Let_def)

definition two_items :: "byte list" where
  "two_items = le_bytes 8 256 @ [0x01] @ le_bytes 8 0 @ le_bytes 4 300 @ le_bytes 4 160 @
     le_bytes 8 256 @ [0x0c] @ le_bytes 8 256 @ le_bytes 4 280 @ le_bytes 4 20"

theorem LeafNode_items_overlap_witness:
  "LeafNode_Parse (full two_items) \<lparr>leaf_Items = replicate 2 zero_Item, leaf_DataItems = []\<rparr> =
    ret (\<lparr>leaf_Items = [item_at two_items 0, item_at two_items 8], leaf_DataItems = []\<rparr>, 16) \<and>
    item_at two_items 0 = \<lparr>item_Key = Some \<lparr>key_ObjectID = 256, key_ItemType = 1, key_Offset = 0\<rparr>,
      item_DataOffset = 256, item_DataLen = 0\<rparr>"
proof
  show "LeafNode_Parse (full two_items) \<lparr>leaf_Items = replicate 2 zero_Item, leaf_DataItems = []\<rparr> =
    ret (\<lparr>leaf_Items = [item_at two_items 0, item_at two_items 8], leaf_DataItems = []\<rparr>, 16)"
    using LeafNode_items_overlap [of "full two_items" "\<lparr>leaf_Items = replicate 2 zero_Item, leaf_DataItems = []\<rparr>"]
    by (simp add: two_items_def upt_rec Let_def)
  show "item_at two_items 0 = \<lparr>item_Key = Some \<lparr>key_ObjectID = 256, key_ItemType = 1, key_Offset = 0\<rparr>,
      item_DataOffset = 256, item_DataLen = 0\<rparr>"
    by (simp add: two_items_def item_at_def key_at_def le_at_def le_bytes_numeral)
qed

section \<open>Names\<close>

lemma marshalled:
  assumes "all_fit L vs" and "plain_layout L" and "0 < n" and "layout_size L \<le> n" and "n \<le> layout_size L + length rest"
  shows "unmarshal_count L setter r (Slice (marshal L vs @ rest) n) = ret (setter (map decoded vs) r, layout_size L)"
proof -
  have "wf_slice (Slice (marshal L vs @ rest) n)" using assms by (simp add: wf_slice_def length_marshal)
  then have "Unmarshal L (Slice (marshal L vs @ rest) n) = ret (layout_values L (marshal L vs @ rest) 0, layout_size L, True)"
    using assms by (simp add: Unmarshal_ok)
  moreover have "layout_values L ([] @ marshal L vs @ rest) (length ([] :: byte list)) = map decoded vs"
    by (rule layout_values_marshal) (rule assms(1))
  ultimately show ?thesis by (simp add: unmarshal_count_def)
qed

definition dir_index_bytes :: "u64 \<Rightarrow> u8 \<Rightarrow> byte list \<Rightarrow> byte list" where
  "dir_index_bytes transid t name = le_bytes 8 (unat transid) @ le_bytes 2 0 @ le_bytes 2 (length name) @ [t] @ name"

text \<open>The name of a directory index. An encoded directory index with its name is decoded with the
  name when at least one byte follows, and without any name when the data ends with the name: the
  bounds test excludes the exact fit, which is how an item that holds one entry ends.\<close>

theorem DirIndex_exact_fit:
  assumes "length name < 65536"
  shows "DirIndex_Parse (full (dir_index_bytes transid t name @ rest)) zero_DirIndex =
    (if rest = [] then ret (\<lparr>dx_Transid = transid, dx_DataLen = 0, dx_NameLen = of_nat (length name), dx_Type = t,
        dx_Name = []\<rparr>, 13 + length name)
     else ret (\<lparr>dx_Transid = transid, dx_DataLen = 0, dx_NameLen = of_nat (length name), dx_Type = t,
        dx_Name = byte_string name\<rparr>, 13 + length name))"
proof -
  let ?vs = "[VU64 transid, VU16 0, VU16 (of_nat (length name)), VU8 t, VKeep]"
  let ?d = "full (dir_index_bytes transid t name @ rest)"
  have len: "unat (of_nat (length name) :: u16) = length name" using assms by (rule unat_of_nat_u16)
  have d: "?d = Slice (marshal DirIndex_layout ?vs @ name @ rest) (13 + length name + length rest)"
    by (simp add: full_def dir_index_bytes_def DirIndex_layout_def len le_bytes_numeral)
  have "unmarshal_count DirIndex_layout set_DirIndex zero_DirIndex ?d = ret (\<lparr>dx_Transid = transid, dx_DataLen = 0,
      dx_NameLen = of_nat (length name), dx_Type = t, dx_Name = []\<rparr>, 13)"
    unfolding d by (subst marshalled)
      (simp_all add: DirIndex_layout_def plain_layout_def set_DirIndex_def zero_DirIndex_def)
  moreover have "sub ?d 13 (13 + length name) = ret (Slice (drop 13 (dir_index_bytes transid t name @ rest)) (length name))"
    by (simp add: sub_def dir_index_bytes_def)
  moreover have "take (length name) (drop 13 (dir_index_bytes transid t name @ rest)) = name"
    by (simp add: dir_index_bytes_def le_bytes_numeral)
  moreover have "slen ?d = 13 + length name + length rest" by (simp add: dir_index_bytes_def)
  ultimately show ?thesis by (simp add: DirIndex_Parse_def Let_def len bytes_def)
qed

theorem DirIndex_exact_fit_witness:
  "DirIndex_Parse (full (dir_index_bytes 7 1 [0x61, 0x62])) zero_DirIndex =
    ret (\<lparr>dx_Transid = 7, dx_DataLen = 0, dx_NameLen = 2, dx_Type = 1, dx_Name = []\<rparr>, 15)"
  using DirIndex_exact_fit [of "[0x61, 0x62]" 7 1 "[]"] by simp

section \<open>Chunk items\<close>

definition stripe_vals :: "ChunkItemStripe \<Rightarrow> val list" where
  "stripe_vals s = [VU64 (stripe_DeviceID s), VU64 (stripe_Offset s), VArr (stripe_DeviceUUID s)]"

definition chunk_vals :: "ChunkItem \<Rightarrow> val list" where
  "chunk_vals c = [VU64 (chunk_Size c), VU64 (chunk_Owner c), VU64 (chunk_StripeLen c), VU64 (chunk_Type c),
     VU32 (chunk_OptimalIOAlignment c), VU32 (chunk_OptimalIOWidth c), VU32 (chunk_MinimalIOSize c),
     VU16 (chunk_NofStripes c), VU16 (chunk_NofSubStripes c), VKeep]"

definition stripe_bytes :: "ChunkItemStripe \<Rightarrow> byte list" where
  "stripe_bytes s = marshal ChunkItemStripe_layout (stripe_vals s)"

definition chunk_bytes :: "ChunkItem \<Rightarrow> byte list" where
  "chunk_bytes c = marshal ChunkItem_layout (chunk_vals c) @ concat (map stripe_bytes (chunk_Stripes c))"

definition chunk_ok :: "ChunkItem \<Rightarrow> bool" where
  "chunk_ok c \<longleftrightarrow> unat (chunk_NofStripes c) = length (chunk_Stripes c) \<and>
     (\<forall>s \<in> set (chunk_Stripes c). length (stripe_DeviceUUID s) = 16)"

lemma length_stripe_bytes: "length (stripe_DeviceUUID s) = 16 \<Longrightarrow> length (stripe_bytes s) = 32"
  by (simp add: stripe_bytes_def ChunkItemStripe_layout_def stripe_vals_def)

lemma parse_stripes_bytes:
  "\<forall>s \<in> set ss. length (stripe_DeviceUUID s) = 16 \<Longrightarrow> m \<le> length rest \<Longrightarrow>
    parse_stripes (length ss) (Slice (pre @ concat (map stripe_bytes ss) @ rest) (length pre + 32 * length ss + m)) (length pre) =
      ret (ss, length pre + 32 * length ss)"
proof (induction ss arbitrary: pre)
  case (Cons s ss)
  let ?post = "concat (map stripe_bytes ss) @ rest"
  let ?n = "length pre + 32 * length (s # ss) + m"
  let ?d = "Slice (pre @ stripe_bytes s @ ?post) ?n"
  have u: "length (stripe_DeviceUUID s) = 16" using Cons.prems by simp
  have "\<forall>s \<in> set ss. length (stripe_bytes s) = 32" using Cons.prems by (simp add: length_stripe_bytes)
  then have c: "length (concat (map stripe_bytes ss)) = 32 * length ss" by (induction ss) auto
  have "sub_from ?d (length pre) = ret (Slice (stripe_bytes s @ ?post) (32 + (32 * length ss + m)))"
    by (simp add: sub_from_def)
  moreover have "unmarshal_count ChunkItemStripe_layout set_ChunkItemStripe zero_ChunkItemStripe
      (Slice (stripe_bytes s @ ?post) (32 + (32 * length ss + m))) = ret (s, 32)"
    unfolding stripe_bytes_def [of s] using Cons.prems(2) by (subst marshalled) (simp_all add: ChunkItemStripe_layout_def stripe_vals_def
        plain_layout_def set_ChunkItemStripe_def zero_ChunkItemStripe_def u c)
  moreover have "parse_stripes (length ss) (Slice ((pre @ stripe_bytes s) @ ?post) (length (pre @ stripe_bytes s) + 32 * length ss + m))
      (length (pre @ stripe_bytes s)) = ret (ss, length (pre @ stripe_bytes s) + 32 * length ss)"
    using Cons.prems Cons.IH [of "pre @ stripe_bytes s"] by simp
  ultimately show ?case by (simp add: length_stripe_bytes [OF u] algebra_simps)
qed simp

lemma length_chunk_bytes: "chunk_ok c \<Longrightarrow> length (chunk_bytes c) = 48 + 32 * length (chunk_Stripes c)"
proof -
  assume "chunk_ok c"
  then have "\<forall>s \<in> set (chunk_Stripes c). length (stripe_bytes s) = 32" by (simp add: chunk_ok_def length_stripe_bytes)
  then have "length (concat (map stripe_bytes (chunk_Stripes c))) = 32 * length (chunk_Stripes c)"
    by (induction "chunk_Stripes c" arbitrary: c rule: list.induct) (auto simp: length_concat comp_def sum_list_triv cong: map_cong)
  then show ?thesis by (simp add: chunk_bytes_def ChunkItem_layout_def chunk_vals_def)
qed

lemma ChunkItem_Parse_bytes:
  assumes "chunk_ok c" and "m \<le> length rest"
  shows "ChunkItem_Parse (Slice (chunk_bytes c @ rest) (length (chunk_bytes c) + m)) zero_ChunkItem = ret (c, length (chunk_bytes c))"
proof -
  let ?m = "marshal ChunkItem_layout (chunk_vals c)"
  let ?ss = "concat (map stripe_bytes (chunk_Stripes c))"
  let ?d = "Slice (chunk_bytes c @ rest) (length (chunk_bytes c) + m)"
  have m: "length ?m = 48" by (simp add: ChunkItem_layout_def chunk_vals_def)
  have ss: "length ?ss = 32 * length (chunk_Stripes c)" using length_chunk_bytes [OF assms(1)] by (simp add: chunk_bytes_def m)
  have "unmarshal_count ChunkItem_layout set_ChunkItem zero_ChunkItem (Slice (?m @ ?ss @ rest) (48 + (length ?ss + m))) =
      ret (c\<lparr>chunk_Stripes := []\<rparr>, 48)"
    using assms(2) by (subst marshalled)
      (simp_all add: ChunkItem_layout_def chunk_vals_def plain_layout_def set_ChunkItem_def zero_ChunkItem_def)
  then have u: "unmarshal_count ChunkItem_layout set_ChunkItem zero_ChunkItem ?d = ret (c\<lparr>chunk_Stripes := []\<rparr>, 48)"
    by (simp add: chunk_bytes_def m add.assoc)
  have "parse_stripes (length (chunk_Stripes c)) ?d 48 = ret (chunk_Stripes c, 48 + 32 * length (chunk_Stripes c))"
    using parse_stripes_bytes [of "chunk_Stripes c" m rest ?m] assms by (simp add: chunk_bytes_def m ss chunk_ok_def)
  then show ?thesis
    using u assms(1) by (simp add: ChunkItem_Parse_def chunk_ok_def length_chunk_bytes)
qed

section \<open>Parsing always ends\<close>

lemma unmarshal_count_ends [simp]: "ends (unmarshal_count L f r d)"
  by (auto simp: unmarshal_count_def intro!: ends_gbind split: prod.splits)

lemma checksums_from_ends: "ends (checksums_from data offset sums)"
proof (induction data offset sums rule: checksums_from.induct)
  case (1 data offset sums)
  then show ?case by (subst checksums_from.simps) (auto intro!: ends_gbind)
qed

lemma parse_stripes_ends: "ends (parse_stripes n data i)"
  by (induction n data i rule: parse_stripes.induct) (auto intro!: ends_gbind split: prod.splits)

lemma ChunkItem_Parse_ends [simp]: "ends (ChunkItem_Parse d x)"
  by (auto simp: ChunkItem_Parse_def intro!: ends_gbind parse_stripes_ends split: prod.splits)

lemmas item_parse_defs = DevItem_Parse_def InodeItem_Parse_def BlockGroupItem_Parse_def DevExtentItem_Parse_def
  RootRef_Parse_def RootBackRef_Parse_def InodeRef_Parse_def DirIndex_Parse_def DirItem_Parse_def ExtentData_Parse_def
  ExtentItem_Parse_def RootItem_Parse_def ChecksumItem_Parse_def with_item_def Let_def

lemma DataItem_Parse_ends: "ends (DataItem_Parse d x)"
  by (cases x) (auto simp: item_parse_defs intro!: ends_gbind checksums_from_ends split: prod.splits)

lemma Key_Parse_ends [simp]: "ends (Key_Parse d k)"
  by (simp add: Key_Parse_eq)

lemma Item_Parse_ends [simp]: "ends (Item_Parse d it)"
  by (simp add: Item_Parse_eq)

lemma parse_items_ends: "ends (parse_items data i its)"
  by (induction data i its rule: parse_items.induct) (auto intro!: ends_gbind split: prod.splits)

lemma parse_data_item_ends: "ends (parse_data_item data it)"
  by (auto simp: parse_data_item_def Item_GetType_def item_key_def intro!: ends_gbind DataItem_Parse_ends
      split: option.splits prod.splits)

lemma parse_data_items_ends: "ends (parse_data_items data its ds)"
  by (induction data its ds rule: parse_data_items.induct) (auto intro!: ends_gbind parse_data_item_ends)

lemma LeafNode_Parse_ends [simp]: "ends (LeafNode_Parse data leaf)"
  by (auto simp: LeafNode_Parse_def intro!: ends_gbind parse_items_ends parse_data_items_ends split: prod.splits)

end
