(* ===== verification/BTRFS_Node.thy ===== *)
theory BTRFS_Node
  imports BTRFS_Leaf Disk_Reader
begin

text \<open>
  The nodes of a BTRFS tree and the volume: \<open>FS/BTRFS/genericnode.go\<close>, \<open>internalnode/structures.go\<close>,
  \<open>btrfs.go\<close>, and the paths of \<open>filedirentry.go\<close>.
\<close>

section \<open>Internal nodes\<close>

text \<open>The key type is declared a second and a third time, with the same fields; one record models them.\<close>

record BlockPointer =
  bp_Key :: "Key option"
  bp_LogicalAddressRefHeader :: u64
  bp_Generation :: u64

definition BlockPointer_layout :: layout where
  "BlockPointer_layout = [(''Key'', Kother), (''LogicalAddressRefHeader'', Kuint64), (''Generation'', Kuint64)]"

definition zero_BlockPointer :: BlockPointer where
  "zero_BlockPointer = \<lparr>bp_Key = None, bp_LogicalAddressRefHeader = 0, bp_Generation = 0\<rparr>"

definition set_BlockPointer :: "val list \<Rightarrow> BlockPointer \<Rightarrow> BlockPointer" where
  "set_BlockPointer v r = r\<lparr>bp_LogicalAddressRefHeader := put_u64 (v ! 1) (bp_LogicalAddressRefHeader r),
     bp_Generation := put_u64 (v ! 2) (bp_Generation r)\<rparr>"

text \<open>The length test compares with the size of a \<open>reflect.Value\<close>, three words, twice.\<close>

definition reflect_Value_size :: nat where "reflect_Value_size = 24"

definition BlockPointer_Parse :: "slice \<Rightarrow> BlockPointer \<Rightarrow> (BlockPointer \<times> nat) go" where
  "BlockPointer_Parse data blockPointer =
     (if slen data < reflect_Value_size then ret (blockPointer, 0)
      else
        gbind (Key_Parse data zero_Key) (\<lambda>(k, _).
        gbind (unmarshal_count BlockPointer_layout set_BlockPointer blockPointer data) (\<lambda>(bp, offset).
          ret (bp\<lparr>bp_Key := Some k\<rparr>, offset))))"

record InternalNode =
  int_Items :: "BlockPointer list"

fun parse_pointers :: "slice \<Rightarrow> nat \<Rightarrow> BlockPointer list \<Rightarrow> (BlockPointer list \<times> nat) go" where
  "parse_pointers data startOffset [] = ret ([], startOffset)"
| "parse_pointers data startOffset (p # ps) =
     gbind (sub_from data startOffset) (\<lambda>d.
     gbind (BlockPointer_Parse d p) (\<lambda>(p', n).
     gbind (parse_pointers data (startOffset + n) ps) (\<lambda>(ps', endOffset). ret (p' # ps', endOffset))))"

definition InternalNode_Parse :: "slice \<Rightarrow> InternalNode \<Rightarrow> (InternalNode \<times> nat) go" where
  "InternalNode_Parse data internalNode =
     gbind (parse_pointers data 0 (int_Items internalNode)) (\<lambda>(ps, n). ret (internalNode\<lparr>int_Items := ps\<rparr>, n))"

section \<open>Generic nodes\<close>

record Header =
  hd_Chksum :: "byte list"
  hd_FsUUID :: "byte list"
  hd_LogicalAddressNode :: u64
  hd_Flags :: "byte list"
  hd_BackRef :: u8
  hd_ChunkTreeUUID :: "byte list"
  hd_Generation :: u64
  hd_Owner :: u64
  hd_NofItems :: u32
  hd_Level :: u8

definition Header_layout :: layout where
  "Header_layout = [(''Chksum'', Karray 32), (''FsUUID'', Karray 16), (''LogicalAddressNode'', Kuint64),
     (''Flags'', Karray 7), (''BackRef'', Kuint8), (''ChunkTreeUUID'', Karray 16), (''Generation'', Kuint64),
     (''Owner'', Kuint64), (''NofItems'', Kuint32), (''Level'', Kuint8)]"

definition zero_Header :: Header where
  "zero_Header = \<lparr>hd_Chksum = replicate 32 0, hd_FsUUID = replicate 16 0, hd_LogicalAddressNode = 0,
     hd_Flags = replicate 7 0, hd_BackRef = 0, hd_ChunkTreeUUID = replicate 16 0, hd_Generation = 0,
     hd_Owner = 0, hd_NofItems = 0, hd_Level = 0\<rparr>"

definition set_Header :: "val list \<Rightarrow> Header \<Rightarrow> Header" where
  "set_Header v r = r\<lparr>hd_Chksum := put_arr (v ! 0) (hd_Chksum r), hd_FsUUID := put_arr (v ! 1) (hd_FsUUID r),
     hd_LogicalAddressNode := put_u64 (v ! 2) (hd_LogicalAddressNode r),
     hd_Flags := put_arr (v ! 3) (hd_Flags r), hd_BackRef := put_u8 (v ! 4) (hd_BackRef r),
     hd_ChunkTreeUUID := put_arr (v ! 5) (hd_ChunkTreeUUID r),
     hd_Generation := put_u64 (v ! 6) (hd_Generation r), hd_Owner := put_u64 (v ! 7) (hd_Owner r),
     hd_NofItems := put_u32 (v ! 8) (hd_NofItems r), hd_Level := put_u8 (v ! 9) (hd_Level r)\<rparr>"

record GenericNode =
  gn_Header :: "Header option"
  gn_LeafNode :: "LeafNode option"
  gn_InternalNode :: "InternalNode option"

definition zero_GenericNode :: GenericNode where
  "zero_GenericNode = \<lparr>gn_Header = None, gn_LeafNode = None, gn_InternalNode = None\<rparr>"

definition the_Header :: "GenericNode \<Rightarrow> Header go" where
  "the_Header node = (case gn_Header node of None \<Rightarrow> panic Nil_dereference | Some h \<Rightarrow> ret h)"

definition ChsumToUint :: "GenericNode \<Rightarrow> u32 go" where
  "ChsumToUint genericNode = gbind (the_Header genericNode) (\<lambda>h. ret (ToUint32 (hd_Chksum h)))"

definition VerifyChkSum :: "slice \<Rightarrow> GenericNode \<Rightarrow> bool go" where
  "VerifyChkSum data genericNode =
     gbind (ChsumToUint genericNode) (\<lambda>c.
     gbind (sub_from data 32) (\<lambda>d. ret (c = CalcCRC32 (bytes d))))"

definition GetGuid :: "GenericNode \<Rightarrow> string go" where
  "GetGuid genericNode = gbind (the_Header genericNode) (\<lambda>h. ret (fst (StringifyGUID (hd_ChunkTreeUUID h))))"

text \<open>The returned offset, or none for the error of a failed verification.\<close>

definition GenericNode_Parse :: "slice \<Rightarrow> bool \<Rightarrow> GenericNode \<Rightarrow> (GenericNode \<times> nat option) go" where
  "GenericNode_Parse data noverify genericNode =
     gbind (unmarshal_count Header_layout set_Header zero_Header data) (\<lambda>(h, offset).
     let genericNode = genericNode\<lparr>gn_Header := Some h\<rparr> in
     gbind (if noverify then ret True else VerifyChkSum data genericNode) (\<lambda>ok.
     if \<not> ok then ret (genericNode, None)
     else
       gbind (sub_from data offset) (\<lambda>d.
       let n = unat (hd_NofItems h) in
       if hd_Level h = 0 then
         gbind (LeafNode_Parse d \<lparr>leaf_Items = replicate n zero_Item, leaf_DataItems = replicate n None\<rparr>) (\<lambda>(leaf, m).
           ret (genericNode\<lparr>gn_LeafNode := Some leaf\<rparr>, Some (offset + m)))
       else
         gbind (InternalNode_Parse d \<lparr>int_Items = replicate n zero_BlockPointer\<rparr>) (\<lambda>(node, m).
           ret (genericNode\<lparr>gn_InternalNode := Some node\<rparr>, Some (offset + m))))))"

text \<open>The items of a leaf with a given object id, with the data items at the same index.\<close>

fun items_by_id :: "u64 \<Rightarrow> Item list \<Rightarrow> DataItem option list \<Rightarrow> (Item list \<times> DataItem option list) go" where
  "items_by_id i [] ds = ret ([], [])"
| "items_by_id i (it # its) ds =
     gbind (item_key it) (\<lambda>k.
       if key_ObjectID k \<noteq> i then items_by_id i its (drop 1 ds)
       else case ds of [] \<Rightarrow> panic Index_out_of_range
         | d # ds' \<Rightarrow> gbind (items_by_id i its ds') (\<lambda>(xs, ys). ret (it # xs, d # ys)))"

definition FilterItemsById :: "u64 \<Rightarrow> GenericNode \<Rightarrow> (Item list \<times> DataItem option list) go" where
  "FilterItemsById i genericNode = (case gn_LeafNode genericNode of
       None \<Rightarrow> ret ([], [])
     | Some leaf \<Rightarrow> items_by_id i (leaf_Items leaf) (leaf_DataItems leaf))"

fun filter_nodes :: "u64 \<Rightarrow> GenericNode list \<Rightarrow> (Item list \<times> DataItem option list) go" where
  "filter_nodes i [] = ret ([], [])"
| "filter_nodes i (node # nodes) =
     gbind (FilterItemsById i node) (\<lambda>(xs, ds).
     gbind (filter_nodes i nodes) (\<lambda>(ys, es). ret (xs @ ys, ds @ es)))"

text \<open>\<open>strconv.ParseUint(id, 10, 64)\<close>: decimal digits only, and the value fits.\<close>

definition ParseUint :: "string \<Rightarrow> u64 option" where
  "ParseUint s =
     (let n = foldl (\<lambda>a c. 10 * a + (of_char c - 48)) (0 :: nat) s in
      if s \<noteq> [] \<and> list_all (\<lambda>c. 48 \<le> (of_char c :: nat) \<and> (of_char c :: nat) \<le> 57) s \<and> n < 2 ^ 64
      then Some (of_nat n) else None)"

fun FilterItemsByIds :: "string list \<Rightarrow> GenericNode list \<Rightarrow> (Item list \<times> DataItem option list) go" where
  "FilterItemsByIds [] nodesPtr = ret ([], [])"
| "FilterItemsByIds (s # ss) nodesPtr = (case ParseUint s of
       None \<Rightarrow> FilterItemsByIds ss nodesPtr
     | Some i \<Rightarrow>
         gbind (filter_nodes i nodesPtr) (\<lambda>(xs, ds).
         gbind (FilterItemsByIds ss nodesPtr) (\<lambda>(ys, es). ret (xs @ ys, ds @ es))))"

section \<open>The volume\<close>

record Superblock =
  sb_Chksum :: "byte list"
  sb_UUID :: "byte list"
  sb_PhysicalAddress :: u64
  sb_Flags :: u64
  sb_Signature :: string
  sb_Generation :: u64
  sb_LogicalAddressRootTree :: u64
  sb_LogicalAddressRootChunkTree :: u64
  sb_LogicalAddressLogRootTree :: u64
  sb_LogRootTransid :: u64
  sb_VolumeSizeB :: u64
  sb_VolumeUsedSizeB :: u64
  sb_ObjectID :: u64
  sb_NofVolumeDevices :: u64
  sb_SectorSize :: u32
  sb_NodeSize :: u32
  sb_LeafSize :: u32
  sb_StripeSize :: u32
  sb_SystemChunkArrSize :: u32
  sb_ChunkRootGeneration :: u64
  sb_CompatFlags :: u64
  sb_CompatROFlags :: u64
  sb_InCompatFlags :: u64
  sb_CsumType :: u16
  sb_RootLevel :: u8
  sb_ChunkRootLevel :: u8
  sb_LogRootLevel :: u8
  sb_DevItem :: "DevItem option"
  sb_Label :: "byte list"
  sb_Reserved :: "byte list"
  sb_SystemChunkArr :: "byte list"

definition Superblock_layout :: layout where
  "Superblock_layout = [(''Chksum'', Karray 32), (''UUID'', Karray 16), (''PhysicalAddress'', Kuint64), (''Flags'', Kuint64),
     (''Signature'', Kother), (''Generation'', Kuint64), (''LogicalAddressRootTree'', Kuint64),
     (''LogicalAddressRootChunkTree'', Kuint64), (''LogicalAddressLogRootTree'', Kuint64),
     (''LogRootTransid'', Kuint64), (''VolumeSizeB'', Kuint64), (''VolumeUsedSizeB'', Kuint64),
     (''ObjectID'', Kuint64), (''NofVolumeDevices'', Kuint64), (''SectorSize'', Kuint32),
     (''NodeSize'', Kuint32), (''LeafSize'', Kuint32), (''StripeSize'', Kuint32),
     (''SystemChunkArrSize'', Kuint32), (''ChunkRootGeneration'', Kuint64), (''CompatFlags'', Kuint64),
     (''CompatROFlags'', Kuint64), (''InCompatFlags'', Kuint64), (''CsumType'', Kuint16),
     (''RootLevel'', Kuint8), (''ChunkRootLevel'', Kuint8), (''LogRootLevel'', Kuint8),
     (''DevItem'', Kother), (''Label'', Karray 256), (''Reserved'', Karray 256),
     (''SystemChunkArr'', Karray 2048)]"

definition zero_Superblock :: Superblock where
  "zero_Superblock = \<lparr>sb_Chksum = replicate 32 0, sb_UUID = replicate 16 0, sb_PhysicalAddress = 0, sb_Flags = 0,
     sb_Signature = [], sb_Generation = 0, sb_LogicalAddressRootTree = 0, sb_LogicalAddressRootChunkTree = 0,
     sb_LogicalAddressLogRootTree = 0, sb_LogRootTransid = 0, sb_VolumeSizeB = 0, sb_VolumeUsedSizeB = 0,
     sb_ObjectID = 0, sb_NofVolumeDevices = 0, sb_SectorSize = 0, sb_NodeSize = 0, sb_LeafSize = 0,
     sb_StripeSize = 0, sb_SystemChunkArrSize = 0, sb_ChunkRootGeneration = 0, sb_CompatFlags = 0,
     sb_CompatROFlags = 0, sb_InCompatFlags = 0, sb_CsumType = 0, sb_RootLevel = 0, sb_ChunkRootLevel = 0,
     sb_LogRootLevel = 0, sb_DevItem = None, sb_Label = replicate 256 0, sb_Reserved = replicate 256 0,
     sb_SystemChunkArr = replicate 2048 0\<rparr>"

definition set_Superblock :: "val list \<Rightarrow> Superblock \<Rightarrow> Superblock" where
  "set_Superblock v r = r\<lparr>sb_Chksum := put_arr (v ! 0) (sb_Chksum r), sb_UUID := put_arr (v ! 1) (sb_UUID r),
     sb_PhysicalAddress := put_u64 (v ! 2) (sb_PhysicalAddress r), sb_Flags := put_u64 (v ! 3) (sb_Flags r),
     sb_Generation := put_u64 (v ! 5) (sb_Generation r),
     sb_LogicalAddressRootTree := put_u64 (v ! 6) (sb_LogicalAddressRootTree r),
     sb_LogicalAddressRootChunkTree := put_u64 (v ! 7) (sb_LogicalAddressRootChunkTree r),
     sb_LogicalAddressLogRootTree := put_u64 (v ! 8) (sb_LogicalAddressLogRootTree r),
     sb_LogRootTransid := put_u64 (v ! 9) (sb_LogRootTransid r),
     sb_VolumeSizeB := put_u64 (v ! 10) (sb_VolumeSizeB r),
     sb_VolumeUsedSizeB := put_u64 (v ! 11) (sb_VolumeUsedSizeB r),
     sb_ObjectID := put_u64 (v ! 12) (sb_ObjectID r),
     sb_NofVolumeDevices := put_u64 (v ! 13) (sb_NofVolumeDevices r),
     sb_SectorSize := put_u32 (v ! 14) (sb_SectorSize r), sb_NodeSize := put_u32 (v ! 15) (sb_NodeSize r),
     sb_LeafSize := put_u32 (v ! 16) (sb_LeafSize r), sb_StripeSize := put_u32 (v ! 17) (sb_StripeSize r),
     sb_SystemChunkArrSize := put_u32 (v ! 18) (sb_SystemChunkArrSize r),
     sb_ChunkRootGeneration := put_u64 (v ! 19) (sb_ChunkRootGeneration r),
     sb_CompatFlags := put_u64 (v ! 20) (sb_CompatFlags r),
     sb_CompatROFlags := put_u64 (v ! 21) (sb_CompatROFlags r),
     sb_InCompatFlags := put_u64 (v ! 22) (sb_InCompatFlags r),
     sb_CsumType := put_u16 (v ! 23) (sb_CsumType r), sb_RootLevel := put_u8 (v ! 24) (sb_RootLevel r),
     sb_ChunkRootLevel := put_u8 (v ! 25) (sb_ChunkRootLevel r),
     sb_LogRootLevel := put_u8 (v ! 26) (sb_LogRootLevel r), sb_Label := put_arr (v ! 28) (sb_Label r),
     sb_Reserved := put_arr (v ! 29) (sb_Reserved r),
     sb_SystemChunkArr := put_arr (v ! 30) (sb_SystemChunkArr r)\<rparr>"

record BTRFS =
  bt_Superblock :: "Superblock option"

definition the_Superblock :: "BTRFS \<Rightarrow> Superblock go" where
  "the_Superblock btrfs = (case bt_Superblock btrfs of None \<Rightarrow> panic Nil_dereference | Some s \<Rightarrow> ret s)"

definition BTRFS_Parse :: "slice \<Rightarrow> BTRFS \<Rightarrow> BTRFS go" where
  "BTRFS_Parse data btrfs =
     gbind (unmarshal_count Superblock_layout set_Superblock zero_Superblock data) (\<lambda>(s, _).
     gbind (DevItem_Parse data zero_DevItem) (\<lambda>(d, _).
       ret (btrfs\<lparr>bt_Superblock := Some (s\<lparr>sb_DevItem := Some d\<rparr>)\<rparr>)))"

definition BTRFS_Process :: "reader \<Rightarrow> i64 \<Rightarrow> BTRFS \<Rightarrow> BTRFS go" where
  "BTRFS_Process rd part btrfs = gbind (rd part 1024) (\<lambda>data. BTRFS_Parse (full data) btrfs)"

definition VerifySuperBlock :: "slice \<Rightarrow> BTRFS \<Rightarrow> bool go" where
  "VerifySuperBlock data btrfs =
     gbind (the_Superblock btrfs) (\<lambda>s.
     gbind (sub_from data 32) (\<lambda>d. ret (ToUint32 (sb_Chksum s) = CalcCRC32 (bytes d))))"

text \<open>A node for a pair of a key and a chunk item.\<close>

definition chunk_node :: "Key \<Rightarrow> ChunkItem \<Rightarrow> GenericNode" where
  "chunk_node k c = zero_GenericNode\<lparr>gn_LeafNode := Some
     \<lparr>leaf_Items = [zero_Item\<lparr>item_Key := Some k\<rparr>], leaf_DataItems = [Some (DChunkItem c)]\<rparr>\<rparr>"

text \<open>The loop ends because every key that is parsed advances the offset.\<close>

partial_function (option) system_chunks_from :: "slice \<Rightarrow> nat \<Rightarrow> GenericNode list \<Rightarrow> GenericNode list go" where
  "system_chunks_from data curOffset nodes =
     (if curOffset < slen data then
        gbind (sub_from data curOffset) (\<lambda>d.
        gbind (Key_Parse d zero_Key) (\<lambda>(k, n).
        gbind (sub_from data (curOffset + n)) (\<lambda>d.
        gbind (ChunkItem_Parse d zero_ChunkItem) (\<lambda>(c, m).
          system_chunks_from data (curOffset + n + m) (nodes @ [chunk_node k c])))))
      else ret nodes)"

definition ParseSystemChunks :: "BTRFS \<Rightarrow> GenericNode list go" where
  "ParseSystemChunks btrfs =
     gbind (the_Superblock btrfs) (\<lambda>s.
     gbind (sub (full (sb_SystemChunkArr s)) 0 (unat (sb_SystemChunkArrSize s))) (\<lambda>data.
       system_chunks_from data 0 []))"

definition BTRFS_GetSectorsPerCluster :: "BTRFS \<Rightarrow> i64 go" where
  "BTRFS_GetSectorsPerCluster btrfs = gbind (the_Superblock btrfs) (\<lambda>s. ret (ucast (sb_NodeSize s)))"

definition BTRFS_GetBytesPerSector :: "BTRFS \<Rightarrow> u64 go" where
  "BTRFS_GetBytesPerSector btrfs = gbind (the_Superblock btrfs) (\<lambda>s. ret (ucast (sb_SectorSize s)))"

definition BTRFS_GetSignature :: "BTRFS \<Rightarrow> string go" where
  "BTRFS_GetSignature btrfs = gbind (the_Superblock btrfs) (\<lambda>s. ret (sb_Signature s))"

section \<open>Files and directories\<close>

text \<open>Pointers between entries are indices into a store of entries.\<close>

record Extent =
  ext_Offset :: int
  ext_LSize :: int
  ext_PSize :: int

record FileDirEntry =
  fd_Id :: int
  fd_SizeB :: int
  fd_StBlock :: int
  fd_Nlink :: int
  fd_Uid :: int
  fd_Gid :: int
  fd_Index :: int
  fd_Name :: string
  fd_Type :: string
  fd_Flags :: string
  fd_ATime :: TimeSpec
  fd_CTime :: TimeSpec
  fd_MTime :: TimeSpec
  fd_OTime :: TimeSpec
  fd_Children :: "nat list"
  fd_Parent :: "nat option"
  fd_Path :: string
  fd_Extents :: "Extent list"

text \<open>A number in the format \<open>%d\<close>, and the sizes in the order the code passes them.\<close>

definition GetExtentsInfo :: "FileDirEntry \<Rightarrow> string" where
  "GetExtentsInfo e = concat (map (\<lambda>x. '' off '' @ show_int (ext_Offset x) @ '' Ps '' @ show_int (ext_LSize x) @
     '' Ls '' @ show_int (ext_PSize x) @ ''|'') (fd_Extents e))"

type_synonym entries = "FileDirEntry list"

definition fd_at :: "entries \<Rightarrow> nat \<Rightarrow> FileDirEntry go" where
  "fd_at es p = (if p < length es then ret (es ! p) else panic Nil_dereference)"

text \<open>The id, or -1 with an error.\<close>

definition GetParentId :: "entries \<Rightarrow> FileDirEntry \<Rightarrow> (int \<times> bool) go" where
  "GetParentId es e = (case fd_Parent e of
       Some p \<Rightarrow> gbind (fd_at es p) (\<lambda>parent. ret (fd_Id parent, True))
     | None \<Rightarrow> ret (- 1, False))"

text \<open>The names of the ancestors from the parent upwards.\<close>

partial_function (option) parent_names :: "entries \<Rightarrow> nat option \<Rightarrow> string list go" where
  "parent_names es parent = (case parent of
       None \<Rightarrow> ret []
     | Some p \<Rightarrow> gbind (fd_at es p) (\<lambda>e. gbind (parent_names es (fd_Parent e)) (\<lambda>ns. ret (fd_Name e # ns))))"

definition joined_path :: "string list \<Rightarrow> string" where
  "joined_path paths = concat (map (\<lambda>n. if n = [] then [] else CHR 0x5C # n) (rev paths))"

text \<open>The path of an entry, then those of its children.\<close>

partial_function (option) build_all :: "entries \<Rightarrow> nat list \<Rightarrow> entries go" where
  "build_all es ps = (case ps of
       [] \<Rightarrow> ret es
     | p # ps' \<Rightarrow>
         gbind (fd_at es p) (\<lambda>e.
         gbind (parent_names es (fd_Parent e)) (\<lambda>ns.
         let es = es[p := e\<lparr>fd_Path := fd_Path e @ joined_path ns\<rparr>] in
         gbind (build_all es (fd_Children e)) (\<lambda>es. build_all es ps'))))"

definition BuildPath :: "entries \<Rightarrow> nat \<Rightarrow> entries go" where
  "BuildPath es p = build_all es [p]"

section \<open>Verified nodes\<close>

lemma Header_Parse:
  assumes "101 \<le> slen data" and "wf_slice data"
  shows "\<exists>h. unmarshal_count Header_layout set_Header zero_Header data = ret (h, 101) \<and> hd_Chksum h = take 32 (arr data)"
proof -
  have "Unmarshal Header_layout data = ret (layout_values Header_layout (arr data) 0, 101, True)"
    using Unmarshal_ok [of Header_layout data] assms by (simp add: Header_layout_def plain_layout_def)
  then show ?thesis by (simp add: unmarshal_count_def set_Header_def Header_layout_def)
qed

text \<open>C27: A corrupted node is rejected. Take a node whose stored checksum is the one of its bytes, and
  change it within four consecutive bytes behind the checksum: \<open>Parse\<close> with verification reads the
  header, returns the error and builds neither a leaf nor an internal node.\<close>

theorem GenericNode_Parse_detects:
  assumes "length chk = 32" and "69 \<le> length (xs @ as @ ys)" and "ToUint32 chk = CalcCRC32 (xs @ as @ ys)"
    and "length as = length bs" and "length as \<le> 4" and "as \<noteq> bs"
  shows "\<exists>h. GenericNode_Parse (full (chk @ xs @ bs @ ys)) False genericNode =
    ret (genericNode\<lparr>gn_Header := Some h\<rparr>, None)"
proof -
  let ?d = "full (chk @ xs @ bs @ ys)"
  obtain h where h: "unmarshal_count Header_layout set_Header zero_Header ?d = ret (h, 101)" "hd_Chksum h = chk"
    using Header_Parse [of ?d] assms(1,2,4) by auto
  have "sub_from ?d 32 = ret (full (xs @ bs @ ys))"
    using assms(1) by (simp add: sub_from_def full_def)
  moreover have "ToUint32 chk \<noteq> CalcCRC32 (xs @ bs @ ys)"
    using assms(3-6) by (simp add: CalcCRC32_inj)
  ultimately show ?thesis
    using h by (intro exI [of _ h]) (simp add: GenericNode_Parse_def VerifyChkSum_def ChsumToUint_def the_Header_def Let_def)
qed

theorem GenericNode_Parse_detects_witness:
  "\<exists>h. GenericNode_Parse (full (le_bytes 4 (unat (CalcCRC32 (replicate 69 0))) @ replicate 28 0 @ [1] @ replicate 68 0)) False zero_GenericNode =
    ret (zero_GenericNode\<lparr>gn_Header := Some h\<rparr>, None)"
proof -
  have "ToUint32 (le_bytes 4 (unat (CalcCRC32 (replicate 69 0))) @ replicate 28 0) = CalcCRC32 (replicate 69 0)"
    by (simp add: ToUint32_def le_nat_le_bytes unat_mod_sizes)
  then show ?thesis
    using GenericNode_Parse_detects [of "le_bytes 4 (unat (CalcCRC32 (replicate 69 0))) @ replicate 28 0" "[]" "[0]" "replicate 68 0" "[1]"]
    by (simp flip: replicate_Suc)
qed

section \<open>Parsing always ends\<close>

lemma parse_pointers_ends: "ends (parse_pointers data i ps)"
  by (induction data i ps rule: parse_pointers.induct)
    (auto simp: BlockPointer_Parse_def intro!: ends_gbind split: prod.splits)

lemma InternalNode_Parse_ends [simp]: "ends (InternalNode_Parse data node)"
  by (auto simp: InternalNode_Parse_def intro!: ends_gbind parse_pointers_ends split: prod.splits)

lemma system_chunks_ends: "ends (system_chunks_from data i nodes)"
proof (induction "slen data - i" arbitrary: i nodes rule: less_induct)
  case less
  show ?case
  proof (cases "i < slen data")
    case True
    have "ends (system_chunks_from data (i + 17 + m) ns)" for m ns using less [of "i + 17 + m" ns] True by simp
    then show ?thesis using True
      by (subst system_chunks_from.simps) (auto simp: Key_Parse_eq intro!: ends_gbind split: prod.splits if_splits)
  qed (subst system_chunks_from.simps, simp)
qed

text \<open>Parsing a node ends, whatever the bytes, and so does the bootstrap of the system chunks:
  the code returns a node, returns an error or panics with an index out of bounds, but no count
  of items, no length of a chunk and no checksum makes it loop for ever.\<close>

theorem BTRFS_parsers_end:
  "ends (GenericNode_Parse data noverify genericNode) \<and> ends (ParseSystemChunks btrfs)"
proof
  show "ends (GenericNode_Parse data noverify genericNode)"
    by (auto simp: GenericNode_Parse_def VerifyChkSum_def ChsumToUint_def the_Header_def Let_def
        intro!: ends_gbind split: prod.splits option.splits if_splits)
  show "ends (ParseSystemChunks btrfs)"
    by (auto simp: ParseSystemChunks_def the_Superblock_def intro!: ends_gbind system_chunks_ends split: option.splits)
qed

section \<open>The system chunks\<close>

definition key_vals :: "Key \<Rightarrow> val list" where
  "key_vals k = [VU64 (key_ObjectID k), VU8 (key_ItemType k), VU64 (key_Offset k)]"

definition pair_bytes :: "Key \<times> ChunkItem \<Rightarrow> byte list" where
  "pair_bytes p = marshal Key_layout (key_vals (fst p)) @ chunk_bytes (snd p)"

lemma Key_Parse_bytes:
  "0 < n \<Longrightarrow> Key_Parse (Slice (marshal Key_layout (key_vals k) @ rest) n) zero_Key = ret (k, 17)"
proof -
  have "layout_values Key_layout ([] @ marshal Key_layout (key_vals k) @ rest) (length ([] :: byte list)) = map decoded (key_vals k)"
    by (rule layout_values_marshal) (simp add: Key_layout_def key_vals_def)
  then have "key_at (marshal Key_layout (key_vals k) @ rest) 0 = k"
    by (simp add: Key_layout_def key_vals_def key_at_def)
  moreover have "length (marshal Key_layout (key_vals k)) = 17" by (simp add: Key_layout_def key_vals_def)
  ultimately show ?thesis by (simp add: Key_Parse_eq)
qed

lemma system_chunks_bytes:
  "\<forall>p \<in> set ps. chunk_ok (snd p) \<Longrightarrow>
    system_chunks_from (Slice (pre @ concat (map pair_bytes ps) @ rest) (length pre + length (concat (map pair_bytes ps)))) (length pre) nodes =
      ret (nodes @ map (\<lambda>p. chunk_node (fst p) (snd p)) ps)"
proof (induction ps arbitrary: pre nodes)
  case Nil
  then show ?case by (subst system_chunks_from.simps) simp
next
  case (Cons p ps)
  obtain k c where p: "p = (k, c)" by (cases p)
  let ?k = "marshal Key_layout (key_vals k)"
  let ?post = "concat (map pair_bytes ps) @ rest"
  let ?m = "length (concat (map pair_bytes ps))"
  let ?d = "Slice (pre @ pair_bytes p @ ?post) (length pre + (length (pair_bytes p) + ?m))"
  have c: "chunk_ok c" using Cons.prems p by simp
  have k: "length ?k = 17" by (simp add: Key_layout_def key_vals_def)
  have len: "length (pair_bytes p) = 17 + length (chunk_bytes c)" by (simp add: p pair_bytes_def k)
  have ne: "pair_bytes (k, c) \<noteq> []" using len p by auto
  have "sub_from ?d (length pre) = ret (Slice (?k @ chunk_bytes c @ ?post) (length (pair_bytes p) + ?m))"
    by (simp add: sub_from_def p pair_bytes_def)
  moreover have "Key_Parse (Slice (?k @ chunk_bytes c @ ?post) (length (pair_bytes p) + ?m)) zero_Key = ret (k, 17)"
    by (rule Key_Parse_bytes) (simp add: len)
  moreover have "sub_from ?d (length pre + 17) = ret (Slice (chunk_bytes c @ ?post) (length (chunk_bytes c) + ?m))"
    by (simp add: sub_from_def len) (simp add: p pair_bytes_def k)
  moreover have "ChunkItem_Parse (Slice (chunk_bytes c @ ?post) (length (chunk_bytes c) + ?m)) zero_ChunkItem = ret (c, length (chunk_bytes c))"
    by (rule ChunkItem_Parse_bytes [OF c]) simp
  moreover have "system_chunks_from ?d (length pre + 17 + length (chunk_bytes c)) (nodes @ [chunk_node k c]) =
      ret ((nodes @ [chunk_node k c]) @ map (\<lambda>p. chunk_node (fst p) (snd p)) ps)"
    using Cons.IH [of "pre @ pair_bytes p" "nodes @ [chunk_node k c]"] Cons.prems by (simp add: len add.assoc)
  ultimately have "system_chunks_from ?d (length pre) nodes = ret (nodes @ map (\<lambda>p. chunk_node (fst p) (snd p)) (p # ps))"
    using ne by (subst system_chunks_from.simps) (simp add: len p)
  then show ?case by simp
qed

text \<open>C29: The bootstrap of a BTRFS volume. When the array of the superblock begins with the encoded
  pairs of a key and a chunk item, each chunk with as many stripes as it says, and the size field
  is their length, \<open>ParseSystemChunks\<close> returns exactly these pairs in order, one leaf with one
  item for each, whatever the rest of the array holds.\<close>

theorem ParseSystemChunks_roundtrip:
  assumes "bt_Superblock btrfs = Some s" and "\<forall>p \<in> set ps. chunk_ok (snd p)"
    and "sb_SystemChunkArr s = concat (map pair_bytes ps) @ rest"
    and "unat (sb_SystemChunkArrSize s) = length (concat (map pair_bytes ps))"
  shows "ParseSystemChunks btrfs = ret (map (\<lambda>p. chunk_node (fst p) (snd p)) ps)"
proof -
  have "sub (full (sb_SystemChunkArr s)) 0 (unat (sb_SystemChunkArrSize s)) =
      ret (Slice (concat (map pair_bytes ps) @ rest) (length (concat (map pair_bytes ps))))"
    using assms(3,4) by (simp add: sub_def)
  then show ?thesis
    using system_chunks_bytes [OF assms(2), of "[]" rest "[]"] assms(1) by (simp add: ParseSystemChunks_def the_Superblock_def)
qed

definition sample_chunk :: ChunkItem where
  "sample_chunk = zero_ChunkItem\<lparr>chunk_Size := 4096, chunk_NofStripes := 1,
     chunk_Stripes := [\<lparr>stripe_DeviceID = 1, stripe_Offset = 65536, stripe_DeviceUUID = replicate 16 7\<rparr>]\<rparr>"

theorem ParseSystemChunks_roundtrip_witness:
  "ParseSystemChunks \<lparr>bt_Superblock = Some (zero_Superblock\<lparr>sb_SystemChunkArrSize := 194,
      sb_SystemChunkArr := concat (map pair_bytes [(\<lparr>key_ObjectID = 256, key_ItemType = 0xe4, key_Offset = 9\<rparr>, sample_chunk),
        (zero_Key, sample_chunk)]) @ [1, 2]\<rparr>)\<rparr> =
    ret [chunk_node \<lparr>key_ObjectID = 256, key_ItemType = 0xe4, key_Offset = 9\<rparr> sample_chunk, chunk_node zero_Key sample_chunk]"
proof -
  have c: "chunk_ok sample_chunk" by (simp add: chunk_ok_def sample_chunk_def zero_ChunkItem_def)
  have "length (chunk_bytes sample_chunk) = 80" using length_chunk_bytes [OF c] by (simp add: sample_chunk_def zero_ChunkItem_def)
  then have "length (pair_bytes (k, sample_chunk)) = 97" for k
    by (simp add: pair_bytes_def Key_layout_def key_vals_def)
  then show ?thesis
    using ParseSystemChunks_roundtrip [of "\<lparr>bt_Superblock = Some (zero_Superblock\<lparr>sb_SystemChunkArrSize := 194,
      sb_SystemChunkArr := concat (map pair_bytes [(\<lparr>key_ObjectID = 256, key_ItemType = 0xe4, key_Offset = 9\<rparr>, sample_chunk),
        (zero_Key, sample_chunk)]) @ [1, 2]\<rparr>)\<rparr>" _ "[(\<lparr>key_ObjectID = 256, key_ItemType = 0xe4, key_Offset = 9\<rparr>, sample_chunk),
        (zero_Key, sample_chunk)]" "[1, 2]"] c by simp
qed

section \<open>Paths\<close>

text \<open>The names above an entry, along the parent pointers; the entries below a list of entries, in the
  order of the recursion.\<close>

inductive ancestors :: "entries \<Rightarrow> nat option \<Rightarrow> string list \<Rightarrow> bool" for es where
  anc_root: "ancestors es None []"
| anc_step: "p < length es \<Longrightarrow> ancestors es (fd_Parent (es ! p)) ns \<Longrightarrow> ancestors es (Some p) (fd_Name (es ! p) # ns)"

inductive visits :: "entries \<Rightarrow> nat list \<Rightarrow> nat list \<Rightarrow> bool" for es where
  vis_nil: "visits es [] []"
| vis_cons: "p < length es \<Longrightarrow> visits es (fd_Children (es ! p)) qs \<Longrightarrow> visits es ps rs \<Longrightarrow> visits es (p # ps) (p # qs @ rs)"

primrec path_of :: "string list \<Rightarrow> string" where \<comment> \<open>the nearest ancestor comes first in the list and last in the path\<close>
  "path_of [] = []"
| "path_of (n # ns) = path_of ns @ (if n = [] then [] else CHR 0x5C # n)"

lemma joined_path_of: "joined_path ns = path_of ns"
  by (induction ns) (auto simp: joined_path_def)

definition with_path :: "(nat \<Rightarrow> string list) \<Rightarrow> nat \<Rightarrow> FileDirEntry \<Rightarrow> FileDirEntry" where
  "with_path names q e = e\<lparr>fd_Path := fd_Path e @ path_of (names q)\<rparr>"

definition with_paths :: "(nat \<Rightarrow> string list) \<Rightarrow> nat set \<Rightarrow> entries \<Rightarrow> entries" where
  "with_paths names Q es = map (\<lambda>q. if q \<in> Q then with_path names q (es ! q) else es ! q) [0..<length es]"

definition same_but_paths :: "entries \<Rightarrow> entries \<Rightarrow> bool" where
  "same_but_paths es es' \<longleftrightarrow> length es' = length es \<and>
     (\<forall>q < length es. fd_Name (es' ! q) = fd_Name (es ! q) \<and> fd_Parent (es' ! q) = fd_Parent (es ! q) \<and>
        fd_Children (es' ! q) = fd_Children (es ! q))"

lemma with_paths_simps [simp]:
  "length (with_paths names Q es) = length es"
  "q < length es \<Longrightarrow> with_paths names Q es ! q = (if q \<in> Q then with_path names q (es ! q) else es ! q)"
  by (simp_all add: with_paths_def)

lemma same_with_paths: "same_but_paths es es' \<Longrightarrow> same_but_paths es (with_paths names Q es')"
  by (auto simp: same_but_paths_def with_path_def)

lemma with_paths_union: "Q \<inter> R = {} \<Longrightarrow> with_paths names R (with_paths names Q es) = with_paths names (Q \<union> R) es"
  by (rule nth_equalityI) auto

lemma with_paths_one: "p < length es \<Longrightarrow> es[p := with_path names p (es ! p)] = with_paths names {p} es"
  by (rule nth_equalityI) (auto simp: nth_list_update)

lemma parent_names_ancestors:
  "ancestors es p ns \<Longrightarrow> same_but_paths es es' \<Longrightarrow> parent_names es' p = ret ns"
proof (induction rule: ancestors.induct)
  case anc_root
  then show ?case by (subst parent_names.simps) simp
next
  case (anc_step p ns)
  then show ?case by (subst parent_names.simps) (simp add: fd_at_def same_but_paths_def)
qed

lemma build_all_paths:
  "visits es ps qs \<Longrightarrow> distinct qs \<Longrightarrow> \<forall>q \<in> set qs. ancestors es (fd_Parent (es ! q)) (names q) \<Longrightarrow>
    same_but_paths es es' \<Longrightarrow> build_all es' ps = ret (with_paths names (set qs) es')"
proof (induction arbitrary: es' rule: visits.induct)
  case vis_nil
  have "with_paths names {} es' = es'" by (rule nth_equalityI) auto
  then show ?case by (subst build_all.simps) simp
next
  case (vis_cons p qs ps rs)
  let ?es1 = "with_paths names {p} es'" and ?es2 = "with_paths names (set qs) (with_paths names {p} es')"
  have p: "p < length es'" "fd_Parent (es' ! p) = fd_Parent (es ! p)" "fd_Children (es' ! p) = fd_Children (es ! p)"
    using vis_cons.prems(3) vis_cons.hyps(1) by (auto simp: same_but_paths_def)
  have s1: "same_but_paths es ?es1" by (rule same_with_paths [OF vis_cons.prems(3)])
  have "parent_names es' (fd_Parent (es' ! p)) = ret (names p)"
    using vis_cons.prems by (intro parent_names_ancestors [of es]) (simp_all add: p)
  moreover have "build_all ?es1 (fd_Children (es ! p)) = ret ?es2"
    using vis_cons.prems by (intro vis_cons.IH(1) s1) auto
  moreover have "build_all ?es2 ps = ret (with_paths names (set rs) ?es2)"
    using vis_cons.prems by (intro vis_cons.IH(2) same_with_paths s1) auto
  moreover have "with_paths names (set rs) ?es2 = with_paths names (set (p # qs @ rs)) es'"
  proof -
    have "{p} \<inter> set qs = {}" "({p} \<union> set qs) \<inter> set rs = {}" using vis_cons.prems(1) by auto
    then have "with_paths names (set rs) ?es2 = with_paths names (({p} \<union> set qs) \<union> set rs) es'"
      by (simp only: with_paths_union)
    then show ?thesis by (simp add: insert_is_Un [symmetric])
  qed
  moreover have "es'[p := (es' ! p)\<lparr>fd_Path := fd_Path (es' ! p) @ joined_path (names p)\<rparr>] = ?es1"
    using with_paths_one [OF p(1), of names] by (simp add: with_path_def joined_path_of)
  ultimately show ?case
    using p by (subst build_all.simps) (simp add: fd_at_def Let_def)
qed

text \<open>C30: The paths of a directory tree. If the entries below an entry form a tree (the recursion over the
  children meets each of them once) and the parents of each reach a root, \<open>BuildPath\<close> returns,
  appends to the path of exactly these entries the names of their ancestors from the root down,
  each after a backslash and the empty name of a root left out, and changes nothing else.\<close>

theorem BuildPath_paths:
  assumes "visits es [p] qs" and "distinct qs" and "\<forall>q \<in> set qs. ancestors es (fd_Parent (es ! q)) (names q)"
  shows "BuildPath es p = ret (with_paths names (set qs) es)"
  using build_all_paths [OF assms, of es] by (simp add: BuildPath_def same_but_paths_def)

definition sample_entry :: "string \<Rightarrow> nat list \<Rightarrow> nat option \<Rightarrow> FileDirEntry" where
  "sample_entry n cs p = \<lparr>fd_Id = 0, fd_SizeB = 0, fd_StBlock = 0, fd_Nlink = 0, fd_Uid = 0, fd_Gid = 0, fd_Index = 0,
     fd_Name = n, fd_Type = [], fd_Flags = [], fd_ATime = \<lparr>Sec = 0, Nsec = 0\<rparr>, fd_CTime = \<lparr>Sec = 0, Nsec = 0\<rparr>,
     fd_MTime = \<lparr>Sec = 0, Nsec = 0\<rparr>, fd_OTime = \<lparr>Sec = 0, Nsec = 0\<rparr>, fd_Children = cs, fd_Parent = p,
     fd_Path = [], fd_Extents = []\<rparr>"

definition sample_entries :: entries where
  "sample_entries = [sample_entry [] [1] None, sample_entry ''etc'' [2] (Some 0), sample_entry ''ssh'' [3] (Some 1), sample_entry ''config'' [] (Some 2)]"

theorem BuildPath_paths_witness:
  "\<exists>es. BuildPath sample_entries 0 = ret es \<and> map fd_Path es =
    [[], [], CHR 0x5C # ''etc'', (CHR 0x5C # ''etc'') @ (CHR 0x5C # ''ssh'')]"
proof -
  let ?names = "(\<lambda>_. [])(1 := [[]], 2 := [''etc'', []], 3 := [''ssh'', ''etc'', []])"
  have v3: "visits sample_entries [3] (3 # [] @ [])"
    by (rule vis_cons) (simp_all add: sample_entries_def sample_entry_def vis_nil)
  have v2: "visits sample_entries [2] (2 # (3 # [] @ []) @ [])"
    by (rule vis_cons) (use v3 in \<open>simp_all add: sample_entries_def sample_entry_def vis_nil\<close>)
  have v1: "visits sample_entries [1] (1 # (2 # (3 # [] @ []) @ []) @ [])"
    by (rule vis_cons) (use v2 in \<open>simp_all add: sample_entries_def sample_entry_def vis_nil\<close>)
  have v: "visits sample_entries [0] (0 # (1 # (2 # (3 # [] @ []) @ []) @ []) @ [])"
    by (rule vis_cons) (use v1 in \<open>simp_all add: sample_entries_def sample_entry_def vis_nil\<close>)
  have a0: "ancestors sample_entries None []" by (rule anc_root)
  have a1: "ancestors sample_entries (Some 0) [[]]"
    using anc_step [of 0 sample_entries "[]"] a0 by (simp add: sample_entries_def sample_entry_def)
  have a2: "ancestors sample_entries (Some 1) [''etc'', []]"
    using anc_step [of 1 sample_entries "[[]]"] a1 by (simp add: sample_entries_def sample_entry_def)
  have a3: "ancestors sample_entries (Some 2) [''ssh'', ''etc'', []]"
    using anc_step [of 2 sample_entries "[''etc'', []]"] a2 by (simp add: sample_entries_def sample_entry_def)
  have "BuildPath sample_entries 0 =
      ret (with_paths ?names (set (0 # (1 # (2 # (3 # [] @ []) @ []) @ []) @ [])) sample_entries)"
    using a0 a1 a2 a3 by (intro BuildPath_paths v) (simp_all add: sample_entries_def sample_entry_def)
  then show ?thesis
    by (simp add: with_paths_def sample_entries_def sample_entry_def with_path_def upt_rec)
qed

end
