(* ===== verification/LVM.thy ===== *)
theory LVM
  imports BTRFS_Node
begin

text \<open>
  The LVM2 physical volume of \<open>disk/volume/lvm.go\<close>: its labels and headers, the loop over the data
  areas, and the BTRFS volume behind the first of them. \<open>GetInfo\<close>, which prints the configuration
  as JSON, is left out.
\<close>

section \<open>The headers\<close>

record DataAreaDescriptor =
  da_OffsetB :: i64
  da_LenB :: u64

definition DataAreaDescriptor_layout :: layout where
  "DataAreaDescriptor_layout = [(''OffsetB'', Kint64), (''LenB'', Kuint64)]"

definition zero_DataAreaDescriptor :: DataAreaDescriptor where
  "zero_DataAreaDescriptor = \<lparr>da_OffsetB = 0, da_LenB = 0\<rparr>"

definition set_DataAreaDescriptor :: "val list \<Rightarrow> DataAreaDescriptor \<Rightarrow> DataAreaDescriptor" where
  "set_DataAreaDescriptor v r = r\<lparr>da_OffsetB := put_i64 (v ! 0) (da_OffsetB r), da_LenB := put_u64 (v ! 1) (da_LenB r)\<rparr>"

record RawLocationDescriptor =
  rl_Offset :: i64
  rl_Len :: u64
  rl_Chksum :: "byte list"
  rl_Flags :: u64

definition RawLocationDescriptor_layout :: layout where
  "RawLocationDescriptor_layout = [(''Offset'', Kint64), (''Len'', Kuint64), (''Chksum'', Karray 4), (''Flags'', Kuint64)]"

definition zero_RawLocationDescriptor :: RawLocationDescriptor where
  "zero_RawLocationDescriptor = \<lparr>rl_Offset = 0, rl_Len = 0, rl_Chksum = replicate 4 0, rl_Flags = 0\<rparr>"

definition set_RawLocationDescriptor :: "val list \<Rightarrow> RawLocationDescriptor \<Rightarrow> RawLocationDescriptor" where
  "set_RawLocationDescriptor v r = r\<lparr>rl_Offset := put_i64 (v ! 0) (rl_Offset r), rl_Len := put_u64 (v ! 1) (rl_Len r),
     rl_Chksum := put_arr (v ! 2) (rl_Chksum r), rl_Flags := put_u64 (v ! 3) (rl_Flags r)\<rparr>"

record PhysicalVolLabelHeader =
  pl_Signature :: "byte list"
  pl_SectorNum :: u64
  pl_Chksum :: "byte list"
  pl_HeaderSize :: u32
  pl_IndicatorType :: "byte list"

definition PhysicalVolLabelHeader_layout :: layout where
  "PhysicalVolLabelHeader_layout = [(''Signature'', Karray 8), (''SectorNum'', Kuint64), (''Chksum'', Karray 4), (''HeaderSize'', Kuint32),
     (''IndicatorType'', Karray 8)]"

definition zero_PhysicalVolLabelHeader :: PhysicalVolLabelHeader where
  "zero_PhysicalVolLabelHeader = \<lparr>pl_Signature = replicate 8 0, pl_SectorNum = 0, pl_Chksum = replicate 4 0, pl_HeaderSize = 0,
     pl_IndicatorType = replicate 8 0\<rparr>"

definition set_PhysicalVolLabelHeader :: "val list \<Rightarrow> PhysicalVolLabelHeader \<Rightarrow> PhysicalVolLabelHeader" where
  "set_PhysicalVolLabelHeader v r = r\<lparr>pl_Signature := put_arr (v ! 0) (pl_Signature r), pl_SectorNum := put_u64 (v ! 1) (pl_SectorNum r),
     pl_Chksum := put_arr (v ! 2) (pl_Chksum r), pl_HeaderSize := put_u32 (v ! 3) (pl_HeaderSize r),
     pl_IndicatorType := put_arr (v ! 4) (pl_IndicatorType r)\<rparr>"

record PhysicalVolHeader =
  pv_UUID :: "byte list"
  pv_VolSize :: u64
  pv_DataAreaDescriptors :: "DataAreaDescriptor list"

definition PhysicalVolHeader_layout :: layout where
  "PhysicalVolHeader_layout = [(''UUID'', Karray 32), (''VolSize'', Kuint64), (''DataAreaDescriptors'', Kother)]"

definition zero_PhysicalVolHeader :: PhysicalVolHeader where
  "zero_PhysicalVolHeader = \<lparr>pv_UUID = replicate 32 0, pv_VolSize = 0, pv_DataAreaDescriptors = []\<rparr>"

definition set_PhysicalVolHeader :: "val list \<Rightarrow> PhysicalVolHeader \<Rightarrow> PhysicalVolHeader" where
  "set_PhysicalVolHeader v r = r\<lparr>pv_UUID := put_arr (v ! 0) (pv_UUID r), pv_VolSize := put_u64 (v ! 1) (pv_VolSize r)\<rparr>"

record MetadataAreaHeader =
  ma_Chksum :: "byte list"
  ma_Signature :: "byte list"
  ma_Version :: u32
  ma_Offset :: i64
  ma_Size :: i64
  ma_RawLocationDescriptors :: "RawLocationDescriptor list"

definition MetadataAreaHeader_layout :: layout where
  "MetadataAreaHeader_layout = [(''Chksum'', Karray 4), (''Signature'', Karray 16), (''Version'', Kuint32), (''Offset'', Kint64),
     (''Size'', Kint64), (''RawLocationDescriptors'', Kother)]"

definition zero_MetadataAreaHeader :: MetadataAreaHeader where
  "zero_MetadataAreaHeader = \<lparr>ma_Chksum = replicate 4 0, ma_Signature = replicate 16 0, ma_Version = 0, ma_Offset = 0, ma_Size = 0,
     ma_RawLocationDescriptors = []\<rparr>"

definition set_MetadataAreaHeader :: "val list \<Rightarrow> MetadataAreaHeader \<Rightarrow> MetadataAreaHeader" where
  "set_MetadataAreaHeader v r = r\<lparr>ma_Chksum := put_arr (v ! 0) (ma_Chksum r), ma_Signature := put_arr (v ! 1) (ma_Signature r),
     ma_Version := put_u32 (v ! 2) (ma_Version r), ma_Offset := put_i64 (v ! 3) (ma_Offset r),
     ma_Size := put_i64 (v ! 4) (ma_Size r)\<rparr>"

record PhysicalVolLabel =
  lab_LabelHeader :: PhysicalVolLabelHeader
  lab_VolHeader :: PhysicalVolHeader
  lab_MetadataAreaHeader :: "MetadataAreaHeader option"

record LVM2 =
  lvm_Header :: "PhysicalVolLabel option"
  lvm_ConfigurationInfo :: string

definition the_Label :: "LVM2 \<Rightarrow> PhysicalVolLabel go" where
  "the_Label lvm2 = (case lvm_Header lvm2 of None \<Rightarrow> panic Nil_dereference | Some h \<Rightarrow> ret h)"

section \<open>Parsing\<close>

text \<open>The loop over the data areas; it ends at an offset of zero or behind the data.\<close>

function data_areas_from :: "slice \<Rightarrow> nat \<Rightarrow> nat \<Rightarrow> DataAreaDescriptor \<Rightarrow> DataAreaDescriptor list \<Rightarrow> DataAreaDescriptor list go" where
  "data_areas_from data offset currOffset desc acc =
     (if da_OffsetB desc \<noteq> 0 then
        gbind (sub_from data (offset + currOffset)) (\<lambda>d.
        gbind (unmarshal_count DataAreaDescriptor_layout set_DataAreaDescriptor desc d) (\<lambda>(desc', n).
          if n = 0 then None else data_areas_from data offset (currOffset + n) desc' (acc @ [desc])))
      else ret acc)"
  by pat_completeness auto
termination
  by (relation "measure (\<lambda>(data, offset, currOffset, desc, acc). Suc (slen data) - (offset + currOffset))")
    (auto simp: sub_from_eq_ret)

declare data_areas_from.simps [simp del]

definition PhysicalVolHeader_Parse :: "slice \<Rightarrow> PhysicalVolHeader \<Rightarrow> PhysicalVolHeader go" where
  "PhysicalVolHeader_Parse data physicalVolHeader =
     gbind (unmarshal_count PhysicalVolHeader_layout set_PhysicalVolHeader physicalVolHeader data) (\<lambda>(h, offset).
     gbind (sub_from data offset) (\<lambda>d.
     gbind (unmarshal_count DataAreaDescriptor_layout set_DataAreaDescriptor zero_DataAreaDescriptor d) (\<lambda>(desc, currOffset).
     gbind (data_areas_from data offset currOffset desc (pv_DataAreaDescriptors h)) (\<lambda>ds.
       ret (h\<lparr>pv_DataAreaDescriptors := ds\<rparr>)))))"

definition PhysicalVolLabel_Parse :: "slice \<Rightarrow> PhysicalVolLabel go" where
  "PhysicalVolLabel_Parse data =
     gbind (unmarshal_count PhysicalVolLabelHeader_layout set_PhysicalVolLabelHeader zero_PhysicalVolLabelHeader data) (\<lambda>(l, _).
     gbind (sub_from data (unat (pl_HeaderSize l))) (\<lambda>d.
     gbind (PhysicalVolHeader_Parse d zero_PhysicalVolHeader) (\<lambda>h.
       ret \<lparr>lab_LabelHeader = l, lab_VolHeader = h, lab_MetadataAreaHeader = None\<rparr>)))"

definition LVM2_Parse :: "slice \<Rightarrow> LVM2 \<Rightarrow> LVM2 go" where
  "LVM2_Parse data lvm2 =
     gbind (sub_from data 512) (\<lambda>d.
     gbind (PhysicalVolLabel_Parse d) (\<lambda>h. ret (lvm2\<lparr>lvm_Header := Some h\<rparr>)))"

text \<open>The descriptors are read at the stride that \<open>GetStructSize\<close> computes, which leaves out the checksum.\<close>

definition RawLocationDescriptor_shape :: "shape list" where
  "RawLocationDescriptor_shape = [Sint 8, Sint 8, Sother, Sint 8]"

fun raw_locations :: "slice \<Rightarrow> nat \<Rightarrow> nat list \<Rightarrow> RawLocationDescriptor list go" where
  "raw_locations data offset [] = ret []"
| "raw_locations data offset (idx # idxs) =
     gbind (GetStructSize RawLocationDescriptor_shape 0) (\<lambda>n.
     gbind (sub data (offset + idx * n) (offset + (idx + 1) * n)) (\<lambda>d.
     gbind (unmarshal_count RawLocationDescriptor_layout set_RawLocationDescriptor zero_RawLocationDescriptor d) (\<lambda>(r, _).
     gbind (raw_locations data offset idxs) (\<lambda>rs. ret (r # rs)))))"

definition ParseMetaHeader :: "slice \<Rightarrow> LVM2 \<Rightarrow> LVM2 go" where
  "ParseMetaHeader data lvm2 =
     gbind (unmarshal_count MetadataAreaHeader_layout set_MetadataAreaHeader zero_MetadataAreaHeader data) (\<lambda>(m, offset).
     gbind (raw_locations data offset [0, 1, 2, 3]) (\<lambda>rs.
     gbind (the_Label lvm2) (\<lambda>h.
       ret (lvm2\<lparr>lvm_Header := Some (h\<lparr>lab_MetadataAreaHeader := Some (m\<lparr>ma_RawLocationDescriptors := rs\<rparr>)\<rparr>)\<rparr>))))"

section \<open>The volume\<close>

definition ProcessHeader :: "reader \<Rightarrow> i64 \<Rightarrow> LVM2 \<Rightarrow> LVM2 go" where
  "ProcessHeader rd physicalOffsetB lvm2 =
     gbind (rd physicalOffsetB 4096) (\<lambda>data.
     gbind (LVM2_Parse (full data) lvm2) (\<lambda>lvm2.
     gbind (rd (physicalOffsetB + 4096) 512) (\<lambda>data.
     gbind (ParseMetaHeader (full data) lvm2) (\<lambda>lvm2.
     gbind (the_Label lvm2) (\<lambda>h. case lab_MetadataAreaHeader h of
         None \<Rightarrow> panic Nil_dereference
       | Some m \<Rightarrow> (case ma_RawLocationDescriptors m of
             [] \<Rightarrow> panic Index_out_of_range
           | r # _ \<Rightarrow> gbind (rd (physicalOffsetB + 4096 + rl_Offset r) (rl_Len r)) (\<lambda>data.
               ret (lvm2\<lparr>lvm_ConfigurationInfo := byte_string data\<rparr>))))))))"

text \<open>The BTRFS volume is read and dropped: \<open>Process\<close> leaves the LVM volume as it is.\<close>

definition LVM2_Process :: "reader \<Rightarrow> i64 \<Rightarrow> LVM2 \<Rightarrow> LVM2 go" where
  "LVM2_Process rd physicalOffsetB lvm2 =
     gbind (the_Label lvm2) (\<lambda>h. case pv_DataAreaDescriptors (lab_VolHeader h) of
         [] \<Rightarrow> panic Index_out_of_range
       | a # _ \<Rightarrow> gbind (BTRFS_Process rd (physicalOffsetB + da_OffsetB a + 128 * 512) \<lparr>bt_Superblock = None\<rparr>) (\<lambda>_.
           ret lvm2))"

definition LVM2_GetBytesPerSector :: u64 where "LVM2_GetBytesPerSector = 512"

definition LVM2_GetSectorsPerCluster :: i64 where "LVM2_GetSectorsPerCluster = 0"

definition LVM2_GetSignature :: "LVM2 \<Rightarrow> string go" where
  "LVM2_GetSignature lvm2 = gbind (the_Label lvm2) (\<lambda>h. ret (byte_string (pl_Signature (lab_LabelHeader h))))"

section \<open>The label on disk\<close>

definition area_bytes :: "DataAreaDescriptor \<Rightarrow> byte list" where
  "area_bytes a = marshal DataAreaDescriptor_layout [VI64 (da_OffsetB a), VU64 (da_LenB a)]"

definition label_bytes :: "PhysicalVolLabelHeader \<Rightarrow> byte list" where
  "label_bytes l = marshal PhysicalVolLabelHeader_layout [VArr (pl_Signature l), VU64 (pl_SectorNum l),
     VArr (pl_Chksum l), VU32 (pl_HeaderSize l), VArr (pl_IndicatorType l)]"

definition label_ok :: "PhysicalVolLabelHeader \<Rightarrow> bool" where
  "label_ok l \<longleftrightarrow> length (pl_Signature l) = 8 \<and> length (pl_Chksum l) = 4 \<and> length (pl_IndicatorType l) = 8"

text \<open>The header of the volume, its data areas, and the descriptor of zeros that ends them.\<close>

definition volume_bytes :: "PhysicalVolHeader \<Rightarrow> byte list" where
  "volume_bytes h = marshal PhysicalVolHeader_layout [VArr (pv_UUID h), VU64 (pv_VolSize h), VKeep] @
     concat (map area_bytes (pv_DataAreaDescriptors h)) @ area_bytes zero_DataAreaDescriptor"

lemma length_area_bytes [simp]: "length (area_bytes a) = 16"
  by (simp add: area_bytes_def DataAreaDescriptor_layout_def)

lemma sub_from_full: "sub_from (full (pre @ xs)) (length pre) = ret (full xs)"
  by (simp add: sub_from_def full_def)

lemma marshalled_full:
  "all_fit L vs \<Longrightarrow> plain_layout L \<Longrightarrow> 0 < layout_size L \<Longrightarrow>
    unmarshal_count L setter r (full (marshal L vs @ rest)) = ret (setter (map decoded vs) r, layout_size L)"
  by (simp add: full_def marshalled length_marshal)

lemma area_at:
  "unmarshal_count DataAreaDescriptor_layout set_DataAreaDescriptor r (full (area_bytes a @ rest)) = ret (a, 16)"
  unfolding area_bytes_def
  by (subst marshalled_full) (simp_all add: DataAreaDescriptor_layout_def plain_layout_def set_DataAreaDescriptor_def)

lemma data_areas_from_bytes:
  "\<forall>a \<in> set areas. da_OffsetB a \<noteq> 0 \<Longrightarrow> da_OffsetB desc \<noteq> 0 \<Longrightarrow> offset + currOffset = length pre \<Longrightarrow>
    data_areas_from (full (pre @ concat (map area_bytes areas) @ area_bytes zero_DataAreaDescriptor @ rest))
      offset currOffset desc acc = ret (acc @ desc # areas)"
proof (induction areas arbitrary: pre currOffset desc acc)
  case Nil
  then show ?case
    by (subst data_areas_from.simps)
      (simp add: sub_from_full area_at, subst data_areas_from.simps, simp add: zero_DataAreaDescriptor_def)
next
  case (Cons a areas)
  let ?post = "concat (map area_bytes areas) @ area_bytes zero_DataAreaDescriptor @ rest"
  have "data_areas_from (full ((pre @ area_bytes a) @ ?post)) offset (currOffset + 16) a (acc @ [desc]) =
      ret ((acc @ [desc]) @ a # areas)"
    using Cons.prems by (intro Cons.IH) auto
  then show ?case
    using Cons.prems by (subst data_areas_from.simps) (simp add: sub_from_full area_at)
qed

lemma PhysicalVolHeader_Parse_bytes:
  assumes "length (pv_UUID h) = 32" and "\<forall>a \<in> set (pv_DataAreaDescriptors h). da_OffsetB a \<noteq> 0"
  shows "PhysicalVolHeader_Parse (full (volume_bytes h @ rest)) zero_PhysicalVolHeader = ret h"
proof -
  let ?m = "marshal PhysicalVolHeader_layout [VArr (pv_UUID h), VU64 (pv_VolSize h), VKeep]"
  let ?areas = "pv_DataAreaDescriptors h"
  let ?post = "concat (map area_bytes ?areas) @ area_bytes zero_DataAreaDescriptor @ rest"
  have m: "length ?m = 40" using assms(1) by (simp add: PhysicalVolHeader_layout_def)
  have h: "unmarshal_count PhysicalVolHeader_layout set_PhysicalVolHeader zero_PhysicalVolHeader (full (?m @ ?post)) =
      ret (h\<lparr>pv_DataAreaDescriptors := []\<rparr>, 40)"
    using assms(1) by (subst marshalled_full)
      (simp_all add: PhysicalVolHeader_layout_def plain_layout_def set_PhysicalVolHeader_def zero_PhysicalVolHeader_def)
  have d: "sub_from (full (?m @ ?post)) 40 = ret (full ?post)" using sub_from_full [of ?m ?post] m by simp
  have "gbind (unmarshal_count DataAreaDescriptor_layout set_DataAreaDescriptor zero_DataAreaDescriptor (full ?post))
      (\<lambda>(desc, currOffset). data_areas_from (full (?m @ ?post)) 40 currOffset desc []) = ret ?areas"
  proof (cases ?areas)
    case Nil
    then show ?thesis
      by (simp add: area_at) (subst data_areas_from.simps, simp add: zero_DataAreaDescriptor_def)
  next
    case (Cons a areas)
    have "data_areas_from (full ((?m @ area_bytes a) @ concat (map area_bytes areas) @ area_bytes zero_DataAreaDescriptor @ rest))
        40 16 a [] = ret ([] @ a # areas)"
      using assms(2) m Cons by (intro data_areas_from_bytes) auto
    then show ?thesis by (simp add: Cons area_at)
  qed
  then show ?thesis
    unfolding PhysicalVolHeader_Parse_def volume_bytes_def append_assoc
    by (auto simp: h d gbind_eq_ret)
qed

text \<open>C33: The label of a physical volume. On bytes that hold, in their second sector, an encoded label
  header, a gap up to the header size it states, and the encoded volume header with its data areas
  and the descriptor of zeros behind them, \<open>LVM2.Parse\<close> returns exactly this label, with all data
  areas in order, whatever the first sector and the bytes behind hold.\<close>

theorem LVM2_Parse_roundtrip:
  assumes "length first = 512" and "label_ok l" and "unat (pl_HeaderSize l) = 32 + length gap"
    and "length (pv_UUID h) = 32" and "\<forall>a \<in> set (pv_DataAreaDescriptors h). da_OffsetB a \<noteq> 0"
  shows "LVM2_Parse (full (first @ label_bytes l @ gap @ volume_bytes h @ rest)) lvm2 =
    ret (lvm2\<lparr>lvm_Header := Some \<lparr>lab_LabelHeader = l, lab_VolHeader = h, lab_MetadataAreaHeader = None\<rparr>\<rparr>)"
proof -
  have "sub_from (full (first @ label_bytes l @ gap @ volume_bytes h @ rest)) 512 =
      ret (full (label_bytes l @ gap @ volume_bytes h @ rest))"
    using sub_from_full [of first] assms(1) by simp
  moreover have "unmarshal_count PhysicalVolLabelHeader_layout set_PhysicalVolLabelHeader zero_PhysicalVolLabelHeader
      (full (label_bytes l @ gap @ volume_bytes h @ rest)) = ret (l, 32)"
    using assms(2) unfolding label_bytes_def
    by (subst marshalled_full) (simp_all add: label_ok_def PhysicalVolLabelHeader_layout_def plain_layout_def
        set_PhysicalVolLabelHeader_def zero_PhysicalVolLabelHeader_def)
  moreover have "length (label_bytes l) = 32"
    using assms(2) by (simp add: label_bytes_def label_ok_def PhysicalVolLabelHeader_layout_def)
  then have "sub_from (full (label_bytes l @ gap @ volume_bytes h @ rest)) (unat (pl_HeaderSize l)) = ret (full (volume_bytes h @ rest))"
    using sub_from_full [of "label_bytes l @ gap" "volume_bytes h @ rest"] assms(3) by simp
  ultimately show ?thesis
    by (simp add: LVM2_Parse_def PhysicalVolLabel_Parse_def PhysicalVolHeader_Parse_bytes [OF assms(4,5)])
qed

theorem LVM2_Parse_roundtrip_witness:
  "\<exists>lvm. LVM2_Parse (full (replicate 512 0 @ label_bytes (zero_PhysicalVolLabelHeader\<lparr>pl_HeaderSize := 34\<rparr>) @ [1, 2] @
      volume_bytes (zero_PhysicalVolHeader\<lparr>pv_VolSize := 9, pv_DataAreaDescriptors :=
        [\<lparr>da_OffsetB = 1048576, da_LenB = 0\<rparr>, \<lparr>da_OffsetB = 4096, da_LenB = 512\<rparr>]\<rparr>) @ [3]))
      \<lparr>lvm_Header = None, lvm_ConfigurationInfo = []\<rparr> = ret lvm \<and>
    map_option (\<lambda>l. map da_OffsetB (pv_DataAreaDescriptors (lab_VolHeader l))) (lvm_Header lvm) = Some [1048576, 4096]"
  using LVM2_Parse_roundtrip [of "replicate 512 0" "zero_PhysicalVolLabelHeader\<lparr>pl_HeaderSize := 34\<rparr>" "[1, 2]"
    "zero_PhysicalVolHeader\<lparr>pv_VolSize := 9, pv_DataAreaDescriptors :=
        [\<lparr>da_OffsetB = 1048576, da_LenB = 0\<rparr>, \<lparr>da_OffsetB = 4096, da_LenB = 512\<rparr>]\<rparr>" "[3]"]
  by (simp add: label_ok_def zero_PhysicalVolLabelHeader_def zero_PhysicalVolHeader_def)

end
