(* ===== verification/Partitions.thy ===== *)
theory Partitions
  imports Volume_NTFS LVM
begin

text \<open>
  The partition tables: \<open>disk/partition/MBR/mbr.go\<close>, \<open>disk/partition/GPT/gpt.go\<close>, the superblock of a Linux
  RAID member (\<open>disk/raid/mdraid.go\<close>), and the probing of a partition for a volume. The volume interface
  is a datatype of its two implementations that occur here.
\<close>

section \<open>Volumes\<close>

datatype Volume = VNTFS NTFS | VLVM LVM2

fun vol_GetBytesPerSector :: "Volume \<Rightarrow> u64 go" where
  "vol_GetBytesPerSector (VNTFS n) = GetBytesPerSector n"
| "vol_GetBytesPerSector (VLVM l) = ret LVM2_GetBytesPerSector"

fun vol_GetSectorsPerCluster :: "Volume \<Rightarrow> i64 go" where
  "vol_GetSectorsPerCluster (VNTFS n) = GetSectorsPerCluster n"
| "vol_GetSectorsPerCluster (VLVM l) = ret LVM2_GetSectorsPerCluster"

fun vol_GetSignature :: "Volume \<Rightarrow> string go" where
  "vol_GetSignature (VNTFS n) = NTFS_GetSignature n"
| "vol_GetSignature (VLVM l) = LVM2_GetSignature l"

section \<open>The master boot record\<close>

definition PartitionTypes :: "(u8 \<times> string) list" where
  "PartitionTypes = [(0x07, ''HPFS/NTFS/exFAT''), (0x0c, ''W95 FAT32 (LBA)''), (0x0f, ''Extended''), (0x27, ''Hidden NTFS Win'')]"

record Partition =
  mp_Flag :: u8
  mp_StartCHS :: "byte list"
  mp_Type :: u8
  mp_EndCHS :: "byte list"
  mp_StartLBA :: u32
  mp_Size :: u32
  mp_Volume :: "Volume option"

definition Partition_layout :: layout where
  "Partition_layout = [(''Flag'', Kuint8), (''StartCHS'', Karray 3), (''Type'', Kuint8), (''EndCHS'', Karray 3),
     (''StartLBA'', Kuint32), (''Size'', Kuint32), (''Volume'', Kother)]"

definition zero_Partition :: Partition where
  "zero_Partition = \<lparr>mp_Flag = 0, mp_StartCHS = replicate 3 0, mp_Type = 0, mp_EndCHS = replicate 3 0, mp_StartLBA = 0,
     mp_Size = 0, mp_Volume = None\<rparr>"

definition set_Partition :: "val list \<Rightarrow> Partition \<Rightarrow> Partition" where
  "set_Partition v r = r\<lparr>mp_Flag := put_u8 (v ! 0) (mp_Flag r), mp_StartCHS := put_arr (v ! 1) (mp_StartCHS r),
     mp_Type := put_u8 (v ! 2) (mp_Type r), mp_EndCHS := put_arr (v ! 3) (mp_EndCHS r),
     mp_StartLBA := put_u32 (v ! 4) (mp_StartLBA r), mp_Size := put_u32 (v ! 5) (mp_Size r)\<rparr>"

record ExtendedPartition =
  ep_Partition :: Partition
  ep_TableOffset :: i64

record MBR =
  mbr_BootCode :: "byte list"
  mbr_Partitions :: "Partition list"
  mbr_ExtendedPartitions :: "ExtendedPartition list"
  mbr_Signature :: "byte list"

definition MBR_layout :: layout where
  "MBR_layout = [(''BootCode'', Karray 446), (''Partitions'', Kother), (''ExtendedPartitions'', Kother),
     (''Signature'', Karray 2)]"

definition zero_MBR :: MBR where
  "zero_MBR = \<lparr>mbr_BootCode = replicate 446 0, mbr_Partitions = [], mbr_ExtendedPartitions = [],
     mbr_Signature = replicate 2 0\<rparr>"

definition set_MBR :: "val list \<Rightarrow> MBR \<Rightarrow> MBR" where
  "set_MBR v r = r\<lparr>mbr_BootCode := put_arr (v ! 0) (mbr_BootCode r), mbr_Signature := put_arr (v ! 3) (mbr_Signature r)\<rparr>"

definition Partition_GetOffset :: "Partition \<Rightarrow> u64" where
  "Partition_GetOffset partn = ucast (mp_StartLBA partn)"

definition Partition_GetPartitionType :: "Partition \<Rightarrow> string" where
  "Partition_GetPartitionType partn = lookup_str PartitionTypes (mp_Type partn)"

definition Partition_LocateVolume :: "reader \<Rightarrow> Partition \<Rightarrow> Partition go" where
  "Partition_LocateVolume rd partn =
     gbind (rd (Partition_GetOffset partn * 512) 512) (\<lambda>data.
     if mp_Type partn = 0x07 \<or> mp_Type partn = 0x17 then
       gbind (AddVolume (full data) \<lparr>ntfs_VBR = None, ntfs_MFT = None\<rparr>) (\<lambda>ntfs.
       gbind (HasValidSignature ntfs) (\<lambda>ok.
         ret (partn\<lparr>mp_Volume := (if ok then Some (VNTFS ntfs) else None)\<rparr>)))
     else ret partn)"

definition Extended_GetOffset :: "ExtendedPartition \<Rightarrow> u64" where
  "Extended_GetOffset extPartition = ucast (mp_StartLBA (ep_Partition extPartition)) + ep_TableOffset extPartition"

definition Extended_LocateVolume :: "reader \<Rightarrow> ExtendedPartition \<Rightarrow> ExtendedPartition go" where
  "Extended_LocateVolume rd extPartition =
     gbind (Partition_LocateVolume rd (ep_Partition extPartition)) (\<lambda>p. ret (extPartition\<lparr>ep_Partition := p\<rparr>))"

definition Extended_GetVolume :: "ExtendedPartition \<Rightarrow> Volume option" where
  "Extended_GetVolume extPartition = mp_Volume (ep_Partition extPartition)"

definition IsProtective :: "MBR \<Rightarrow> bool go" where
  "IsProtective mbr = (case mbr_Partitions mbr of [] \<Rightarrow> panic Index_out_of_range | p # _ \<Rightarrow> ret (mp_Type p = 0xEE))"

definition MBR_GetPartition :: "MBR \<Rightarrow> nat \<Rightarrow> Partition go" where
  "MBR_GetPartition mbr n = (if n < length (mbr_Partitions mbr) then ret (mbr_Partitions mbr ! n) else panic Index_out_of_range)"

function locate_partitions_from :: "slice \<Rightarrow> nat \<Rightarrow> Partition list go" where
  "locate_partitions_from data pos =
     (if pos < slen data then
        gbind (sub data pos (pos + 16)) (\<lambda>d.
        gbind (unmarshal_count Partition_layout set_Partition zero_Partition d) (\<lambda>(p, _).
        gbind (locate_partitions_from data (pos + 16)) (\<lambda>ps. ret (p # ps))))
      else ret [])"
  by pat_completeness auto
termination
  by (relation "measure (\<lambda>(data, pos). slen data - pos)") auto

declare locate_partitions_from.simps [simp del]

definition LocatePartitions :: "slice \<Rightarrow> Partition list go" where
  "LocatePartitions data = locate_partitions_from data 0"

definition PopulatePseudoMBR :: "string \<Rightarrow> MBR \<Rightarrow> MBR go" where
  "PopulatePseudoMBR voltype mbr =
     gbind (unmarshal_count Partition_layout set_Partition zero_Partition (full (replicate 16 0))) (\<lambda>(p, _).
       ret (mbr\<lparr>mbr_Partitions := [if voltype = ''NTFS'' then p\<lparr>mp_Type := 0x07\<rparr> else p]\<rparr>))"

definition DiscoverExtendedPartitions :: "slice \<Rightarrow> i64 \<Rightarrow> MBR \<Rightarrow> MBR go" where
  "DiscoverExtendedPartitions buffer offset mbr =
     gbind (sub buffer 446 510) (\<lambda>d.
     gbind (LocatePartitions d) (\<lambda>ps.
       ret (mbr\<lparr>mbr_ExtendedPartitions := map (\<lambda>p. \<lparr>ep_Partition = p, ep_TableOffset = offset\<rparr>) ps\<rparr>)))"

definition MBR_Parse :: "slice \<Rightarrow> MBR \<Rightarrow> MBR go" where
  "MBR_Parse buffer mbr =
     gbind (unmarshal_count MBR_layout set_MBR mbr buffer) (\<lambda>(m, _).
     gbind (sub buffer 446 510) (\<lambda>d.
     gbind (LocatePartitions d) (\<lambda>ps. ret (m\<lparr>mbr_Partitions := ps\<rparr>))))"

text \<open>The offset of the first extended partition; none with the error.\<close>

definition GetExtendedPartitionOffset :: "MBR \<Rightarrow> i64 option" where
  "GetExtendedPartitionOffset mbr =
     map_option Partition_GetOffset (find (\<lambda>p. mp_Type p = 0x0f) (mbr_Partitions mbr))"

definition UpdateExtendedPartitionsOffsets :: "u32 \<Rightarrow> MBR \<Rightarrow> MBR" where
  "UpdateExtendedPartitionsOffsets extendedTableSectorOffset mbr = mbr\<lparr>mbr_Partitions :=
     map (\<lambda>p. if mp_Type p \<noteq> 0x0f then p else p\<lparr>mp_StartLBA := mp_StartLBA p + extendedTableSectorOffset\<rparr>)
       (mbr_Partitions mbr)\<rparr>"

section \<open>The GUID partition table\<close>

record RaidSuperblock =
  raid_Magic :: "byte list"
  raid_MajorVersion :: u32
  raid_FeatureMap :: u32
  raid_Pad0 :: "byte list"
  raid_UUID :: "byte list"
  raid_RaidName :: "byte list"
  raid_CTime :: u64
  raid_RaidLevel :: u32
  raid_RaidLayout :: u32
  raid_Size :: u64
  raid_ChunkSize :: u32
  raid_DevicesNum :: u32
  raid_Uknown :: "byte list"
  raid_DataOffset :: u64
  raid_DataSize :: u64
  raid_SuperOffset :: u64
  raid_Uknown2 :: "byte list"
  raid_DevNum :: u32
  raid_NofCorrectedReads :: u32
  raid_DeviceUUID :: "byte list"
  raid_DeviceFlags :: u8
  raid_BBlogShift :: u8
  raid_BBlogSize :: u16
  raid_BBlogOffset :: u32
  raid_UTime :: u64
  raid_Events :: u64
  raid_ReSyncOffset :: u64
  raid_SBChksum :: "byte list"
  raid_MaxDevices :: u32
  raid_Pad32 :: "byte list"
  raid_DevRoles :: "u32 list"

definition RaidSuperblock_layout :: layout where
  "RaidSuperblock_layout = [(''Magic'', Karray 4), (''MajorVersion'', Kuint32), (''FeatureMap'', Kuint32), (''Pad0'', Karray 4),
     (''UUID'', Karray 16), (''RaidName'', Karray 32), (''CTime'', Kuint64), (''RaidLevel'', Kuint32),
     (''RaidLayout'', Kuint32), (''Size'', Kuint64), (''ChunkSize'', Kuint32), (''DevicesNum'', Kuint32),
     (''Uknown'', Karray 32), (''DataOffset'', Kuint64), (''DataSize'', Kuint64), (''SuperOffset'', Kuint64),
     (''Uknown2'', Karray 8), (''DevNum'', Kuint32), (''NofCorrectedReads'', Kuint32),
     (''DeviceUUID'', Karray 16), (''DeviceFlags'', Kuint8), (''BBlogShift'', Kuint8),
     (''BBlogSize'', Kuint16), (''BBlogOffset'', Kuint32), (''UTime'', Kuint64), (''Events'', Kuint64),
     (''ReSyncOffset'', Kuint64), (''SBChksum'', Karray 4), (''MaxDevices'', Kuint32),
     (''Pad32'', Karray 32), (''DevRoles'', Kother)]"

definition zero_RaidSuperblock :: RaidSuperblock where
  "zero_RaidSuperblock = \<lparr>raid_Magic = replicate 4 0, raid_MajorVersion = 0, raid_FeatureMap = 0, raid_Pad0 = replicate 4 0,
     raid_UUID = replicate 16 0, raid_RaidName = replicate 32 0, raid_CTime = 0, raid_RaidLevel = 0,
     raid_RaidLayout = 0, raid_Size = 0, raid_ChunkSize = 0, raid_DevicesNum = 0,
     raid_Uknown = replicate 32 0, raid_DataOffset = 0, raid_DataSize = 0, raid_SuperOffset = 0,
     raid_Uknown2 = replicate 8 0, raid_DevNum = 0, raid_NofCorrectedReads = 0,
     raid_DeviceUUID = replicate 16 0, raid_DeviceFlags = 0, raid_BBlogShift = 0, raid_BBlogSize = 0,
     raid_BBlogOffset = 0, raid_UTime = 0, raid_Events = 0, raid_ReSyncOffset = 0,
     raid_SBChksum = replicate 4 0, raid_MaxDevices = 0, raid_Pad32 = replicate 32 0, raid_DevRoles = []\<rparr>"

definition set_RaidSuperblock :: "val list \<Rightarrow> RaidSuperblock \<Rightarrow> RaidSuperblock" where
  "set_RaidSuperblock v r = r\<lparr>raid_Magic := put_arr (v ! 0) (raid_Magic r),
     raid_MajorVersion := put_u32 (v ! 1) (raid_MajorVersion r),
     raid_FeatureMap := put_u32 (v ! 2) (raid_FeatureMap r), raid_Pad0 := put_arr (v ! 3) (raid_Pad0 r),
     raid_UUID := put_arr (v ! 4) (raid_UUID r), raid_RaidName := put_arr (v ! 5) (raid_RaidName r),
     raid_CTime := put_u64 (v ! 6) (raid_CTime r), raid_RaidLevel := put_u32 (v ! 7) (raid_RaidLevel r),
     raid_RaidLayout := put_u32 (v ! 8) (raid_RaidLayout r), raid_Size := put_u64 (v ! 9) (raid_Size r),
     raid_ChunkSize := put_u32 (v ! 10) (raid_ChunkSize r),
     raid_DevicesNum := put_u32 (v ! 11) (raid_DevicesNum r),
     raid_Uknown := put_arr (v ! 12) (raid_Uknown r),
     raid_DataOffset := put_u64 (v ! 13) (raid_DataOffset r),
     raid_DataSize := put_u64 (v ! 14) (raid_DataSize r),
     raid_SuperOffset := put_u64 (v ! 15) (raid_SuperOffset r),
     raid_Uknown2 := put_arr (v ! 16) (raid_Uknown2 r), raid_DevNum := put_u32 (v ! 17) (raid_DevNum r),
     raid_NofCorrectedReads := put_u32 (v ! 18) (raid_NofCorrectedReads r),
     raid_DeviceUUID := put_arr (v ! 19) (raid_DeviceUUID r),
     raid_DeviceFlags := put_u8 (v ! 20) (raid_DeviceFlags r),
     raid_BBlogShift := put_u8 (v ! 21) (raid_BBlogShift r),
     raid_BBlogSize := put_u16 (v ! 22) (raid_BBlogSize r),
     raid_BBlogOffset := put_u32 (v ! 23) (raid_BBlogOffset r),
     raid_UTime := put_u64 (v ! 24) (raid_UTime r), raid_Events := put_u64 (v ! 25) (raid_Events r),
     raid_ReSyncOffset := put_u64 (v ! 26) (raid_ReSyncOffset r),
     raid_SBChksum := put_arr (v ! 27) (raid_SBChksum r),
     raid_MaxDevices := put_u32 (v ! 28) (raid_MaxDevices r), raid_Pad32 := put_arr (v ! 29) (raid_Pad32 r)\<rparr>"

record GPTHeader =
  gh_StartSignature :: "byte list"
  gh_Revision :: "byte list"
  gh_HeaderSize :: u32
  gh_HeaderCRC :: u32
  gh_Reserved :: "byte list"
  gh_CurrentLBA :: u64
  gh_BackupLBA :: u64
  gh_FirstUsableLBA :: u64
  gh_LastUsableLBA :: u64
  gh_DiskGUID :: "byte list"
  gh_PartitionsStartLBA :: u64
  gh_NofPartitions :: u32
  gh_PartitionSize :: u32
  gh_PartionArrayCRC :: u32
  gh_Reserved2 :: "byte list"
  gh_EndSignature :: "byte list"

definition GPTHeader_layout :: layout where
  "GPTHeader_layout = [(''StartSignature'', Karray 8), (''Revision'', Karray 4), (''HeaderSize'', Kuint32),
     (''HeaderCRC'', Kuint32), (''Reserved'', Karray 4), (''CurrentLBA'', Kuint64), (''BackupLBA'', Kuint64),
     (''FirstUsableLBA'', Kuint64), (''LastUsableLBA'', Kuint64), (''DiskGUID'', Karray 16),
     (''PartitionsStartLBA'', Kuint64), (''NofPartitions'', Kuint32), (''PartitionSize'', Kuint32),
     (''PartionArrayCRC'', Kuint32), (''Reserved2'', Karray 418), (''EndSignature'', Karray 2)]"

definition zero_GPTHeader :: GPTHeader where
  "zero_GPTHeader = \<lparr>gh_StartSignature = replicate 8 0, gh_Revision = replicate 4 0, gh_HeaderSize = 0, gh_HeaderCRC = 0,
     gh_Reserved = replicate 4 0, gh_CurrentLBA = 0, gh_BackupLBA = 0, gh_FirstUsableLBA = 0,
     gh_LastUsableLBA = 0, gh_DiskGUID = replicate 16 0, gh_PartitionsStartLBA = 0, gh_NofPartitions = 0,
     gh_PartitionSize = 0, gh_PartionArrayCRC = 0, gh_Reserved2 = replicate 418 0,
     gh_EndSignature = replicate 2 0\<rparr>"

definition set_GPTHeader :: "val list \<Rightarrow> GPTHeader \<Rightarrow> GPTHeader" where
  "set_GPTHeader v r = r\<lparr>gh_StartSignature := put_arr (v ! 0) (gh_StartSignature r),
     gh_Revision := put_arr (v ! 1) (gh_Revision r), gh_HeaderSize := put_u32 (v ! 2) (gh_HeaderSize r),
     gh_HeaderCRC := put_u32 (v ! 3) (gh_HeaderCRC r), gh_Reserved := put_arr (v ! 4) (gh_Reserved r),
     gh_CurrentLBA := put_u64 (v ! 5) (gh_CurrentLBA r), gh_BackupLBA := put_u64 (v ! 6) (gh_BackupLBA r),
     gh_FirstUsableLBA := put_u64 (v ! 7) (gh_FirstUsableLBA r),
     gh_LastUsableLBA := put_u64 (v ! 8) (gh_LastUsableLBA r),
     gh_DiskGUID := put_arr (v ! 9) (gh_DiskGUID r),
     gh_PartitionsStartLBA := put_u64 (v ! 10) (gh_PartitionsStartLBA r),
     gh_NofPartitions := put_u32 (v ! 11) (gh_NofPartitions r),
     gh_PartitionSize := put_u32 (v ! 12) (gh_PartitionSize r),
     gh_PartionArrayCRC := put_u32 (v ! 13) (gh_PartionArrayCRC r),
     gh_Reserved2 := put_arr (v ! 14) (gh_Reserved2 r),
     gh_EndSignature := put_arr (v ! 15) (gh_EndSignature r)\<rparr>"

record GPTPartition =
  gp_PartitionTypeGUID :: "byte list"
  gp_PartitionGUID :: "byte list"
  gp_StartLBA :: u64
  gp_EndLBA :: u64
  gp_Atttributes :: "byte list"
  gp_Name :: string
  gp_Volume :: "Volume option"
  gp_Raid :: "RaidSuperblock option"

definition GPTPartition_layout :: layout where
  "GPTPartition_layout = [(''PartitionTypeGUID'', Karray 16), (''PartitionGUID'', Karray 16), (''StartLBA'', Kuint64),
     (''EndLBA'', Kuint64), (''Atttributes'', Karray 8), (''Name'', Kother), (''Volume'', Kother),
     (''Raid'', Kother)]"

definition zero_GPTPartition :: GPTPartition where
  "zero_GPTPartition = \<lparr>gp_PartitionTypeGUID = replicate 16 0, gp_PartitionGUID = replicate 16 0, gp_StartLBA = 0,
     gp_EndLBA = 0, gp_Atttributes = replicate 8 0, gp_Name = [], gp_Volume = None, gp_Raid = None\<rparr>"

definition set_GPTPartition :: "val list \<Rightarrow> GPTPartition \<Rightarrow> GPTPartition" where
  "set_GPTPartition v r = r\<lparr>gp_PartitionTypeGUID := put_arr (v ! 0) (gp_PartitionTypeGUID r),
     gp_PartitionGUID := put_arr (v ! 1) (gp_PartitionGUID r),
     gp_StartLBA := put_u64 (v ! 2) (gp_StartLBA r), gp_EndLBA := put_u64 (v ! 3) (gp_EndLBA r),
     gp_Atttributes := put_arr (v ! 4) (gp_Atttributes r)\<rparr>"

record GPT =
  gpt_Header :: "GPTHeader option"
  gpt_Partitions :: "GPTPartition list"

definition PartitionTypeGuids :: "(string \<times> string) list" where
  "PartitionTypeGuids = [(''ebd0a0a2-b9e5-4433-87c0-68b6b72699c7'', ''Windows''),
     (''a19d880f-05fc-4d3b-a006-743f0f84911e'', ''Linux RAID'')]"

text \<open>The receiver is a copy: the GUID that is reversed in place is the copy's.\<close>

definition GPT_GetPartitionType :: "GPTPartition \<Rightarrow> string" where
  "GPT_GetPartitionType partn =
     (let guid = fst (StringifyGUID (gp_PartitionTypeGUID partn)) in
      case map_of PartitionTypeGuids guid of Some t \<Rightarrow> t | None \<Rightarrow> guid)"

definition GetUniquePartitionType :: "GPTPartition \<Rightarrow> string" where
  "GetUniquePartitionType partn = fst (StringifyGUID (gp_PartitionGUID partn))"

definition IdentifyType :: "GPTPartition \<Rightarrow> string" where
  "IdentifyType partn = lookup_str PartitionTypeGuids (GPT_GetPartitionType partn)"

definition ParseHeader :: "slice \<Rightarrow> GPT \<Rightarrow> GPT go" where
  "ParseHeader buffer gpt =
     gbind (unmarshal_count GPTHeader_layout set_GPTHeader zero_GPTHeader buffer) (\<lambda>(h, _).
       ret (gpt\<lparr>gpt_Header := Some h\<rparr>))"

definition the_GPTHeader :: "GPT \<Rightarrow> GPTHeader go" where
  "the_GPTHeader gpt = (case gpt_Header gpt of None \<Rightarrow> panic Nil_dereference | Some h \<Rightarrow> ret h)"

definition GetPartitionArraySize :: "GPT \<Rightarrow> u32 go" where
  "GetPartitionArraySize gpt = gbind (the_GPTHeader gpt) (\<lambda>h. ret (gh_PartitionSize h * gh_NofPartitions h))"

fun parse_partitions :: "slice \<Rightarrow> nat \<Rightarrow> nat list \<Rightarrow> GPTPartition list go" where
  "parse_partitions data n [] = ret []"
| "parse_partitions data n (idx # idxs) =
     gbind (sub data (idx * n) ((idx + 1) * n)) (\<lambda>d.
     gbind (unmarshal_count GPTPartition_layout set_GPTPartition zero_GPTPartition d) (\<lambda>(p, _).
     gbind (parse_partitions data n idxs) (\<lambda>ps. ret (p # ps))))"

definition ParsePartitions :: "slice \<Rightarrow> GPT \<Rightarrow> GPT go" where
  "ParsePartitions data gpt =
     gbind (the_GPTHeader gpt) (\<lambda>h.
     gbind (parse_partitions data (unat (gh_PartitionSize h)) [0..<unat (gh_NofPartitions h)]) (\<lambda>ps.
       ret (gpt\<lparr>gpt_Partitions := ps\<rparr>)))"

definition GPT_GetPartition :: "GPT \<Rightarrow> nat \<Rightarrow> GPTPartition go" where
  "GPT_GetPartition gpt n = (if n < length (gpt_Partitions gpt) then ret (gpt_Partitions gpt ! n) else panic Index_out_of_range)"

definition GPT_GetOffset :: "GPTPartition \<Rightarrow> u64" where
  "GPT_GetOffset partn = gp_StartLBA partn + (case gp_Raid partn of None \<Rightarrow> 0 | Some r \<Rightarrow> raid_DataOffset r)"

text \<open>The first four bytes of the superblock are reversed in place before the rest is read.\<close>

definition GPT_LocateVolume :: "reader \<Rightarrow> GPTPartition \<Rightarrow> GPTPartition go" where
  "GPT_LocateVolume rd partn =
     (let partitionOffetB = GPT_GetOffset partn * 512 in
      if GPT_GetPartitionType partn = ''Windows'' then
        gbind (rd partitionOffetB 512) (\<lambda>data.
        gbind (AddVolume (full data) \<lparr>ntfs_VBR = None, ntfs_MFT = None\<rparr>) (\<lambda>ntfs.
          ret (partn\<lparr>gp_Volume := Some (VNTFS ntfs)\<rparr>)))
      else if GPT_GetPartitionType partn = ''Linux RAID'' then
        gbind (rd (partitionOffetB + 8 * 512) 512) (\<lambda>data.
        gbind (sub (full data) 0 4) (\<lambda>m.
        let data = Bytereverse (bytes m) @ drop 4 data in
        if Hexify (take 4 data) = ''a92b4efc'' then
          gbind (unmarshal_count RaidSuperblock_layout set_RaidSuperblock zero_RaidSuperblock (full data)) (\<lambda>(s, _).
          gbind (ProcessHeader rd (partitionOffetB + raid_DataOffset s * 512) \<lparr>lvm_Header = None, lvm_ConfigurationInfo = []\<rparr>) (\<lambda>lvm2.
            ret (partn\<lparr>gp_Raid := Some s, gp_Volume := Some (VLVM lvm2)\<rparr>)))
        else ret partn))
      else ret (partn\<lparr>gp_Volume := None\<rparr>))"

section \<open>The types of GPT partitions\<close>

text \<open>The bytes of the two known type GUIDs as they are on disk, the first three parts little-endian.\<close>

definition windows_guid :: "byte list" where
  "windows_guid = [0xa2, 0xa0, 0xd0, 0xeb, 0xe5, 0xb9, 0x33, 0x44, 0x87, 0xc0, 0x68, 0xb6, 0xb7, 0x26, 0x99, 0xc7]"

definition linux_raid_guid :: "byte list" where
  "linux_raid_guid = [0x0f, 0x88, 0x9d, 0xa1, 0xfc, 0x05, 0x3b, 0x4d, 0xa0, 0x06, 0x74, 0x3f, 0x0f, 0x84, 0x91, 0x1e]"

lemma known_guids:
  "fst (StringifyGUID windows_guid) = ''ebd0a0a2-b9e5-4433-87c0-68b6b72699c7''"
  "fst (StringifyGUID linux_raid_guid) = ''a19d880f-05fc-4d3b-a006-743f0f84911e''"
  by (simp_all add: StringifyGUID_def GUID_reversed_def windows_guid_def linux_raid_guid_def hex_eval)

lemma GPT_GetPartitionType_eq:
  assumes "length (gp_PartitionTypeGUID p) = 16"
  shows "GPT_GetPartitionType p = (if gp_PartitionTypeGUID p = windows_guid then ''Windows''
    else if gp_PartitionTypeGUID p = linux_raid_guid then ''Linux RAID'' else fst (StringifyGUID (gp_PartitionTypeGUID p)))"
proof -
  have l: "length windows_guid = 16" "length linux_raid_guid = 16" by (simp_all add: windows_guid_def linux_raid_guid_def)
  show ?thesis
    by (simp only: GPT_GetPartitionType_def Let_def PartitionTypeGuids_def known_guids [symmetric] map_of.simps fst_conv snd_conv
        fun_upd_apply StringifyGUID_inject [OF assms l(1)] StringifyGUID_inject [OF assms l(2)]) simp
qed

text \<open>C36: The type of a GPT partition. Exactly the two known GUIDs, in their mixed byte order on disk, are named,
  and every other one is its own text and leaves the partition without a volume, whatever the disk
  holds; a Windows partition gets an NTFS volume from its first sector without a look at
  the signature. \<open>IdentifyType\<close> looks up the name instead of the GUID, so it is empty for every partition.\<close>

theorem GPT_partition_types:
  assumes "length (gp_PartitionTypeGUID p) = 16"
  shows "(GPT_GetPartitionType p = ''Windows'' \<longleftrightarrow> gp_PartitionTypeGUID p = windows_guid) \<and>
    (GPT_GetPartitionType p = ''Linux RAID'' \<longleftrightarrow> gp_PartitionTypeGUID p = linux_raid_guid) \<and>
    (gp_PartitionTypeGUID p \<notin> {windows_guid, linux_raid_guid} \<longrightarrow>
      GPT_GetPartitionType p = fst (StringifyGUID (gp_PartitionTypeGUID p)) \<and> GPT_LocateVolume rd p = ret (p\<lparr>gp_Volume := None\<rparr>)) \<and>
    (gp_PartitionTypeGUID p = windows_guid \<longrightarrow> rd (GPT_GetOffset p * 512) 512 = ret data \<longrightarrow>
      AddVolume (full data) \<lparr>ntfs_VBR = None, ntfs_MFT = None\<rparr> = ret ntfs \<longrightarrow>
      GPT_LocateVolume rd p = ret (p\<lparr>gp_Volume := Some (VNTFS ntfs)\<rparr>)) \<and>
    IdentifyType p = []"
proof -
  let ?g = "gp_PartitionTypeGUID p"
  have l: "length (fst (StringifyGUID ?g)) = 36" using assms by (rule length_StringifyGUID)
  then have t: "fst (StringifyGUID ?g) \<noteq> ''Windows''" "fst (StringifyGUID ?g) \<noteq> ''Linux RAID''" by auto
  have d: "windows_guid \<noteq> linux_raid_guid" by (simp add: windows_guid_def linux_raid_guid_def)
  have i: "IdentifyType p = []"
  proof (cases "?g = windows_guid \<or> ?g = linux_raid_guid")
    case True
    then show ?thesis using d by (auto simp: IdentifyType_def lookup_str_def PartitionTypeGuids_def GPT_GetPartitionType_eq [OF assms])
  next
    case False
    moreover have "length windows_guid = 16" "length linux_raid_guid = 16" by (simp_all add: windows_guid_def linux_raid_guid_def)
    ultimately show ?thesis
      by (simp add: IdentifyType_def GPT_GetPartitionType_eq [OF assms] lookup_str_def PartitionTypeGuids_def
          known_guids [symmetric] StringifyGUID_inject assms del: known_guids)
  qed
  show ?thesis using t d i by (simp add: GPT_GetPartitionType_eq [OF assms] GPT_LocateVolume_def Let_def)
qed

theorem GPT_partition_types_witness:
  "GPT_GetPartitionType (zero_GPTPartition\<lparr>gp_PartitionTypeGUID := windows_guid\<rparr>) = ''Windows'' \<and>
   IdentifyType (zero_GPTPartition\<lparr>gp_PartitionTypeGUID := windows_guid\<rparr>) = []"
  using GPT_partition_types [of "zero_GPTPartition\<lparr>gp_PartitionTypeGUID := windows_guid\<rparr>"]
  by (simp add: windows_guid_def)

section \<open>The table of an MBR\<close>

definition partition_at :: "byte list \<Rightarrow> nat \<Rightarrow> Partition" where
  "partition_at xs i = \<lparr>mp_Flag = of_nat (le_at xs i 1), mp_StartCHS = take 3 (drop (i + 1) xs),
     mp_Type = of_nat (le_at xs (i + 4) 1), mp_EndCHS = take 3 (drop (i + 5) xs),
     mp_StartLBA = of_nat (le_at xs (i + 8) 4), mp_Size = of_nat (le_at xs (i + 12) 4), mp_Volume = None\<rparr>"

lemma Partition_at:
  assumes "i + 16 \<le> length (arr data)"
  shows "unmarshal_count Partition_layout set_Partition zero_Partition (Slice (drop i (arr data)) 16) =
    ret (partition_at (arr data) i, 16)"
proof -
  have "Unmarshal Partition_layout (Slice (drop i (arr data)) 16) =
      ret (layout_values Partition_layout (drop i (arr data)) 0, 16, True)"
    using Unmarshal_ok [of Partition_layout "Slice (drop i (arr data)) 16"] assms
    by (simp add: Partition_layout_def plain_layout_def wf_slice_def)
  then show ?thesis
    by (simp add: unmarshal_count_def Partition_layout_def set_Partition_def zero_Partition_def partition_at_def add.commute)
qed

lemma locate_partitions_eq:
  "pos + 16 * n = slen data \<Longrightarrow> wf_slice data \<Longrightarrow>
    locate_partitions_from data pos = ret (map (\<lambda>k. partition_at (arr data) (pos + 16 * k)) [0..<n])"
proof (induction n arbitrary: pos)
  case 0
  then show ?case by (subst locate_partitions_from.simps) simp
next
  case (Suc n)
  have cap: "pos + 16 \<le> length (arr data)" using Suc.prems by (simp add: wf_slice_def)
  have "map (\<lambda>k. partition_at (arr data) (pos + 16 * k)) [0..<Suc n] =
      partition_at (arr data) pos # map (\<lambda>k. partition_at (arr data) (pos + 16 + 16 * k)) [0..<n]"
    by (simp only: upt_conv_Cons zero_less_Suc map_Suc_upt [symmetric]) (simp add: add.assoc)
  moreover have "locate_partitions_from data (pos + 16) =
      ret (map (\<lambda>k. partition_at (arr data) (pos + 16 + 16 * k)) [0..<n])"
    using Suc.prems by (intro Suc.IH) simp_all
  moreover have "sub data pos (pos + 16) = ret (Slice (drop pos (arr data)) 16)" using cap by (simp add: sub_def)
  ultimately show ?case
    using Suc.prems Partition_at [OF cap] by (subst locate_partitions_from.simps) (simp del: upt_Suc)
qed

lemma MBR_Parse_eq:
  assumes "512 \<le> slen buffer" and "wf_slice buffer"
  shows "MBR_Parse buffer mbr = ret (mbr\<lparr>mbr_BootCode := take 446 (arr buffer), mbr_Signature := take 2 (drop 446 (arr buffer)),
    mbr_Partitions := map (\<lambda>k. partition_at (arr buffer) (446 + 16 * k)) [0..<4]\<rparr>)"
proof -
  have cap: "512 \<le> length (arr buffer)" using assms by (simp add: wf_slice_def)
  have "Unmarshal MBR_layout buffer = ret (layout_values MBR_layout (arr buffer) 0, 448, True)"
    using Unmarshal_ok [of MBR_layout buffer] assms by (simp add: MBR_layout_def plain_layout_def)
  then have u: "unmarshal_count MBR_layout set_MBR mbr buffer =
      ret (mbr\<lparr>mbr_BootCode := take 446 (arr buffer), mbr_Signature := take 2 (drop 446 (arr buffer))\<rparr>, 448)"
    by (simp add: unmarshal_count_def MBR_layout_def set_MBR_def)
  have s: "sub buffer 446 510 = ret (Slice (drop 446 (arr buffer)) 64)" using cap by (simp add: sub_def)
  have "LocatePartitions (Slice (drop 446 (arr buffer)) 64) =
      ret (map (\<lambda>k. partition_at (drop 446 (arr buffer)) (0 + 16 * k)) [0..<4])"
    using locate_partitions_eq [of 0 4 "Slice (drop 446 (arr buffer)) 64"] cap by (simp add: LocatePartitions_def wf_slice_def)
  also have "map (\<lambda>k. partition_at (drop 446 (arr buffer)) (0 + 16 * k)) [0..<4] =
      map (\<lambda>k. partition_at (arr buffer) (446 + 16 * k)) [0..<4]"
    by (simp add: partition_at_def add.assoc add.commute)
  finally show ?thesis using u s by (simp add: MBR_Parse_def)
qed

text \<open>The master boot record. From a sector of 512 bytes, \<open>Parse\<close> takes the boot code and the four
  entries of the table at offsets 446, 462, 478 and 494, each field from its place; the signature is
  taken from offset 446, where the table begins, instead of 510, because the two slices between
  the boot code and the signature consume nothing.\<close>

theorem MBR_Parse_table:
  assumes "512 \<le> slen buffer" and "wf_slice buffer"
  shows "MBR_Parse buffer mbr = ret (mbr\<lparr>mbr_BootCode := take 446 (arr buffer), mbr_Signature := take 2 (drop 446 (arr buffer)),
    mbr_Partitions := map (\<lambda>k. partition_at (arr buffer) (446 + 16 * k)) [0..<4]\<rparr>)"
  by (rule MBR_Parse_eq [OF assms])

definition sample_sector :: "byte list" where
  "sample_sector = replicate 446 0 @ [0x80, 1, 2, 3, 0x07, 4, 5, 6, 0, 8, 0, 0, 0, 1, 0, 0] @ replicate 48 0 @ [0x55, 0xaa]"

theorem MBR_Parse_table_witness:
  "\<exists>m. MBR_Parse (full sample_sector) zero_MBR = ret m \<and> mbr_Signature m = [0x80, 1] \<and>
    mp_Type (hd (mbr_Partitions m)) = 7 \<and> mp_StartLBA (hd (mbr_Partitions m)) = 2048"
proof -
  have "length sample_sector = 512" by (simp add: sample_sector_def)
  then have "MBR_Parse (full sample_sector) zero_MBR = ret (zero_MBR\<lparr>mbr_BootCode := take 446 sample_sector,
      mbr_Signature := take 2 (drop 446 sample_sector), mbr_Partitions := map (\<lambda>k. partition_at sample_sector (446 + 16 * k)) [0..<4]\<rparr>)"
    using MBR_Parse_table [of "full sample_sector" zero_MBR] by simp
  then show ?thesis by (simp add: upt_rec partition_at_def sample_sector_def le_at_def)
qed

text \<open>Logical partitions are probed in the wrong place. The volume of a partition of the extended
  table depends on the disk only through the sector at the partition's own start, as if it were
  counted from the beginning of the disk, while its offset adds the start of the extended table:
  two disks that agree in that one sector give the same volume.\<close>

theorem Extended_LocateVolume_sector:
  assumes "rd (ucast (mp_StartLBA (ep_Partition e)) * 512) 512 = rd' (ucast (mp_StartLBA (ep_Partition e)) * 512) 512"
  shows "Extended_LocateVolume rd e = Extended_LocateVolume rd' e \<and>
    Extended_GetOffset e = ucast (mp_StartLBA (ep_Partition e)) + ep_TableOffset e"
  using assms by (simp add: Extended_LocateVolume_def Partition_LocateVolume_def Partition_GetOffset_def Extended_GetOffset_def)

theorem Extended_LocateVolume_sector_witness:
  "Extended_LocateVolume (\<lambda>off len. ret (if off = 4096 * 512 then [0x4e] else replicate (unat len) 0))
      \<lparr>ep_Partition = zero_Partition\<lparr>mp_Type := 7, mp_StartLBA := 2048\<rparr>, ep_TableOffset = 2048\<rparr> =
    Extended_LocateVolume (\<lambda>off len. ret (replicate (unat len) 0))
      \<lparr>ep_Partition = zero_Partition\<lparr>mp_Type := 7, mp_StartLBA := 2048\<rparr>, ep_TableOffset = 2048\<rparr> \<and>
    Extended_GetOffset \<lparr>ep_Partition = zero_Partition\<lparr>mp_Type := 7, mp_StartLBA := 2048\<rparr>, ep_TableOffset = 2048\<rparr> = 4096"
  using Extended_LocateVolume_sector [of "\<lambda>off len. ret (if off = 4096 * 512 then [0x4e] else replicate (unat len) 0)"
      "\<lparr>ep_Partition = zero_Partition\<lparr>mp_Type := 7, mp_StartLBA := 2048\<rparr>, ep_TableOffset = 2048\<rparr>"
      "\<lambda>off len. ret (replicate (unat len) 0)"] by simp

end
