(* ===== verification/Channels.thy ===== *)
theory Channels
  imports Go_Prelude
begin

text \<open>
  Goroutines that are connected by a channel, as a step relation: a producer sends its values and closes
  the channel, a consumer ranges over the channel and carries out the actions of each value. The steps of
  the two sides interleave in any order. Inside the locale \<open>consumer\<close> it is shown what every run comes
  to, for every capacity of the channel and every order of the steps.
\<close>

section \<open>Networks\<close>

text \<open>What a producer does to the channel, and how it ends: it returns, it panics or it runs for ever.\<close>

datatype 'a op = Send 'a | Close_chan

datatype fate = Returns | Panics crash | Loops

text \<open>The state: what the producer has still to do, the buffer of the channel, the actions the consumer has still
  to carry out for the value it received last, and what it works on. A panic of either side ends the program.\<close>

record ('a, 'b, 's) net =
  net_ops :: "'a op list"
  net_fate :: fate
  net_buf :: "'a list"
  net_closed :: bool
  net_returned :: bool \<comment> \<open>the producer has returned\<close>
  net_pend :: "'b list"
  net_sink :: 's
  net_left :: bool \<comment> \<open>the consumer has left its loop\<close>
  net_crash :: "crash option"

definition net_start :: "'a op list \<Rightarrow> fate \<Rightarrow> 's \<Rightarrow> ('a, 'b, 's) net" where
  "net_start ops fate s = \<lparr>net_ops = ops, net_fate = fate, net_buf = [], net_closed = False, net_returned = False,
     net_pend = [], net_sink = s, net_left = False, net_crash = None\<rparr>"

abbreviation closed_panic :: "string \<Rightarrow> crash" where
  "closed_panic what \<equiv> Explicit_panic (what @ '' closed channel'')"

text \<open>The steps. A value is sent into the buffer while there is room, or is handed to a consumer that waits at
  the empty channel; a send on a closed channel and closing it again panic. The consumer leaves its loop
  when the channel is closed and empty.\<close>

inductive net_step :: "nat \<Rightarrow> ('a \<Rightarrow> 'b list) \<Rightarrow> ('b \<Rightarrow> 's \<Rightarrow> 's) \<Rightarrow> ('a, 'b, 's) net \<Rightarrow> ('a, 'b, 's) net \<Rightarrow> bool"
  for cap :: nat and actions :: "'a \<Rightarrow> 'b list" and act :: "'b \<Rightarrow> 's \<Rightarrow> 's" where
  send: "net_crash s = None \<Longrightarrow> net_ops s = Send x # ops \<Longrightarrow> \<not> net_closed s \<Longrightarrow> length (net_buf s) < cap \<Longrightarrow>
    net_step cap actions act s (s\<lparr>net_ops := ops, net_buf := net_buf s @ [x]\<rparr>)"
| hand_over: "net_crash s = None \<Longrightarrow> net_ops s = Send x # ops \<Longrightarrow> \<not> net_closed s \<Longrightarrow> net_buf s = [] \<Longrightarrow> net_pend s = [] \<Longrightarrow>
    \<not> net_left s \<Longrightarrow> net_step cap actions act s (s\<lparr>net_ops := ops, net_pend := actions x\<rparr>)"
| send_closed: "net_crash s = None \<Longrightarrow> net_ops s = Send x # ops \<Longrightarrow> net_closed s \<Longrightarrow>
    net_step cap actions act s (s\<lparr>net_crash := Some (closed_panic ''send on'')\<rparr>)"
| close_open: "net_crash s = None \<Longrightarrow> net_ops s = Close_chan # ops \<Longrightarrow> \<not> net_closed s \<Longrightarrow>
    net_step cap actions act s (s\<lparr>net_ops := ops, net_closed := True\<rparr>)"
| close_closed: "net_crash s = None \<Longrightarrow> net_ops s = Close_chan # ops \<Longrightarrow> net_closed s \<Longrightarrow>
    net_step cap actions act s (s\<lparr>net_crash := Some (closed_panic ''close of'')\<rparr>)"
| producer_returns: "net_crash s = None \<Longrightarrow> net_ops s = [] \<Longrightarrow> net_fate s = Returns \<Longrightarrow> \<not> net_returned s \<Longrightarrow>
    net_step cap actions act s (s\<lparr>net_returned := True\<rparr>)"
| producer_panics: "net_crash s = None \<Longrightarrow> net_ops s = [] \<Longrightarrow> net_fate s = Panics c \<Longrightarrow>
    net_step cap actions act s (s\<lparr>net_crash := Some c\<rparr>)"
| receive: "net_crash s = None \<Longrightarrow> net_pend s = [] \<Longrightarrow> \<not> net_left s \<Longrightarrow> net_buf s = x # xs \<Longrightarrow>
    net_step cap actions act s (s\<lparr>net_buf := xs, net_pend := actions x\<rparr>)"
| perform: "net_crash s = None \<Longrightarrow> net_pend s = b # bs \<Longrightarrow>
    net_step cap actions act s (s\<lparr>net_pend := bs, net_sink := act b (net_sink s)\<rparr>)"
| leave: "net_crash s = None \<Longrightarrow> net_pend s = [] \<Longrightarrow> \<not> net_left s \<Longrightarrow> net_buf s = [] \<Longrightarrow> net_closed s \<Longrightarrow>
    net_step cap actions act s (s\<lparr>net_left := True\<rparr>)"

abbreviation net_run :: "nat \<Rightarrow> ('a \<Rightarrow> 'b list) \<Rightarrow> ('b \<Rightarrow> 's \<Rightarrow> 's) \<Rightarrow> ('a, 'b, 's) net \<Rightarrow> ('a, 'b, 's) net \<Rightarrow> bool" where
  "net_run cap actions act \<equiv> (net_step cap actions act)\<^sup>*\<^sup>*"

definition net_stuck :: "nat \<Rightarrow> ('a \<Rightarrow> 'b list) \<Rightarrow> ('b \<Rightarrow> 's \<Rightarrow> 's) \<Rightarrow> ('a, 'b, 's) net \<Rightarrow> bool" where
  "net_stuck cap actions act s \<longleftrightarrow> (\<forall>s'. \<not> net_step cap actions act s s')"

text \<open>Both sides have ended, so that a wait group with both of them lets the program go on.\<close>

definition net_done :: "('a, 'b, 's) net \<Rightarrow> bool" where
  "net_done s \<longleftrightarrow> net_crash s = None \<and> net_returned s \<and> net_left s"

text \<open>No side can go on, and nothing panicked: the runtime reports that all goroutines are asleep.\<close>

definition net_deadlock :: "nat \<Rightarrow> ('a \<Rightarrow> 'b list) \<Rightarrow> ('b \<Rightarrow> 's \<Rightarrow> 's) \<Rightarrow> ('a, 'b, 's) net \<Rightarrow> bool" where
  "net_deadlock cap actions act s \<longleftrightarrow>
     net_stuck cap actions act s \<and> net_crash s = None \<and> net_fate s = Returns \<and> \<not> net_left s"

section \<open>Every run ends\<close>

fun ops_size :: "('a \<Rightarrow> 'b list) \<Rightarrow> 'a op list \<Rightarrow> nat" where
  "ops_size actions [] = 0"
| "ops_size actions (Send x # ops) = 3 + length (actions x) + ops_size actions ops"
| "ops_size actions (Close_chan # ops) = 1 + ops_size actions ops"

definition net_size :: "('a \<Rightarrow> 'b list) \<Rightarrow> ('a, 'b, 's) net \<Rightarrow> nat" where
  "net_size actions s = ops_size actions (net_ops s) + (\<Sum>x\<leftarrow>net_buf s. 2 + length (actions x)) + length (net_pend s) +
     (if net_returned s then 0 else 1) + (if net_left s then 0 else 1) + (if net_crash s = None then 1 else 0)"

lemma net_step_size: "net_step cap actions act s s' \<Longrightarrow> net_size actions s' < net_size actions s"
  by (induction rule: net_step.induct) (simp_all add: net_size_def)

lemma net_steps_wf: "wfp (\<lambda>s' s. net_step cap actions act s s')"
  by (rule wfp_if_convertible_to_nat [where f = "net_size actions"]) (rule net_step_size)

lemma net_step_bounded:
  "(net_step cap actions act ^^ n) s s' \<Longrightarrow> n + net_size actions s' \<le> net_size actions s"
proof (induction n arbitrary: s')
  case (Suc n)
  then obtain t where "(net_step cap actions act ^^ n) s t" "net_step cap actions act t s'" by auto
  with Suc.IH net_step_size show ?case by fastforce
qed simp

lemma net_run_stuck: "\<exists>s'. net_run cap actions act s s' \<and> net_stuck cap actions act s'"
proof (induction "net_size actions s" arbitrary: s rule: less_induct)
  case less
  show ?case
  proof (cases "net_stuck cap actions act s")
    case False
    then obtain t where t: "net_step cap actions act s t" by (auto simp: net_stuck_def)
    from less [OF net_step_size [OF t]] t show ?thesis by (meson converse_rtranclp_into_rtranclp)
  qed auto
qed

section \<open>Invariants\<close>

text \<open>The values that are sent before the channel is closed, and the actions that are still to come.\<close>

fun sent :: "'a op list \<Rightarrow> 'a list" where
  "sent [] = []"
| "sent (Send x # ops) = x # sent ops"
| "sent (Close_chan # ops) = []"

definition remaining :: "('a \<Rightarrow> 'b list) \<Rightarrow> ('a, 'b, 's) net \<Rightarrow> 'b list" where
  "remaining actions s = net_pend s @ concat (map actions (net_buf s)) @
     (if net_closed s then [] else concat (map actions (sent (net_ops s))))"

definition performed :: "('a \<Rightarrow> 'b list) \<Rightarrow> ('b \<Rightarrow> 's \<Rightarrow> 's) \<Rightarrow> 'b list \<Rightarrow> 's \<Rightarrow> ('a, 'b, 's) net \<Rightarrow> bool" where
  "performed actions act all s0 s \<longleftrightarrow> (\<exists>done. all = done @ remaining actions s \<and> net_sink s = fold act done s0)"

lemma performed_start: "performed actions act (concat (map actions (sent ops))) s0 (net_start ops fate s0)"
  by (simp add: performed_def remaining_def net_start_def)

lemma performed_step:
  "net_step cap actions act s s' \<Longrightarrow> performed actions act all s0 s \<Longrightarrow> performed actions act all s0 s'"
proof (induction rule: net_step.induct)
  case (perform s b bs)
  then obtain dn where "all = dn @ remaining actions s" "net_sink s = fold act dn s0" by (auto simp: performed_def)
  with perform show ?case by (auto simp: performed_def remaining_def intro: exI [of _ "dn @ [b]"])
qed (auto simp: performed_def remaining_def)

lemma net_run_invariant:
  assumes "net_run cap actions act s s'" and "\<And>t u. net_step cap actions act t u \<Longrightarrow> P t \<Longrightarrow> P u" and "P s"
  shows "P s'"
  using assms(1,3) by (induction rule: rtranclp_induct) (auto intro: assms(2))

lemma performed_run:
  "net_run cap actions act s s' \<Longrightarrow> performed actions act all s0 s \<Longrightarrow> performed actions act all s0 s'"
  by (rule net_run_invariant [OF _ performed_step])

text \<open>What is known of the flags: the consumer leaves only a closed, empty channel; the producer returns at its end.\<close>

definition net_ok :: "('a, 'b, 's) net \<Rightarrow> bool" where
  "net_ok s \<longleftrightarrow> (net_left s \<longrightarrow> net_closed s \<and> net_buf s = [] \<and> net_pend s = []) \<and>
     (net_returned s \<longrightarrow> net_ops s = [] \<and> net_fate s = Returns)"

lemma net_ok_step: "net_step cap actions act s s' \<Longrightarrow> net_ok s \<Longrightarrow> net_ok s'"
  by (induction rule: net_step.induct) (auto simp: net_ok_def)

lemma net_ok_run: "net_run cap actions act s s' \<Longrightarrow> net_ok s \<Longrightarrow> net_ok s'"
  by (rule net_run_invariant [OF _ net_ok_step])

lemma net_ok_start: "net_ok (net_start ops fate s0)"
  by (simp add: net_ok_def net_start_def)

text \<open>A producer that closes the channel once, at the end, or never.\<close>

definition orderly :: "('a, 'b, 's) net \<Rightarrow> bool" where
  "orderly s \<longleftrightarrow> (if net_closed s then net_ops s = [] else \<exists>xs. net_ops s = map Send xs \<or> net_ops s = map Send xs @ [Close_chan]) \<and>
     (net_crash s = None \<or> (\<exists>c. net_fate s = Panics c \<and> net_crash s = Some c))"

lemma orderly_step: "net_step cap actions act s s' \<Longrightarrow> orderly s \<Longrightarrow> orderly s'"
proof (induction rule: net_step.induct)
  case (send s x ops)
  then show ?case by (auto simp: orderly_def Cons_eq_map_conv Cons_eq_append_conv split: if_splits)
next
  case (hand_over s x ops)
  then show ?case by (auto simp: orderly_def Cons_eq_map_conv Cons_eq_append_conv split: if_splits)
qed (auto simp: orderly_def Cons_eq_map_conv Cons_eq_append_conv split: if_splits)

lemma net_fate_step: "net_step cap actions act s s' \<Longrightarrow> net_fate s' = net_fate s"
  by (induction rule: net_step.induct) auto

lemma net_fate_run: "net_run cap actions act s s' \<Longrightarrow> net_fate s' = net_fate s"
  by (induction rule: rtranclp_induct) (auto dest: net_fate_step)

text \<open>Whether the channel is closed sooner or later.\<close>

definition closes :: "('a, 'b, 's) net \<Rightarrow> bool" where
  "closes s \<longleftrightarrow> net_closed s \<or> Close_chan \<in> set (net_ops s)"

lemma closes_step: "net_step cap actions act s s' \<Longrightarrow> closes s' = closes s"
  by (induction rule: net_step.induct) (auto simp: closes_def)

lemma closes_run: "net_run cap actions act s s' \<Longrightarrow> closes s' = closes s"
  by (induction rule: rtranclp_induct) (auto dest: closes_step)

lemma orderly_run: "net_run cap actions act s s' \<Longrightarrow> orderly s \<Longrightarrow> orderly s'"
  by (rule net_run_invariant [OF _ orderly_step])

lemma stuck_end:
  assumes "net_stuck cap actions act s" and "net_ok s" and "net_crash s = None"
  shows "net_ops s = [] \<and> net_buf s = [] \<and> net_pend s = [] \<and> (net_left s \<longleftrightarrow> net_closed s) \<and>
    (net_returned s \<longleftrightarrow> net_fate s = Returns) \<and> (\<forall>c. net_fate s \<noteq> Panics c)"
proof -
  note stuck = assms(1) [unfolded net_stuck_def, rule_format]
  have pend: "net_pend s = []"
    using stuck perform assms(3) by (metis neq_Nil_conv)
  have buf: "net_buf s = []"
    using stuck receive [OF assms(3) pend] assms(2) by (metis net_ok_def neq_Nil_conv)
  have left: "net_left s \<longleftrightarrow> net_closed s"
    using stuck leave [OF assms(3) pend _ buf] assms(2) by (auto simp: net_ok_def)
  have ops: "net_ops s = []"
  proof (rule ccontr)
    assume "net_ops s \<noteq> []"
    then obtain p ops where ops: "net_ops s = p # ops" by (auto simp: neq_Nil_conv)
    show False
    proof (cases p)
      case (Send x)
      with ops stuck hand_over [OF assms(3)] send_closed [OF assms(3)] buf pend left show False by metis
    next
      case Close_chan
      with ops stuck close_open [OF assms(3)] close_closed [OF assms(3)] show False by metis
    qed
  qed
  have "net_returned s \<longleftrightarrow> net_fate s = Returns"
    using stuck producer_returns [OF assms(3) ops] assms(2) by (auto simp: net_ok_def)
  moreover have "net_fate s \<noteq> Panics c" for c
    using stuck producer_panics [OF assms(3) ops] by metis
  moreover note pend buf left ops
  ultimately show ?thesis by simp
qed

lemma sent_simps [simp]: "sent (map Send xs) = xs" "sent (map Send xs @ Close_chan # ops) = xs"
  by (induction xs) simp_all

lemma orderly_start: "orderly (net_start (map Send xs) fate s0)" "orderly (net_start (map Send xs @ [Close_chan]) fate s0)"
  by (auto simp: orderly_def net_start_def)

text \<open>A producer that goes on after it has closed the channel.\<close>

definition reopening :: "'a op list \<Rightarrow> ('a, 'b, 's) net \<Rightarrow> bool" where
  "reopening ops s \<longleftrightarrow> ops \<noteq> [] \<and> (if net_closed s
     then net_ops s = ops \<and> (net_crash s = None \<or> (\<exists>what. net_crash s = Some (closed_panic what)))
     else net_crash s = None \<and> (\<exists>xs. net_ops s = map Send xs @ Close_chan # ops))"

lemma reopening_step: "net_step cap actions act s s' \<Longrightarrow> reopening ops s \<Longrightarrow> reopening ops s'"
  by (induction rule: net_step.induct) (auto simp: reopening_def Cons_eq_map_conv Cons_eq_append_conv split: if_splits)

lemma reopening_run: "net_run cap actions act s s' \<Longrightarrow> reopening ops s \<Longrightarrow> reopening ops s'"
  by (rule net_run_invariant [OF _ reopening_step])

section \<open>Consumers\<close>

text \<open>A consumer takes a value in by carrying out its actions one after the other; \<open>consume\<close> is their effect.\<close>

locale consumer =
  fixes actions :: "'a \<Rightarrow> 'b list"
    and act :: "'b \<Rightarrow> 's \<Rightarrow> 's"
    and consume :: "'a \<Rightarrow> 's \<Rightarrow> 's"
  assumes fold_actions: "fold act (actions x) s = consume x s"
begin

lemma fold_concat_actions: "fold act (concat (map actions xs)) s = fold consume xs s"
  by (induction xs arbitrary: s) (simp_all add: fold_actions)

text \<open>When the channel is closed after the last value, every run that cannot go on is over, and the consumer has
  taken in all values in the order in which they were sent, whatever the capacity and the interleaving.\<close>

lemma delivers:
  assumes "net_run cap actions act (net_start (map Send xs @ [Close_chan]) Returns s0) s" and "net_stuck cap actions act s"
  shows "net_done s \<and> net_sink s = fold consume xs s0"
proof -
  have f: "net_fate s = Returns" using net_fate_run [OF assms(1)] by (simp add: net_start_def)
  have c: "net_crash s = None"
    using orderly_run [OF assms(1) orderly_start(2)] f by (auto simp: orderly_def)
  note e = stuck_end [OF assms(2) net_ok_run [OF assms(1) net_ok_start] c]
  have "closes s" using closes_run [OF assms(1)] by (simp add: closes_def net_start_def)
  then have "net_closed s" using e by (simp add: closes_def)
  moreover obtain dn where "concat (map actions xs) = dn @ remaining actions s" "net_sink s = fold act dn s0"
    using performed_run [OF assms(1) performed_start] by (auto simp: performed_def)
  ultimately show ?thesis using e c f fold_concat_actions [of xs s0] by (simp add: remaining_def net_done_def)
qed

text \<open>When the channel is never closed, every run ends with the consumer waiting for ever.\<close>

lemma unclosed:
  assumes "net_run cap actions act (net_start (map Send xs) Returns s0) s" and "net_stuck cap actions act s"
  shows "net_deadlock cap actions act s"
proof -
  have f: "net_fate s = Returns" using net_fate_run [OF assms(1)] by (simp add: net_start_def)
  have c: "net_crash s = None"
    using orderly_run [OF assms(1) orderly_start(1)] f by (auto simp: orderly_def)
  note e = stuck_end [OF assms(2) net_ok_run [OF assms(1) net_ok_start] c]
  have "\<not> closes s" using closes_run [OF assms(1)] by (auto simp: closes_def net_start_def)
  with e c f assms(2) show ?thesis by (simp add: closes_def net_deadlock_def)
qed

text \<open>When the producer panics, so does every run.\<close>

lemma panics:
  assumes "net_run cap actions act (net_start (map Send xs) (Panics c) s0) s" and "net_stuck cap actions act s"
  shows "net_crash s = Some c"
proof -
  have f: "net_fate s = Panics c" using net_fate_run [OF assms(1)] by (simp add: net_start_def)
  moreover have "net_crash s \<noteq> None"
    using stuck_end [OF assms(2) net_ok_run [OF assms(1) net_ok_start]] f by auto
  ultimately show ?thesis using orderly_run [OF assms(1) orderly_start(1)] by (auto simp: orderly_def)
qed

text \<open>At any time the consumer has carried out the first actions, in order.\<close>

lemma in_order:
  assumes "net_run cap actions act (net_start ops fate s0) s"
  shows "\<exists>dn rest. concat (map actions (sent ops)) = dn @ rest \<and> net_sink s = fold act dn s0"
  using performed_run [OF assms performed_start] by (auto simp: performed_def)

text \<open>The consumer can keep up with the producer step by step.\<close>

lemma perform_all:
  "net_crash s = None \<Longrightarrow> net_run cap actions act s (s\<lparr>net_pend := [], net_sink := fold act (net_pend s) (net_sink s)\<rparr>)"
proof (induction "net_pend s" arbitrary: s)
  case (Cons b bs)
  let ?t = "s\<lparr>net_pend := bs, net_sink := act b (net_sink s)\<rparr>"
  have "net_step cap actions act s ?t" using Cons by (intro perform) simp_all
  moreover have "net_run cap actions act ?t (?t\<lparr>net_pend := [], net_sink := fold act (net_pend ?t) (net_sink ?t)\<rparr>)"
    using Cons by (intro Cons) simp_all
  ultimately show ?case using Cons.hyps(2) by (simp add: converse_rtranclp_into_rtranclp flip: Cons.hyps(2))
next
  case Nil
  then have "s\<lparr>net_pend := [], net_sink := fold act (net_pend s) (net_sink s)\<rparr> = s" by simp
  then show ?case by simp
qed

lemma lockstep:
  "net_run cap actions act (net_start (map Send xs @ ops) fate s0) (net_start ops fate (fold consume xs s0))"
proof (induction xs arbitrary: s0)
  case (Cons x xs)
  let ?s = "net_start (map Send (x # xs) @ ops) fate s0"
  let ?t = "?s\<lparr>net_ops := map Send xs @ ops, net_pend := actions x\<rparr>"
  have "net_step cap actions act ?s ?t" by (rule hand_over) (simp_all add: net_start_def)
  moreover have "net_run cap actions act ?t (?t\<lparr>net_pend := [], net_sink := fold act (net_pend ?t) (net_sink ?t)\<rparr>)"
    by (rule perform_all) (simp add: net_start_def)
  moreover have "?t\<lparr>net_pend := [], net_sink := fold act (net_pend ?t) (net_sink ?t)\<rparr> =
      net_start (map Send xs @ ops) fate (consume x s0)"
    by (simp add: net_start_def fold_actions)
  ultimately show ?case using Cons.IH [of "consume x s0"] by simp
qed simp

text \<open>When the producer goes on after closing the channel, the consumer may be through before the panic, but the
  panic comes whenever the producer gets that far.\<close>

lemma reopened_reaches:
  "\<exists>s. net_run cap actions act (net_start (map Send xs @ Close_chan # ops) fate s0) s \<and>
    net_crash s = None \<and> net_left s \<and> net_sink s = fold consume xs s0"
proof -
  let ?s = "net_start (Close_chan # ops) fate (fold consume xs s0)"
  let ?t = "?s\<lparr>net_ops := ops, net_closed := True\<rparr>"
  have "net_step cap actions act ?s ?t" by (rule close_open) (simp_all add: net_start_def)
  moreover have "net_step cap actions act ?t (?t\<lparr>net_left := True\<rparr>)" by (rule leave) (simp_all add: net_start_def)
  ultimately have "net_run cap actions act (net_start (map Send xs @ Close_chan # ops) fate s0) (?t\<lparr>net_left := True\<rparr>)"
    using lockstep [of cap xs "Close_chan # ops" fate s0] by (meson rtranclp.rtrancl_into_rtrancl)
  then show ?thesis by (intro exI [of _ "?t\<lparr>net_left := True\<rparr>"]) (simp add: net_start_def)
qed

lemma reopened_panics:
  assumes "net_run cap actions act (net_start (map Send xs @ Close_chan # ops) fate s0) s"
    and "net_stuck cap actions act s" and "ops \<noteq> []"
  shows "\<exists>what. net_crash s = Some (closed_panic what)"
proof -
  have i: "reopening ops s"
    using assms(1) by (rule reopening_run) (auto simp: reopening_def net_start_def assms(3))
  moreover have "net_crash s \<noteq> None"
  proof
    assume "net_crash s = None"
    from stuck_end [OF assms(2) net_ok_run [OF assms(1) net_ok_start] this] i assms(3)
    show False by (auto simp: reopening_def)
  qed
  ultimately show ?thesis by (auto simp: reopening_def split: if_splits)
qed

text \<open>Whenever the consumer has left its loop, it has taken in what was sent before the channel was closed.\<close>

lemma left_loop:
  assumes "net_run cap actions act (net_start ops fate s0) s" and "net_left s"
  shows "net_sink s = fold consume (sent ops) s0 \<and> Close_chan \<in> set ops"
proof -
  have "net_closed s" "net_buf s = []" "net_pend s = []"
    using net_ok_run [OF assms(1) net_ok_start] assms(2) by (auto simp: net_ok_def)
  moreover have "closes s = (Close_chan \<in> set ops)"
    using closes_run [OF assms(1)] by (simp add: closes_def net_start_def)
  moreover obtain dn where "concat (map actions (sent ops)) = dn @ remaining actions s" "net_sink s = fold act dn s0"
    using performed_run [OF assms(1) performed_start] by (auto simp: performed_def)
  ultimately show ?thesis using fold_concat_actions [of "sent ops" s0] by (simp add: remaining_def closes_def)
qed

end

section \<open>Producers\<close>

text \<open>A producer that makes its values in several computations and closes the channel after the last; a computation
  that panics or never returns ends what it sends.\<close>

fun scripted :: "'a op list go list \<Rightarrow> 'a op list \<times> fate" where
  "scripted [] = ([], Returns)"
| "scripted (g # gs) = (case g of
       None \<Rightarrow> ([], Loops)
     | Some (Inl c) \<Rightarrow> ([], Panics c)
     | Some (Inr ops) \<Rightarrow> (case scripted gs of (ops', fate) \<Rightarrow> (ops @ ops', fate)))"

definition producing :: "'a list go list \<Rightarrow> 'a op list \<times> fate" where
  "producing gs = scripted (map (\<lambda>g. gbind g (\<lambda>xs. ret (map Send xs))) gs @ [ret [Close_chan]])"

lemma scripted_Cons [simp]:
  "scripted (ret ops # gs) = (case scripted gs of (ops', fate) \<Rightarrow> (ops @ ops', fate))"
  "scripted (panic c # gs) = ([], Panics c)"
  "scripted (None # gs) = ([], Loops)"
  by (simp_all add: ret_def panic_def)

declare scripted.simps(2) [simp del]

lemma producing_simps [simp]:
  "producing [] = ([Close_chan], Returns)"
  "producing (None # gs) = ([], Loops)"
  "producing (panic c # gs) = ([], Panics c)"
  "producing (ret xs # gs) = (case producing gs of (ops, fate) \<Rightarrow> (map Send xs @ ops, fate))"
  by (simp_all add: producing_def)

definition gconcat :: "'a list go list \<Rightarrow> 'a list go" where
  "gconcat gs = gbind (gmap id gs) (\<lambda>xss. ret (concat xss))"

lemma producing_cases:
  "case gconcat gs of
     None \<Rightarrow> \<exists>xs. producing gs = (map Send xs, Loops)
   | Some (Inl c) \<Rightarrow> \<exists>xs. producing gs = (map Send xs, Panics c)
   | Some (Inr xs) \<Rightarrow> producing gs = (map Send xs @ [Close_chan], Returns)"
proof (induction gs)
  case Nil
  then show ?case by (simp add: gconcat_def ret_def)
next
  case (Cons g gs)
  have step: "\<exists>zs. map Send ys @ map Send xs = map Send zs" for ys xs :: "'a list"
    by (metis map_append)
  show ?case
  proof (cases g rule: go_cases)
    case (returned ys)
    have g: "gconcat (g # gs) = gbind (gconcat gs) (\<lambda>xs. ret (ys @ xs))"
      by (simp add: gconcat_def returned gbind_assoc)
    show ?thesis
    proof (cases "gconcat gs" rule: go_cases)
      case no_return
      then show ?thesis using Cons g step [of ys] by (auto simp: returned)
    next
      case (crashed c)
      then have "gconcat (g # gs) = Some (Inl c)" using g by (simp add: panic_def)
      then show ?thesis using Cons crashed step [of ys] by (auto simp: returned panic_def)
    next
      case (returned zs)
      then have "gconcat (g # gs) = Some (Inr (ys @ zs))" using g by (simp add: ret_def)
      then show ?thesis using Cons returned \<open>g = ret ys\<close> by (auto simp: ret_def [of zs])
    qed
  next
    case no_return
    then show ?thesis by (simp add: gconcat_def)
  next
    case (crashed c)
    have "gconcat (panic c # gs) = Some (Inl c)" by (simp add: gconcat_def) (simp add: panic_def)
    then show ?thesis by (simp add: crashed)
  qed
qed

lemma producing_ret: "gconcat gs = ret xs \<Longrightarrow> producing gs = (map Send xs @ [Close_chan], Returns)"
  using producing_cases [of gs] by (simp add: ret_def)

lemma producing_panic: "gconcat gs = panic c \<Longrightarrow> \<exists>xs. producing gs = (map Send xs, Panics c)"
  using producing_cases [of gs] by (simp add: panic_def)

lemma gconcat_Cons: "gconcat (g # gs) = gbind g (\<lambda>xs. gbind (gconcat gs) (\<lambda>ys. ret (xs @ ys)))"
  by (simp add: gconcat_def gbind_assoc)

lemma gconcat_Nil: "gconcat [] = ret []"
  by (simp add: gconcat_def)

lemma gconcat_append: "gconcat (gs @ hs) = gbind (gconcat gs) (\<lambda>xs. gbind (gconcat hs) (\<lambda>ys. ret (xs @ ys)))"
  by (induction gs) (simp_all add: gconcat_Cons gconcat_Nil gbind_assoc)

section \<open>Ranging over a channel\<close>

text \<open>
  The values that a loop of the main goroutine over a channel takes in. When the channel is never closed, a
  producer that returns leaves the program deadlocked. When the producer goes on to a panic after it has closed the channel,
  it depends on the scheduler whether the program is over before it: the argument \<open>late\<close>.
\<close>

fun panic_after :: "'a op list \<Rightarrow> fate \<Rightarrow> crash option" where
  "panic_after [] fate = (case fate of Panics c \<Rightarrow> Some c | _ \<Rightarrow> None)"
| "panic_after (Send x # ops) fate = Some (closed_panic ''send on'')"
| "panic_after (Close_chan # ops) fate = Some (closed_panic ''close of'')"

fun ranged :: "bool \<Rightarrow> 'a op list \<Rightarrow> fate \<Rightarrow> 'a list go" where
  "ranged late [] fate = (case fate of
       Returns \<Rightarrow> panic (Explicit_panic ''all goroutines are asleep - deadlock!'')
     | Panics c \<Rightarrow> panic c
     | Loops \<Rightarrow> None)"
| "ranged late (Send x # ops) fate = gbind (ranged late ops fate) (\<lambda>xs. ret (x # xs))"
| "ranged late (Close_chan # ops) fate = (case panic_after ops fate of
       Some c \<Rightarrow> if late then ret [] else panic c
     | None \<Rightarrow> ret [])"

lemma ranged_ret: "ranged late ops fate = ret xs \<Longrightarrow> xs = sent ops \<and> Close_chan \<in> set ops"
  by (induction late ops fate arbitrary: xs rule: ranged.induct) (auto split: fate.splits option.splits if_splits)

lemma ranged_late: "Close_chan \<in> set ops \<Longrightarrow> ranged True ops fate = ret (sent ops)"
  by (induction "True" ops fate rule: ranged.induct) (auto split: fate.splits option.splits if_splits)

lemma split_close: "Close_chan \<in> set ops \<Longrightarrow> \<exists>rest. ops = map Send (sent ops) @ Close_chan # rest"
proof (induction ops)
  case (Cons p ops)
  then show ?case by (cases p) auto
qed simp

lemma no_close: "Close_chan \<notin> set ops \<Longrightarrow> ops = map Send (sent ops)"
proof (induction ops)
  case (Cons p ops)
  then show ?case by (cases p) auto
qed simp

lemma crashes_gbind_ret: "crashes (gbind m (\<lambda>x. ret (f x))) = crashes m"
  by (cases m rule: go_cases) auto

lemma ranged_open: "Close_chan \<notin> set ops \<Longrightarrow> crashes (ranged late ops fate) \<longleftrightarrow> fate \<noteq> Loops"
  by (induction late ops fate rule: ranged.induct) (auto simp: crashes_gbind_ret split: fate.splits)

lemma ranged_closed: "crashes (ranged late (map Send xs @ Close_chan # rest) fate) \<longleftrightarrow> \<not> late \<and> panic_after rest fate \<noteq> None"
  by (induction xs) (auto simp: crashes_gbind_ret split: option.splits)

lemma panic_after_None: "panic_after rest fate = None \<longleftrightarrow> rest = [] \<and> (\<forall>c. fate \<noteq> Panics c)"
  by (cases "(rest, fate)" rule: panic_after.cases) (auto split: fate.splits)

context consumer
begin

text \<open>What the loop takes in is what some run of the two goroutines has taken in when it leaves the loop.\<close>

lemma ranged_runs:
  "(\<exists>late xs. ranged late ops fate = ret xs \<and> fold consume xs s0 = s1) \<longleftrightarrow>
   (\<exists>s. net_run cap actions act (net_start ops fate s0) s \<and> net_crash s = None \<and> net_left s \<and> net_sink s = s1)"
proof
  assume "\<exists>late xs. ranged late ops fate = ret xs \<and> fold consume xs s0 = s1"
  then obtain late xs where xs: "ranged late ops fate = ret xs" "fold consume xs s0 = s1" by blast
  then have c: "xs = sent ops" "Close_chan \<in> set ops" using ranged_ret by blast+
  then obtain rest where rest: "ops = map Send (sent ops) @ Close_chan # rest" using split_close by blast
  from reopened_reaches [of cap "sent ops" rest fate s0] c xs rest
  show "\<exists>s. net_run cap actions act (net_start ops fate s0) s \<and> net_crash s = None \<and> net_left s \<and> net_sink s = s1"
    by simp
next
  assume "\<exists>s. net_run cap actions act (net_start ops fate s0) s \<and> net_crash s = None \<and> net_left s \<and> net_sink s = s1"
  then obtain s where "net_run cap actions act (net_start ops fate s0) s" "net_left s" "net_sink s = s1" by blast
  with left_loop [OF this(1,2)] ranged_late [of ops fate]
  show "\<exists>late xs. ranged late ops fate = ret xs \<and> fold consume xs s0 = s1" by auto
qed

text \<open>And the loop fails just when some run ends with a panic or with every goroutine asleep.\<close>

lemma stuck_open:
  assumes "Close_chan \<notin> set ops" and "net_run cap actions act (net_start ops fate s0) s" and "net_stuck cap actions act s"
  shows "net_crash s \<noteq> None \<or> net_deadlock cap actions act s \<longleftrightarrow> fate \<noteq> Loops"
proof -
  have run: "net_run cap actions act (net_start (map Send (sent ops)) fate s0) s" using assms(2) no_close [OF assms(1)] by metis
  show ?thesis
  proof (cases fate)
    case Returns
    then show ?thesis using unclosed run assms(3) by simp
  next
    case (Panics c)
    then show ?thesis using panics run assms(3) by simp
  next
    case Loops
    then show ?thesis
      using orderly_run [OF run orderly_start(1)] net_fate_run [OF run]
      by (auto simp: orderly_def net_deadlock_def net_start_def)
  qed
qed

lemma stuck_closed:
  assumes "net_run cap actions act (net_start (map Send xs @ Close_chan # rest) fate s0) s" and "net_stuck cap actions act s"
  shows "net_crash s \<noteq> None \<or> net_deadlock cap actions act s \<longleftrightarrow> panic_after rest fate \<noteq> None"
proof (cases "rest = []")
  case False
  then show ?thesis using reopened_panics [OF assms] panic_after_None [of rest fate] by auto
next
  case True
  then have run: "net_run cap actions act (net_start (map Send xs @ [Close_chan]) fate s0) s" using assms(1) by simp
  have fate: "net_fate s = fate" using net_fate_run [OF run] by (simp add: net_start_def)
  note e = stuck_end [OF assms(2) net_ok_run [OF run net_ok_start]]
  have "closes s" using closes_run [OF run] by (simp add: closes_def net_start_def)
  then have "net_left s" if "net_crash s = None" using e [OF that] by (simp add: closes_def)
  then have "net_crash s \<noteq> None \<or> net_deadlock cap actions act s \<longleftrightarrow> (\<exists>c. fate = Panics c)"
    using e orderly_run [OF run orderly_start(2)] fate by (auto simp: orderly_def net_deadlock_def)
  then show ?thesis using True panic_after_None [of rest fate] by auto
qed

lemma ranged_fails:
  "(\<exists>late. crashes (ranged late ops fate)) \<longleftrightarrow>
   (\<exists>s. net_run cap actions act (net_start ops fate s0) s \<and> net_stuck cap actions act s \<and>
     (net_crash s \<noteq> None \<or> net_deadlock cap actions act s))"
proof -
  obtain s where s: "net_run cap actions act (net_start ops fate s0) s" "net_stuck cap actions act s"
    using net_run_stuck by blast
  show ?thesis
  proof (cases "Close_chan \<in> set ops")
    case False
    then show ?thesis using stuck_open [OF False] s ranged_open by metis
  next
    case True
    then obtain rest where rest: "ops = map Send (sent ops) @ Close_chan # rest" using split_close by blast
    have "(\<exists>late. crashes (ranged late ops fate)) \<longleftrightarrow> panic_after rest fate \<noteq> None"
      using ranged_closed [of _ "sent ops" rest fate] rest by metis
    then show ?thesis using stuck_closed [of cap "sent ops" rest fate s0] rest s by metis
  qed
qed

end

end
