(* ===== verification/Volume_Table.thy ===== *)
theory Volume_Table
  imports Volume_NTFS
begin

text \<open>
  What \<open>Process\<close> of \<open>disk/volume/ntfs.go\<close> leaves in the table: the passes of \<open>MFT_Table\<close> and \<open>MFT_Data\<close> one after
  the other, each of which keeps what the earlier ones have established.
\<close>

section \<open>The passes\<close>

lemma ProcessMFT_table:
  assumes "ProcessMFT slack data sel fromE toE ntfs = ret ntfs'"
  shows "\<exists>t. ntfs_MFT ntfs' = Some t \<and> table_ok (Records t)"
  using assms ProcessRecords_ok by (auto simp: ProcessMFT_def Let_def)

lemma table_ok_bodies:
  assumes "ProcessNonResidentRecords rd dsz slack part cl tbl = ret tbl'" and "table_ok tbl"
  shows "table_ok tbl'"
proof -
  note all = ProcessNonResidentRecords_frame [OF assms(1)]
  have "slot_ok i (tbl' ! i)" if i: "i < length tbl'" for i
  proof -
    have i': "i < length tbl" using i list_all2_lengthD [OF all] by simp
    obtain as where as: "tbl' ! i = (tbl ! i)\<lparr>Attributes := as\<rparr>" "map FindType as = map FindType (Attributes (tbl ! i))"
        "typed_record (tbl ! i) \<longrightarrow> typed_record (tbl' ! i)"
      using list_all2_nthD [OF all i'] by auto
    have "slot_ok i (tbl ! i)" using assms(2) i' by (simp add: table_ok_def)
    then show ?thesis using as by (auto simp: slot_ok_def zero_Record_def)
  qed
  then show ?thesis by (simp add: table_ok_def)
qed

lemma sizes_frame_nth:
  assumes "sizes_frame t u" and "i < length t"
  shows "\<exists>s. u ! i = (t ! i)\<lparr>I30Size := s\<rparr>"
proof (cases "IsFolder (t ! i)")
  case True
  then have "u ! i = (t ! i)\<lparr>I30Size := I30Size (t ! i)\<rparr>" using assms by (simp add: sizes_frame_def)
  then show ?thesis ..
next
  case False
  then show ?thesis using assms by (simp add: sizes_frame_def)
qed

lemma parent_ref_same: "same_refs t u \<Longrightarrow> parent_ref t r = parent_ref u r"
  unfolding parent_ref_def using same_refs_nth(1,2) [of t u]
  by (auto simp: Let_def split: option.splits attr_body.splits)

lemma parent_ref_fields [simp]:
  "parent_ref t (r\<lparr>Parent := p\<rparr>) = parent_ref t r" "parent_ref t (r\<lparr>I30Size := s\<rparr>) = parent_ref t r"
  by (simp_all add: parent_ref_def FindAttribute_def)

section \<open>The table of a processed volume\<close>

text \<open>A slot of the table of a volume: unused, or the typed record with its number; no record is linked, and the parent
  is what the first file name refers to if the pass over the parents was made.\<close>

definition volume_slot :: "bool \<Rightarrow> Records \<Rightarrow> nat \<Rightarrow> bool" where
  "volume_slot parents tbl i \<longleftrightarrow> (let r = tbl ! i in
     (Attributes r = [] \<and> Entry r = 0 \<or> unat (Entry r) = i \<and> typed_record r) \<and>
     LinkedRecords r = [] \<and> OriginLinkedRecord r = None \<and>
     Parent r = (if parents then parent_ref tbl r else None))"

lemma table_ok_slot: "table_ok tbl \<Longrightarrow> i < length tbl \<Longrightarrow> volume_slot False tbl i"
  by (auto simp: table_ok_def slot_ok_def volume_slot_def Let_def zero_Record_def)

lemma Volume_Process_slots:
  assumes "Volume_Process rd diskSize slack srt part sel fromE toE ntfs = ret ntfs'"
  shows "\<exists>t. ntfs_MFT ntfs' = Some t \<and> ntfs_VBR ntfs' = ntfs_VBR ntfs \<and>
    (\<forall>i < length (Records t). volume_slot (sel = [] \<and> fromE = - 1 \<and> toE = MaxUint32) (Records t) i)"
proof -
  let ?all = "sel = [] \<and> fromE = - 1 \<and> toE = MaxUint32"
  let ?passes = "\<lambda>n1 t1 rs. if ?all then gbind (CreateLinkedRecords rs) (\<lambda>rs. gbind (FindParentRecords rs) (\<lambda>rs.
      gbind (CalculateFileSizes srt rs) (\<lambda>rs. ret (n1\<lparr>ntfs_MFT := Some (t1\<lparr>Records := rs\<rparr>)\<rparr>))))
    else ret (n1\<lparr>ntfs_MFT := Some (t1\<lparr>Records := rs\<rparr>)\<rparr>)"
  obtain v t0 area grown n1 t1 rs where p: "ProcessMFT slack (buffer_Bytes slack grown area) sel fromE toE (ntfs\<lparr>ntfs_MFT := Some t0\<rparr>) = ret n1"
      and t1: "the_MFT n1 = ret t1" and rs: "ProcessNonResidentRecords rd diskSize slack part (cluster_size v) (Records t1) = ret rs"
      and r: "?passes n1 t1 rs = ret ntfs'"
    using assms unfolding Volume_Process_def by (elim gbind_retE, simp only: case_prod_unfold, elim gbind_retE) blast
  have "table_ok (Records t1)" using ProcessMFT_table [OF p] t1 by (auto simp: the_MFT_def)
  then have ok: "table_ok rs" using rs table_ok_bodies by blast
  have v: "ntfs_VBR n1 = ntfs_VBR ntfs" using p by (auto simp: ProcessMFT_def Let_def)
  show ?thesis
  proof (cases ?all)
    case False
    then have "ntfs' = n1\<lparr>ntfs_MFT := Some (t1\<lparr>Records := rs\<rparr>)\<rparr>" using r by auto
    then show ?thesis using False v table_ok_slot [OF ok] by auto
  next
    case True
    let ?ps = "map (\<lambda>r. r\<lparr>Parent := (case parent_ref rs r of Some p \<Rightarrow> Some p | None \<Rightarrow> Parent r)\<rparr>) rs"
    obtain us where u: "CalculateFileSizes srt ?ps = ret us" "ntfs' = n1\<lparr>ntfs_MFT := Some (t1\<lparr>Records := us\<rparr>)\<rparr>"
      using r True by (auto simp: table_ok_links [OF ok] FindParentRecords_eq [OF ok])
    have f: "sizes_frame ?ps us" using u(1) by (auto simp: CalculateFileSizes_def intro: gfold_frame record_sizes_frame)
    have same: "same_refs us rs"
      using sizes_frame_same [OF f] by (simp add: same_refs_def comp_def)
    have "volume_slot True us i" if "i < length us" for i
    proof -
      have i: "i < length rs" using that f by (simp add: sizes_frame_def)
      from f i obtain s where s: "us ! i = (?ps ! i)\<lparr>I30Size := s\<rparr>"
        using sizes_frame_nth [OF f, of i] by auto
      with table_ok_slot [OF ok i] i show ?thesis
        by (auto simp: volume_slot_def Let_def parent_ref_same [OF same] typed_record_def split: option.splits)
    qed
    then show ?thesis using True v u(2) by simp
  qed
qed

text \<open>C7: The table of a processed volume. Whatever the disk holds, when \<open>Process\<close> of an NTFS volume returns, the boot record is
  as it was and every slot of the table is unused or holds the record with its number, with attributes whose bodies are what
  their headers announce. No record is linked to another. If all entries were asked for, the parent of each record is the slot
  its first file name refers to, by entry and sequence number in this very table, or missing where there is
  none; otherwise no parent is set.\<close>

theorem Volume_Process_table:
  assumes "Volume_Process rd diskSize slack srt part sel fromE toE ntfs = ret ntfs'"
  shows "\<exists>t. ntfs_MFT ntfs' = Some t \<and> ntfs_VBR ntfs' = ntfs_VBR ntfs \<and>
    (\<forall>i < length (Records t). volume_slot (sel = [] \<and> fromE = - 1 \<and> toE = MaxUint32) (Records t) i)"
  using assms by (rule Volume_Process_slots)

section \<open>A volume with one record\<close>

text \<open>A table with one record, whose data is the one cluster that holds it.\<close>

definition mft_bytes :: "byte list" where
  "mft_bytes = [0x46, 0x49, 0x4C, 0x45, 48, 0, 3, 0, 0, 0, 0, 0, 0, 0, 0, 0, 0, 0, 0, 0, 56, 0, 1, 0,
     0, 0, 0, 0, 0, 0, 0, 0, 0, 0, 0, 0, 0, 0, 0, 0, 0, 0, 0, 0, 0, 0, 0, 0, 1, 0, 0, 0, 0, 0, 0, 0,
     0x80, 0, 0, 0, 72, 0, 0, 0, 1, 0, 0, 0, 0, 0, 0, 0, 0, 0, 0, 0, 0, 0, 0, 0, 0, 0, 0, 0, 0, 0, 0, 0,
     64, 0, 0, 0, 0, 0, 0, 0, 0, 0, 0, 0, 0, 0, 0, 0, 0, 0, 0, 0, 0, 0, 0, 0, 0, 0, 0, 0, 0, 0, 0, 0,
     0x11, 1, 4, 0, 0, 0, 0, 0, 0xff, 0xff, 0xff, 0xff] @ replicate 892 0"

definition mft_header :: AttributeHeader where
  "mft_header = zero_AttributeHeader\<lparr>Type := [0x80, 0, 0, 0], AttrLen := 72, NoNResident := 1\<rparr>"

definition mft_attribute :: Attribute where
  "mft_attribute = Attribute (mft_header\<lparr>NonResident := Some (zero_ATRrecordNoNResident\<lparr>RunOff := 64,
     nr_RunList := Some (RunList 4 1 None), RunListTotalLenCl := 1\<rparr>)\<rparr>) (BData \<lparr>Content = []\<rparr>)"

lemma mft_fields:
  "usa_ok (full mft_bytes) (record_fields mft_bytes zero_Record)" "is_FILE mft_bytes" "le_at mft_bytes 20 2 = 56" "length mft_bytes = 1024"
  by (simp_all add: mft_bytes_def usa_ok_def record_fields_def le_at_def is_FILE_def full_def wf_slice_def)

lemma mft_fixup:
  "gbind (ProcessFixUpArrays (full mft_bytes) (record_fields mft_bytes zero_Record)) (apply_fixup (full mft_bytes)) = ret (full mft_bytes)"
proof -
  have "take 2 (drop 510 (arr (full mft_bytes))) = replicate 2 0" by (simp add: mft_bytes_def)
  also have "\<dots> = [0, 0]" by (simp add: numeral_2_eq_2)
  finally have ne: "take 2 (drop 48 (arr (full mft_bytes))) \<noteq> take 2 (drop 510 (arr (full mft_bytes)))"
    by (simp add: mft_bytes_def)
  then show ?thesis
    using fixup_buffer [OF mft_fields(1), of 48] by (simp add: record_fields_def le_at_def mft_bytes_def)
qed

lemma mft_headers:
  "next_header (full mft_bytes) 56 = ret (Some mft_header)" "next_header (full mft_bytes) 128 = ret None"
  by (simp_all add: header_eval mft_bytes_def mft_header_def)

lemma mft_runs_eval: "RunList_Process (Slice (drop 120 mft_bytes) 8) = ret (RunList 4 1 None, 1)"
proof -
  have "RunList_Process_from (Slice (drop 120 mft_bytes) 8) 3 = ret (None, 0)"
    by (rule RunList_Process_from_end) (simp add: mft_bytes_def ClusterLenB_def)
  then have "RunList_Process_from (Slice (drop 120 mft_bytes) 8) 0 = ret (Some (RunList 4 1 None), 1)"
    by (subst RunList_Process_from.simps)
      (simp add: mft_bytes_def at_def sub_def bytes_def ClusterOffsB_def ClusterLenB_def ReadEndianInt_def ReadEndianUInt_def
        copy_over_def numeral_3_eq_3)
  then show ?thesis by (simp add: RunList_Process_def)
qed

lemma mft_process: "process_attribute (full mft_bytes) 56 mft_header = ret ([mft_attribute], [])"
proof -
  have l: "length mft_bytes = 1024" by (rule mft_fields)
  have "unmarshal_ATRrecordNoNResident (Slice (drop 72 mft_bytes) 48) = ret (zero_ATRrecordNoNResident\<lparr>RunOff := 64, RunListTotalLenCl := 262417\<rparr>)"
    by (simp add: unmarshal_ATRrecordNoNResident_def Unmarshal_def ATRrecordNoNResident_layout_def mft_bytes_def read_le_eq le_at_def
        set_ATRrecordNoNResident_def zero_ATRrecordNoNResident_def)
  moreover have "sub (full mft_bytes) 72 120 = ret (Slice (drop 72 mft_bytes) 48)"
    "sub (full mft_bytes) 120 128 = ret (Slice (drop 120 mft_bytes) 8)"
    using l by (simp_all add: sub_def)
  moreover have "GetType (mft_header\<lparr>NonResident := n\<rparr>) = ''DATA''" for n
    by (simp add: GetType_def Bytereverse_def AttrTypes_def hex_eval mft_header_def)
  moreover have "IsNoNResident mft_header" "AttrLen mft_header = 72"
    by (simp_all add: mft_header_def IsNoNResident_def)
  ultimately show ?thesis
    using l by (simp add: process_attribute_def nonresident_attribute_def mft_runs_eval mft_attribute_def nonresident_body_def
        SetHeader_def Let_def type_tests)
qed

lemma mft_Process:
  "\<exists>r. Process (full mft_bytes) zero_Record = ret (None, r, full mft_bytes) \<and> Attributes r = [mft_attribute] \<and> Entry r = 0 \<and>
    LinkedRecords r = [] \<and> \<not> IsFolder r"
proof -
  have "AttrLen mft_header = 72" by (simp add: mft_header_def)
  then have c: "attr_chain (full mft_bytes) 56 [(56, mft_header)]"
    by (intro chain_step mft_headers) (simp_all add: chain_end mft_headers)
  have "\<exists>fx. Process (full mft_bytes) zero_Record = ret (None, (record_fields mft_bytes zero_Record)\<lparr>I30Size := 0,
      Attributes := [mft_attribute], LinkedRecordsInfo := [], Bitmap := IsBitmap mft_header, rec_FixUp := Some fx\<rparr>, full mft_bytes)"
    using Process_chain [of "full mft_bytes" zero_Record "full mft_bytes" "[(56, mft_header)]" "\<lambda>_. ([mft_attribute], [])"]
      mft_fields mft_fixup c mft_process by simp
  then obtain fx where "Process (full mft_bytes) zero_Record = ret (None, (record_fields mft_bytes zero_Record)\<lparr>I30Size := 0,
      Attributes := [mft_attribute], LinkedRecordsInfo := [], Bitmap := IsBitmap mft_header, rec_FixUp := Some fx\<rparr>, full mft_bytes)" ..
  moreover have "Entry (record_fields mft_bytes zero_Record) = 0" "rec_Flags (record_fields mft_bytes zero_Record) = 1"
    "LinkedRecords (record_fields mft_bytes zero_Record) = []"
    by (simp_all add: record_fields_def mft_bytes_def le_at_def zero_Record_def)
  ultimately show ?thesis by (auto simp: IsFolder_def getType_def lookup_str_def MFTflags_def)
qed

definition mft_reader :: reader where
  "mft_reader off len = ret (take (unat len) mft_bytes)"

definition mft_volume :: NTFS where
  "mft_volume = \<lparr>ntfs_VBR = Some (zero_VBR\<lparr>BytesPerSector := 512, SectorsPerCluster := 2, MFTOffset := 4\<rparr>), ntfs_MFT = None\<rparr>"

lemma mft_ProcessRecords:
  "\<exists>r d. ProcessRecords t (full mft_bytes) = ret (t\<lparr>Records := [r]\<rparr>, d) \<and> Attributes r = [mft_attribute] \<and> Entry r = 0 \<and>
    LinkedRecords r = [] \<and> \<not> IsFolder r"
proof -
  obtain r where r: "Process (full mft_bytes) zero_Record = ret (None, r, full mft_bytes)"
      "Attributes r = [mft_attribute]" "Entry r = 0" "LinkedRecords r = []" "\<not> IsFolder r" using mft_Process by blast
  have l: "length mft_bytes = 1024" by (rule mft_fields)
  have h: "Hexify (take 4 mft_bytes) \<noteq> ''00000000''" by (simp add: mft_bytes_def hex_eval)
  have e: "records_loop (Slice mft_bytes 1024) 1024 q tbl = ret (tbl, Slice mft_bytes 1024)" for q tbl
    by (subst records_loop.simps) simp
  have "records_loop (full mft_bytes) 0 zero_Record [zero_Record] = ret ([r], full mft_bytes)"
    using r l h e by (subst records_loop.simps) (simp add: sub_def full_Slice bytes_def RecordSize_def)
  then show ?thesis using r l by (auto simp: ProcessRecords_def RecordSize_def)
qed

lemma mft_data:
  "FindType mft_attribute = ''DATA''" "Attribute_IsNoNResident mft_attribute"
  by (simp_all add: FindType_def GetType_def Bytereverse_def AttrTypes_def hex_eval mft_attribute_def mft_header_def
      Attribute_IsNoNResident_def IsNoNResident_def)

lemma mft_queries:
  assumes "Attributes r = [mft_attribute]" and "LinkedRecords r = []"
  shows "DetermineClusterOffsetLength \<lparr>Records = [r], mft_Size = 0\<rparr> = ret \<lparr>Records = [r], mft_Size = 1\<rparr>"
    and "GetRunList tbl r ''DATA'' = ret (RunList 4 1 None)"
    and "ProcessNonResidentRecords rd dsz slack part cl [r] = ret [r]"
  using assms mft_data
  by (simp_all add: DetermineClusterOffsetLength_def FindAttribute_def nonresident_part_def GetRunList_def run_list_of_def
      attribute_run_list_def ProcessNonResidentRecords_def ProcessNoNResidentAttributes_def) (simp_all add: mft_attribute_def)

lemma mft_Volume_Process:
  "\<exists>n. Volume_Process mft_reader 65536 0 insertion_sort 0 [] (- 1) MaxUint32 mft_volume = ret n"
proof -
  have l: "length mft_bytes = 1024" by (rule mft_fields)
  obtain r d where r: "ProcessRecords \<lparr>Records = [], mft_Size = 0\<rparr> (full mft_bytes) = ret (\<lparr>Records = [r], mft_Size = 0\<rparr>, d)"
      "Attributes r = [mft_attribute]" "LinkedRecords r = []" using mft_ProcessRecords [of "\<lparr>Records = [], mft_Size = 0\<rparr>"] by auto
  obtain q d' where q: "ProcessRecords \<lparr>Records = [r], mft_Size = 1\<rparr> (full mft_bytes) = ret (\<lparr>Records = [q], mft_Size = 1\<rparr>, d')"
      "Attributes q = [mft_attribute]" "LinkedRecords q = []" "\<not> IsFolder q" using mft_ProcessRecords [of "\<lparr>Records = [r], mft_Size = 1\<rparr>"] by auto
  let ?n = "mft_volume\<lparr>ntfs_MFT := Some \<lparr>Records = [r], mft_Size = 1\<rparr>\<rparr>"
  have rd: "mft_reader off 1024 = ret mft_bytes" for off using l by (simp add: mft_reader_def)
  have area: "CollectMFTArea mft_reader 0 ?n = ret (mft_bytes, 1024)"
    using l by (simp add: CollectMFTArea_def the_MFT_def the_VBR_def mft_volume_def cluster_size_def first_record_def
        mft_queries [OF r(2,3)] buffer_Grow_def rd word_sless_alt max_alloc_def)
  have mft: "ProcessMFT 0 (full mft_bytes) [] (- 1) MaxUint32 ?n = ret (mft_volume\<lparr>ntfs_MFT := Some \<lparr>Records = [q], mft_Size = 1\<rparr>\<rparr>)"
    using ProcessMFT_eq [of "full mft_bytes" 1 "[]" "- 1" ?n "\<lparr>Records = [r], mft_Size = 1\<rparr>" MaxUint32 1 0] l q(1)
    by (simp add: wf_slice_def total_records_def RecordSize_def record_at_def selected_def buffer_Bytes_def MaxUint32_def full_def max_alloc_def)
  have ok: "table_ok [q]" using ProcessRecords_ok [OF q(1)] by simp
  obtain u where u: "CalculateFileSizes insertion_sort (map (\<lambda>r. r\<lparr>Parent := (case parent_ref [q] r of Some p \<Rightarrow> Some p | None \<Rightarrow> Parent r)\<rparr>) [q]) = ret u"
    using q(4) by (simp add: CalculateFileSizes_def record_sizes_def IsFolder_def getType_def)
  show ?thesis
    using r(1) area mft u
    by (simp add: Volume_Process_def the_VBR_def the_MFT_def mft_volume_def rd mft_queries [OF r(2,3)] mft_queries(3) [OF q(2,3)]
        buffer_Bytes_def l full_def table_ok_links [OF ok] FindParentRecords_eq [OF ok])
qed

theorem Volume_Process_table_witness:
  "\<exists>n t. Volume_Process mft_reader 65536 0 insertion_sort 0 [] (- 1) MaxUint32 mft_volume = ret n \<and> ntfs_MFT n = Some t \<and>
    (\<forall>i < length (Records t). volume_slot True (Records t) i)"
proof -
  obtain n where n: "Volume_Process mft_reader 65536 0 insertion_sort 0 [] (- 1) MaxUint32 mft_volume = ret n"
    using mft_Volume_Process by blast
  from Volume_Process_table [OF n] n show ?thesis by auto
qed

end
