(* ===== verification/Disk.thy ===== *)
theory Disk
  imports Partitions Channels Volume_Table
begin

text \<open>
  The disk of \<open>disk/disk.go\<close>: discovery of its partitions and volumes, their processing, and the workers
  that read files from them. The handler is a \<open>reader\<close>; a partition of the interface type is one of
  the three implementations. \<open>disk.Partitions\<close> points into the tables of the MBR and the GPT; the model
  holds copies, of which only the copies' volumes are read afterwards. A worker is given both as what it
  sends and as what it does to its channel.
\<close>

section \<open>Partitions\<close>

datatype DiskPartition = PMBR Partition | PExtended ExtendedPartition | PGPT GPTPartition

fun part_GetOffset :: "DiskPartition \<Rightarrow> u64" where
  "part_GetOffset (PMBR p) = Partition_GetOffset p"
| "part_GetOffset (PExtended e) = Extended_GetOffset e"
| "part_GetOffset (PGPT g) = GPT_GetOffset g"

fun part_LocateVolume :: "reader \<Rightarrow> DiskPartition \<Rightarrow> DiskPartition go" where
  "part_LocateVolume rd (PMBR p) = gbind (Partition_LocateVolume rd p) (\<lambda>p. ret (PMBR p))"
| "part_LocateVolume rd (PExtended e) = gbind (Extended_LocateVolume rd e) (\<lambda>e. ret (PExtended e))"
| "part_LocateVolume rd (PGPT g) = gbind (GPT_LocateVolume rd g) (\<lambda>g. ret (PGPT g))"

fun part_GetVolume :: "DiskPartition \<Rightarrow> Volume option" where
  "part_GetVolume (PMBR p) = mp_Volume p"
| "part_GetVolume (PExtended e) = Extended_GetVolume e"
| "part_GetVolume (PGPT g) = gp_Volume g"

text \<open>A call on the volume of a partition changes the volume the partition points to.\<close>

fun put_Volume :: "Volume \<Rightarrow> DiskPartition \<Rightarrow> DiskPartition" where
  "put_Volume v (PMBR p) = PMBR (p\<lparr>mp_Volume := Some v\<rparr>)"
| "put_Volume v (PExtended e) = PExtended (e\<lparr>ep_Partition := (ep_Partition e)\<lparr>mp_Volume := Some v\<rparr>\<rparr>)"
| "put_Volume v (PGPT g) = PGPT (g\<lparr>gp_Volume := Some v\<rparr>)"

record Disk =
  disk_MBR :: "MBR option"
  disk_GPT :: "GPT option"
  disk_Partitions :: "DiskPartition list"

definition the_MBR :: "Disk \<Rightarrow> MBR go" where
  "the_MBR disk = (case disk_MBR disk of None \<Rightarrow> panic Nil_dereference | Some m \<Rightarrow> ret m)"

section \<open>Discovery\<close>

text \<open>The flag is the error \<open>ErrNTFSVol\<close>, with which the disk is left unchanged.\<close>

definition populateMBR :: "reader \<Rightarrow> Disk \<Rightarrow> (Disk \<times> bool) go" where
  "populateMBR rd disk =
     gbind (rd 0 512) (\<lambda>data.
     gbind (sub (full data) 3 7) (\<lambda>s.
     if byte_string (bytes s) = ''NTFS'' then ret (disk, True)
     else
       gbind (MBR_Parse (full data) zero_MBR) (\<lambda>mbr.
       gbind (case GetExtendedPartitionOffset mbr of
           None \<Rightarrow> ret mbr
         | Some offset \<Rightarrow> gbind (rd (offset * 512) 512) (\<lambda>data. DiscoverExtendedPartitions (full data) offset mbr)) (\<lambda>mbr.
         ret (disk\<lparr>disk_MBR := Some mbr\<rparr>, False)))))"

definition populateGPT :: "reader \<Rightarrow> Disk \<Rightarrow> Disk go" where
  "populateGPT rd disk =
     gbind (rd 512 512) (\<lambda>data.
     gbind (ParseHeader (full data) \<lparr>gpt_Header = None, gpt_Partitions = []\<rparr>) (\<lambda>gpt.
     gbind (GetPartitionArraySize gpt) (\<lambda>len.
     gbind (the_GPTHeader gpt) (\<lambda>h.
     gbind (rd (gh_PartitionsStartLBA h * 512) (ucast len)) (\<lambda>data.
     gbind (ParsePartitions (full data) gpt) (\<lambda>gpt. ret (disk\<lparr>disk_GPT := Some gpt\<rparr>)))))))"

definition CreatePseudoMBR :: "string \<Rightarrow> Disk \<Rightarrow> Disk go" where
  "CreatePseudoMBR voltype disk =
     gbind (PopulatePseudoMBR voltype zero_MBR) (\<lambda>mbr.
       ret (disk\<lparr>disk_MBR := Some mbr, disk_Partitions := disk_Partitions disk @ map PMBR (mbr_Partitions mbr)\<rparr>))"

definition hasProtectiveMBR :: "Disk \<Rightarrow> bool go" where
  "hasProtectiveMBR disk = gbind (the_MBR disk) IsProtective"

text \<open>The GPT partitions that are kept for a partition number, \<open>-1\<close> for all of them.\<close>

definition kept_partitions :: "int \<Rightarrow> GPT \<Rightarrow> DiskPartition list" where
  "kept_partitions partitionNum gpt = map (\<lambda>i. PGPT (gpt_Partitions gpt ! i))
     (filter (\<lambda>i. \<not> (partitionNum \<noteq> - 1 \<and> partitionNum \<noteq> int i)) [0..<length (gpt_Partitions gpt)])"

definition DiscoverPartitions :: "reader \<Rightarrow> int \<Rightarrow> Disk \<Rightarrow> (Disk \<times> bool) go" where
  "DiscoverPartitions rd partitionNum disk =
     gbind (populateMBR rd disk) (\<lambda>(disk, err).
     if err then ret (disk, True)
     else
       gbind (hasProtectiveMBR disk) (\<lambda>protective.
       if protective then
         gbind (populateGPT rd disk) (\<lambda>disk. case disk_GPT disk of
             None \<Rightarrow> panic Nil_dereference
           | Some gpt \<Rightarrow> ret (disk\<lparr>disk_Partitions := disk_Partitions disk @ kept_partitions partitionNum gpt\<rparr>, False))
       else
         gbind (the_MBR disk) (\<lambda>mbr.
           ret (disk\<lparr>disk_Partitions := disk_Partitions disk @ map PMBR (mbr_Partitions mbr) @
             map PExtended (mbr_ExtendedPartitions mbr)\<rparr>, False))))"

text \<open>The signature of a volume is evaluated for the message about it.\<close>

fun process_partitions :: "reader \<Rightarrow> int \<Rightarrow> nat \<Rightarrow> DiskPartition list \<Rightarrow> DiskPartition list go" where
  "process_partitions rd partitionNum idx [] = ret []"
| "process_partitions rd partitionNum idx (p # ps) =
     gbind (if partitionNum \<noteq> - 1 \<and> int idx + 1 \<noteq> partitionNum then ret p
            else gbind (part_LocateVolume rd p) (\<lambda>p. case part_GetVolume p of
                None \<Rightarrow> ret p
              | Some vol \<Rightarrow> gbind (vol_GetSignature vol) (\<lambda>_. ret p))) (\<lambda>p.
     gbind (process_partitions rd partitionNum (idx + 1) ps) (\<lambda>ps. ret (p # ps)))"

definition ProcessPartitions :: "reader \<Rightarrow> int \<Rightarrow> Disk \<Rightarrow> Disk go" where
  "ProcessPartitions rd partitionNum disk =
     gbind (process_partitions rd partitionNum 0 (disk_Partitions disk)) (\<lambda>ps. ret (disk\<lparr>disk_Partitions := ps\<rparr>))"

section \<open>Processing\<close>

definition vol_Process ::
  "reader \<Rightarrow> i64 \<Rightarrow> nat \<Rightarrow> (IndexEntries \<Rightarrow> IndexEntries) \<Rightarrow> i64 \<Rightarrow> int list \<Rightarrow> int \<Rightarrow> int \<Rightarrow> Volume \<Rightarrow> Volume go" where
  "vol_Process rd diskSize slack srt part sel fromE toE v = (case v of
       VNTFS n \<Rightarrow> gbind (Volume_Process rd diskSize slack srt part sel fromE toE n) (\<lambda>n. ret (VNTFS n))
     | VLVM l \<Rightarrow> gbind (LVM2_Process rd part l) (\<lambda>l. ret (VLVM l)))"

definition DiscoverFileSystems ::
  "reader \<Rightarrow> i64 \<Rightarrow> nat \<Rightarrow> (IndexEntries \<Rightarrow> IndexEntries) \<Rightarrow> int list \<Rightarrow> int \<Rightarrow> int \<Rightarrow> Disk \<Rightarrow> Disk go" where
  "DiscoverFileSystems rd diskSize slack srt sel fromE toE disk =
     gbind (gmap (\<lambda>p. case part_GetVolume p of
           None \<Rightarrow> ret p
         | Some vol \<Rightarrow>
             gbind (vol_GetBytesPerSector vol) (\<lambda>bps.
             gbind (vol_Process rd diskSize slack srt (part_GetOffset p * bps) sel fromE toE vol) (\<lambda>vol.
               ret (put_Volume vol p)))) (disk_Partitions disk)) (\<lambda>ps.
       ret (disk\<lparr>disk_Partitions := ps\<rparr>))"

text \<open>The assignment to the map is commented out in the code.\<close>

fun metadata_from :: "int \<Rightarrow> nat \<Rightarrow> DiskPartition list \<Rightarrow> (nat \<rightharpoonup> Records) \<Rightarrow> (nat \<rightharpoonup> Records)" where
  "metadata_from partitionNum idx [] recordsPerPartition = recordsPerPartition"
| "metadata_from partitionNum idx (p # ps) recordsPerPartition =
     (if partitionNum \<noteq> - 1 \<and> int idx + 1 \<noteq> partitionNum then metadata_from partitionNum (idx + 1) ps recordsPerPartition
      else case part_GetVolume p of
          None \<Rightarrow> metadata_from partitionNum (idx + 1) ps recordsPerPartition
        | Some vol \<Rightarrow> metadata_from partitionNum (idx + 1) ps recordsPerPartition)"

definition GetFileSystemMetadata :: "Disk \<Rightarrow> int \<Rightarrow> (nat \<rightharpoonup> Records)" where
  "GetFileSystemMetadata disk partitionNum = metadata_from partitionNum 0 (disk_Partitions disk) Map.empty"

definition Disk_Process ::
  "reader \<Rightarrow> i64 \<Rightarrow> nat \<Rightarrow> (IndexEntries \<Rightarrow> IndexEntries) \<Rightarrow> int \<Rightarrow> int list \<Rightarrow> int \<Rightarrow> int \<Rightarrow> Disk
     \<Rightarrow> (Disk \<times> (nat \<rightharpoonup> Records)) go" where
  "Disk_Process rd diskSize slack srt partitionNum MFTentries fromMFTEntry toMFTEntry disk =
     gbind (DiscoverPartitions rd partitionNum disk) (\<lambda>(disk, err).
     gbind (if err then CreatePseudoMBR ''NTFS'' disk else ret disk) (\<lambda>disk.
     gbind (ProcessPartitions rd partitionNum disk) (\<lambda>disk.
     gbind (DiscoverFileSystems rd diskSize slack srt MFTentries fromMFTEntry toMFTEntry disk) (\<lambda>disk.
       ret (disk, GetFileSystemMetadata disk partitionNum)))))"

section \<open>Workers\<close>

text \<open>The volume of a partition, its sectors per cluster and bytes per sector, and its offset in bytes.\<close>

definition worker_geometry :: "Disk \<Rightarrow> nat \<Rightarrow> (i64 \<times> i64 \<times> i64) go" where
  "worker_geometry disk partitionNum =
     (if partitionNum < length (disk_Partitions disk) then
        let p = disk_Partitions disk ! partitionNum in case part_GetVolume p of
            None \<Rightarrow> panic Nil_dereference
          | Some vol \<Rightarrow>
              gbind (vol_GetSectorsPerCluster vol) (\<lambda>spc.
              gbind (vol_GetBytesPerSector vol) (\<lambda>bps. ret (spc, bps, part_GetOffset p * bps)))
      else panic Index_out_of_range)"

text \<open>
  The workers send what the computations of a list make, in order, and close the channel behind them. A record's name is
  fetched for the message about it. \<open>AsyncWorker\<close> and \<open>Worker\<close> are all that is sent, the \<open>_ops\<close> versions
  what happens on the channel.
\<close>

definition async_sends :: "reader \<Rightarrow> i64 \<Rightarrow> Records \<Rightarrow> i64 \<times> i64 \<times> i64 \<Rightarrow> Record \<Rightarrow> byte list list go list" where
  "async_sends rd diskSize tbl g record = (case g of (spc, bps, offset) \<Rightarrow>
     gbind (GetFname tbl record) (\<lambda>_. ret []) #
     (if IsFolder record then []
      else if LinkedRecords record = [] then [LocateDataAsync rd diskSize tbl offset spc bps record]
      else map (\<lambda>i. LocateDataAsync rd diskSize tbl offset spc bps (tbl ! i)) (LinkedRecords record)))"

definition AsyncWorker :: "reader \<Rightarrow> i64 \<Rightarrow> Records \<Rightarrow> Disk \<Rightarrow> nat \<Rightarrow> Record \<Rightarrow> byte list list go" where
  "AsyncWorker rd diskSize tbl disk partitionNum record =
     gbind (worker_geometry disk partitionNum) (\<lambda>g. gconcat (async_sends rd diskSize tbl g record))"

definition worker_sends :: "reader \<Rightarrow> i64 \<Rightarrow> Records \<Rightarrow> i64 \<times> i64 \<times> i64 \<Rightarrow> Record \<Rightarrow> AskedFile list go list" where
  "worker_sends rd diskSize tbl g record = (case g of (spc, bps, offset) \<Rightarrow>
     gbind (GetFname tbl record) (\<lambda>_. ret []) #
     (if IsFolder record then []
      else map (\<lambda>r. gbind (LocateData rd diskSize tbl offset spc bps r) (\<lambda>f. ret [f]))
        (if LinkedRecords record = [] then [record] else map ((!) tbl) (LinkedRecords record))))"

definition Worker :: "reader \<Rightarrow> i64 \<Rightarrow> Records \<Rightarrow> Disk \<Rightarrow> nat \<Rightarrow> Records \<Rightarrow> AskedFile list go" where
  "Worker rd diskSize tbl disk partitionNum records =
     gbind (worker_geometry disk partitionNum) (\<lambda>g. gconcat (concat (map (worker_sends rd diskSize tbl g) records)))"

definition on_channel :: "'g go \<Rightarrow> ('g \<Rightarrow> 'a list go list) \<Rightarrow> 'a op list \<times> fate" where
  "on_channel m f = (case m of
       None \<Rightarrow> ([], Loops)
     | Some (Inl c) \<Rightarrow> ([], Panics c)
     | Some (Inr g) \<Rightarrow> producing (f g))"

definition AsyncWorker_ops :: "reader \<Rightarrow> i64 \<Rightarrow> Records \<Rightarrow> Disk \<Rightarrow> nat \<Rightarrow> Record \<Rightarrow> byte list op list \<times> fate" where
  "AsyncWorker_ops rd diskSize tbl disk partitionNum record =
     on_channel (worker_geometry disk partitionNum) (\<lambda>g. async_sends rd diskSize tbl g record)"

definition Worker_ops :: "reader \<Rightarrow> i64 \<Rightarrow> Records \<Rightarrow> Disk \<Rightarrow> nat \<Rightarrow> Records \<Rightarrow> AskedFile op list \<times> fate" where
  "Worker_ops rd diskSize tbl disk partitionNum records =
     on_channel (worker_geometry disk partitionNum) (\<lambda>g. concat (map (worker_sends rd diskSize tbl g) records))"

lemma on_channel_simps [simp]:
  "on_channel None f = ([], Loops)" "on_channel (panic c) f = ([], Panics c)" "on_channel (ret g) f = producing (f g)"
  by (simp_all add: on_channel_def ret_def panic_def)

lemma on_channel_ret: "gbind m (\<lambda>g. gconcat (f g)) = ret xs \<Longrightarrow> on_channel m f = (map Send xs @ [Close_chan], Returns)"
  by (auto intro: producing_ret)

lemma on_channel_panic: "gbind m (\<lambda>g. gconcat (f g)) = panic c \<Longrightarrow> \<exists>xs. on_channel m f = (map Send xs, Panics c)"
  by (cases m rule: go_cases) (auto intro: producing_panic)

lemma Worker_ops_ret:
  "Worker rd diskSize tbl disk k records = ret fs \<Longrightarrow> Worker_ops rd diskSize tbl disk k records = (map Send fs @ [Close_chan], Returns)"
  unfolding Worker_def Worker_ops_def by (rule on_channel_ret)

lemma Worker_ops_panic:
  "Worker rd diskSize tbl disk k records = panic c \<Longrightarrow> \<exists>fs. Worker_ops rd diskSize tbl disk k records = (map Send fs, Panics c)"
  unfolding Worker_def Worker_ops_def by (rule on_channel_panic)

lemma AsyncWorker_ops_ret:
  "AsyncWorker rd diskSize tbl disk k record = ret cs \<Longrightarrow> AsyncWorker_ops rd diskSize tbl disk k record = (map Send cs @ [Close_chan], Returns)"
  unfolding AsyncWorker_def AsyncWorker_ops_def by (rule on_channel_ret)

text \<open>The records whose data is sent for a record, and what is sent for each of them.\<close>

definition sent_records :: "Records \<Rightarrow> Record \<Rightarrow> Records" where
  "sent_records tbl record =
     (if IsFolder record then []
      else if LinkedRecords record = [] then [record] else map ((!) tbl) (LinkedRecords record))"

lemma gconcat_singletons: "gconcat (map (\<lambda>r. gbind (f r) (\<lambda>x. ret [x])) rs) = gmap f rs"
  by (induction rs) (simp_all add: gconcat_Nil gconcat_Cons gbind_assoc)

lemma worker_sends_ret:
  assumes "gconcat (worker_sends rd diskSize tbl (spc, bps, offset) record) = ret fs"
  shows "gmap (LocateData rd diskSize tbl offset spc bps) (sent_records tbl record) = ret fs"
proof -
  have "gconcat (worker_sends rd diskSize tbl (spc, bps, offset) record) =
      gbind (GetFname tbl record) (\<lambda>_. gmap (LocateData rd diskSize tbl offset spc bps) (sent_records tbl record))"
    by (simp add: worker_sends_def sent_records_def gconcat_Cons gconcat_Nil gbind_assoc gconcat_singletons)
  with assms show ?thesis by auto
qed

lemma Worker_files:
  assumes "Worker rd diskSize tbl disk k records = ret fs" and "worker_geometry disk k = ret (spc, bps, offset)"
  shows "list_all2 (\<lambda>r f. LocateData rd diskSize tbl offset spc bps r = ret f) (concat (map (sent_records tbl) records)) fs"
proof -
  have "gconcat (concat (map (worker_sends rd diskSize tbl (spc, bps, offset)) records)) = ret fs \<Longrightarrow>
      gmap (LocateData rd diskSize tbl offset spc bps) (concat (map (sent_records tbl) records)) = ret fs" for fs
  proof (induction records arbitrary: fs)
    case (Cons rcd records)
    then obtain xs ys where x: "gconcat (worker_sends rd diskSize tbl (spc, bps, offset) rcd) = ret xs" "fs = xs @ ys"
        "gconcat (concat (map (worker_sends rd diskSize tbl (spc, bps, offset)) records)) = ret ys"
      by (auto simp: gconcat_append)
    from worker_sends_ret [OF x(1)] Cons.IH [OF x(3)] show ?case by (simp add: gmap_append x(2))
  qed (simp add: gconcat_Nil)
  with assms show ?thesis by (intro gmap_list_all2) (simp add: Worker_def)
qed

section \<open>Unallocated clusters\<close>

text \<open>
  What \<open>CollectedUnallocated\<close> does to the channel that the volumes share: an NTFS volume sends its blocks and
  closes the channel, an LVM volume does nothing. A panic of a collection comes before what the volume sends.
\<close>

definition volume_ops :: "reader \<Rightarrow> DiskPartition \<Rightarrow> byte list op list go" where
  "volume_ops rd p = (case part_GetVolume p of
       None \<Rightarrow> ret []
     | Some vol \<Rightarrow>
         gbind (vol_GetBytesPerSector vol) (\<lambda>bps. case vol of
             VLVM l \<Rightarrow> ret []
           | VNTFS n \<Rightarrow>
               gbind (CollectUnallocated rd (part_GetOffset p * bps) n) (\<lambda>blocks. ret (map Send blocks @ [Close_chan]))))"

definition CollectedUnallocated :: "reader \<Rightarrow> Disk \<Rightarrow> byte list op list \<times> fate" where
  "CollectedUnallocated rd disk = scripted (map (volume_ops rd) (disk_Partitions disk))"

section \<open>The interfaces of volumes and partitions\<close>

text \<open>What the disk relies on: processing a volume keeps its geometry, and a volume that is put back into its
  partition is found there and does not move the partition.\<close>

locale volume_interface =
  fixes process :: "i64 \<Rightarrow> 'v \<Rightarrow> 'v go"
    and sectors_per_cluster :: "'v \<Rightarrow> i64 go"
    and bytes_per_sector :: "'v \<Rightarrow> u64 go"
  assumes process_sectors: "process off v = ret v' \<Longrightarrow> sectors_per_cluster v' = sectors_per_cluster v"
    and process_bytes: "process off v = ret v' \<Longrightarrow> bytes_per_sector v' = bytes_per_sector v"

locale partition_interface =
  fixes get_volume :: "'p \<Rightarrow> 'v option"
    and put_volume :: "'v \<Rightarrow> 'p \<Rightarrow> 'p"
    and get_offset :: "'p \<Rightarrow> u64"
  assumes get_put: "get_volume (put_volume v p) = Some v"
    and offset_put: "get_offset (put_volume v p) = get_offset p"

locale processed_partition = volume_interface process sectors_per_cluster bytes_per_sector +
    partition_interface get_volume put_volume get_offset
  for process :: "i64 \<Rightarrow> 'v \<Rightarrow> 'v go" and sectors_per_cluster :: "'v \<Rightarrow> i64 go" and bytes_per_sector :: "'v \<Rightarrow> u64 go"
    and get_volume :: "'p \<Rightarrow> 'v option" and put_volume :: "'v \<Rightarrow> 'p \<Rightarrow> 'p" and get_offset :: "'p \<Rightarrow> u64"
begin

definition process_volume :: "'p \<Rightarrow> 'p go" where
  "process_volume p = (case get_volume p of
       None \<Rightarrow> ret p
     | Some vol \<Rightarrow> gbind (bytes_per_sector vol) (\<lambda>bps.
         gbind (process (get_offset p * bps) vol) (\<lambda>vol. ret (put_volume vol p))))"

definition geometry :: "'p \<Rightarrow> (u64 \<times> (i64 \<times> u64) go option)" where
  "geometry p = (get_offset p, map_option (\<lambda>v. gbind (sectors_per_cluster v) (\<lambda>spc. gbind (bytes_per_sector v) (\<lambda>bps. ret (spc, bps))))
     (get_volume p))"

lemma process_volume_geometry: "process_volume p = ret p' \<Longrightarrow> geometry p' = geometry p"
  by (auto simp: process_volume_def geometry_def get_put offset_put process_sectors process_bytes split: option.splits)

lemma process_volume_result: "process_volume p = ret p' \<Longrightarrow> get_volume p' = Some v \<Longrightarrow> \<exists>off vol. process off vol = ret v"
  by (fastforce simp: process_volume_def get_put split: option.splits)

lemma process_all_geometry: "gmap process_volume ps = ret ps' \<Longrightarrow> map geometry ps' = map geometry ps"
  proof (induction ps arbitrary: ps')
  case (Cons p ps)
  then obtain p' qs where "process_volume p = ret p'" "gmap process_volume ps = ret qs" "ps' = p' # qs" by auto
  with Cons.IH process_volume_geometry [of p p'] show ?case by simp
qed simp

end

lemma Volume_Process_VBR: "Volume_Process rd diskSize slack srt part sel fromE toE n = ret n' \<Longrightarrow> ntfs_VBR n' = ntfs_VBR n"
  by (auto simp: Volume_Process_def ProcessMFT_def Let_def split: prod.splits if_splits)

interpretation volumes: processed_partition "\<lambda>off. vol_Process rd diskSize slack srt off sel fromE toE"
    vol_GetSectorsPerCluster vol_GetBytesPerSector part_GetVolume put_Volume part_GetOffset
  for rd diskSize slack srt sel fromE toE
proof unfold_locales
  fix off :: i64 and v v'
  assume v: "vol_Process rd diskSize slack srt off sel fromE toE v = ret v'"
  show "vol_GetSectorsPerCluster v' = vol_GetSectorsPerCluster v"
    using v by (cases v) (auto simp: vol_Process_def GetSectorsPerCluster_def the_VBR_def dest!: Volume_Process_VBR)
  show "vol_GetBytesPerSector v' = vol_GetBytesPerSector v"
    using v by (cases v) (auto simp: vol_Process_def GetBytesPerSector_def the_VBR_def dest!: Volume_Process_VBR)
next
  fix v p
  show "part_GetVolume (put_Volume v p) = Some v" by (cases p) (simp_all add: Extended_GetVolume_def)
  show "part_GetOffset (put_Volume v p) = part_GetOffset p"
    by (cases p) (simp_all add: Partition_GetOffset_def Extended_GetOffset_def GPT_GetOffset_def)
qed

lemma DiscoverFileSystems_gmap:
  "DiscoverFileSystems rd diskSize slack srt sel fromE toE disk =
    gbind (gmap (volumes.process_volume rd diskSize slack srt sel fromE toE) (disk_Partitions disk)) (\<lambda>ps.
      ret (disk\<lparr>disk_Partitions := ps\<rparr>))"
  by (simp add: DiscoverFileSystems_def volumes.process_volume_def [abs_def])

text \<open>The geometry of a partition as the workers read it.\<close>

lemma worker_geometry_of:
  "worker_geometry disk n = (if n < length (disk_Partitions disk) then
      (case volumes.geometry (disk_Partitions disk ! n) of (off, g) \<Rightarrow> (case g of
          None \<Rightarrow> panic Nil_dereference
        | Some m \<Rightarrow> gbind m (\<lambda>(spc, bps). ret (spc, bps, off * bps))))
    else panic Index_out_of_range)"
  by (auto simp: worker_geometry_def volumes.geometry_def Let_def gbind_assoc split: option.splits)

lemma worker_geometry_cong:
  assumes "map volumes.geometry (disk_Partitions d) = map volumes.geometry (disk_Partitions d')"
  shows "worker_geometry d n = worker_geometry d' n"
proof -
  have "length (disk_Partitions d) = length (disk_Partitions d')" using assms by (rule map_eq_imp_length_eq)
  moreover have "volumes.geometry (disk_Partitions d ! n) = volumes.geometry (disk_Partitions d' ! n)"
    if "n < length (disk_Partitions d)"
    using assms that calculation by (metis nth_map)
  ultimately show ?thesis by (simp add: worker_geometry_of)
qed

lemma processed_volume:
  assumes "volumes.process_volume rd diskSize slack srt sel fromE toE p = ret q" and "part_GetVolume q = Some (VNTFS n)"
  shows "\<exists>t. ntfs_MFT n = Some t \<and> (\<forall>i < length (Records t). volume_slot (sel = [] \<and> fromE = - 1 \<and> toE = MaxUint32) (Records t) i)"
  using volumes.process_volume_result [OF assms] Volume_Process_slots by (fastforce simp: vol_Process_def split: Volume.splits)

text \<open>C32: Processing the volumes does not move them. When \<open>Disk.Process\<close> returns, the partitions are those
  that discovery and the probing of volumes left, one for one: the boot sector, the GPT and the
  offsets are the same, every partition that had a volume still has one, and the geometry that
  the workers compute with for a partition number is the one that was found on the disk. Every NTFS volume of the disk
  has a table whose slots are as \<open>Process\<close> of a volume leaves them.\<close>

theorem Disk_Process_geometry:
  assumes "Disk_Process rd diskSize slack srt k sel fromE toE disk = ret (disk', records)"
  shows "\<exists>d1 err d2 d3. DiscoverPartitions rd k disk = ret (d1, err) \<and>
    (if err then CreatePseudoMBR ''NTFS'' d1 else ret d1) = ret d2 \<and> ProcessPartitions rd k d2 = ret d3 \<and>
    disk_MBR disk' = disk_MBR d3 \<and> disk_GPT disk' = disk_GPT d3 \<and>
    map part_GetOffset (disk_Partitions disk') = map part_GetOffset (disk_Partitions d3) \<and>
    map (\<lambda>p. part_GetVolume p = None) (disk_Partitions disk') = map (\<lambda>p. part_GetVolume p = None) (disk_Partitions d3) \<and>
    (\<forall>n. worker_geometry disk' n = worker_geometry d3 n) \<and>
    (\<forall>p \<in> set (disk_Partitions disk'). \<forall>n. part_GetVolume p = Some (VNTFS n) \<longrightarrow>
      (\<exists>t. ntfs_MFT n = Some t \<and> (\<forall>i < length (Records t). volume_slot (sel = [] \<and> fromE = - 1 \<and> toE = MaxUint32) (Records t) i)))"
proof -
  from assms obtain d1 err d2 d3 where d: "DiscoverPartitions rd k disk = ret (d1, err)"
      "(if err then CreatePseudoMBR ''NTFS'' d1 else ret d1) = ret d2" "ProcessPartitions rd k d2 = ret d3"
      "DiscoverFileSystems rd diskSize slack srt sel fromE toE d3 = ret disk'"
    by (auto simp: Disk_Process_def)
  from d(4) obtain ps where ps: "gmap (volumes.process_volume rd diskSize slack srt sel fromE toE) (disk_Partitions d3) = ret ps"
      "disk' = d3\<lparr>disk_Partitions := ps\<rparr>"
    by (auto simp: DiscoverFileSystems_gmap)
  have g: "map volumes.geometry ps = map volumes.geometry (disk_Partitions d3)"
    using ps(1) by (rule volumes.process_all_geometry)
  have "map fst (map volumes.geometry ps) = map fst (map volumes.geometry (disk_Partitions d3))"
    "map (\<lambda>g. snd g = None) (map volumes.geometry ps) = map (\<lambda>g. snd g = None) (map volumes.geometry (disk_Partitions d3))"
    by (simp_all only: g)
  then have "map part_GetOffset ps = map part_GetOffset (disk_Partitions d3)"
    "map (\<lambda>p. part_GetVolume p = None) ps = map (\<lambda>p. part_GetVolume p = None) (disk_Partitions d3)"
    by (simp_all add: volumes.geometry_def comp_def)
  moreover have "\<forall>n. worker_geometry disk' n = worker_geometry d3 n"
    using g ps(2) by (intro allI worker_geometry_cong) simp
  moreover have "\<exists>t. ntfs_MFT n = Some t \<and> (\<forall>i < length (Records t). volume_slot (sel = [] \<and> fromE = - 1 \<and> toE = MaxUint32) (Records t) i)"
    if "p \<in> set ps" "part_GetVolume p = Some (VNTFS n)" for p n
    using list_all2_source [OF gmap_list_all2 [OF ps(1)] that(1)] processed_volume that(2) by blast
  ultimately show ?thesis using d ps(2) by (intro exI conjI) auto
qed

section \<open>What is processed\<close>

lemma metadata_from_id: "metadata_from partitionNum idx ps m = m"
  by (induction partitionNum idx ps m rule: metadata_from.induct) (auto split: option.splits)

lemma Disk_Process_empty:
  "Disk_Process rd diskSize slack srt partitionNum sel fromE toE disk = ret (disk', records) \<Longrightarrow> records = Map.empty"
  by (auto simp: Disk_Process_def GetFileSystemMetadata_def metadata_from_id split: prod.splits)

text \<open>No records come out of a disk. Whenever \<open>Disk.Process\<close> returns, the map of records per
  partition that it returns is empty, whatever the disk holds and whatever was parsed: its only
  assignment is commented out.\<close>

theorem Disk_Process_no_records:
  assumes "Disk_Process rd diskSize slack srt partitionNum sel fromE toE disk = ret (disk', records)"
  shows "records = Map.empty"
  using assms by (rule Disk_Process_empty)

lemma process_partitions_other:
  "(\<forall>i < length ps. int (idx + i) + 1 \<noteq> partitionNum) \<Longrightarrow> partitionNum \<noteq> - 1 \<Longrightarrow>
    process_partitions rd partitionNum idx ps = ret ps"
proof (induction ps arbitrary: idx)
  case (Cons p ps)
  have "int idx + 1 \<noteq> partitionNum" using Cons.prems(1) by (metis add.right_neutral length_greater_0_conv list.distinct(1))
  moreover have "process_partitions rd partitionNum (idx + 1) ps = ret ps"
  proof (rule Cons.IH [OF _ Cons.prems(2)], intro allI impI)
    fix i assume "i < length ps"
    then show "int (idx + 1 + i) + 1 \<noteq> partitionNum" using Cons.prems(1) [rule_format, of "Suc i"] by simp
  qed
  ultimately show ?case using Cons.prems(2) by simp
qed simp

lemma kept_one: "0 \<le> k \<Longrightarrow> kept_partitions k gpt = (if nat k < length (gpt_Partitions gpt) then [PGPT (gpt_Partitions gpt ! nat k)] else [])"
proof -
  assume k: "0 \<le> k"
  have "filter (\<lambda>i. \<not> (k \<noteq> - 1 \<and> k \<noteq> int i)) [0..<n] = (if nat k < n then [nat k] else [])" for n
    using k by (induction n) (auto simp: less_Suc_eq)
  then show ?thesis by (simp add: kept_partitions_def)
qed

text \<open>The selection of a GPT partition. Discovery keeps the partition with the given index, counted
  from 0, alone; processing probes the position with the given number, counted from 1, of what was
  kept. So for every number but 1 no partition is probed and the disk is left as discovered; for 1
  it is the second partition of the table that is probed.\<close>

theorem GPT_selection_mismatch:
  assumes "populateMBR rd disk = ret (disk1, False)" and "hasProtectiveMBR disk1 = ret True"
    and "populateGPT rd disk1 = ret disk2" and "disk_GPT disk2 = Some gpt" and "disk_Partitions disk2 = []"
    and "0 \<le> k" and "nat k < length (gpt_Partitions gpt)"
  shows "DiscoverPartitions rd k disk = ret (disk2\<lparr>disk_Partitions := [PGPT (gpt_Partitions gpt ! nat k)]\<rparr>, False) \<and>
    (k \<noteq> 1 \<longrightarrow> ProcessPartitions rd k (disk2\<lparr>disk_Partitions := [PGPT (gpt_Partitions gpt ! nat k)]\<rparr>) =
       ret (disk2\<lparr>disk_Partitions := [PGPT (gpt_Partitions gpt ! nat k)]\<rparr>))"
proof
  show "DiscoverPartitions rd k disk = ret (disk2\<lparr>disk_Partitions := [PGPT (gpt_Partitions gpt ! nat k)]\<rparr>, False)"
    using assms by (simp add: DiscoverPartitions_def kept_one)
  show "k \<noteq> 1 \<longrightarrow> ProcessPartitions rd k (disk2\<lparr>disk_Partitions := [PGPT (gpt_Partitions gpt ! nat k)]\<rparr>) =
      ret (disk2\<lparr>disk_Partitions := [PGPT (gpt_Partitions gpt ! nat k)]\<rparr>)"
    using assms(6) process_partitions_other [of "[PGPT (gpt_Partitions gpt ! nat k)]" 0 k rd]
    by (auto simp: ProcessPartitions_def)
qed

text \<open>A disk with a protective MBR, a GPT header with two entries of 128 bytes at sector 2, and an empty table.\<close>

definition gpt_sample_reader :: reader where
  "gpt_sample_reader off len =
     (if off = 0 then ret (replicate 450 0 @ [0xEE] @ replicate 61 0)
      else if off = 512 then ret (replicate 72 0 @ le_bytes 8 2 @ le_bytes 4 2 @ le_bytes 4 128 @ replicate 424 0)
      else ret (replicate (unat len) 0))"

definition empty_Disk :: Disk where
  "empty_Disk = \<lparr>disk_MBR = None, disk_GPT = None, disk_Partitions = []\<rparr>"

section \<open>The shared channel\<close>

text \<open>The blocks of the NTFS volumes of some partitions, volume by volume: what each volume collects from its
  offset in bytes. And what they come to on the channel.\<close>

definition volume_blocks :: "reader \<Rightarrow> DiskPartition \<Rightarrow> byte list list option go" where
  "volume_blocks rd p = (case part_GetVolume p of
       Some (VNTFS n) \<Rightarrow> gbind (vol_GetBytesPerSector (VNTFS n)) (\<lambda>bps.
         gbind (CollectUnallocated rd (part_GetOffset p * bps) n) (\<lambda>bs. ret (Some bs)))
     | Some (VLVM l) \<Rightarrow> gbind (vol_GetBytesPerSector (VLVM l)) (\<lambda>_. ret None)
     | None \<Rightarrow> ret None)"

fun ntfs_blocks :: "reader \<Rightarrow> DiskPartition list \<Rightarrow> byte list list list go" where
  "ntfs_blocks rd [] = ret []"
| "ntfs_blocks rd (p # ps) = gbind (volume_blocks rd p) (\<lambda>b.
     gbind (ntfs_blocks rd ps) (\<lambda>bss. ret (case b of None \<Rightarrow> bss | Some bs \<Rightarrow> bs # bss)))"

lemma volume_ops_blocks: "volume_ops rd p =
    gbind (volume_blocks rd p) (\<lambda>b. ret (case b of None \<Rightarrow> [] | Some bs \<Rightarrow> map Send bs @ [Close_chan]))"
  by (simp add: volume_ops_def volume_blocks_def gbind_assoc split: option.splits Volume.splits)

lemma CollectedUnallocated_blocks:
  "ntfs_blocks rd ps = ret bss \<Longrightarrow>
    scripted (map (volume_ops rd) ps) = (concat (map (\<lambda>bs. map Send bs @ [Close_chan]) bss), Returns)"
proof (induction ps arbitrary: bss)
  case (Cons p ps)
  from Cons.prems obtain b bss' where "volume_blocks rd p = ret b" "ntfs_blocks rd ps = ret bss'"
      "bss = (case b of None \<Rightarrow> bss' | Some bs \<Rightarrow> bs # bss')" by auto
  with Cons.IH show ?case by (auto simp: volume_ops_blocks split: option.splits)
qed simp

definition sample_volume :: NTFS where
  "sample_volume = \<lparr>ntfs_VBR = Some (zero_VBR\<lparr>BytesPerSector := 2, SectorsPerCluster := 1\<rparr>),
     ntfs_MFT = Some \<lparr>Records = [zero_Record\<lparr>Attributes := [sample_bitmap]\<rparr>], mft_Size = 1\<rparr>\<rparr>"

section \<open>Two sample disks\<close>

lemma partition_at_zero: "i + 16 \<le> n \<Longrightarrow> partition_at (replicate n 0) i = zero_Partition"
  by (simp add: partition_at_def zero_Partition_def le_at_def numeral_eq_Suc)

lemma partition_at_append: "length xs \<le> i \<Longrightarrow> partition_at (xs @ ys) i = partition_at ys (i - length xs)"
  by (simp add: partition_at_def le_at_append2 Suc_diff_le)

lemma zero_MBR_Parse:
  "MBR_Parse (full (replicate 512 0)) zero_MBR = ret (zero_MBR\<lparr>mbr_Partitions := replicate 4 zero_Partition\<rparr>)"
proof -
  have "map (\<lambda>k. partition_at (replicate 512 0) (446 + 16 * k)) [0..<4] = replicate 4 zero_Partition"
    by (rule nth_equalityI) (auto simp: partition_at_zero)
  then show ?thesis
    using MBR_Parse_eq [of "full (replicate 512 0)" zero_MBR] by (simp add: zero_MBR_def)
qed

definition zero_reader :: reader where
  "zero_reader off len = ret (replicate (unat len) 0)"

lemma zero_disk_Process:
  "\<exists>d. Disk_Process zero_reader 1000 0 id (- 1) [] (- 1) MaxUint32 empty_Disk = ret (d, Map.empty) \<and>
     length (disk_Partitions d) = 4"
proof -
  let ?m = "zero_MBR\<lparr>mbr_Partitions := replicate 4 zero_Partition\<rparr>"
  have z: "mp_Type zero_Partition = 0" "mp_Volume zero_Partition = None" "mbr_ExtendedPartitions zero_MBR = []"
    by (simp_all add: zero_Partition_def zero_MBR_def)
  have four: "replicate 4 x = [x, x, x, x]" for x :: 'x by (simp add: numeral_eq_Suc)
  have mbr: "populateMBR zero_reader empty_Disk = ret (empty_Disk\<lparr>disk_MBR := Some ?m\<rparr>, False)"
    using zero_MBR_Parse by (simp add: populateMBR_def zero_reader_def sub_def bytes_def byte_string_def GetExtendedPartitionOffset_def z four find_None_iff)
  have one: "process_partitions zero_reader (- 1) i (replicate n (PMBR zero_Partition)) = ret (replicate n (PMBR zero_Partition))" for i n
    by (induction n arbitrary: i) (simp_all add: Partition_LocateVolume_def zero_reader_def z)
  have fs: "gmap (\<lambda>p. case part_GetVolume p of None \<Rightarrow> ret p | Some vol \<Rightarrow> f p vol) (replicate n (PMBR zero_Partition)) = ret (replicate n (PMBR zero_Partition))" for f n
    by (induction n) (simp_all add: z)
  let ?d = "empty_Disk\<lparr>disk_MBR := Some ?m, disk_Partitions := replicate 4 (PMBR zero_Partition)\<rparr>"
  have "DiscoverPartitions zero_reader (- 1) empty_Disk = ret (?d, False)"
    using mbr by (simp add: DiscoverPartitions_def hasProtectiveMBR_def the_MBR_def IsProtective_def z four empty_Disk_def)
  moreover have "ProcessPartitions zero_reader (- 1) ?d = ret ?d"
    using one [of 0 4] by (simp add: ProcessPartitions_def)
  moreover have "DiscoverFileSystems zero_reader 1000 0 id [] (- 1) MaxUint32 ?d = ret ?d"
    by (simp add: DiscoverFileSystems_def fs)
  ultimately have p: "Disk_Process zero_reader 1000 0 id (- 1) [] (- 1) MaxUint32 empty_Disk = ret (?d, GetFileSystemMetadata ?d (- 1))"
    by (simp add: Disk_Process_def)
  from p Disk_Process_empty [OF p] show ?thesis by simp
qed

theorem Disk_Process_no_records_witness:
  "\<exists>d m. Disk_Process zero_reader 1000 0 id (- 1) [] (- 1) MaxUint32 empty_Disk = ret (d, m) \<and> m = Map.empty"
  using zero_disk_Process Disk_Process_no_records by blast

theorem Disk_Process_geometry_witness:
  "\<exists>d d3. Disk_Process zero_reader 1000 0 id (- 1) [] (- 1) MaxUint32 empty_Disk = ret (d, Map.empty) \<and>
    map part_GetOffset (disk_Partitions d) = map part_GetOffset (disk_Partitions d3) \<and>
    (\<forall>n. worker_geometry d n = worker_geometry d3 n)"
  using zero_disk_Process Disk_Process_geometry by blast

definition protective_sector :: "byte list" where
  "protective_sector = replicate 450 0 @ [0xEE] @ replicate 61 0"

lemma protective_MBR_Parse:
  "\<exists>m. MBR_Parse (full protective_sector) zero_MBR = ret m \<and> IsProtective m = ret True \<and> GetExtendedPartitionOffset m = None"
proof -
  let ?p = "\<lambda>k. partition_at protective_sector (446 + 16 * k)"
  have tail: "?p k = zero_Partition" if "0 < k" "k < 4" for k
  proof -
    have "protective_sector = (replicate 450 0 @ [0xEE]) @ replicate 61 0" by (simp add: protective_sector_def)
    then have "?p k = partition_at (replicate 61 0) (446 + 16 * k - 451)"
      using that partition_at_append [of "replicate 450 0 @ [0xEE]" "446 + 16 * k" "replicate 61 0"] by simp
    then show ?thesis using that by (simp add: partition_at_zero)
  qed
  have "mp_Type (?p 0) = 0xEE"
    by (simp add: partition_at_def protective_sector_def le_at_def)
  moreover have "map ?p [0..<4] = [?p 0, zero_Partition, zero_Partition, zero_Partition]"
    using tail [of 1] tail [of 2] tail [of 3] by (simp add: upt_rec)
  moreover have "length protective_sector = 512" by (simp add: protective_sector_def)
  ultimately show ?thesis
    using MBR_Parse_eq [of "full protective_sector" zero_MBR]
    by (simp add: IsProtective_def GetExtendedPartitionOffset_def find_None_iff zero_Partition_def)
qed

lemma zero_GPTPartition_Parse:
  "unmarshal_count GPTPartition_layout set_GPTPartition zero_GPTPartition (Slice (replicate n 0) 128) = ret (zero_GPTPartition, 56)"
  if "128 \<le> n"
proof -
  have "Unmarshal GPTPartition_layout (Slice (replicate n 0) 128) =
      ret (layout_values GPTPartition_layout (replicate n 0) 0, 56, True)"
    using Unmarshal_ok [of GPTPartition_layout "Slice (replicate n 0) 128"] that
    by (simp add: GPTPartition_layout_def plain_layout_def wf_slice_def)
  then show ?thesis using that
    by (simp add: unmarshal_count_def GPTPartition_layout_def set_GPTPartition_def zero_GPTPartition_def le_at_def)
qed

lemma gpt_sample_header:
  "\<exists>h. ParseHeader (full (replicate 72 0 @ le_bytes 8 2 @ le_bytes 4 2 @ le_bytes 4 128 @ replicate 424 0))
      \<lparr>gpt_Header = None, gpt_Partitions = []\<rparr> = ret \<lparr>gpt_Header = Some h, gpt_Partitions = []\<rparr> \<and>
    gh_PartitionsStartLBA h = 2 \<and> gh_NofPartitions h = 2 \<and> gh_PartitionSize h = 128"
proof -
  let ?xs = "replicate 72 0 @ le_bytes 8 2 @ le_bytes 4 2 @ le_bytes 4 128 @ replicate 424 0"
  have "Unmarshal GPTHeader_layout (full ?xs) = ret (layout_values GPTHeader_layout ?xs 0, 512, True)"
    using Unmarshal_ok [of GPTHeader_layout "full ?xs"] by (simp add: GPTHeader_layout_def plain_layout_def)
  moreover have "le_at ?xs 72 8 = 2" "le_at ?xs 80 4 = 2" "le_at ?xs 84 4 = 128"
    by (simp_all add: le_at_def le_bytes_numeral)
  ultimately show ?thesis
    by (simp add: ParseHeader_def unmarshal_count_def set_GPTHeader_def GPTHeader_layout_def)
qed

theorem GPT_selection_mismatch_witness:
  "\<exists>d. DiscoverPartitions gpt_sample_reader 0 empty_Disk = ret (d, False) \<and> length (disk_Partitions d) = 1 \<and>
     ProcessPartitions gpt_sample_reader 0 d = ret d"
proof -
  obtain m where m: "MBR_Parse (full protective_sector) zero_MBR = ret m" "IsProtective m = ret True"
      "GetExtendedPartitionOffset m = None"
    using protective_MBR_Parse by blast
  obtain h where h: "ParseHeader (full (replicate 72 0 @ le_bytes 8 2 @ le_bytes 4 2 @ le_bytes 4 128 @ replicate 424 0))
      \<lparr>gpt_Header = None, gpt_Partitions = []\<rparr> = ret \<lparr>gpt_Header = Some h, gpt_Partitions = []\<rparr>"
      "gh_PartitionsStartLBA h = 2" "gh_NofPartitions h = 2" "gh_PartitionSize h = 128"
    using gpt_sample_header by blast
  let ?d1 = "empty_Disk\<lparr>disk_MBR := Some m\<rparr>"
  let ?g = "\<lparr>gpt_Header = Some h, gpt_Partitions = [zero_GPTPartition, zero_GPTPartition]\<rparr>"
  have "\<not> byte_string (replicate 4 0) = ''NTFS''" by (simp add: byte_string_def numeral_eq_Suc)
  moreover have "sub (full protective_sector) 3 7 = ret (Slice (drop 3 protective_sector) 4)"
    by (simp add: sub_def protective_sector_def)
  moreover have "take 4 (drop 3 protective_sector) = replicate 4 0" by (simp add: protective_sector_def)
  moreover have "gpt_sample_reader 0 512 = ret protective_sector"
    by (simp add: gpt_sample_reader_def protective_sector_def)
  ultimately have mbr: "populateMBR gpt_sample_reader empty_Disk = ret (?d1, False)"
    using m by (simp add: populateMBR_def bytes_def)
  have "ParsePartitions (full (replicate 256 0)) \<lparr>gpt_Header = Some h, gpt_Partitions = []\<rparr> = ret ?g"
    using h by (simp add: ParsePartitions_def the_GPTHeader_def upt_rec sub_def zero_GPTPartition_Parse)
  then have gpt: "populateGPT gpt_sample_reader ?d1 = ret (?d1\<lparr>disk_GPT := Some ?g\<rparr>)"
    using h by (simp add: populateGPT_def gpt_sample_reader_def GetPartitionArraySize_def the_GPTHeader_def)
  have "hasProtectiveMBR ?d1 = ret True" using m by (simp add: hasProtectiveMBR_def the_MBR_def)
  from GPT_selection_mismatch [OF mbr this gpt, of ?g 0]
  show ?thesis by (intro exI) (auto simp: empty_Disk_def)
qed

end
