(* ===== verification/UsnJrnl.thy ===== *)
theory UsnJrnl
  imports Disk
begin

text \<open>
  The change journal of \<open>FS/NTFS/usnjrnl/usnjrnl.go\<close>: its records, the parser, and the pipeline of a
  worker that reads clusters and a consumer that parses them. \<open>Usn_Process\<close> runs the one after the other;
  that every interleaving of the goroutines comes to the same is shown at the end.
\<close>

section \<open>Tables\<close>

definition usn_reasons :: "(u32 \<times> string) list" where
  "usn_reasons = [(0x00008000, ''USN_REASON_BASIC_INFO_CHANGE''), (0x80000000, ''USN_REASON_CLOSE''),
     (0x00020000, ''USN_REASON_COMPRESSION_CHANGE''), (0x00000002, ''USN_REASON_DATA_EXTEND''),
     (0x00000001, ''USN_REASON_DATA_OVERWRITE''), (0x00000004, ''USN_REASON_DATA_TRUNCATION''),
     (0x00000400, ''USN_REASON_EA_CHANGE''), (0x00040000, ''USN_REASON_ENCRYPTION_CHANGE''),
     (0x00000100, ''USN_REASON_FILE_CREATE''), (0x00000200, ''USN_REASON_FILE_DELETE''),
     (0x00010000, ''USN_REASON_HARD_LINK_CHANGE''), (0x00004000, ''USN_REASON_INDEXABLE_CHANGE''),
     (0x00800000, ''USN_REASON_INTEGRITY_CHANGE''), (0x00000020, ''USN_REASON_NAMED_DATA_EXTEND''),
     (0x00000010, ''USN_REASON_NAMED_DATA_OVERWRITE''),
     (0x00000040, ''USN_REASON_NAMED_DATA_TRUNCATION''), (0x00080000, ''USN_REASON_OBJECT_ID_CHANGE''),
     (0x00002000, ''USN_REASON_RENAME_NEW_NAME''), (0x00001000, ''USN_REASON_RENAME_OLD_NAME''),
     (0x00100000, ''USN_REASON_REPARSE_POINT_CHANGE''), (0x00000800, ''USN_REASON_SECURITY_CHANGE''),
     (0x00200000, ''USN_REASON_STREAM_CHANGE''), (0x00400000, ''USN_REASON_TRANSACTED_CHANGE'')]"

definition usn_source :: "(u32 \<times> string) list" where
  "usn_source = [(0x00000001, ''USN_SOURCE_DATA_MANAGEMENT''), (0x00000002, ''USN_SOURCE_AUXILIARY_DATA''),
     (0x00000004, ''USN_SOURCE_REPLICATION_MANAGEMENT''),
     (0x00000008, ''USN_SOURCE_CLIENT_REPLICATION_MANAGEMENT'')]"

definition usn_fileattributes :: "(u32 \<times> string) list" where
  "usn_fileattributes = [(1, ''Read Only''), (2, ''Hidden''), (4, ''System''), (32, ''Archive''), (64, ''Device''),
     (128, ''Normal''), (256, ''Temporary''), (512, ''Sparse file''), (1024, ''Reparse''),
     (2048, ''Compressed''), (4096, ''Offline''),
     (8192, ''Content  is not being indexed for faster searches''), (16384, ''Encrypted''),
     (32768, ''FILE_ATTRIBUTE_INTEGRITY_STREAM''), (65536, ''FILE_ATTRIBUTE_VIRTUAL''),
     (131072, ''FILE_ATTRIBUTE_NO_SCRUB_DATA''), (262144, ''FILE_ATTRIBUTE_EA''),
     (524288, ''FILE_ATTRIBUTE_PINNED''), (1048576, ''FILE_ATTRIBUTE_UNPINNED''),
     (2097152, ''FILE_ATTRIBUTE_RECALL_ON_OPEN''), (4194304, ''FILE_ATTRIBUTE_RECALL_ON_DATA_ACCESS'')]"

section \<open>Records\<close>

record UsnRecord =
  usn_Length :: u32
  usn_MajorVer :: u16
  usn_MinorVer :: u16
  usn_EntryRef :: u64
  usn_EntrySeq :: u16
  usn_ParRef :: u64
  usn_ParSeq :: u16
  usn_USN :: u64
  usn_EventTime :: WindowsTime
  usn_ReasonFlag :: u32
  usn_SourceInfo :: u32
  usn_SecurityId :: u32
  usn_FileAttrs :: u32
  usn_FnameLen :: u16
  usn_FnameOffset :: u16
  usn_Fname :: string

definition UsnRecord_layout :: layout where
  "UsnRecord_layout = [(''Length'', Kuint32), (''MajorVer'', Kuint16), (''MinorVer'', Kuint16), (''EntryRef'', Kuint64),
     (''EntrySeq'', Kuint16), (''ParRef'', Kuint64), (''ParSeq'', Kuint16), (''USN'', Kuint64),
     (''EventTime'', Kstruct ''WindowsTime''), (''ReasonFlag'', Kuint32), (''SourceInfo'', Kuint32),
     (''SecurityId'', Kuint32), (''FileAttrs'', Kuint32), (''FnameLen'', Kuint16),
     (''FnameOffset'', Kuint16), (''Fname'', Kother)]"

definition zero_UsnRecord :: UsnRecord where
  "zero_UsnRecord = \<lparr>usn_Length = 0, usn_MajorVer = 0, usn_MinorVer = 0, usn_EntryRef = 0, usn_EntrySeq = 0, usn_ParRef = 0,
     usn_ParSeq = 0, usn_USN = 0, usn_EventTime = zero_WindowsTime, usn_ReasonFlag = 0, usn_SourceInfo = 0,
     usn_SecurityId = 0, usn_FileAttrs = 0, usn_FnameLen = 0, usn_FnameOffset = 0, usn_Fname = []\<rparr>"

definition set_UsnRecord :: "val list \<Rightarrow> UsnRecord \<Rightarrow> UsnRecord" where
  "set_UsnRecord v r = r\<lparr>usn_Length := put_u32 (v ! 0) (usn_Length r), usn_MajorVer := put_u16 (v ! 1) (usn_MajorVer r),
     usn_MinorVer := put_u16 (v ! 2) (usn_MinorVer r), usn_EntryRef := put_u64 (v ! 3) (usn_EntryRef r),
     usn_EntrySeq := put_u16 (v ! 4) (usn_EntrySeq r), usn_ParRef := put_u64 (v ! 5) (usn_ParRef r),
     usn_ParSeq := put_u16 (v ! 6) (usn_ParSeq r), usn_USN := put_u64 (v ! 7) (usn_USN r),
     usn_EventTime := put_win (v ! 8) (usn_EventTime r),
     usn_ReasonFlag := put_u32 (v ! 9) (usn_ReasonFlag r),
     usn_SourceInfo := put_u32 (v ! 10) (usn_SourceInfo r),
     usn_SecurityId := put_u32 (v ! 11) (usn_SecurityId r),
     usn_FileAttrs := put_u32 (v ! 12) (usn_FileAttrs r), usn_FnameLen := put_u16 (v ! 13) (usn_FnameLen r),
     usn_FnameOffset := put_u16 (v ! 14) (usn_FnameOffset r)\<rparr>"

text \<open>The number of bytes the record claims, and whether it was parsed.\<close>

definition Usn_Parse :: "slice \<Rightarrow> UsnRecord \<Rightarrow> (UsnRecord \<times> nat \<times> bool) go" where
  "Usn_Parse data r0 =
     (if slen data < 60 then ret (r0, 60, False)
      else
        gbind (unmarshal_count UsnRecord_layout set_UsnRecord r0 data) (\<lambda>(r, _).
        let readTo = 60 + 2 * unat (usn_FnameLen r) in
        if readTo > slen data then ret (r, readTo, False)
        else gbind (sub data 60 readTo) (\<lambda>n. ret (r\<lparr>usn_Fname := DecodeUTF16 (bytes n)\<rparr>, readTo, True))))"

definition GetSourceInfo :: "UsnRecord \<Rightarrow> string" where
  "GetSourceInfo r = lookup_str usn_source (usn_SourceInfo r)"

definition GetFileAttributes :: "UsnRecord \<Rightarrow> string" where
  "GetFileAttributes r = lookup_str usn_fileattributes (usn_FileAttrs r)"

definition GetReason :: "UsnRecord \<Rightarrow> string" where
  "GetReason r = lookup_str usn_reasons (usn_ReasonFlag r)"

section \<open>The pipeline\<close>

text \<open>The records of one cluster: an error ends the cluster, an entry 0 is dropped. A parsed record
  claims at least 60 bytes.\<close>

function parse_cluster :: "slice \<Rightarrow> nat \<Rightarrow> UsnRecord list go" where
  "parse_cluster data offset =
     (if offset < slen data then
        gbind (sub_from data offset) (\<lambda>d.
        gbind (Usn_Parse d zero_UsnRecord) (\<lambda>(r, parsedLen, ok).
        if \<not> ok then ret []
        else if parsedLen = 0 then None
        else gbind (parse_cluster data (offset + parsedLen)) (\<lambda>rs.
          ret (if usn_EntryRef r = 0 then rs else r # rs))))
      else ret [])"
  by pat_completeness auto
termination
  by (relation "measure (\<lambda>(data, offset). slen data - offset)") auto

declare parse_cluster.simps [simp del]

text \<open>The clusters arrive as slices of their own.\<close>

definition AsyncProcess :: "byte list list \<Rightarrow> UsnRecord list go" where
  "AsyncProcess dataClusters = gbind (gmap (\<lambda>c. parse_cluster (full c) 0) dataClusters) (\<lambda>rss. ret (concat rss))"

text \<open>A channel that buffers \<open>n\<close> slices of 24 bytes, with a header of 96.\<close>

definition make_slice_channel :: "i64 \<Rightarrow> unit go" where
  "make_slice_channel n = (if n <s 0 \<or> max_alloc < 96 + 24 * unat n then panic (Explicit_panic ''makechan: size out of range'') else ret ())"

definition Usn_Process :: "reader \<Rightarrow> i64 \<Rightarrow> Records \<Rightarrow> Disk \<Rightarrow> nat \<Rightarrow> Records \<Rightarrow> UsnRecord list go" where
  "Usn_Process rd diskSize tbl disk partitionId mftrecords =
     gbind (gmap (\<lambda>r.
         gbind (GetLogicalFileSize tbl r) (\<lambda>len.
         gbind (make_slice_channel len) (\<lambda>_.
         gbind (AsyncWorker rd diskSize tbl disk partitionId r) AsyncProcess))) mftrecords) (\<lambda>rss.
       ret (concat rss))"

section \<open>How a record is read\<close>

text \<open>A version 2 record as the journal stores it: references of six bytes with sequence numbers of two,
  the length of the name in bytes, and its offset, which is 60.\<close>

definition usn_disk :: "u32 \<Rightarrow> nat \<Rightarrow> u16 \<Rightarrow> nat \<Rightarrow> u16 \<Rightarrow> byte list \<Rightarrow> byte list \<Rightarrow> byte list" where
  "usn_disk len entry sq par psq middle name =
     le_bytes 4 (unat len) @ le_bytes 2 2 @ le_bytes 2 0 @ le_bytes 6 entry @ le_bytes 2 (unat sq) @
     le_bytes 6 par @ le_bytes 2 (unat psq) @ middle @ le_bytes 2 (length name) @ le_bytes 2 60 @ name"

lemma Usn_Unmarshal:
  assumes "62 \<le> slen data" and "wf_slice data"
  shows "\<exists>r. unmarshal_count UsnRecord_layout set_UsnRecord zero_UsnRecord data = ret (r, 62) \<and>
    usn_EntryRef r = of_nat (le_at (arr data) 8 8) \<and> usn_EntrySeq r = of_nat (le_at (arr data) 16 2) \<and>
    usn_FnameLen r = of_nat (le_at (arr data) 58 2)"
proof -
  have "Unmarshal UsnRecord_layout data = ret (layout_values UsnRecord_layout (arr data) 0, 62, True)"
    using Unmarshal_ok [of UsnRecord_layout data] assms by (simp add: UsnRecord_layout_def plain_layout_def)
  then show ?thesis by (simp add: unmarshal_count_def set_UsnRecord_def UsnRecord_layout_def)
qed

text \<open>A journal record is read two bytes out of step. From a version 2 record as it is stored,
  \<open>Parse\<close> takes the entry number and its sequence number together as the entry, the low bytes of
  the parent as the sequence number, and the offset of the name, 60, as its length: whatever the record's
  own length and name are, it claims 180 bytes of the data, or fails when fewer are there.\<close>

theorem Usn_Parse_misaligned:
  assumes "entry < 256 ^ 6" and "par < 256 ^ 6" and "length middle = 32" and "2 \<le> length (name @ rest)"
  shows "\<exists>r. Usn_Parse (full (usn_disk len entry sq par psq middle name @ rest)) zero_UsnRecord =
      ret (if length (name @ rest) < 120 then (r, 180, False)
        else (r\<lparr>usn_Fname := DecodeUTF16 (take 120 (name @ rest))\<rparr>, 180, True)) \<and>
    usn_EntryRef r = of_nat (entry + 256 ^ 6 * unat sq) \<and> usn_EntrySeq r = of_nat (par mod 65536) \<and> usn_FnameLen r = 60"
proof -
  let ?xs = "usn_disk len entry sq par psq middle name @ rest"
  have n: "length ?xs = 60 + length (name @ rest)" using assms(3) by (simp add: usn_disk_def)
  have x8: "le_at ?xs 8 8 = entry + 256 ^ 6 * unat sq"
  proof -
    have "take 8 (drop 8 ?xs) = le_bytes 6 entry @ le_bytes 2 (unat sq)"
      by (simp add: usn_disk_def)
    then show ?thesis
      using assms(1) unat_u16_less [of sq] by (simp add: le_at_def le_nat_append le_nat_le_bytes)
  qed
  have x16: "le_at ?xs 16 2 = par mod 65536"
  proof -
    have "take 2 (drop 16 ?xs) = le_bytes 2 par" by (simp add: usn_disk_def le_bytes_numeral)
    then show ?thesis by (simp add: le_at_def le_nat_le_bytes)
  qed
  have x58: "le_at ?xs 58 2 = 60"
  proof -
    have "take 2 (drop 58 ?xs) = le_bytes 2 60" using assms(3) by (simp add: usn_disk_def)
    then show ?thesis by (simp add: le_at_def le_nat_le_bytes)
  qed
  obtain r where r: "unmarshal_count UsnRecord_layout set_UsnRecord zero_UsnRecord (full ?xs) = ret (r, 62)"
      "usn_EntryRef r = of_nat (le_at ?xs 8 8)" "usn_EntrySeq r = of_nat (le_at ?xs 16 2)" "usn_FnameLen r = of_nat (le_at ?xs 58 2)"
    using Usn_Unmarshal [of "full ?xs"] n assms(4) by auto
  have "drop 60 ?xs = name @ rest" using assms(3) by (simp add: usn_disk_def)
  moreover have "slen (full ?xs) = 60 + length (name @ rest)" using n by simp
  ultimately have "Usn_Parse (full ?xs) zero_UsnRecord =
      ret (if length (name @ rest) < 120 then (r, 180, False)
        else (r\<lparr>usn_Fname := DecodeUTF16 (take 120 (name @ rest))\<rparr>, 180, True))"
    using r(1,4) x58 n by (auto simp: Usn_Parse_def sub_def bytes_def)
  then show ?thesis using r x8 x16 x58 by auto
qed

theorem Usn_Parse_misaligned_witness:
  "\<exists>r. Usn_Parse (full (usn_disk 64 5 3 5 3 (replicate 32 0) [0x61, 0] @ [0, 0])) zero_UsnRecord = ret (r, 180, False) \<and>
     usn_EntryRef r = 5 + 2 ^ 48 * 3"
  using Usn_Parse_misaligned [of 5 5 "replicate 32 0" "[0x61, 0]" "[0, 0]" 64 3 3] by auto

section \<open>The consumer\<close>

lemma Usn_Parse_ends [simp]: "ends (Usn_Parse d r)"
  by (auto simp: Usn_Parse_def Let_def sub_def intro!: ends_gbind)

lemma Usn_Parse_claims: "Usn_Parse d r0 = ret (r, n, ok) \<Longrightarrow> 60 \<le> n \<and> (ok \<longrightarrow> n \<le> slen d)"
  by (auto simp: Usn_Parse_def Let_def split: if_splits prod.splits)

lemma parse_cluster_ends: "ends (parse_cluster data offset)"
proof (induction data offset rule: parse_cluster.induct)
  case (1 data offset)
  have "ends (if \<not> ok then ret [] else if n = 0 then None
      else gbind (parse_cluster data (offset + n)) (\<lambda>rs. ret (if usn_EntryRef r = 0 then rs else r # rs)))"
    if "offset < slen data" "sub_from data offset = ret d" "Usn_Parse d zero_UsnRecord = ret (r, n, ok)" for d r n ok
    using "1.IH" [OF that refl refl] Usn_Parse_claims [OF that(3)] by (auto intro!: ends_gbind)
  then show ?case
    by (subst parse_cluster.simps) (auto intro!: ends_gbind simp: sub_from_def)
qed

lemma parse_cluster_records:
  "parse_cluster data offset = ret rs \<Longrightarrow> (\<forall>r \<in> set rs. usn_EntryRef r \<noteq> 0) \<and> 60 * length rs \<le> slen data - offset"
proof (induction data offset arbitrary: rs rule: parse_cluster.induct)
  case (1 data offset)
  show ?case
  proof (cases "offset < slen data")
    case False
    then show ?thesis using "1.prems" by (subst (asm) parse_cluster.simps) simp
  next
    case True
    obtain d where d: "sub_from data offset = ret d" "slen d = slen data - offset" using True by (auto simp: sub_from_def)
    from "1.prems" True d obtain r n ok where p: "Usn_Parse d zero_UsnRecord = ret (r, n, ok)"
      by (subst (asm) parse_cluster.simps) auto
    show ?thesis
    proof (cases ok)
      case False
      then show ?thesis using "1.prems" True d p by (subst (asm) parse_cluster.simps) simp
    next
      case ok: True
      have n: "60 \<le> n" "n \<le> slen data - offset" using Usn_Parse_claims [OF p] d ok by auto
      from "1.prems" True d p ok n obtain rs' where rs': "parse_cluster data (offset + n) = ret rs'"
          "rs = (if usn_EntryRef r = 0 then rs' else r # rs')"
        by (subst (asm) parse_cluster.simps) auto
      have "(\<forall>r \<in> set rs'. usn_EntryRef r \<noteq> 0) \<and> 60 * length rs' \<le> slen data - (offset + n)"
        using "1.IH" [OF True d(1) p refl refl _ _ rs'(1)] ok n by auto
      then show ?thesis using rs'(2) n by auto
    qed
  qed
qed

lemma parse_clusters_records:
  "gmap (\<lambda>c. parse_cluster (full c) 0) cs = ret rss \<Longrightarrow>
    (\<forall>r \<in> set (concat rss). usn_EntryRef r \<noteq> 0) \<and> 60 * length (concat rss) \<le> length (concat cs)"
proof (induction cs arbitrary: rss)
  case (Cons c cs)
  then obtain rs rss' where "parse_cluster (full c) 0 = ret rs" "gmap (\<lambda>c. parse_cluster (full c) 0) cs = ret rss'" "rss = rs # rss'"
    by auto
  with Cons.IH [of rss'] parse_cluster_records [of "full c" 0 rs] show ?case by auto
qed simp

lemma gmap_ends: "(\<And>x. x \<in> set xs \<Longrightarrow> ends (f x)) \<Longrightarrow> ends (gmap f xs)"
  by (induction xs) (auto intro!: ends_gbind)

text \<open>C34: The consumer of the pipeline drains its clusters. Whatever the clusters hold, the loop over their
  records ends, so that the channel of records is closed or the program panics, but never waits for
  ever; every record it delivers has an entry other than 0, there is at most one for 60 bytes, and
  clusters of less than 60 bytes deliver nothing.\<close>

theorem AsyncProcess_drains:
  shows "ends (AsyncProcess cs) \<and>
    (AsyncProcess cs = ret rs \<longrightarrow> (\<forall>r \<in> set rs. usn_EntryRef r \<noteq> 0) \<and> 60 * length rs \<le> length (concat cs)) \<and>
    ((\<forall>c \<in> set cs. length c < 60) \<longrightarrow> AsyncProcess cs = ret [])"
proof (intro conjI impI)
  show "ends (AsyncProcess cs)"
    by (auto simp: AsyncProcess_def intro!: ends_gbind gmap_ends parse_cluster_ends)
next
  assume "AsyncProcess cs = ret rs"
  then obtain rss where "gmap (\<lambda>c. parse_cluster (full c) 0) cs = ret rss" "rs = concat rss"
    by (auto simp: AsyncProcess_def)
  then show "\<forall>r \<in> set rs. usn_EntryRef r \<noteq> 0" "60 * length rs \<le> length (concat cs)"
    using parse_clusters_records by blast+
next
  assume short: "\<forall>c \<in> set cs. length c < 60"
  have "parse_cluster (full c) 0 = ret []" if "c \<in> set cs" for c
    using short that by (subst parse_cluster.simps) (auto simp: sub_from_def Usn_Parse_def)
  then have "gmap (\<lambda>c. parse_cluster (full c) 0) cs = ret (map (\<lambda>_. []) cs)" by (intro gmap_ret)
  then show "AsyncProcess cs = ret []" by (simp add: AsyncProcess_def)
qed

theorem AsyncProcess_drains_witness:
  "AsyncProcess [replicate 59 1, [2, 3]] = ret []"
  using AsyncProcess_drains [of "[replicate 59 1, [2, 3]]" "[]"] by simp

section \<open>Interleavings\<close>

text \<open>The records the consumer sends on for a cluster; the main goroutine takes each one at once, since it waits for it.\<close>

definition records_of :: "byte list \<Rightarrow> UsnRecord list" where
  "records_of c = (case parse_cluster (full c) 0 of Some (Inr rs) \<Rightarrow> rs | _ \<Rightarrow> [])"

abbreviation take_record :: "UsnRecord \<Rightarrow> UsnRecord list \<Rightarrow> UsnRecord list" where
  "take_record record records \<equiv> records @ [record]"

lemma fold_take_record: "fold take_record rs records = records @ rs"
  by (induction rs arbitrary: records) simp_all

interpretation journal: consumer records_of take_record "\<lambda>c records. records @ records_of c"
  by unfold_locales (rule fold_take_record)

lemma records_of_ret: "parse_cluster (full c) 0 = ret rs \<Longrightarrow> records_of c = rs"
  by (simp add: records_of_def ret_def)

lemma gmap_records_of:
  "gmap (\<lambda>c. parse_cluster (full c) 0) cs = ret rss \<Longrightarrow> rss = map records_of cs"
  by (induction cs arbitrary: rss) (auto simp: records_of_ret)

text \<open>C35: Reading the journal under every schedule. The goroutine that reads the clusters of a record, the one that
  parses them and the one that collects the records run side by side. Whenever the sequential \<open>Process\<close> returns,
  every run of them that cannot go on is over, no side is left waiting, and the records collected are the sequential ones, in
  order, for every capacity of the channel.\<close>

theorem Usn_Process_runs:
  assumes "Usn_Process rd diskSize tbl disk partitionId [record] = ret rs"
    and "AsyncWorker_ops rd diskSize tbl disk partitionId record = (ops, fate)"
    and "net_run cap records_of take_record (net_start ops fate records) s"
    and "net_stuck cap records_of take_record s"
  shows "net_done s \<and> net_sink s = records @ rs"
proof -
  obtain cs where cs: "AsyncWorker rd diskSize tbl disk partitionId record = ret cs" "AsyncProcess cs = ret rs"
    using assms(1) by (auto simp: Usn_Process_def split: if_splits)
  then have rs: "rs = concat (map records_of cs)" by (auto simp: AsyncProcess_def dest: gmap_records_of)
  have "fold (\<lambda>c records. records @ records_of c) cs records = records @ rs" unfolding rs
    by (induction cs arbitrary: records) simp_all
  moreover have "ops = map Send cs @ [Close_chan]" "fate = Returns" using AsyncWorker_ops_ret [OF cs(1)] assms(2) by simp_all
  ultimately show ?thesis using journal.delivers [of cap cs records s] assms(3,4) by simp
qed

text \<open>A disk with clusters of 64 bytes, each of which holds a journal record with an empty name.\<close>

definition journal_cluster :: "byte list" where
  "journal_cluster = replicate 30 1 @ replicate 34 0"

definition journal_reader :: reader where
  "journal_reader off len = ret journal_cluster"

definition journal_disk :: Disk where
  "journal_disk = \<lparr>disk_MBR = None, disk_GPT = None, disk_Partitions = [PMBR (zero_Partition\<lparr>mp_Volume :=
     Some (VNTFS \<lparr>ntfs_VBR = Some (zero_VBR\<lparr>BytesPerSector := 64, SectorsPerCluster := 1\<rparr>), ntfs_MFT = None\<rparr>)\<rparr>)]\<rparr>"

lemma journal_cluster_parses: "\<exists>r. parse_cluster (full journal_cluster) 0 = ret [r] \<and> usn_EntryRef r = 0x0101010101010101"
proof -
  let ?d = "full journal_cluster"
  have n: "slen ?d = 64" by (simp add: journal_cluster_def)
  have "replicate 8 (1 :: byte) = [1, 1, 1, 1, 1, 1, 1, 1]" by (simp add: numeral_eq_Suc)
  then have "le_at journal_cluster 8 8 = 0x0101010101010101" "le_at journal_cluster 58 2 = 0"
    by (simp_all add: le_at_def journal_cluster_def)
  then obtain r where r: "unmarshal_count UsnRecord_layout set_UsnRecord zero_UsnRecord ?d = ret (r, 62)"
      "usn_EntryRef r = 0x0101010101010101" "usn_FnameLen r = 0"
    using Usn_Unmarshal [of ?d] n by auto
  then have p: "Usn_Parse ?d zero_UsnRecord = ret (r\<lparr>usn_Fname := []\<rparr>, 60, True)"
    using n by (simp add: Usn_Parse_def sub_def bytes_def DecodeUTF16_def utf8_string_def)
  have rest: "parse_cluster ?d 60 = ret []"
    by (subst parse_cluster.simps) (simp add: n [simplified] sub_from_def Usn_Parse_def)
  have "sub_from ?d 0 = ret ?d" by (simp add: sub_from_def full_def)
  then have "parse_cluster ?d 0 = ret [r\<lparr>usn_Fname := []\<rparr>]"
    using p rest r(2) by (subst parse_cluster.simps) (simp add: n [simplified])
  with r(2) show ?thesis by auto
qed

lemma journal_AsyncWorker: "AsyncWorker journal_reader 1000 [] journal_disk 0 sample_nonresident = ret [journal_cluster, journal_cluster]"
proof -
  have "worker_geometry journal_disk 0 = ret (1, 64, 0)"
    by (simp add: worker_geometry_def journal_disk_def GetSectorsPerCluster_def GetBytesPerSector_def the_VBR_def Partition_GetOffset_def
        zero_Partition_def)
  moreover have "LinkedRecords sample_nonresident = []" "\<not> IsFolder sample_nonresident"
    by (simp_all add: sample_nonresident_def sample_named_def zero_Record_def IsFolder_def getType_def lookup_str_def MFTflags_def)
  moreover have "LocateDataAsync journal_reader 1000 [] 0 1 64 sample_nonresident = ret [journal_cluster, journal_cluster]"
    by (simp add: LocateDataAsync_def sample_nonresident_facts sample_runs_def journal_reader_def word_sless_alt logged_clusters_def go_div_def)
  ultimately show ?thesis
    by (simp add: AsyncWorker_def async_sends_def gconcat_def sample_nonresident_facts)
qed

theorem Usn_Process_runs_witness:
  "\<exists>s. net_run 0 records_of take_record
      (net_start (fst (AsyncWorker_ops journal_reader 1000 [] journal_disk 0 sample_nonresident)) Returns []) s \<and>
    net_done s \<and> map usn_EntryRef (net_sink s) = [0x0101010101010101, 0x0101010101010101]"
proof -
  let ?ops = "fst (AsyncWorker_ops journal_reader 1000 [] journal_disk 0 sample_nonresident)"
  obtain r where r: "parse_cluster (full journal_cluster) 0 = ret [r]" "usn_EntryRef r = 0x0101010101010101"
    using journal_cluster_parses by blast
  have p: "Usn_Process journal_reader 1000 [] journal_disk 0 [sample_nonresident] = ret [r, r]"
    by (simp add: Usn_Process_def sample_nonresident_facts journal_AsyncWorker AsyncProcess_def r make_slice_channel_def max_alloc_def)
  have o': "AsyncWorker_ops journal_reader 1000 [] journal_disk 0 sample_nonresident = (?ops, Returns)"
    using AsyncWorker_ops_ret [OF journal_AsyncWorker] by simp
  obtain s where s: "net_run 0 records_of take_record (net_start ?ops Returns []) s" "net_stuck 0 records_of take_record s"
    using net_run_stuck by blast
  from Usn_Process_runs [OF p o' s] s r show ?thesis by auto
qed

end
