(* ===== verification/Exporter.thy ===== *)
theory Exporter
  imports Disk
begin

text \<open>
  The exporter of \<open>exporter/exporter.go\<close> and the file writing of \<open>utils/utils.go\<close>. The file system is a
  map from paths to contents on which every operation succeeds; the code prints an error and goes
  on when one fails. \<open>filepath.Join\<close> is the parameter \<open>join\<close>. A channel between one producer and one
  consumer delivers in order, so the consumer runs over the list of what was sent; that every schedule of the
  two comes to this is shown at the end, with the channel that several volumes share.
\<close>

type_synonym files = "string \<rightharpoonup> byte list"

record Exporter =
  Location :: string
  Hash :: string
  Strategy :: string

section \<open>Files\<close>

text \<open>The file is opened for appending and created when it is missing.\<close>

definition WriteFile :: "string \<Rightarrow> byte list \<Rightarrow> files \<Rightarrow> files" where
  "WriteFile filename content fs = fs(filename \<mapsto> (case fs filename of None \<Rightarrow> content | Some old \<Rightarrow> old @ content))"

definition Remove :: "string \<Rightarrow> files \<Rightarrow> files" where
  "Remove filename fs = fs(filename := None)"

text \<open>\<open>os.Truncate\<close>: cut off, or extended with zeros; a missing file or a negative size is an error.\<close>

definition Truncate :: "string \<Rightarrow> i64 \<Rightarrow> files \<Rightarrow> files" where
  "Truncate filename sz fs = (case fs filename of
       None \<Rightarrow> fs
     | Some c \<Rightarrow> if sz <s 0 then fs else fs(filename \<mapsto> take (unat sz) c @ replicate (unat sz - length c) 0))"

definition CreateFile :: "(string \<Rightarrow> string \<Rightarrow> string) \<Rightarrow> Exporter \<Rightarrow> string \<Rightarrow> byte list \<Rightarrow> files \<Rightarrow> files" where
  "CreateFile join exp fname data fs =
     (let fullpath = join (Location exp) fname in WriteFile fullpath data (Remove fullpath fs))"

section \<open>Exporting\<close>

definition export_name :: "Exporter \<Rightarrow> int \<Rightarrow> string \<Rightarrow> string" where
  "export_name exp i fname = (if Strategy exp = ''Id'' then ''['' @ show_int i @ '']'' @ fname else fname)"

fun ExportData :: "(string \<Rightarrow> string \<Rightarrow> string) \<Rightarrow> Exporter \<Rightarrow> AskedFile list \<Rightarrow> files \<Rightarrow> files" where
  "ExportData join exp [] fs = fs"
| "ExportData join exp (result # results) fs =
     ExportData join exp results
       (if Strategy exp = ''Id''
        then CreateFile join exp (''['' @ show_int (af_Id result) @ '']'' @ af_Fname result) (af_Content result) fs
        else CreateFile join exp (af_Fname result) (af_Content result) fs)"

text \<open>The main goroutine ranges over the blocks; \<open>late\<close> is the choice of the scheduler described for \<open>ranged\<close>.\<close>

definition unallocated_path :: "(string \<Rightarrow> string \<Rightarrow> string) \<Rightarrow> Exporter \<Rightarrow> string" where
  "unallocated_path join exp = join (Location exp) ''Unallocated''"

definition ExportUnallocated :: "bool \<Rightarrow> (string \<Rightarrow> string \<Rightarrow> string) \<Rightarrow> reader \<Rightarrow> Exporter \<Rightarrow> Disk \<Rightarrow> files \<Rightarrow> files go" where
  "ExportUnallocated late join rd exp physicalDisk fs =
     (case CollectedUnallocated rd physicalDisk of (ops, fate) \<Rightarrow>
       gbind (ranged late ops fate) (\<lambda>blocks. ret (fold (WriteFile (unallocated_path join exp)) blocks fs)))"

fun SetFilesToLogicalSize :: "(string \<Rightarrow> string \<Rightarrow> string) \<Rightarrow> Exporter \<Rightarrow> Records \<Rightarrow> Records \<Rightarrow> files \<Rightarrow> files go" where
  "SetFilesToLogicalSize join exp tbl [] fs = ret fs"
| "SetFilesToLogicalSize join exp tbl (record # records) fs =
     gbind (GetFname tbl record) (\<lambda>fname.
     gbind (GetLogicalFileSize tbl record) (\<lambda>sz.
       SetFilesToLogicalSize join exp tbl records
         (Truncate (join (Location exp) (export_name exp (int (unat (Entry record))) fname)) sz fs)))"

definition ExportRecords ::
  "(string \<Rightarrow> string \<Rightarrow> string) \<Rightarrow> reader \<Rightarrow> i64 \<Rightarrow> Records \<Rightarrow> Exporter \<Rightarrow> Records \<Rightarrow> Disk \<Rightarrow> nat \<Rightarrow> files \<Rightarrow> files go" where
  "ExportRecords join rd diskSize tbl exp records physicalDisk partitionNum fs =
     (if Location exp = [] then ret fs
      else if records = [] then ret fs
      else gbind (Worker rd diskSize tbl physicalDisk partitionNum records) (\<lambda>results.
        ret (ExportData join exp results fs)))"

section \<open>The exported files\<close>

definition export_path :: "(string \<Rightarrow> string \<Rightarrow> string) \<Rightarrow> Exporter \<Rightarrow> AskedFile \<Rightarrow> string" where
  "export_path join exp f = join (Location exp) (export_name exp (af_Id f) (af_Fname f))"

lemma CreateFile_eq: "CreateFile join exp n d fs = fs(join (Location exp) n \<mapsto> d)"
  by (simp add: CreateFile_def WriteFile_def Remove_def Let_def)

lemma ExportData_eq:
  "ExportData join exp results fs = fs ++ map_of (rev (map (\<lambda>f. (export_path join exp f, af_Content f)) results))"
  by (induction join exp results fs rule: ExportData.induct)
    (simp_all add: CreateFile_eq export_path_def export_name_def map_add_def fun_eq_iff split: option.splits)

text \<open>The exported files. Whenever \<open>ExportRecords\<close> returns for a location and records, the files are
  the old ones overridden by those the worker sent, each under its name (with its entry number in
  brackets for the strategy \<open>Id\<close>); of several files with one path the last one sent is kept, whole
  and alone, and every other path is as it was.\<close>

theorem ExportRecords_files:
  assumes "ExportRecords join rd diskSize tbl exp records physicalDisk partitionNum fs = ret fs'"
    and "Location exp \<noteq> []" and "records \<noteq> []"
  shows "\<exists>results. Worker rd diskSize tbl physicalDisk partitionNum records = ret results \<and>
    fs' = fs ++ map_of (rev (map (\<lambda>f. (export_path join exp f, af_Content f)) results))"
  using assms by (auto simp: ExportRecords_def ExportData_eq split: if_splits)

definition sample_export_disk :: Disk where
  "sample_export_disk = \<lparr>disk_MBR = None, disk_GPT = None, disk_Partitions = [PMBR (zero_Partition\<lparr>mp_StartLBA := 2, mp_Volume :=
     Some (VNTFS \<lparr>ntfs_VBR = Some (zero_VBR\<lparr>BytesPerSector := 8, SectorsPerCluster := 1\<rparr>), ntfs_MFT = None\<rparr>)\<rparr>)]\<rparr>"

lemma sample_worker:
  "worker_geometry sample_export_disk 0 = ret (1, 8, 16)"
  "LinkedRecords sample_nonresident = []" "\<not> IsFolder sample_nonresident"
  by (simp_all add: worker_geometry_def sample_export_disk_def GetSectorsPerCluster_def GetBytesPerSector_def the_VBR_def
      Partition_GetOffset_def sample_nonresident_def sample_named_def zero_Record_def IsFolder_def getType_def lookup_str_def MFTflags_def)

lemma sample_Worker:
  "Worker sample_reader 1000 [] sample_export_disk 0 [sample_nonresident] =
    ret [\<lparr>af_Fname = ''f'', af_Id = 40, af_Content = [32, 33, 34, 35, 36, 37, 38, 39, 24, 25, 26, 27, 28, 29, 30, 31]\<rparr>]"
  using sample_LocateData by (simp add: Worker_def worker_sends_def gconcat_def sample_nonresident_facts sample_worker)

theorem ExportRecords_files_witness:
  "\<exists>fs'. ExportRecords (\<lambda>a b. a @ CHR 0x2F # b) sample_reader 1000 [] \<lparr>Location = ''out'', Hash = [], Strategy = ''Id''\<rparr>
      [sample_nonresident] sample_export_disk 0 Map.empty = ret fs' \<and>
    fs' ''out/[40]f'' = Some [32, 33, 34, 35, 36, 37, 38, 39, 24, 25, 26, 27, 28, 29, 30, 31]"
proof -
  let ?exp = "\<lparr>Location = ''out'', Hash = [], Strategy = ''Id''\<rparr>"
  obtain fs' where fs': "ExportRecords (\<lambda>a b. a @ CHR 0x2F # b) sample_reader 1000 [] ?exp [sample_nonresident] sample_export_disk 0 Map.empty = ret fs'"
    by (simp add: ExportRecords_def sample_Worker)
  have p: "export_path (\<lambda>a b. a @ CHR 0x2F # b) ?exp \<lparr>af_Fname = ''f'', af_Id = 40, af_Content = c\<rparr> = ''out/[40]f''" for c
    by (simp add: export_path_def export_name_def show_int_def decimal.simps char_of_def bit_0 bit_Suc)
  from ExportRecords_files [OF fs'] fs' show ?thesis by (auto simp: sample_Worker p)
qed
lemma map_of_last:
  "(\<forall>y \<in> set ys. path y \<noteq> path x) \<Longrightarrow> map_of (rev (map (\<lambda>f. (path f, content f)) (xs @ x # ys))) (path x) = Some (content x)"
  by (induction ys) (auto simp: map_add_def split: option.splits dest!: map_of_SomeD)

text \<open>The path a record's data is exported to.\<close>

definition record_path :: "(string \<Rightarrow> string \<Rightarrow> string) \<Rightarrow> Exporter \<Rightarrow> Record \<Rightarrow> string \<Rightarrow> string" where
  "record_path join exp r name = join (Location exp) (export_name exp (int (unat (Entry r))) name)"

lemma LocateData_path:
  assumes "LocateData rd diskSize tbl off spc bps r = ret f"
  shows "\<exists>name. GetFname tbl r = ret name \<and> export_path join exp f = record_path join exp r name"
  using assms by (auto simp: LocateData_def export_path_def record_path_def split: if_splits)

lemma LocateData_content:
  assumes "LocateData rd diskSize tbl off spc bps r = ret f"
  shows "(HasResidentDataAttr r \<longrightarrow> GetResidentData r = ret (af_Content f)) \<and>
    (\<not> HasResidentDataAttr r \<longrightarrow> (\<exists>rl. GetRunList tbl r ''DATA'' = ret rl \<and>
      (on_disk diskSize (spc * bps) off (run_pairs rl) \<longrightarrow> (\<exists>pieces.
        gmap (\<lambda>(o', len). rd o' len) (read_extents (spc * bps) off (run_pairs rl)) = ret pieces \<and> af_Content f = concat pieces))))"
  using assms logged_reads_returned by (fastforce simp: LocateData_def locate_runs_extents split: if_splits)

text \<open>C8: What exporting does to the files. The files that are sent are those of the records that are no folders, or of
  their linked records. After an export, the file at the path of such a record, if no later one has the same
  path, holds the record's resident data, or what the reader returns for the extents of the runs of its data
  attribute, piece by piece in the order of the runs, provided that they start on the disk. Every path that
  no record has is as it was before.\<close>

theorem ExportRecords_content:
  assumes "ExportRecords join rd diskSize tbl exp records disk k fs = ret fs'" and "Location exp \<noteq> []"
    and "worker_geometry disk k = ret (spc, bps, part)"
  shows "(\<forall>before r after name. concat (map (sent_records tbl) records) = before @ r # after \<and> GetFname tbl r = ret name \<and>
      (\<forall>r' \<in> set after. \<forall>n. GetFname tbl r' = ret n \<longrightarrow> record_path join exp r' n \<noteq> record_path join exp r name) \<longrightarrow>
      (\<exists>content. fs' (record_path join exp r name) = Some content \<and>
        (HasResidentDataAttr r \<longrightarrow> GetResidentData r = ret content) \<and>
        (\<not> HasResidentDataAttr r \<longrightarrow> (\<exists>rl. GetRunList tbl r ''DATA'' = ret rl \<and>
          (on_disk diskSize (spc * bps) part (run_pairs rl) \<longrightarrow> (\<exists>pieces.
            gmap (\<lambda>(o', len). rd o' len) (read_extents (spc * bps) part (run_pairs rl)) = ret pieces \<and> content = concat pieces)))))) \<and>
    (\<forall>p. (\<forall>r \<in> set (concat (map (sent_records tbl) records)). \<forall>n. GetFname tbl r = ret n \<longrightarrow> record_path join exp r n \<noteq> p) \<longrightarrow>
      fs' p = fs p)"
proof (cases "records = []")
  case True
  with assms(1) show ?thesis by (simp add: ExportRecords_def split: if_splits)
next
  case False
  let ?sent = "concat (map (sent_records tbl) records)" and ?get = "LocateData rd diskSize tbl part spc bps"
  obtain results where r: "Worker rd diskSize tbl disk k records = ret results"
      and fs': "fs' = fs ++ map_of (rev (map (\<lambda>f. (export_path join exp f, af_Content f)) results))"
    using assms(1,2) False by (auto simp: ExportRecords_def ExportData_eq)
  have all: "list_all2 (\<lambda>r f. ?get r = ret f) ?sent results" by (rule Worker_files [OF r assms(3)])
  have one: "\<exists>content. fs' (record_path join exp r name) = Some content \<and> (\<exists>f. ?get r = ret f \<and> af_Content f = content)"
    if "?sent = before @ r # after" "GetFname tbl r = ret name"
      "\<forall>r' \<in> set after. \<forall>n. GetFname tbl r' = ret n \<longrightarrow> record_path join exp r' n \<noteq> record_path join exp r name"
    for before r after name
  proof -
    from all that(1) obtain xs f ys where f: "results = xs @ f # ys" "?get r = ret f" "list_all2 (\<lambda>r f. ?get r = ret f) after ys"
      by (auto simp: list_all2_append1 list_all2_Cons1)
    have p: "export_path join exp f = record_path join exp r name" using LocateData_path [OF f(2)] that(2) by auto
    have "\<forall>g \<in> set ys. export_path join exp g \<noteq> export_path join exp f"
    proof
      fix g assume "g \<in> set ys"
      then obtain r' where "r' \<in> set after" "?get r' = ret g" using list_all2_source [OF f(3)] by blast
      with LocateData_path [of rd diskSize tbl part spc bps r' g join exp] that(3) p
      show "export_path join exp g \<noteq> export_path join exp f" by auto
    qed
    then have "fs' (export_path join exp f) = Some (af_Content f)"
      unfolding fs' f(1) by (intro map_add_find_right map_of_last)
    with p f(2) show ?thesis by auto
  qed
  have "fs' p = fs p" if other: "\<forall>r \<in> set ?sent. \<forall>n. GetFname tbl r = ret n \<longrightarrow> record_path join exp r n \<noteq> p" for p
  proof -
    have "export_path join exp f \<noteq> p" if f: "f \<in> set results" for f
    proof -
      obtain r where r: "r \<in> set ?sent" "?get r = ret f" using list_all2_source [OF all f] by blast
      from LocateData_path [OF r(2), of join exp] obtain n where n: "GetFname tbl r = ret n" "export_path join exp f = record_path join exp r n" by blast
      from other r(1) have "\<forall>n. GetFname tbl r = ret n \<longrightarrow> record_path join exp r n \<noteq> p" by blast
      with n show ?thesis by simp
    qed
    then have "\<forall>f \<in> set results. export_path join exp f \<noteq> p" by blast
    then have "map_of (rev (map (\<lambda>f. (export_path join exp f, af_Content f)) results)) p = None"
      by (auto simp: map_of_eq_None_iff)
    then show ?thesis unfolding fs' by (simp add: map_add_def)
  qed
  moreover have "\<exists>content. fs' (record_path join exp r name) = Some content \<and>
      (HasResidentDataAttr r \<longrightarrow> GetResidentData r = ret content) \<and>
      (\<not> HasResidentDataAttr r \<longrightarrow> (\<exists>rl. GetRunList tbl r ''DATA'' = ret rl \<and>
        (on_disk diskSize (spc * bps) part (run_pairs rl) \<longrightarrow> (\<exists>pieces.
          gmap (\<lambda>(o', len). rd o' len) (read_extents (spc * bps) part (run_pairs rl)) = ret pieces \<and> content = concat pieces))))"
    if "?sent = before @ r # after" "GetFname tbl r = ret name"
      "\<forall>r' \<in> set after. \<forall>n. GetFname tbl r' = ret n \<longrightarrow> record_path join exp r' n \<noteq> record_path join exp r name"
    for before r after name
    using one [OF that] LocateData_content [of rd diskSize tbl part spc bps r] by blast
  ultimately show ?thesis by blast
qed

theorem ExportRecords_content_witness:
  "\<exists>fs'. ExportRecords (\<lambda>a b. a @ CHR 0x2F # b) sample_reader 1000 [] \<lparr>Location = ''out'', Hash = [], Strategy = []\<rparr>
      [sample_nonresident] sample_export_disk 0 [''x'' \<mapsto> [1]] = ret fs' \<and> fs' ''x'' = Some [1] \<and>
    fs' ''out/f'' = Some [32, 33, 34, 35, 36, 37, 38, 39, 24, 25, 26, 27, 28, 29, 30, 31]"
proof -
  let ?exp = "\<lparr>Location = ''out'', Hash = [], Strategy = []\<rparr>" and ?join = "\<lambda>a b. a @ CHR 0x2F # b"
  obtain fs' where fs': "ExportRecords ?join sample_reader 1000 [] ?exp [sample_nonresident] sample_export_disk 0 [''x'' \<mapsto> [1]] = ret fs'"
    by (simp add: ExportRecords_def sample_Worker)
  have s: "concat (map (sent_records []) [sample_nonresident]) = [] @ sample_nonresident # []"
    by (simp add: sent_records_def sample_worker)
  have p: "record_path ?join ?exp sample_nonresident ''f'' = ''out/f''" by (simp add: record_path_def export_name_def)
  have d: "on_disk 1000 (1 * 8) 16 (run_pairs sample_runs)" by (simp add: sample_runs_def word_sless_alt)
  note c = ExportRecords_content [OF fs' _ sample_worker(1)]
  have "fs' ''x'' = Some [1]"
    using c [THEN conjunct2, rule_format, of "''x''"] sample_nonresident_facts p by (fastforce simp: sent_records_def sample_worker)
  moreover obtain content pieces where "fs' ''out/f'' = Some content" "content = concat pieces"
      "gmap (\<lambda>(o', len). sample_reader o' len) (read_extents (1 * 8) 16 (run_pairs sample_runs)) = ret pieces"
    using c [THEN conjunct1, rule_format, of "[]" sample_nonresident "[]" "''f''"] sample_nonresident_facts p s d by auto
  ultimately show ?thesis using fs' by (auto simp: sample_runs_def sample_reader_def upt_rec)
qed

section \<open>Interleavings\<close>

text \<open>What \<open>CreateFile\<close> does to the files: the old file is removed, then the content is written to a new one.\<close>

datatype file_op = Remove_file string | Append_file string "byte list"

fun file_act :: "file_op \<Rightarrow> files \<Rightarrow> files" where
  "file_act (Remove_file path) fs = Remove path fs"
| "file_act (Append_file path content) fs = WriteFile path content fs"

definition result_ops :: "(string \<Rightarrow> string \<Rightarrow> string) \<Rightarrow> Exporter \<Rightarrow> AskedFile \<Rightarrow> file_op list" where
  "result_ops join exp result = (let fullpath = export_path join exp result in
     [Remove_file fullpath, Append_file fullpath (af_Content result)])"

interpretation exports: consumer "result_ops join exp" file_act "\<lambda>result. ExportData join exp [result]" for join exp
  by unfold_locales (simp add: result_ops_def CreateFile_def export_path_def export_name_def Let_def)

interpretation blocks: consumer "\<lambda>block. [block]" "WriteFile path" "WriteFile path" for path
  by unfold_locales simp

lemma fold_ExportData: "fold (\<lambda>result. ExportData join exp [result]) results fs = ExportData join exp results fs"
  by (induction results arbitrary: fs) simp_all

text \<open>C11: The exporter under every schedule. The worker and the exporter run side by side over a channel, in
  steps of sending, receiving, removing a file and writing one. No run goes on for ever. When a run cannot go on and the
  sequential \<open>ExportRecords\<close> returns files, both goroutines have ended and the
  files are these; when it panics, the run has panicked with the same panic; and at any time the files
  are those after the first file operations of what the worker sends, in the order in which it is sent.\<close>

theorem ExportRecords_runs:
  assumes "Worker_ops rd diskSize tbl physicalDisk partitionNum records = (ops, fate)"
    and "Location exp \<noteq> []" and "records \<noteq> []"
    and "net_run cap (result_ops join exp) file_act (net_start ops fate fs) s"
  shows "(\<exists>done rest. concat (map (result_ops join exp) (sent ops)) = done @ rest \<and> net_sink s = fold file_act done fs) \<and>
    (\<forall>n s'. (net_step cap (result_ops join exp) file_act ^^ n) (net_start ops fate fs) s' \<longrightarrow>
      n \<le> net_size (result_ops join exp) (net_start ops fate fs :: (AskedFile, file_op, files) net)) \<and>
    (net_stuck cap (result_ops join exp) file_act s \<longrightarrow>
      (case ExportRecords join rd diskSize tbl exp records physicalDisk partitionNum fs of
         None \<Rightarrow> True
       | Some (Inl c) \<Rightarrow> net_crash s = Some c
       | Some (Inr fs') \<Rightarrow> net_done s \<and> net_sink s = fs'))"
proof (intro conjI allI impI)
  show "\<exists>done rest. concat (map (result_ops join exp) (sent ops)) = done @ rest \<and> net_sink s = fold file_act done fs"
    using exports.in_order [OF assms(4)] .
next
  fix n s' assume "(net_step cap (result_ops join exp) file_act ^^ n) (net_start ops fate fs) s'"
  from net_step_bounded [OF this]
  show "n \<le> net_size (result_ops join exp) (net_start ops fate fs :: (AskedFile, file_op, files) net)" by simp
next
  assume stuck: "net_stuck cap (result_ops join exp) file_act s"
  let ?w = "Worker rd diskSize tbl physicalDisk partitionNum records"
  have e: "ExportRecords join rd diskSize tbl exp records physicalDisk partitionNum fs = gbind ?w (\<lambda>results. ret (ExportData join exp results fs))"
    using assms(2,3) by (simp add: ExportRecords_def)
  show "case ExportRecords join rd diskSize tbl exp records physicalDisk partitionNum fs of
         None \<Rightarrow> True | Some (Inl c) \<Rightarrow> net_crash s = Some c | Some (Inr fs') \<Rightarrow> net_done s \<and> net_sink s = fs'"
  proof (cases ?w rule: go_cases)
    case (returned results)
    have "net_done s \<and> net_sink s = fold (\<lambda>result. ExportData join exp [result]) results fs"
      using exports.delivers [OF _ stuck, of results fs] Worker_ops_ret [OF returned] assms(1,4) by auto
    then show ?thesis unfolding e by (simp add: returned fold_ExportData)
  next
    case (crashed c)
    with Worker_ops_panic [OF crashed] assms(1,4) exports.panics [OF _ stuck] have "net_crash s = Some c" by auto
    then show ?thesis unfolding e by (simp add: crashed)
  next
    case no_return
    then show ?thesis unfolding e by simp
  qed
qed

lemma sample_Worker_ops:
  "Worker_ops sample_reader 1000 [] sample_export_disk 0 [sample_nonresident] =
    ([Send \<lparr>af_Fname = ''f'', af_Id = 40, af_Content = [32, 33, 34, 35, 36, 37, 38, 39, 24, 25, 26, 27, 28, 29, 30, 31]\<rparr>, Close_chan], Returns)"
  using Worker_ops_ret [OF sample_Worker] by simp

theorem ExportRecords_runs_witness:
  "\<exists>s. net_run 1 (result_ops (\<lambda>a b. a @ CHR 0x2F # b) \<lparr>Location = ''out'', Hash = [], Strategy = ''Id''\<rparr>) file_act
      (net_start (fst (Worker_ops sample_reader 1000 [] sample_export_disk 0 [sample_nonresident])) Returns Map.empty) s \<and>
    net_done s \<and> net_sink s ''out/[40]f'' = Some [32, 33, 34, 35, 36, 37, 38, 39, 24, 25, 26, 27, 28, 29, 30, 31]"
proof -
  let ?join = "\<lambda>a b. a @ CHR 0x2F # b" and ?exp = "\<lparr>Location = ''out'', Hash = [], Strategy = ''Id''\<rparr>"
  let ?ops = "fst (Worker_ops sample_reader 1000 [] sample_export_disk 0 [sample_nonresident])"
  obtain s where s: "net_run 1 (result_ops ?join ?exp) file_act (net_start ?ops Returns Map.empty) s"
      "net_stuck 1 (result_ops ?join ?exp) file_act s"
    using net_run_stuck by blast
  obtain fs' where fs': "ExportRecords ?join sample_reader 1000 [] ?exp [sample_nonresident] sample_export_disk 0 Map.empty = ret fs'"
    by (simp add: ExportRecords_def sample_Worker)
  then have "fs' ''out/[40]f'' = Some [32, 33, 34, 35, 36, 37, 38, 39, 24, 25, 26, 27, 28, 29, 30, 31]"
    by (auto simp: ExportRecords_def sample_Worker CreateFile_eq show_int_def decimal.simps char_of_def bit_0 bit_Suc)
  with ExportRecords_runs [of sample_reader 1000 "[]" sample_export_disk 0 "[sample_nonresident]" ?ops Returns ?exp 1 ?join Map.empty s] s fs'
  show ?thesis by (auto simp: sample_Worker_ops ret_def)
qed

section \<open>The channel of several volumes\<close>

text \<open>What the choice \<open>late\<close> stands for. What \<open>ExportUnallocated\<close> returns for some choice are just the files with
  which some run of the collecting goroutine and the loop over its blocks leaves the loop; and it fails
  for some choice just when some run ends with a panic or with every goroutine asleep.\<close>

lemma ExportUnallocated_runs:
  "((\<exists>late. ExportUnallocated late join rd exp physicalDisk fs = ret fs') \<longleftrightarrow>
      (\<exists>s. net_run 0 (\<lambda>block. [block]) (WriteFile (unallocated_path join exp)) (net_start (fst (CollectedUnallocated rd physicalDisk)) (snd (CollectedUnallocated rd physicalDisk)) fs) s \<and>
        net_crash s = None \<and> net_left s \<and> net_sink s = fs')) \<and>
    ((\<exists>late. crashes (ExportUnallocated late join rd exp physicalDisk fs)) \<longleftrightarrow>
      (\<exists>s. net_run 0 (\<lambda>block. [block]) (WriteFile (unallocated_path join exp)) (net_start (fst (CollectedUnallocated rd physicalDisk)) (snd (CollectedUnallocated rd physicalDisk)) fs) s \<and>
        net_stuck 0 (\<lambda>block. [block]) (WriteFile (unallocated_path join exp)) s \<and>
        ((\<exists>c. net_crash s = Some c) \<or> net_deadlock 0 (\<lambda>block. [block]) (WriteFile (unallocated_path join exp)) s)))"
  unfolding not_None_eq [symmetric] blocks.ranged_runs [symmetric] blocks.ranged_fails [symmetric]
  by (simp add: ExportUnallocated_def case_prod_unfold crashes_gbind_ret gbind_eq_ret)

lemma ExportUnallocated_eq:
  assumes "ntfs_blocks rd (disk_Partitions physicalDisk) = ret bss"
  shows "ExportUnallocated late join rd exp physicalDisk fs = (case bss of
      [] \<Rightarrow> panic (Explicit_panic ''all goroutines are asleep - deadlock!'')
    | [bs] \<Rightarrow> ret (fold (WriteFile (unallocated_path join exp)) bs fs)
    | bs # bs' # _ \<Rightarrow>
        if late then ret (fold (WriteFile (unallocated_path join exp)) bs fs)
        else panic (Explicit_panic (if bs' = [] then ''close of closed channel'' else ''send on closed channel'')))"
proof -
  have c: "CollectedUnallocated rd physicalDisk = (concat (map (\<lambda>bs. map Send bs @ [Close_chan]) bss), Returns)"
    using CollectedUnallocated_blocks [OF assms] by (simp add: CollectedUnallocated_def)
  have r: "ranged late (map Send bs @ Close_chan # rest) Returns = (case panic_after rest Returns of
      Some c \<Rightarrow> if late then ret bs else panic c | None \<Rightarrow> ret bs)" for bs rest
    by (induction bs) (auto split: option.splits)
  have p: "panic_after (map Send bs @ Close_chan # rest) Returns =
      Some (Explicit_panic (if bs = [] then ''close of closed channel'' else ''send on closed channel''))" for bs :: "byte list list" and rest
    by (cases bs) simp_all
  show ?thesis by (auto simp: ExportUnallocated_def c r p split: list.splits)
qed

text \<open>C25: What becomes of the unallocated clusters. When the NTFS volumes of a disk yield the blocks \<open>bss\<close>: without such
  a volume nobody closes the channel and the program is deadlocked; with one its blocks are appended to
  the file; with more, the second volume panics on the closed channel unless the program ends before,
  and the file has the blocks of the first volume only.\<close>

theorem ExportUnallocated_volumes:
  assumes "ntfs_blocks rd (disk_Partitions physicalDisk) = ret bss"
  shows "ExportUnallocated late join rd exp physicalDisk fs = (case bss of
      [] \<Rightarrow> panic (Explicit_panic ''all goroutines are asleep - deadlock!'')
    | [bs] \<Rightarrow> ret (fold (WriteFile (unallocated_path join exp)) bs fs)
    | bs # bs' # _ \<Rightarrow>
        if late then ret (fold (WriteFile (unallocated_path join exp)) bs fs)
        else panic (Explicit_panic (if bs' = [] then ''close of closed channel'' else ''send on closed channel'')))"
  using assms by (rule ExportUnallocated_eq)

text \<open>C26: The export of the unallocated clusters under every schedule of the collecting goroutine and the loop
  over its blocks. When the NTFS volumes of a disk yield the blocks \<open>bss\<close>, the files with which some run
  leaves the loop without a panic are just those to which the blocks of the first volume are appended in
  their order; without a volume no run leaves the loop. Some run ends with a panic or with every
  goroutine asleep just when there is not exactly one volume.\<close>

theorem ExportUnallocated_schedules:
  assumes "ntfs_blocks rd (disk_Partitions physicalDisk) = ret bss"
    and "CollectedUnallocated rd physicalDisk = (ops, fate)"
  shows "((\<exists>s. net_run 0 (\<lambda>block. [block]) (WriteFile (unallocated_path join exp)) (net_start ops fate fs) s \<and>
        net_crash s = None \<and> net_left s \<and> net_sink s = fs') \<longleftrightarrow>
      (\<exists>bs rest. bss = bs # rest \<and> fs' = fold (WriteFile (unallocated_path join exp)) bs fs)) \<and>
    ((\<exists>s. net_run 0 (\<lambda>block. [block]) (WriteFile (unallocated_path join exp)) (net_start ops fate fs) s \<and>
        net_stuck 0 (\<lambda>block. [block]) (WriteFile (unallocated_path join exp)) s \<and>
        ((\<exists>c. net_crash s = Some c) \<or> net_deadlock 0 (\<lambda>block. [block]) (WriteFile (unallocated_path join exp)) s)) \<longleftrightarrow>
      length bss \<noteq> 1)"
proof -
  note runs = ExportUnallocated_runs [of join rd exp physicalDisk fs fs', unfolded assms(2) fst_conv snd_conv
      ExportUnallocated_eq [OF assms(1)]]
  show ?thesis
    unfolding runs [THEN conjunct1, symmetric] runs [THEN conjunct2, symmetric]
    by (cases bss; cases "tl bss") auto
qed

lemma sample_volume_blocks:
  "volume_blocks sample_reader (PMBR (zero_Partition\<lparr>mp_Volume := Some (VNTFS sample_volume)\<rparr>)) = ret (Some [[4, 5], [4, 5, 8, 9]])"
proof -
  let ?v = "zero_VBR\<lparr>BytesPerSector := 2, SectorsPerCluster := 1\<rparr>"
  have "FindType sample_bitmap = ''BitMap''"
    by (simp add: FindType_def GetType_def Bytereverse_def AttrTypes_def hex_eval sample_bitmap_def)
  then have a: "FindAttribute (zero_Record\<lparr>Attributes := [sample_bitmap]\<rparr>) ''BitMap'' = Some sample_bitmap"
    by (simp add: FindAttribute_def)
  have "GetUnallocatedClusters \<lparr>AllocationStatus = [0x35]\<rparr> = ret [2, 4, 7, 8]"
    by (simp add: GetUnallocatedClusters_filter bitmap_bit_def upt_rec bit_numeral_rec bit_iff_odd)
  from CollectUnallocated_eq [OF _ _ _ a _ this, of _ ?v _ "[]" sample_reader 0]
  have "CollectUnallocated sample_reader 0 sample_volume = ret [[4, 5], [4, 5, 8, 9]]"
    by (simp add: sample_bitmap_def sample_volume_def read_run_def sample_reader_def upt_rec max_alloc_def)
  then show ?thesis
    by (simp add: volume_blocks_def Partition_GetOffset_def GetBytesPerSector_def the_VBR_def sample_volume_def zero_Partition_def)
qed

theorem ExportUnallocated_volumes_witness:
  "(\<lambda>late. ExportUnallocated late (\<lambda>a b. a @ CHR 0x2F # b) sample_reader \<lparr>Location = ''out'', Hash = [], Strategy = []\<rparr>
      \<lparr>disk_MBR = None, disk_GPT = None,
       disk_Partitions = replicate 2 (PMBR (zero_Partition\<lparr>mp_Volume := Some (VNTFS sample_volume)\<rparr>))\<rparr> Map.empty) =
    (\<lambda>late. if late then ret [''out/Unallocated'' \<mapsto> [4, 5, 4, 5, 8, 9]] else panic (Explicit_panic ''send on closed channel''))"
proof
  fix late
  let ?d = "\<lparr>disk_MBR = None, disk_GPT = None,
       disk_Partitions = replicate 2 (PMBR (zero_Partition\<lparr>mp_Volume := Some (VNTFS sample_volume)\<rparr>))\<rparr>"
  have "ntfs_blocks sample_reader (disk_Partitions ?d) = ret [[[4, 5], [4, 5, 8, 9]], [[4, 5], [4, 5, 8, 9]]]"
    using sample_volume_blocks by (simp add: numeral_2_eq_2)
  from ExportUnallocated_volumes [OF this]
  show "ExportUnallocated late (\<lambda>a b. a @ CHR 0x2F # b) sample_reader \<lparr>Location = ''out'', Hash = [], Strategy = []\<rparr> ?d Map.empty =
      (if late then ret [''out/Unallocated'' \<mapsto> [4, 5, 4, 5, 8, 9]] else panic (Explicit_panic ''send on closed channel''))"
    by (simp add: WriteFile_def unallocated_path_def)
qed

theorem ExportUnallocated_schedules_witness:
  "\<exists>ops fate s s'. CollectedUnallocated sample_reader \<lparr>disk_MBR = None, disk_GPT = None,
       disk_Partitions = replicate 2 (PMBR (zero_Partition\<lparr>mp_Volume := Some (VNTFS sample_volume)\<rparr>))\<rparr> = (ops, fate) \<and>
    net_run 0 (\<lambda>block. [block]) (WriteFile ''Unallocated'') (net_start ops fate Map.empty) s \<and>
    net_left s \<and> net_sink s = [''Unallocated'' \<mapsto> [4, 5, 4, 5, 8, 9]] \<and>
    net_run 0 (\<lambda>block. [block]) (WriteFile ''Unallocated'') (net_start ops fate Map.empty) s' \<and>
    net_stuck 0 (\<lambda>block. [block]) (WriteFile ''Unallocated'') s'"
proof -
  let ?d = "\<lparr>disk_MBR = None, disk_GPT = None,
       disk_Partitions = replicate 2 (PMBR (zero_Partition\<lparr>mp_Volume := Some (VNTFS sample_volume)\<rparr>))\<rparr>"
  obtain ops fate where c: "CollectedUnallocated sample_reader ?d = (ops, fate)" by fastforce
  have b: "ntfs_blocks sample_reader (disk_Partitions ?d) = ret [[[4, 5], [4, 5, 8, 9]], [[4, 5], [4, 5, 8, 9]]]"
    using sample_volume_blocks by (simp add: numeral_2_eq_2)
  have p: "unallocated_path (\<lambda>_ b. b) \<lparr>Location = [], Hash = [], Strategy = []\<rparr> = ''Unallocated''"
    by (simp add: unallocated_path_def)
  note schedules = ExportUnallocated_schedules [OF b c, of "\<lambda>_ b. b" "\<lparr>Location = [], Hash = [], Strategy = []\<rparr>" Map.empty
      "[''Unallocated'' \<mapsto> [4, 5, 4, 5, 8, 9]]", unfolded p]
  have "\<exists>s. net_run 0 (\<lambda>block. [block]) (WriteFile ''Unallocated'') (net_start ops fate Map.empty) s \<and> net_crash s = None \<and>
      net_left s \<and> net_sink s = [''Unallocated'' \<mapsto> [4, 5, 4, 5, 8, 9]]"
    unfolding schedules [THEN conjunct1] by (simp add: WriteFile_def)
  moreover have "\<exists>s. net_run 0 (\<lambda>block. [block]) (WriteFile ''Unallocated'') (net_start ops fate Map.empty) s \<and>
      net_stuck 0 (\<lambda>block. [block]) (WriteFile ''Unallocated'') s \<and>
      ((\<exists>c. net_crash s = Some c) \<or> net_deadlock 0 (\<lambda>block. [block]) (WriteFile ''Unallocated'') s)"
    unfolding schedules [THEN conjunct2] by simp
  ultimately show ?thesis using c by blast
qed

end
