(* ===== verification/Program.thy ===== *)
theory Program
  imports Filters Tree_Builder UsnJrnl Exporter Volume_Table
begin

text \<open>
  The options of \<open>main.go\<close>, the filters an invocation registers, and the records and the tree it makes of a file with
  the table.
\<close>

record Options =
  opt_MFTSelectedEntries :: string
  opt_exportFiles :: string
  opt_exportFilesPath :: string
  opt_fromMFTEntry :: int
  opt_toMFTEntry :: int
  opt_partitionNum :: int
  opt_buildtree :: bool
  opt_orphans :: bool
  opt_deleted :: bool
  opt_fileExtensions :: string
  opt_collectUnallocated :: bool
  opt_usnjrnl :: bool
  opt_exporter :: Exporter \<comment> \<open>the location, hash and strategy\<close>

section \<open>Filters\<close>

definition fileNamesToExport :: "Options \<Rightarrow> string list" where
  "fileNamesToExport opts = (if opt_usnjrnl opts then [''$UsnJrnl''] else []) @
     (if opt_exportFiles opts \<noteq> [] then GetEntries (opt_exportFiles opts) else [])"

definition register_if :: "bool \<Rightarrow> Filter \<Rightarrow> FilterManager \<Rightarrow> FilterManager" where
  "register_if b f flm = (if b then Register flm f else flm)"

definition registered :: "Options \<Rightarrow> FilterManager" where
  "registered opts =
     register_if (opt_deleted opts) (DeletedFilter (opt_deleted opts))
    (register_if (opt_orphans opts) (OrphansFilter (opt_orphans opts))
    (register_if (opt_exportFilesPath opts \<noteq> []) (PathFilter (opt_exportFilesPath opts))
    (register_if (opt_fileExtensions opts \<noteq> []) (ExtensionsFilter (GetEntries (opt_fileExtensions opts)))
    (register_if (opt_exportFiles opts \<noteq> []) (NameFilter (fileNamesToExport opts))
    (register_if (opt_exportFiles opts \<noteq> []) (FoldersFilter False) \<lparr>filters = []\<rparr>)))))"

section \<open>A file with the table\<close>

text \<open>The table of the file; the records that are shown and the tree.\<close>

definition table_of_file :: "nat \<Rightarrow> Options \<Rightarrow> byte list \<Rightarrow> MFTTable go" where
  "table_of_file slack opts data =
     gbind (ProcessMFT slack (full data) (GetEntriesInt (opt_MFTSelectedEntries opts)) (opt_fromMFTEntry opts)
         (opt_toMFTEntry opts) \<lparr>ntfs_VBR = None, ntfs_MFT = Some \<lparr>Records = [], mft_Size = int (length data)\<rparr>\<rparr>) the_MFT"

definition records_and_tree :: "(string list \<Rightarrow> string) \<Rightarrow> Options \<Rightarrow> MFTTable \<Rightarrow> (Records \<times> Tree) go" where
  "records_and_tree joins opts t =
     gbind (ApplyFilters joins (Records t) (registered opts) (Records t)) (\<lambda>records.
     gbind (if opt_buildtree opts then Build (Records t) records \<lparr>tree_root = None\<rparr> else ret \<lparr>tree_root = None\<rparr>) (\<lambda>tree.
       ret (records, tree)))"

definition main_MFT_file :: "(string list \<Rightarrow> string) \<Rightarrow> nat \<Rightarrow> Options \<Rightarrow> byte list \<Rightarrow> (Records \<times> Tree) go" where
  "main_MFT_file joins slack opts data = gbind (table_of_file slack opts data) (records_and_tree joins opts)"

lemmas main_MFT_file_defs = main_MFT_file_def table_of_file_def records_and_tree_def

section \<open>What an invocation yields\<close>

text \<open>The records shown from a table file. Whatever the file, the selection of entries and the filters,
  every record that is shown is the zero record of an unused slot or a well-typed record that was
  processed from the file at the index that its own entry number says, without links and without a parent.\<close>

theorem main_MFT_file_records:
  assumes "main_MFT_file joins slack opts data = ret (records, tree)" and "r \<in> set records"
  shows "\<exists>i. slot_ok i r"
proof -
  obtain ntfs t where p: "ProcessMFT slack (full data) (GetEntriesInt (opt_MFTSelectedEntries opts)) (opt_fromMFTEntry opts)
         (opt_toMFTEntry opts) \<lparr>ntfs_VBR = None, ntfs_MFT = Some \<lparr>Records = [], mft_Size = int (length data)\<rparr>\<rparr> = ret ntfs"
      and t: "the_MFT ntfs = ret t" "ApplyFilters joins (Records t) (registered opts) (Records t) = ret records"
    using assms(1) by (auto simp: main_MFT_file_defs)
  have "table_ok (Records t)" using ProcessMFT_table [OF p] t(1) by (auto simp: the_MFT_def)
  moreover have "r \<in> set (Records t)" using ApplyFilters_subset [OF t(2)] assms(2) by blast
  ultimately show ?thesis by (auto simp: table_ok_def in_set_conv_nth)
qed

definition sample_options :: Options where
  "sample_options = \<lparr>opt_MFTSelectedEntries = [], opt_exportFiles = [], opt_exportFilesPath = [], opt_fromMFTEntry = - 1,
     opt_toMFTEntry = MaxUint32, opt_partitionNum = - 1, opt_buildtree = False, opt_orphans = False, opt_deleted = False,
     opt_fileExtensions = [], opt_collectUnallocated = False, opt_usnjrnl = True,
     opt_exporter = \<lparr>Location = ''out'', Hash = [], Strategy = ''Id''\<rparr>\<rparr>"

lemma sample_ProcessMFT:
  "ProcessMFT 0 (full (replicate 4096 0)) [] (- 1) MaxUint32 \<lparr>ntfs_VBR = None, ntfs_MFT = Some \<lparr>Records = [], mft_Size = s\<rparr>\<rparr> =
    ret \<lparr>ntfs_VBR = None, ntfs_MFT = Some \<lparr>Records = replicate 4 zero_Record, mft_Size = s\<rparr>\<rparr>"
proof -
  have "filter (selected [] (- 1) MaxUint32) [0..<4] = [0..<4]"
    by (rule filter_True) (simp add: selected_def MaxUint32_def)
  moreover have "concat (map (record_at (full (replicate 4096 0))) [0..<4]) = replicate 4096 0"
  proof -
    have "map (record_at (full (replicate 4096 0))) [0..<4] = replicate 4 (replicate 1024 0)"
      by (rule nth_equalityI) (simp_all add: zero_record_at)
    moreover have "concat (replicate n (replicate m x)) = replicate (n * m) x" for n m and x :: byte
      by (induction n) (simp_all add: replicate_add)
    ultimately show ?thesis by simp
  qed
  ultimately have "ProcessMFT 0 (full (replicate 4096 0)) [] (- 1) MaxUint32 \<lparr>ntfs_VBR = None, ntfs_MFT = Some \<lparr>Records = [], mft_Size = s\<rparr>\<rparr> =
      gbind (ProcessRecords \<lparr>Records = [], mft_Size = s\<rparr> (full (replicate 4096 0))) (\<lambda>(t', _). ret \<lparr>ntfs_VBR = None, ntfs_MFT = Some t'\<rparr>)"
    using ProcessMFT_eq [of "full (replicate 4096 0)" 4 "[]" "- 1" "\<lparr>ntfs_VBR = None, ntfs_MFT = Some \<lparr>Records = [], mft_Size = s\<rparr>\<rparr>"
        "\<lparr>Records = [], mft_Size = s\<rparr>" MaxUint32 4 0]
    by (simp add: total_records_def MaxUint32_def RecordSize_def buffer_Bytes_def full_def wf_slice_def max_alloc_def)
  then show ?thesis by (simp add: zero_ProcessRecords)
qed

lemma zero_file_main:
  "main_MFT_file concat 0 sample_options (replicate 4096 0) = ret (replicate 4 zero_Record, \<lparr>tree_root = None\<rparr>)"
proof -
  have "GetEntriesInt [] = []" by (simp add: GetEntriesInt_def GetEntries_def)
  then show ?thesis
    by (simp add: main_MFT_file_defs sample_options_def sample_ProcessMFT the_MFT_def registered_def register_if_def ApplyFilters_def)
qed

theorem main_MFT_file_records_witness:
  "\<exists>rs t. main_MFT_file concat 0 sample_options (replicate 4096 0) = ret (rs, t) \<and> length rs = 4 \<and> (\<exists>i. slot_ok i (hd rs))"
  using main_MFT_file_records [OF zero_file_main, of zero_Record] zero_file_main by auto

end
