(* ===== verification/Reporting.thy ===== *)
theory Reporting
  imports Program "HOL-Library.Signed_Division"
begin

text \<open>
  What the program prints about records: the \<open>ShowInfo\<close> methods of the attributes, the \<open>Show\<close> methods of
  \<open>FS/NTFS/MFT/MFT.go\<close>, of the journal records and of the tree, and the reporter that calls them. The output is
  the list of the calls of \<open>fmt.Printf\<close>, each a format with its arguments; a time is its Unix time, which
  the code passes through the formatting of the standard library.
\<close>

section \<open>Output\<close>

datatype arg =
    AStr string
  | ANum int
  | ABool bool
  | ATime i64
  | ASpec TimeSpec
  | AText "(string \<times> arg list) list" \<comment> \<open>the pieces of a text made with \<open>fmt.Sprintf\<close>\<close>

type_synonym printed = "(string \<times> arg list) list"

definition UNum :: "'a::len word \<Rightarrow> arg" where "UNum w = ANum (uint w)"

definition SNum :: "i64 \<Rightarrow> arg" where "SNum w = ANum (sint w)"

definition ln :: "string \<Rightarrow> string" where \<comment> \<open>with a newline at the end\<close>
  "ln s = s @ [CHR 0x0A]"

definition show_all :: "('a \<Rightarrow> printed go) \<Rightarrow> 'a list \<Rightarrow> printed go" where
  "show_all f xs = gbind (gmap f xs) (\<lambda>os. ret (concat os))"

text \<open>The progress of a long operation: the line is cleared first.\<close>

definition SetProgress :: "int \<Rightarrow> string \<Rightarrow> printed" where
  "SetProgress progressStat msg = [(CHR 0x1B # ''[2K'', []), (CHR 0x1B # ''[0J'', []), (''%4d%% %s'', [ANum progressStat, AStr msg])]"

section \<open>Attributes\<close>

definition IndexEntry_ShowInfo :: "IndexEntry \<Rightarrow> printed" where
  "IndexEntry_ShowInfo e = (case Fnattr e of
       None \<Rightarrow> []
     | Some f \<Rightarrow> [(ln ''type %s file ref %d idx name %s flags %d allocated size %d real size %d '',
         [AStr (FNAttribute_GetType f), UNum (ie_ParRef e), AStr (Fname f), UNum (ie_Flags e), UNum (AllocFsize f), UNum (RealFsize f)])])"

definition IndexRoot_ShowInfo :: "string \<Rightarrow> IndexRoot \<Rightarrow> printed" where
  "IndexRoot_ShowInfo t r = (ln ''type %s nof entries %d'', [AStr t, ANum (int (length (ir_IndexEntries r)))]) #
     concat (map IndexEntry_ShowInfo (ir_IndexEntries r))"

definition IndexAllocation_ShowInfo :: "string \<Rightarrow> IndexAllocation \<Rightarrow> printed" where
  "IndexAllocation_ShowInfo t a = (ln ''type %s nof entries %d'', [AStr t, UNum (NumFixupEntries a)]) #
     concat (map IndexEntry_ShowInfo (ia_IndexEntries a))"

text \<open>The inner loop of the bitmap: \<open>for bitmask < 128 { bitmask = 1 << shifter; .. }\<close>.\<close>

partial_function (option) show_bits :: "byte \<Rightarrow> u8 \<Rightarrow> nat \<Rightarrow> int \<Rightarrow> (crash + printed \<times> int) option" where
  "show_bits byteval bitmask shifter pos =
     (if bitmask < 128 then
        let bitmask' = push_bit shifter 1 in
        gbind (show_bits byteval bitmask' (shifter + 1) (pos + 1)) (\<lambda>(o', p).
          ret ((''cluster/entry  %d status %d '' @ [CHR 0x09], [ANum pos, UNum (byteval AND bitmask')]) # o', p))
      else ret ([], pos))"

fun show_bytes :: "byte list \<Rightarrow> int \<Rightarrow> printed go" where
  "show_bytes [] pos = ret []"
| "show_bytes (b # bs) pos =
     gbind (show_bits b 1 0 pos) (\<lambda>(o1, pos'). gbind (show_bytes bs pos') (\<lambda>o2. ret (o1 @ o2)))"

definition BitMap_ShowInfo :: "string \<Rightarrow> BitMap \<Rightarrow> printed go" where
  "BitMap_ShowInfo t b = gbind (show_bytes (AllocationStatus b) 1) (\<lambda>out. ret ((ln ''type %s '', [AStr t]) # out))"

definition AttributeList_ShowInfo :: "AttributeList \<Rightarrow> printed" where
  "AttributeList_ShowInfo e = [(ln ''Attr List Type %s MFT Ref %d startVCN %d name %s '',
     [AStr (AttributeList_GetType e), UNum (al_ParRef e), UNum (al_StartVcn e), AStr (al_Name e)])]"

definition times :: "i64 \<times> i64 \<times> i64 \<times> i64 \<Rightarrow> arg list" where
  "times ts = (case ts of (a, c, m, mft) \<Rightarrow> [ATime a, ATime c, ATime m, ATime mft])"

definition Attribute_ShowInfo :: "Attribute \<Rightarrow> printed go" where
  "Attribute_ShowInfo attr = (let t = FindType attr in case Body attr of
       BFileName f \<Rightarrow> ret [(ln ''type %s Par Ref %d name %s atime %s ctime %s mtime %s mfttime %s'',
         [AStr t, UNum (fn_ParRef f), AStr (Fname f)] @ times (FNAttribute_GetTimestamps f))]
     | BReparse r \<Rightarrow> ret [(''Type %s Target Name %s Print Name %s'', [AStr t, AStr (rp_Name r), AStr (PrintName r)])]
     | BData d \<Rightarrow> ret [(ln ''type %s %t '', [AStr t, ABool (Attribute_IsNoNResident attr)])]
     | BObject x \<Rightarrow> ret [(ln ''type %s'', [AStr t])]
     | BAttrList es \<Rightarrow> ret (concat (map AttributeList_ShowInfo es))
     | BBitmap b \<Rightarrow> BitMap_ShowInfo t b
     | BVolumeName x \<Rightarrow> ret []
     | BVolumeInfo x \<Rightarrow> ret []
     | BIndexRoot r \<Rightarrow> ret (IndexRoot_ShowInfo t r)
     | BIndexAllocation a \<Rightarrow> ret (IndexAllocation_ShowInfo t a)
     | BStdInfo s \<Rightarrow> ret [(ln ''type %s usn  %d atime %s ctime %s mtime %s mfttime %s'',
         [AStr t, UNum (si_USN s)] @ times (SIAttribute_GetTimestamps s))]
     | BLoggedUtility x \<Rightarrow> ret []
     | BExtended x \<Rightarrow> ret []
     | BEAInfo x \<Rightarrow> ret [])"

section \<open>Records\<close>

definition ShowVCNs :: "Record \<Rightarrow> printed go" where
  "ShowVCNs record = gbind (getVCNs record) (\<lambda>(startVCN, lastVCN).
     ret (if startVCN \<noteq> 0 \<or> lastVCN \<noteq> 0 then [('' startVCN %d endVCN %d '', [UNum startVCN, UNum lastVCN])] else []))"

text \<open>\<open>names\<close> lists the keys of a map in the order of a range over it, which the language leaves open. Both
  branches on the name space print the name.\<close>

definition ShowFileName :: "((string \<rightharpoonup> string) \<Rightarrow> string list) \<Rightarrow> Record \<Rightarrow> string \<Rightarrow> printed go" where
  "ShowFileName names record fileNameSyntax = gbind (GetFnames record) (\<lambda>fnames.
     ret (concat (map (\<lambda>ftype. case fnames ftype of None \<Rightarrow> [] | Some fname \<Rightarrow>
       if ftype = fileNameSyntax then [('' %s '', [AStr fname])] else [('' %s '', [AStr fname])]) (names fnames))))"

definition Record_showInfo :: "Record \<Rightarrow> printed" where
  "Record_showInfo record = [(ln ''record %d type %s'', [UNum (Entry record), AStr (getType record)])]"

definition ShowParentRecordInfo :: "((string \<rightharpoonup> string) \<Rightarrow> string list) \<Rightarrow> Records \<Rightarrow> Record \<Rightarrow> printed go" where
  "ShowParentRecordInfo names tbl record = (case Parent record of
       None \<Rightarrow> ret [([CHR 0x0A] @ '' Record has no parent '', [])]
     | Some p \<Rightarrow> gbind (ShowFileName names (tbl ! p) ''win32'') (\<lambda>out.
         ret (([CHR 0x0A] @ '' Record has parent '', []) # Record_showInfo (tbl ! p) @ out)))"

definition ShowPath :: "(string list \<Rightarrow> string) \<Rightarrow> Records \<Rightarrow> Record \<Rightarrow> int \<Rightarrow> printed go" where
  "ShowPath join tbl record partitionId =
     gbind (GetFullPath join tbl record) (\<lambda>fullpath.
     gbind (GetFname tbl record) (\<lambda>fname.
       ret [([CHR 0x5C] @ ''Partition%d'' @ [CHR 0x5C] @ ''%s'' @ [CHR 0x5C] @ ''%s '', [ANum partitionId, AStr fullpath, AStr fname])]))"

definition ShowIndex :: "Record \<Rightarrow> printed go" where
  "ShowIndex record =
     gbind (case FindAttribute record ''Index Root'' of
         None \<Rightarrow> ret []
       | Some a \<Rightarrow> (case Body a of BIndexRoot r \<Rightarrow> ret (IndexRoot_ShowInfo (FindType a) r) | _ \<Rightarrow> panic Failed_type_assertion)) (\<lambda>o1.
     gbind (case FindAttribute record ''Index Allocation'' of
         None \<Rightarrow> ret []
       | Some a \<Rightarrow> (case Body a of BIndexAllocation x \<Rightarrow> ret (IndexAllocation_ShowInfo (FindType a) x) | _ \<Rightarrow> panic Failed_type_assertion)) (\<lambda>o2.
       ret (o1 @ o2)))"

definition ShowAttributes :: "Record \<Rightarrow> string \<Rightarrow> printed go" where
  "ShowAttributes record attrType =
     gbind (show_all Attribute_ShowInfo
       (if attrType = ''any'' then Attributes record else filter (\<lambda>a. FindType a = attrType) (Attributes record))) (\<lambda>out.
       ret ((ln ''%d %d %s '', [UNum (Entry record), UNum (Seq record), AStr (getType record)]) # out))"

definition ShowTimestamps :: "Record \<Rightarrow> printed go" where
  "ShowTimestamps record =
     gbind (case FindAttribute record ''FileName'' of
         None \<Rightarrow> ret []
       | Some a \<Rightarrow> gbind (assert_FN a) (\<lambda>f. ret [(''FN a %s c %s m %s mftm %s '', times (FNAttribute_GetTimestamps f))])) (\<lambda>o1.
     gbind (case FindAttribute record ''Standard Information'' of
         None \<Rightarrow> ret []
       | Some a \<Rightarrow> (case Body a of
             BStdInfo s \<Rightarrow> ret [(''SI a %s c %s m %s mftm %s '', times (SIAttribute_GetTimestamps s))]
           | _ \<Rightarrow> panic Failed_type_assertion)) (\<lambda>o2.
       ret (o1 @ o2)))"

text \<open>One run list: what is printed, and the totals, into which the first run is not counted.\<close>

fun show_runs :: "RunList \<Rightarrow> i64 \<Rightarrow> int \<Rightarrow> i64 \<Rightarrow> printed \<times> i64 \<times> int" where
  "show_runs (RunList off len nxt) logicalOffset nofFragments totalClusters =
     (if off = 0 \<and> len = 0 \<and> nxt = None then ([], totalClusters, nofFragments)
      else
        let line = (ln '' offs. %d cl len %d cl  logical offset %d cl clusters %d '',
          [SNum off, UNum len, SNum logicalOffset, SNum totalClusters]) in
        case nxt of
          None \<Rightarrow> ([line], totalClusters, nofFragments)
        | Some runlist \<Rightarrow>
            (case show_runs runlist (logicalOffset + Offset runlist) (nofFragments + 1) (totalClusters + Length runlist) of
               (out, clusters, frags) \<Rightarrow> (line # out, clusters, frags)))"

definition show_run_list :: "Attribute \<Rightarrow> RunList \<Rightarrow> printed" where
  "show_run_list a runlist = (case show_runs runlist (Offset runlist) 0 0 of (out, totalClusters, nofFragments) \<Rightarrow>
     (ln ''%s '', [AStr (FindType a)]) # out @
     [(ln ''Total Clusters %d Total Fragments %d'', [SNum totalClusters, ANum nofFragments])])"

definition ShowRunList :: "Records \<Rightarrow> Record \<Rightarrow> printed go" where
  "ShowRunList tbl record =
     gbind (GetRunLists record) (\<lambda>own.
     gbind (gmap (\<lambda>l. GetRunLists (tbl ! l)) (LinkedRecords record)) (\<lambda>linked.
     let runlists = own @ concat linked;
         nonResidentAttributes = FindNonResidentAttributes record @
           concat (map (\<lambda>l. FindNonResidentAttributes (tbl ! l)) (LinkedRecords record)) in
       show_all (\<lambda>idx. if idx < length runlists then ret (show_run_list (nonResidentAttributes ! idx) (runlists ! idx))
         else panic Index_out_of_range) [0..<length nonResidentAttributes]))"

definition ShowIsResident :: "Record \<Rightarrow> printed" where
  "ShowIsResident record =
     (if HasAttr record ''DATA'' then
        (if HasResidentDataAttr record then [(''Resident'', [])] else [(''NoN Resident'', [])])
      else [(''NO DATA attr'', [])])"

definition show_FNA_time :: "(FNAttribute \<Rightarrow> WindowsTime) \<Rightarrow> Record \<Rightarrow> printed go" where
  "show_FNA_time f record = gbind (find_FN record) (\<lambda>fnattr. ret [(''%s '', [ATime (ConvertToUnix (f fnattr))])])"

definition ShowFNAModifiedTime :: "Record \<Rightarrow> printed go" where "ShowFNAModifiedTime = show_FNA_time fn_Mtime"
definition ShowFNACreationTime :: "Record \<Rightarrow> printed go" where "ShowFNACreationTime = show_FNA_time fn_Crtime"
definition ShowFNAMFTModifiedTime :: "Record \<Rightarrow> printed go" where "ShowFNAMFTModifiedTime = show_FNA_time fn_MFTmtime"
definition ShowFNAMFTAccessTime :: "Record \<Rightarrow> printed go" where "ShowFNAMFTAccessTime = show_FNA_time fn_Atime"

text \<open>Division of signed integers truncates towards zero.\<close>

definition ShowFileSize :: "Records \<Rightarrow> Record \<Rightarrow> printed go" where
  "ShowFileSize tbl record =
     gbind (GetLogicalFileSize tbl record) (\<lambda>logical.
     gbind (GetPhysicalSize record) (\<lambda>physical.
       ret [('' logical: %d (KB), physical: %d (KB)'', [ANum (sint logical sdiv 1024), ANum (sint physical sdiv 1024)])]))"

section \<open>The journal and the tree\<close>

definition Usn_ShowInfo :: "UsnRecord \<Rightarrow> printed" where
  "Usn_ShowInfo r = [(ln ''%s %s %s entry Ref %d entry Seq %d parent Ref %d parent Seq %d'',
     [AStr (usn_Fname r), AStr (GetReason r), AStr (GetFileAttributes r), UNum (usn_EntryRef r), UNum (usn_EntrySeq r),
      UNum (usn_ParRef r), UNum (usn_ParSeq r)])]"

definition showChildrenInfo :: "Records \<Rightarrow> Node \<Rightarrow> printed go" where
  "showChildrenInfo tbl node =
     gbind (GetFname tbl (node_record node)) (\<lambda>n.
     gbind (gmap (\<lambda>c. gbind (GetFname tbl (node_record c)) (\<lambda>n.
         ret ('' %s %d'', [AStr n, UNum (Entry (node_record c))]))) (children node)) (\<lambda>out.
       ret (([CHR 0x0A] @ '' %s  %d |_> '', [AStr n, UNum (Entry (node_record node))]) # out)))"

fun descend :: "Records \<Rightarrow> Node \<Rightarrow> printed go"
and descend_all :: "Records \<Rightarrow> Node list \<Rightarrow> printed go" where
  "descend tbl (Node r cs mn mx) =
     (if cs = [] then ret []
      else gbind (showChildrenInfo tbl (Node r cs mn mx)) (\<lambda>o1. gbind (descend_all tbl cs) (\<lambda>o2. ret (o1 @ o2))))"
| "descend_all tbl [] = ret []"
| "descend_all tbl (c # cs) = gbind (descend tbl c) (\<lambda>o1. gbind (descend_all tbl cs) (\<lambda>o2. ret (o1 @ o2)))"

text \<open>\<open>descend\<close> has a value receiver: on a tree without root the pointer is dereferenced.\<close>

definition Tree_Show :: "Records \<Rightarrow> Tree \<Rightarrow> printed go" where
  "Tree_Show tbl t = (case tree_root t of None \<Rightarrow> panic Nil_dereference | Some root \<Rightarrow> descend tbl root)"

section \<open>Listings of a disk\<close>

definition NTFS_GetInfo :: "NTFS \<Rightarrow> printed go" where
  "NTFS_GetInfo ntfs = gbind (the_VBR ntfs) (\<lambda>v. ret [(''%s size %d cluster size %d'',
     [AStr (VBR_GetSignature v), UNum (TotalSectors v * ucast (BytesPerSector v)), UNum (SectorsPerCluster v)])])"

text \<open>\<open>json\<close> is \<open>json.MarshalIndent\<close> on a string, which has no error for strings.\<close>

definition LVM2_GetInfo :: "(string \<Rightarrow> string) \<Rightarrow> LVM2 \<Rightarrow> printed" where
  "LVM2_GetInfo json lvm2 = [(''%s'', [AStr (json (lvm_ConfigurationInfo lvm2))])]"

fun vol_GetInfo :: "(string \<Rightarrow> string) \<Rightarrow> Volume \<Rightarrow> printed go" where
  "vol_GetInfo json (VNTFS n) = NTFS_GetInfo n"
| "vol_GetInfo json (VLVM l) = ret (LVM2_GetInfo json l)"

definition Partition_GetInfo :: "Partition \<Rightarrow> printed" where
  "Partition_GetInfo p = [('' %s at %d'', [AStr (Partition_GetPartitionType p), UNum (Partition_GetOffset p)])]"

text \<open>The offset of a logical partition is shown relative to its table.\<close>

definition Extended_GetInfo :: "ExtendedPartition \<Rightarrow> printed" where
  "Extended_GetInfo e = [(''extended  %s at %d'', [AStr (Partition_GetPartitionType (ep_Partition e)), UNum (Partition_GetOffset (ep_Partition e))])]"

definition GPT_GetInfo :: "GPTPartition \<Rightarrow> printed" where
  "GPT_GetInfo g = [(''%s  %s at %d'', [AStr (GetUniquePartitionType g), AStr (GPT_GetPartitionType g), UNum (GPT_GetOffset g)])]"

definition GPT_GetVolInfo :: "(string \<Rightarrow> string) \<Rightarrow> GPTPartition \<Rightarrow> printed go" where
  "GPT_GetVolInfo json g = (case gp_Volume g of None \<Rightarrow> ret [] | Some v \<Rightarrow> vol_GetInfo json v)"

fun part_GetInfo :: "DiskPartition \<Rightarrow> printed" where
  "part_GetInfo (PMBR p) = Partition_GetInfo p"
| "part_GetInfo (PExtended e) = Extended_GetInfo e"
| "part_GetInfo (PGPT g) = GPT_GetInfo g"

fun part_GetVolInfo :: "(string \<Rightarrow> string) \<Rightarrow> DiskPartition \<Rightarrow> printed go" where
  "part_GetVolInfo json (PMBR p) = ret []"
| "part_GetVolInfo json (PExtended e) = ret []"
| "part_GetVolInfo json (PGPT g) = GPT_GetVolInfo json g"

text \<open>Entries at offset 0 are not shown.\<close>

definition ShowVolumeInfo :: "(string \<Rightarrow> string) \<Rightarrow> Disk \<Rightarrow> printed go" where
  "ShowVolumeInfo json disk = show_all (\<lambda>p.
     if part_GetOffset p = 0 then ret []
     else gbind (part_GetVolInfo json p) (\<lambda>i. ret [(ln ''%s '', [AText i])])) (disk_Partitions disk)"

definition ListPartitions :: "Disk \<Rightarrow> printed go" where
  "ListPartitions disk =
     gbind (hasProtectiveMBR disk) (\<lambda>protective.
       ret ((if protective then ln ''GPT:'' else ln ''MBR:'', []) #
         concat (map (\<lambda>p. if part_GetOffset p = 0 then [] else [(ln ''%s'', [AText (part_GetInfo p)])]) (disk_Partitions disk))))"

section \<open>The reporter\<close>

record Reporter =
  rep_ShowFileName :: string
  rep_ShowAttributes :: string
  rep_ShowTimestamps :: bool
  rep_IsResident :: bool
  rep_ShowFull :: bool
  rep_ShowRunList :: bool
  rep_ShowFileSize :: bool
  rep_ShowVCNs :: bool
  rep_ShowIndex :: bool
  rep_ShowParent :: bool
  rep_ShowPath :: bool
  rep_ShowUSNJRNL :: bool
  rep_ShowTree :: bool

definition show_if :: "bool \<Rightarrow> printed go \<Rightarrow> printed go" where
  "show_if b m = (if b then m else ret [])"

definition askedToShow :: "Reporter \<Rightarrow> bool" where
  "askedToShow rp \<longleftrightarrow> rep_ShowFileName rp \<noteq> [] \<or> rep_ShowAttributes rp \<noteq> [] \<or> rep_ShowTimestamps rp \<or> rep_IsResident rp \<or>
     rep_ShowRunList rp \<or> rep_ShowFileSize rp \<or> rep_ShowVCNs rp \<or> rep_ShowIndex rp \<or> rep_ShowFull rp"

definition show_record ::
  "((string \<rightharpoonup> string) \<Rightarrow> string list) \<Rightarrow> (string list \<Rightarrow> string) \<Rightarrow> Reporter \<Rightarrow> Records \<Rightarrow> int \<Rightarrow> Record \<Rightarrow> printed go" where
  "show_record names join rp tbl partitionId record =
     (let full = rep_ShowFull rp in
      gbind (show_if (rep_ShowFileName rp \<noteq> [] \<or> full) (ShowFileName names record (rep_ShowFileName rp))) (\<lambda>o1.
      gbind (show_if (rep_ShowAttributes rp \<noteq> [] \<or> full) (ShowAttributes record (rep_ShowAttributes rp))) (\<lambda>o2.
      gbind (show_if (rep_ShowTimestamps rp \<or> full) (ShowTimestamps record)) (\<lambda>o3.
      gbind (show_if (rep_IsResident rp \<or> full) (ret (ShowIsResident record))) (\<lambda>o4.
      gbind (show_if (rep_ShowRunList rp \<or> full) (ShowRunList tbl record)) (\<lambda>o5.
      gbind (show_if (rep_ShowFileSize rp \<or> full) (ShowFileSize tbl record)) (\<lambda>o6.
      gbind (show_if (rep_ShowVCNs rp \<or> full) (ShowVCNs record)) (\<lambda>o7.
      gbind (show_if (rep_ShowIndex rp \<or> full) (ShowIndex record)) (\<lambda>o8.
      gbind (show_if (rep_ShowParent rp \<or> full) (ShowParentRecordInfo names tbl record)) (\<lambda>o9.
      gbind (show_if (rep_ShowPath rp \<or> full) (ShowPath join tbl record partitionId)) (\<lambda>o10.
        ret (o1 @ o2 @ o3 @ o4 @ o5 @ o6 @ o7 @ o8 @ o9 @ o10 @ (if askedToShow rp then [([CHR 0x0A], [])] else [])))))))))))))"

definition Reporter_Show ::
  "((string \<rightharpoonup> string) \<Rightarrow> string list) \<Rightarrow> (string list \<Rightarrow> string) \<Rightarrow> Reporter \<Rightarrow> Records \<Rightarrow> Records \<Rightarrow> UsnRecord list \<Rightarrow> int
     \<Rightarrow> Tree \<Rightarrow> printed go" where
  "Reporter_Show names join rp tbl records usnjrnlRecords partitionId tree =
     gbind (show_all (show_record names join rp tbl partitionId) records) (\<lambda>o1.
     gbind (show_if (rep_ShowTree rp) (Tree_Show tbl tree)) (\<lambda>o2.
       ret (o1 @ (if rep_ShowUSNJRNL rp then concat (map Usn_ShowInfo usnjrnlRecords) else []) @ o2)))"

section \<open>When the reporter returns\<close>

lemma returns_gbind_const: "(\<And>x. m = ret x \<Longrightarrow> returns (f x) = P) \<Longrightarrow> returns (gbind m f) \<longleftrightarrow> returns m \<and> P"
  by (cases m rule: go_cases) auto

lemma returns_show_if [simp]: "returns (show_if b m) \<longleftrightarrow> (b \<longrightarrow> returns m)"
  by (simp add: show_if_def)

lemma returns_gmap: "returns (gmap f xs) \<longleftrightarrow> (\<forall>x \<in> set xs. returns (f x))"
  by (induction xs) (simp_all add: returns_gbind_const)

lemma returns_show_all [simp]: "returns (show_all f xs) \<longleftrightarrow> (\<forall>x \<in> set xs. returns (f x))"
  by (simp add: show_all_def returns_gbind_const returns_gmap)

lemma show_bits_returns: "\<exists>out. show_bits b 1 0 pos = ret (out, pos + 8) \<and> length out = 8"
  by (subst show_bits.simps, simp)+

lemma show_bytes_returns: "returns (show_bytes bs pos)"
proof (induction bs arbitrary: pos)
  case (Cons b bs)
  obtain out where "show_bits b 1 0 pos = ret (out, pos + 8)" using show_bits_returns by blast
  then show ?case using Cons.IH by (simp add: returns_gbind_const)
qed simp

lemma Attribute_ShowInfo_returns: "returns (Attribute_ShowInfo a)"
  by (cases "Body a") (simp_all add: Attribute_ShowInfo_def Let_def BitMap_ShowInfo_def returns_gbind_const show_bytes_returns)

text \<open>Whether the run list of a non-resident attribute was parsed: \<open>Process\<close> leaves it out for an attribute
  that reaches the end of the buffer.\<close>

definition has_run_list :: "Attribute \<Rightarrow> bool" where
  "has_run_list a \<longleftrightarrow> (case NonResident (GetHeader a) of None \<Rightarrow> False | Some nr \<Rightarrow> nr_RunList nr \<noteq> None)"

text \<open>A record of the table before its parents and linked records are set.\<close>

definition unlinked :: "Record \<Rightarrow> bool" where
  "unlinked r \<longleftrightarrow> typed_record r \<and> LinkedRecords r = [] \<and> OriginLinkedRecord r = None \<and> Parent r = None"

lemma slot_unlinked: "slot_ok i r \<Longrightarrow> unlinked r"
  by (auto simp: slot_ok_def unlinked_def typed_record_def zero_Record_def)

lemma FindAttribute_typed: "typed_record r \<Longrightarrow> FindAttribute r t = Some a \<Longrightarrow> typed_attribute a \<and> FindType a = t"
  by (auto simp: FindAttribute_def typed_record_def dest: find_attribute_Some)

lemma typed_bodies:
  assumes "typed_record r"
  shows "FindAttribute r ''FileName'' = Some a \<Longrightarrow> \<exists>f. Body a = BFileName f"
    and "FindAttribute r ''Index Root'' = Some a \<Longrightarrow> \<exists>x. Body a = BIndexRoot x"
    and "FindAttribute r ''Index Allocation'' = Some a \<Longrightarrow> \<exists>x. Body a = BIndexAllocation x"
    and "FindAttribute r ''Standard Information'' = Some a \<Longrightarrow> \<exists>x. Body a = BStdInfo x"
  using FindAttribute_typed [OF assms] typed_body by blast+

lemma GetFname_returns: "unlinked r \<Longrightarrow> returns (GetFname tbl r)"
  by (simp add: unlinked_def GetFname_own own_fname_def GetFnames_eq)

lemma GetRunLists_returns: "returns (GetRunLists r) \<longleftrightarrow> (\<forall>a \<in> set (FindNonResidentAttributes r). has_run_list a)"
proof -
  have "returns (run_list_of a) \<longleftrightarrow> has_run_list a" for a
    by (auto simp: run_list_of_def nonresident_part_def has_run_list_def split: option.splits)
  then show ?thesis by (simp add: GetRunLists_def returns_gmap)
qed

lemma shows_return:
  assumes r: "unlinked r"
  shows "returns (ShowFileName names r s)" "returns (ShowAttributes r t)" "returns (ShowTimestamps r)"
    "returns (ShowVCNs r)" "returns (ShowIndex r)" "returns (ShowParentRecordInfo names tbl r)" "returns (ShowPath join tbl r k)"
    "returns (ShowRunList tbl r) \<longleftrightarrow> (\<forall>a \<in> set (FindNonResidentAttributes r). has_run_list a)"
    "returns (ShowFileSize tbl r) \<longleftrightarrow> FindAttribute r ''FileName'' \<noteq> None"
proof -
  have typed: "typed_record r" and links: "LinkedRecords r = []" "OriginLinkedRecord r = None" "Parent r = None"
    using r by (simp_all add: unlinked_def)
  note bodies = typed_bodies [OF typed]
  show "returns (ShowFileName names r s)" by (simp add: ShowFileName_def GetFnames_eq [OF typed])
  show "returns (ShowAttributes r t)" by (simp add: ShowAttributes_def returns_gbind_const Attribute_ShowInfo_returns)
  show "returns (ShowTimestamps r)"
    using bodies(1,4) by (fastforce simp: ShowTimestamps_def assert_FN_def returns_gbind_const split: option.splits)
  have "returns (first_vcns as)" if "\<forall>a \<in> set as. typed_attribute a" for as
    using that by (induction as) (auto simp: nonresident_part_def typed_attribute_def)
  then show "returns (ShowVCNs r)"
    using typed by (auto simp: ShowVCNs_def getVCNs_def typed_record_def returns_gbind_const split: prod.splits)
  show "returns (ShowIndex r)"
    using bodies(2,3) by (fastforce simp: ShowIndex_def returns_gbind_const split: option.splits)
  show "returns (ShowParentRecordInfo names tbl r)" by (simp add: ShowParentRecordInfo_def links)
  have "path_loop tbl None [] = ret []" by (subst path_loop.simps) simp
  then show "returns (ShowPath join tbl r k)"
    using GetFname_returns [OF r] by (simp add: ShowPath_def GetFullPath_def links returns_gbind_const)
  have "returns (ShowRunList tbl r) \<longleftrightarrow> returns (GetRunLists r)"
  proof (cases "GetRunLists r" rule: go_cases)
    case (returned rls)
    then have "length rls = length (FindNonResidentAttributes r)" by (simp add: GetRunLists_def gmap_length)
    then show ?thesis using returned by (simp add: ShowRunList_def links Let_def)
  qed (simp_all add: ShowRunList_def)
  then show "returns (ShowRunList tbl r) \<longleftrightarrow> (\<forall>a \<in> set (FindNonResidentAttributes r). has_run_list a)"
    by (simp add: GetRunLists_returns)
  have "GetLogicalFileSize tbl r = own_logical_size r" by (subst GetLogicalFileSize.simps) (simp add: links)
  then show "returns (ShowFileSize tbl r) \<longleftrightarrow> FindAttribute r ''FileName'' \<noteq> None"
    using bodies(1) by (fastforce simp: ShowFileSize_def GetPhysicalSize_def own_logical_size_def find_FN_def assert_FN_def
        split: option.splits)
qed

text \<open>What the reporter is asked for that a record cannot answer.\<close>

definition unanswerable :: "Reporter \<Rightarrow> Record \<Rightarrow> bool" where
  "unanswerable rp r \<longleftrightarrow>
     (rep_ShowFileSize rp \<or> rep_ShowFull rp) \<and> FindAttribute r ''FileName'' = None \<or>
     (rep_ShowRunList rp \<or> rep_ShowFull rp) \<and> (\<exists>a \<in> set (FindNonResidentAttributes r). \<not> has_run_list a)"

lemma show_record_returns:
  "unlinked r \<Longrightarrow> returns (show_record names join rp tbl k r) \<longleftrightarrow> \<not> unanswerable rp r"
  by (simp add: show_record_def Let_def returns_gbind_const shows_return unanswerable_def) blast

section \<open>The tree\<close>

lemma insert_node_records:
  "insert_node tbl r n = ret (n', b) \<Longrightarrow> node_records n' \<subseteq> Set.insert r (node_records n)"
  "insert_nodes tbl r e cs = ret (cs', b') \<Longrightarrow>
    (\<Union>c \<in> set cs'. node_records c) \<subseteq> Set.insert r (\<Union>c \<in> set cs. node_records c)"
proof (induction tbl r n and tbl r e cs arbitrary: n' b and cs' b' rule: insert_node_insert_nodes.induct)
  case (1 tbl r nr cs mn mx)
  show ?case
  proof (cases "\<not> IsFolder nr \<or> FindAttribute r ''FileName'' = None")
    case True
    then show ?thesis using "1.prems" by (auto split: if_splits)
  next
    case False
    then obtain attr where attr: "IsFolder nr" "FindAttribute r ''FileName'' = Some attr" by auto
    from "1.prems" attr obtain nm f where nm: "GetFname tbl nr = ret nm" "assert_FN attr = ret f" by auto
    show ?thesis
    proof (cases "is_child nr f")
      case True
      then show ?thesis using "1.prems" attr nm by auto
    next
      case no: False
      with "1.prems" attr nm obtain cs' added where cs': "insert_nodes tbl r (ucast (fn_ParRef f)) cs = ret (cs', added)"
          "n' = (if added then update_range (Entry r) else id) (Node nr cs' mn mx)"
        by (auto split: prod.splits)
      have "(\<Union>c \<in> set cs'. node_records c) \<subseteq> Set.insert r (\<Union>c \<in> set cs. node_records c)"
        using "1.IH" [OF _ attr(2) nm(1) nm(2) no cs'(1)] attr(1) by simp
      then show ?thesis using cs'(2) by auto
    qed
  qed
next
  case (3 tbl r e c cs)
  show ?case
  proof (cases "contains c e")
    case False
    with "3.prems" obtain cs2 where i: "insert_nodes tbl r e cs = ret (cs2, b')" "cs' = c # cs2" by auto
    then show ?thesis using "3.IH"(1) [OF False i(1)] by (simp, blast)
  next
    case True
    with "3.prems" obtain c' a cs2 a2 where i: "insert_node tbl r c = ret (c', a)" "insert_nodes tbl r e cs = ret (cs2, a2)"
        "cs' = c' # cs2" by auto
    have "node_records c' \<subseteq> Set.insert r (node_records c)"
      using "3.IH"(2) True i(1) by simp
    moreover have "(\<Union>c \<in> set cs2. node_records c) \<subseteq> Set.insert r (\<Union>c \<in> set cs. node_records c)"
      using "3.IH"(3) [OF _ i(1) refl i(2)] True by simp
    ultimately show ?thesis using i(3) by auto
  qed
qed simp

definition tree_records :: "Tree \<Rightarrow> Record set" where
  "tree_records t = (case tree_root t of None \<Rightarrow> {} | Some n \<Rightarrow> node_records n)"

lemma Build_records: "Build tbl rs t = ret t' \<Longrightarrow> tree_records t' \<subseteq> set rs \<union> tree_records t"
  unfolding Build_def
proof (induction rs arbitrary: t)
  case (Cons r rs)
  then obtain t1 where t1: "(if Entry r < 5 then ret t else AddRecord tbl r t) = ret t1"
      "gfold (\<lambda>r t. if Entry r < 5 then ret t else AddRecord tbl r t) rs t1 = ret t'" by auto
  have "tree_records t1 \<subseteq> Set.insert r (tree_records t)"
    using t1(1) insert_node_records(1)
    by (fastforce simp: AddRecord_def tree_records_def split: if_splits option.splits)
  with Cons.IH [OF t1(2)] show ?case by auto
qed simp

lemma showChildrenInfo_returns:
  "(\<forall>r \<in> node_records n. returns (GetFname tbl r)) \<Longrightarrow> returns (showChildrenInfo tbl n)"
  by (cases n) (auto simp: showChildrenInfo_def returns_gbind_const returns_gmap)

lemma descend_returns:
  "(\<forall>r \<in> node_records n. returns (GetFname tbl r)) \<Longrightarrow> returns (descend tbl n)"
  "(\<forall>c \<in> set cs. \<forall>r \<in> node_records c. returns (GetFname tbl r)) \<Longrightarrow> returns (descend_all tbl cs)"
proof (induction tbl n and tbl cs rule: descend_descend_all.induct)
  case (1 tbl r cs mn mx)
  then show ?case using showChildrenInfo_returns [of "Node r cs mn mx" tbl] by (simp add: returns_gbind_const)
qed (simp_all add: returns_gbind_const)

section \<open>Reports of a table file\<close>

lemma Reporter_Show_returns:
  assumes "\<forall>r \<in> set records. unlinked r" and "tree_records tree \<subseteq> set records"
  shows "returns (Reporter_Show names join rp tbl records us k tree) \<longleftrightarrow>
    (\<forall>r \<in> set records. \<not> unanswerable rp r) \<and> \<not> (rep_ShowTree rp \<and> tree_root tree = None)"
proof -
  have "returns (Tree_Show tbl tree) \<longleftrightarrow> tree_root tree \<noteq> None"
    using assms GetFname_returns descend_returns(1)
    by (fastforce simp: Tree_Show_def tree_records_def split: option.splits)
  then show ?thesis
    using assms(1) by (auto simp: Reporter_Show_def returns_gbind_const show_record_returns)
qed

lemma main_MFT_file_table:
  assumes "main_MFT_file joins slack opts data = ret (records, tree)"
  shows "(\<forall>r \<in> set records. unlinked r) \<and> tree_records tree \<subseteq> set records"
proof -
  obtain ntfs t where p: "ProcessMFT slack (full data) (GetEntriesInt (opt_MFTSelectedEntries opts)) (opt_fromMFTEntry opts)
         (opt_toMFTEntry opts) \<lparr>ntfs_VBR = None, ntfs_MFT = Some \<lparr>Records = [], mft_Size = int (length data)\<rparr>\<rparr> = ret ntfs"
      and t: "the_MFT ntfs = ret t" "ApplyFilters joins (Records t) (registered opts) (Records t) = ret records"
      and tree: "(if opt_buildtree opts then Build (Records t) records \<lparr>tree_root = None\<rparr> else ret \<lparr>tree_root = None\<rparr>) = ret tree"
    using assms by (auto simp: main_MFT_file_defs)
  have "table_ok (Records t)" using ProcessMFT_table [OF p] t(1) by (auto simp: the_MFT_def)
  then have "\<forall>r \<in> set (Records t). unlinked r"
    unfolding table_ok_def by (metis in_set_conv_nth slot_unlinked)
  moreover have "set records \<subseteq> set (Records t)" using ApplyFilters_subset [OF t(2)] by blast
  moreover have "tree_records tree \<subseteq> set records"
    using tree Build_records [of "Records t" records "\<lparr>tree_root = None\<rparr>" tree] by (auto simp: tree_records_def split: if_splits)
  ultimately show ?thesis by blast
qed

text \<open>Which reports of a table file succeed. Once the table of a file has been read and filtered, the
  reporter prints everything it is asked for and returns, whatever the bytes of the file were, with
  three exceptions, in which it panics: the sizes of a record that has no file name (such as an
  unused slot of the table), the run lists of an attribute whose run list was not parsed, and the
  tree when none was built.\<close>

theorem main_MFT_file_reports:
  assumes "main_MFT_file joins slack opts data = ret (records, tree)"
  shows "returns (Reporter_Show names joins rp tbl records us 0 tree) \<longleftrightarrow>
    \<not> ((rep_ShowFileSize rp \<or> rep_ShowFull rp) \<and> (\<exists>r \<in> set records. FindAttribute r ''FileName'' = None)) \<and>
    \<not> ((rep_ShowRunList rp \<or> rep_ShowFull rp) \<and>
        (\<exists>r \<in> set records. \<exists>a \<in> set (FindNonResidentAttributes r). \<not> has_run_list a)) \<and>
    \<not> (rep_ShowTree rp \<and> tree_root tree = None)"
  using main_MFT_file_table [OF assms] by (simp add: Reporter_Show_returns unanswerable_def) blast

definition no_report :: Reporter where
  "no_report = \<lparr>rep_ShowFileName = [], rep_ShowAttributes = [], rep_ShowTimestamps = False, rep_IsResident = False,
     rep_ShowFull = False, rep_ShowRunList = False, rep_ShowFileSize = False, rep_ShowVCNs = False, rep_ShowIndex = False,
     rep_ShowParent = False, rep_ShowPath = False, rep_ShowUSNJRNL = False, rep_ShowTree = False\<rparr>"

theorem main_MFT_file_reports_witness:
  "\<exists>rs t. main_MFT_file concat 0 sample_options (replicate 4096 0) = ret (rs, t) \<and>
     returns (Reporter_Show (\<lambda>_. []) concat (no_report\<lparr>rep_ShowPath := True, rep_ShowRunList := True\<rparr>) rs rs [] 0 t) \<and>
     \<not> returns (Reporter_Show (\<lambda>_. []) concat (no_report\<lparr>rep_ShowFileSize := True\<rparr>) rs rs [] 0 t)"
proof -
  have "FindAttribute zero_Record ''FileName'' = None" "FindNonResidentAttributes zero_Record = []"
    by (simp_all add: FindAttribute_def FindNonResidentAttributes_def zero_Record_def)
  then show ?thesis
    using main_MFT_file_reports [OF zero_file_main] zero_file_main by (simp add: no_report_def)
qed

end
