(* ===== verification/BTRFS_Show.thy ===== *)
theory BTRFS_Show
  imports Reporting
begin

text \<open>
  What the code prints about BTRFS nodes: the \<open>GetInfo\<close> and \<open>ShowInfo\<close> methods of \<open>FS/BTRFS/leafnode\<close>,
  \<open>FS/BTRFS/genericnode.go\<close> and \<open>FS/BTRFS/filedirentry.go\<close>, with the type invariant of parsed leaves that their
  type assertions rely on. A text is the list of its pieces, as in \<open>Reporting\<close>.
\<close>

section \<open>Texts of the items\<close>

definition DirIndex_GetInfo :: "DirIndex \<Rightarrow> printed" where
  "DirIndex_GetInfo x = [(''transid  %d  type %s name %s'', [UNum (dx_Transid x), AStr (dx_Name x), AStr (DirIndex_GetType x)])]"

definition ExtentData_GetInfo :: "ExtentData \<Rightarrow> printed" where
  "ExtentData_GetInfo x = [(''%s %d'', [AStr (ExtentData_GetType x), UNum (ed_LogicalDataLen x)])]"

definition DirItem_GetInfo :: "DirItem \<Rightarrow> printed" where
  "DirItem_GetInfo x = [(''transid  %d  type %s name %s xattr vAL %s'',
     [UNum (di_Transid x), AStr (DirItem_GetType x), AStr (di_Name x), AStr (di_XattValue x)])]"

definition InodeRef_GetInfo :: "InodeRef \<Rightarrow> printed" where
  "InodeRef_GetInfo x = [(''idx %d %s '', [UNum (ir_Index x), AStr (ir_Name x)])]"

definition InodeItem_GetInfo :: "InodeItem \<Rightarrow> printed" where
  "InodeItem_GetInfo x = [(''C %s O %s M %s A %s'', [ASpec (ino_CTime x), ASpec (ino_OTime x), ASpec (ino_MTime x), ASpec (ino_ATime x)])]"

definition InodeItem_GetType :: "InodeItem \<Rightarrow> string" where
  "InodeItem_GetType x = lookup_str ItemTypes (unat (ino_Flags x))"

definition RootItem_GetInfo :: "RootItem \<Rightarrow> printed" where
  "RootItem_GetInfo x = [(''block offset %d C %s O %s M %s A %s'',
     [UNum (root_Bytenr x), ASpec (root_CTime x), ASpec (root_OTime x), ASpec (root_MTime x), ASpec (root_ATime x)])]"

definition ChunkItemStripe_GetInfo :: "ChunkItemStripe \<Rightarrow> printed" where
  "ChunkItemStripe_GetInfo x = [(''DevID %d DevUUID %s offset %d '',
     [UNum (stripe_DeviceID x), AStr (fst (StringifyGUID (stripe_DeviceUUID x))), UNum (stripe_Offset x)])]"

text \<open>Each stripe is preceded by its index.\<close>

fun stripes_info :: "nat \<Rightarrow> ChunkItemStripe list \<Rightarrow> printed" where
  "stripes_info idx [] = []"
| "stripes_info idx (s # ss) = (''stripe %d '', [ANum (int idx)]) # ChunkItemStripe_GetInfo s @ stripes_info (idx + 1) ss"

definition ChunkItem_GetInfo :: "ChunkItem \<Rightarrow> printed" where
  "ChunkItem_GetInfo x = (''stripe length %d owner %d io_alignment %d io_width %d num_stripes %d sub_stripes %d'',
     [UNum (chunk_StripeLen x), UNum (chunk_Owner x), UNum (chunk_OptimalIOAlignment x), UNum (chunk_OptimalIOWidth x),
      UNum (chunk_NofStripes x), UNum (chunk_NofSubStripes x)]) # stripes_info 0 (chunk_Stripes x)"

definition DataItem_GetInfo :: "DataItem \<Rightarrow> printed" where
  "DataItem_GetInfo d = (case d of
       DDirIndex x \<Rightarrow> DirIndex_GetInfo x | DExtentData x \<Rightarrow> ExtentData_GetInfo x | DDirItem x \<Rightarrow> DirItem_GetInfo x
     | DInodeRef x \<Rightarrow> InodeRef_GetInfo x | DInodeItem x \<Rightarrow> InodeItem_GetInfo x | DRootItem x \<Rightarrow> RootItem_GetInfo x
     | DChunkItem x \<Rightarrow> ChunkItem_GetInfo x
     | DChecksumItem _ \<Rightarrow> [] | DBlockGroupItem _ \<Rightarrow> [] | DDevStatsItem \<Rightarrow> [] | DDevExtentItem _ \<Rightarrow> [] | DRootRef _ \<Rightarrow> []
     | DRootBackRef _ \<Rightarrow> [] | DExtentItem _ \<Rightarrow> [] | DDevItem _ \<Rightarrow> [])"

definition DataItem_ShowInfo :: "DataItem \<Rightarrow> printed" where
  "DataItem_ShowInfo d = (case d of
       DRootItem x \<Rightarrow> [(''%s '', [AText (RootItem_GetInfo x)])]
     | DDirIndex _ \<Rightarrow> [(ln ''%s '', [AText (DataItem_GetInfo d)])] | DExtentData _ \<Rightarrow> [(ln ''%s '', [AText (DataItem_GetInfo d)])]
     | DDirItem _ \<Rightarrow> [(ln ''%s '', [AText (DataItem_GetInfo d)])] | DInodeRef _ \<Rightarrow> [(ln ''%s '', [AText (DataItem_GetInfo d)])]
     | DInodeItem _ \<Rightarrow> [(ln ''%s '', [AText (DataItem_GetInfo d)])] | DChunkItem _ \<Rightarrow> [(ln ''%s '', [AText (DataItem_GetInfo d)])]
     | DChecksumItem _ \<Rightarrow> [] | DBlockGroupItem _ \<Rightarrow> [] | DDevStatsItem \<Rightarrow> [] | DDevExtentItem _ \<Rightarrow> [] | DRootRef _ \<Rightarrow> []
     | DRootBackRef _ \<Rightarrow> [] | DExtentItem _ \<Rightarrow> [] | DDevItem _ \<Rightarrow> [])"

section \<open>Leaves and nodes\<close>

definition Key_ShowInfo :: "Key \<Rightarrow> printed" where
  "Key_ShowInfo k = [(ln ''Object id %d type %s type %s offset id %d '', [UNum (key_ObjectID k),
     AStr (lookup_str ObjectTypes (unat (key_ObjectID k))), AStr (lookup_str ItemTypes (unat (key_ItemType k))), UNum (key_Offset k)])]"

definition Item_ShowInfo :: "Item \<Rightarrow> printed go" where
  "Item_ShowInfo it = gbind (item_key it) (\<lambda>k. ret (Key_ShowInfo k))"

fun show_items :: "Item list \<Rightarrow> DataItem option list \<Rightarrow> printed go" where
  "show_items [] ds = ret []"
| "show_items (it # its) ds =
     gbind (Item_ShowInfo it) (\<lambda>o1. case ds of
         [] \<Rightarrow> panic Index_out_of_range
       | d # ds' \<Rightarrow> gbind (show_items its ds') (\<lambda>o2.
           ret (o1 @ (case d of None \<Rightarrow> [] | Some x \<Rightarrow> DataItem_ShowInfo x @ [([CHR 0x0A], [])]) @ o2)))"

definition LeafNode_ShowInfo :: "LeafNode \<Rightarrow> printed go" where
  "LeafNode_ShowInfo leaf = show_items (leaf_Items leaf) (leaf_DataItems leaf)"

definition Header_ShowInfo :: "Header \<Rightarrow> printed" where
  "Header_ShowInfo h = [(ln ''level %d bytenr %d nritems %d'', [UNum (hd_Level h), UNum (hd_LogicalAddressNode h), UNum (hd_NofItems h)])]"

definition GenericNode_ShowInfo :: "GenericNode \<Rightarrow> printed go" where
  "GenericNode_ShowInfo node = (case gn_LeafNode node of
       None \<Rightarrow> ret []
     | Some leaf \<Rightarrow> gbind (the_Header node) (\<lambda>h. gbind (LeafNode_ShowInfo leaf) (\<lambda>out. ret (Header_ShowInfo h @ out))))"

definition Nodes_ShowInfo :: "GenericNode list \<Rightarrow> printed go" where
  "Nodes_ShowInfo nodes = gbind (show_all GenericNode_ShowInfo nodes) (\<lambda>out. ret (([CHR 0x0A], []) # out))"

text \<open>The files and directories of a leaf: the type assertion of a missing data item panics, and so does a call
  of \<open>GetInfo\<close> on it.\<close>

definition is_file_or_directory :: "string \<Rightarrow> bool" where
  "is_file_or_directory t \<longleftrightarrow> t = ''BTRFS_TYPE_FILE'' \<or> t = ''BTRFS_TYPE_DIRECTORY''"

definition info_of :: "DataItem option \<Rightarrow> printed go" where
  "info_of d = (case d of None \<Rightarrow> panic Nil_dereference | Some x \<Rightarrow> ret (DataItem_GetInfo x))"

definition show_file_item :: "Item \<Rightarrow> DataItem option go \<Rightarrow> printed go" where
  "show_file_item it dm =
     gbind (item_key it) (\<lambda>k.
     let t = Key_GetType k in
     if t = ''DIR_ITEM'' then gbind dm (\<lambda>d. case d of
         Some (DDirItem x) \<Rightarrow> ret (if is_file_or_directory (DirItem_GetType x)
           then [(''Dir Inode %d index id %d %s'', [UNum (key_ObjectID k), UNum (key_Offset k), AText (DirItem_GetInfo x)])] else [])
       | _ \<Rightarrow> panic Failed_type_assertion)
     else if t = ''DIR_INDEX'' then gbind dm (\<lambda>d. case d of
         Some (DDirIndex x) \<Rightarrow> ret (if is_file_or_directory (DirIndex_GetType x)
           then [(''Dir Idx %d %s'', [UNum (key_ObjectID k), AText (DirIndex_GetInfo x)])] else [])
       | _ \<Rightarrow> panic Failed_type_assertion)
     else if t = ''INODE_ITEM'' then gbind dm (\<lambda>d. gbind (info_of d) (\<lambda>i.
         ret [(''Inode %d %s'', [UNum (key_ObjectID k), AText i])]))
     else if t = ''INODE_REF'' then gbind dm (\<lambda>d. gbind (info_of d) (\<lambda>i.
         ret [(''Inode ref %d Parent Inode %d %s'', [UNum (key_ObjectID k), UNum (key_Offset k), AText i])]))
     else ret [])"

fun show_file_items :: "Item list \<Rightarrow> DataItem option list \<Rightarrow> printed go" where
  "show_file_items [] ds = ret []"
| "show_file_items (it # its) ds =
     gbind (show_file_item it (case ds of [] \<Rightarrow> panic Index_out_of_range | d # _ \<Rightarrow> ret d)) (\<lambda>o1.
     gbind (show_file_items its (drop 1 ds)) (\<lambda>o2. ret (o1 @ o2)))"

definition ShowFilesDirsInfo :: "GenericNode list \<Rightarrow> printed go" where
  "ShowFilesDirsInfo nodesPtr = show_all (\<lambda>node. case gn_LeafNode node of
       None \<Rightarrow> panic Nil_dereference
     | Some leaf \<Rightarrow> show_file_items (leaf_Items leaf) (leaf_DataItems leaf)) nodesPtr"

definition FileDirEntry_GetInfo :: "FileDirEntry \<Rightarrow> printed" where
  "FileDirEntry_GetInfo e = [(ln ''Id %d, %s, A %s, C %s, M %s, O %s, %s, Idx %d, lnks %d, exts %s, path %s'',
     [ANum (fd_Id e), AStr (fd_Name e), ASpec (fd_ATime e), ASpec (fd_CTime e), ASpec (fd_MTime e), ASpec (fd_OTime e),
      AStr (fd_Type e), ANum (fd_Index e), ANum (fd_Nlink e), AStr (GetExtentsInfo e), AStr (fd_Path e)])]"

section \<open>The type invariant of a leaf\<close>

text \<open>The data item a type of item announces: its constructor.\<close>

fun same_item :: "DataItem \<Rightarrow> DataItem \<Rightarrow> bool" where
  "same_item (DDevItem _) d = (\<exists>x. d = DDevItem x)"
| "same_item (DChunkItem _) d = (\<exists>x. d = DChunkItem x)"
| "same_item (DInodeItem _) d = (\<exists>x. d = DInodeItem x)"
| "same_item (DExtentItem _) d = (\<exists>x. d = DExtentItem x)"
| "same_item (DExtentData _) d = (\<exists>x. d = DExtentData x)"
| "same_item (DRootItem _) d = (\<exists>x. d = DRootItem x)"
| "same_item (DInodeRef _) d = (\<exists>x. d = DInodeRef x)"
| "same_item (DDirItem _) d = (\<exists>x. d = DDirItem x)"
| "same_item (DDirIndex _) d = (\<exists>x. d = DDirIndex x)"
| "same_item (DBlockGroupItem _) d = (\<exists>x. d = DBlockGroupItem x)"
| "same_item DDevStatsItem d = (d = DDevStatsItem)"
| "same_item (DDevExtentItem _) d = (\<exists>x. d = DDevExtentItem x)"
| "same_item (DRootRef _) d = (\<exists>x. d = DRootRef x)"
| "same_item (DRootBackRef _) d = (\<exists>x. d = DRootBackRef x)"
| "same_item (DChecksumItem _) d = (\<exists>x. d = DChecksumItem x)"

definition item_typed :: "Item \<Rightarrow> DataItem option \<Rightarrow> bool" where
  "item_typed it d \<longleftrightarrow> (case item_Key it of
       None \<Rightarrow> False
     | Some k \<Rightarrow> (case new_data_item (Key_GetType k) of
           None \<Rightarrow> d = None
         | Some x \<Rightarrow> (\<exists>y. d = Some y \<and> same_item x y)))"

definition leaf_typed :: "LeafNode \<Rightarrow> bool" where
  "leaf_typed leaf \<longleftrightarrow> list_all2 item_typed (leaf_Items leaf) (leaf_DataItems leaf)"

lemma DataItem_Parse_same: "DataItem_Parse data x = ret (y, n) \<Longrightarrow> same_item x y"
  by (cases x) (auto simp: with_item_def)

lemma parse_data_item_typed: "parse_data_item data it = ret d \<Longrightarrow> item_typed it d"
  using DataItem_Parse_same
  by (fastforce simp: parse_data_item_def item_typed_def Item_GetType_def item_key_def split: option.splits)

lemma parse_data_items_typed:
  "parse_data_items data its (replicate n None) = ret ds \<Longrightarrow> length its = n \<Longrightarrow> list_all2 item_typed its ds"
proof (induction n arbitrary: its ds)
  case (Suc n)
  then obtain it its' where its: "its = it # its'" by (cases its) auto
  with Suc.prems obtain y ys where "parse_data_item data it = ret y" "parse_data_items data its' (replicate n None) = ret ys"
      "ds = (if y = None then None else y) # ys" by auto
  with Suc.IH [of its' ys] Suc.prems(2) its parse_data_item_typed show ?case by auto
qed simp

lemma parse_items_length: "parse_items data i its = ret (its', m) \<Longrightarrow> length its' = length its"
  by (induction its arbitrary: i its' m) auto

lemma new_leaf_typed:
  assumes "LeafNode_Parse data \<lparr>leaf_Items = replicate n zero_Item, leaf_DataItems = replicate n None\<rparr> = ret (leaf, m)"
  shows "leaf_typed leaf"
  using assms parse_items_length [of data 0 "replicate n zero_Item"] parse_data_items_typed
  by (auto simp: LeafNode_Parse_def leaf_typed_def)

lemma GenericNode_leaf:
  assumes "GenericNode_Parse data noverify g = ret (node, r)" and "gn_LeafNode g = None"
  shows "gn_Header node \<noteq> None \<and> (\<forall>leaf. gn_LeafNode node = Some leaf \<longrightarrow> leaf_typed leaf)"
  using assms new_leaf_typed by (auto simp: GenericNode_Parse_def Let_def split: if_splits prod.splits)

section \<open>Showing parsed nodes\<close>

lemma item_typed_key: "item_typed it d \<Longrightarrow> \<exists>k. item_Key it = Some k"
  by (auto simp: item_typed_def split: option.splits)

lemma show_items_returns: "list_all2 item_typed its ds \<Longrightarrow> returns (show_items its ds)"
  by (induction rule: list_all2_induct)
    (auto simp: Item_ShowInfo_def item_key_def returns_gbind_const dest: item_typed_key)

lemma show_file_item_returns: "item_typed it d \<Longrightarrow> returns (show_file_item it (ret d))"
  by (auto simp: show_file_item_def item_typed_def item_key_def new_data_item_def info_of_def Let_def split: option.splits if_splits)

lemma show_file_items_returns: "list_all2 item_typed its ds \<Longrightarrow> returns (show_file_items its ds)"
  by (induction rule: list_all2_induct) (simp_all add: returns_gbind_const show_file_item_returns)

text \<open>C37: Parsed nodes can be shown. In a leaf that \<open>GenericNode.Parse\<close> filled, every item has a key and, exactly if
  its type is known, a data item of the kind its key announces. So showing nodes that were parsed
  never fails a type assertion or meets a missing data item, and returns; listing their files and
  directories does so exactly if all of them are leaves.\<close>

theorem parsed_nodes_show:
  assumes "\<forall>node \<in> set nodes. \<exists>data noverify r. GenericNode_Parse data noverify zero_GenericNode = ret (node, r)"
  shows "(\<forall>node \<in> set nodes. \<forall>leaf. gn_LeafNode node = Some leaf \<longrightarrow> leaf_typed leaf) \<and>
    returns (Nodes_ShowInfo nodes) \<and>
    (returns (ShowFilesDirsInfo nodes) \<longleftrightarrow> (\<forall>node \<in> set nodes. gn_LeafNode node \<noteq> None))"
proof -
  have node: "gn_Header node \<noteq> None" "\<forall>leaf. gn_LeafNode node = Some leaf \<longrightarrow> leaf_typed leaf" if "node \<in> set nodes" for node
    using assms that GenericNode_leaf by (fastforce simp: zero_GenericNode_def)+
  have "returns (GenericNode_ShowInfo n)" if "n \<in> set nodes" for n
    using node [OF that] show_items_returns
    by (auto simp: GenericNode_ShowInfo_def the_Header_def LeafNode_ShowInfo_def leaf_typed_def returns_gbind_const split: option.splits)
  then have "returns (Nodes_ShowInfo nodes)" by (simp add: Nodes_ShowInfo_def returns_gbind_const)
  moreover have "returns (ShowFilesDirsInfo nodes) \<longleftrightarrow> (\<forall>node \<in> set nodes. gn_LeafNode node \<noteq> None)"
    using node(2) show_file_items_returns by (fastforce simp: ShowFilesDirsInfo_def leaf_typed_def split: option.splits)
  ultimately show ?thesis using node(2) by blast
qed

text \<open>A leaf with one item, of an unknown type.\<close>

definition one_item_node :: "byte list" where
  "one_item_node = replicate 96 0 @ [1] @ replicate 21 0"

lemma one_item_node_Parse:
  "\<exists>node r leaf. GenericNode_Parse (full one_item_node) True zero_GenericNode = ret (node, r) \<and> gn_LeafNode node = Some leaf \<and>
    length (leaf_Items leaf) = 1 \<and> leaf_DataItems leaf = [None]"
proof -
  let ?h = "set_Header (layout_values Header_layout one_item_node 0) zero_Header"
  have "unmarshal_count Header_layout set_Header zero_Header (full one_item_node) = ret (?h, 101)"
    using Unmarshal_ok [of Header_layout "full one_item_node"]
    by (simp add: unmarshal_count_def Header_layout_def plain_layout_def one_item_node_def)
  moreover have "hd_NofItems ?h = 1" "hd_Level ?h = 0"
    by (simp_all add: set_Header_def Header_layout_def one_item_node_def le_at_def)
  moreover have "sub_from (full one_item_node) 101 = ret (full (replicate 17 0))"
    by (simp add: sub_from_def full_def one_item_node_def)
  moreover have "Key_GetType (key_at (replicate 17 0) 0) = []"
    by (simp add: key_at_def Key_GetType_def lookup_str_def ItemTypes_def le_at_def)
  then have "parse_data_item (full (replicate 17 0)) (item_at (replicate 17 0) 0) = ret None"
    by (simp add: parse_data_item_def Item_GetType_def item_key_def item_at_def new_data_item_def)
  then have "LeafNode_Parse (full (replicate 17 0)) \<lparr>leaf_Items = [zero_Item], leaf_DataItems = [None]\<rparr> =
      ret (\<lparr>leaf_Items = [item_at (replicate 17 0) 0], leaf_DataItems = [None]\<rparr>, 8)"
    by (simp add: LeafNode_Parse_def sub_from_def Item_Parse_eq)
  ultimately show ?thesis by (simp add: GenericNode_Parse_def)
qed

theorem parsed_nodes_show_witness:
  "\<exists>node r. GenericNode_Parse (full one_item_node) True zero_GenericNode = ret (node, r) \<and>
     returns (Nodes_ShowInfo [node, node]) \<and> returns (ShowFilesDirsInfo [node, node])"
proof -
  obtain node r leaf where n: "GenericNode_Parse (full one_item_node) True zero_GenericNode = ret (node, r)"
      "gn_LeafNode node = Some leaf"
    using one_item_node_Parse by blast
  then have "returns (Nodes_ShowInfo [node, node]) \<and> (returns (ShowFilesDirsInfo [node, node]) \<longleftrightarrow> (\<forall>m \<in> set [node, node]. gn_LeafNode m \<noteq> None))"
    using parsed_nodes_show [of "[node, node]"] by fastforce
  with n show ?thesis by auto
qed

end
