(* ===== verification/FS_NTFS.thy ===== *)
theory FS_NTFS
  imports Volume_NTFS
begin

text \<open>
  The second NTFS volume of the repository, \<open>FS/NTFS/ntfs.go\<close>. Its operations have the text of those of
  \<open>disk/volume/ntfs.go\<close>, over another boot record: the signature is a string and the record also
  has a pointer to a table, both of which \<open>Unmarshal\<close> skips. The loops that do not touch the boot
  record are those of \<open>Volume_NTFS\<close>.
\<close>

section \<open>The boot record\<close>

record fs_VBR =
  fs_JumpInstruction :: "byte list"
  fs_Signature :: string
  fs_NotUsed1 :: "byte list"
  fs_BytesPerSector :: u16
  fs_SectorsPerCluster :: u8
  fs_NotUsed2 :: "byte list"
  fs_TotalSectors :: u64
  fs_MFTOffset :: u64
  fs_MFTMirrOffset :: u64
  fs_VBR_MFT :: "MFTTable option"

definition fs_VBR_layout :: layout where
  "fs_VBR_layout = [(''JumpInstruction'', Karray 3), (''Signature'', Kother), (''NotUsed1'', Karray 4),
     (''BytesPerSector'', Kuint16), (''SectorsPerCluster'', Kuint8), (''NotUsed2'', Karray 26),
     (''TotalSectors'', Kuint64), (''MFTOffset'', Kuint64), (''MFTMirrOffset'', Kuint64), (''MFT'', Kother)]"

definition zero_fs_VBR :: fs_VBR where
  "zero_fs_VBR = \<lparr>fs_JumpInstruction = replicate 3 0, fs_Signature = [], fs_NotUsed1 = replicate 4 0,
     fs_BytesPerSector = 0, fs_SectorsPerCluster = 0, fs_NotUsed2 = replicate 26 0, fs_TotalSectors = 0,
     fs_MFTOffset = 0, fs_MFTMirrOffset = 0, fs_VBR_MFT = None\<rparr>"

definition set_fs_VBR :: "val list \<Rightarrow> fs_VBR \<Rightarrow> fs_VBR" where
  "set_fs_VBR v b = b\<lparr>fs_JumpInstruction := put_arr (v ! 0) (fs_JumpInstruction b),
     fs_NotUsed1 := put_arr (v ! 2) (fs_NotUsed1 b), fs_BytesPerSector := put_u16 (v ! 3) (fs_BytesPerSector b),
     fs_SectorsPerCluster := put_u8 (v ! 4) (fs_SectorsPerCluster b), fs_NotUsed2 := put_arr (v ! 5) (fs_NotUsed2 b),
     fs_TotalSectors := put_u64 (v ! 6) (fs_TotalSectors b), fs_MFTOffset := put_u64 (v ! 7) (fs_MFTOffset b),
     fs_MFTMirrOffset := put_u64 (v ! 8) (fs_MFTMirrOffset b)\<rparr>"

record fs_NTFS =
  fs_VBR :: "fs_VBR option"
  fs_MFT :: "MFTTable option"

definition fs_the_VBR :: "fs_NTFS \<Rightarrow> fs_VBR go" where
  "fs_the_VBR ntfs = (case fs_VBR ntfs of None \<Rightarrow> panic Nil_dereference | Some v \<Rightarrow> ret v)"

definition fs_the_MFT :: "fs_NTFS \<Rightarrow> MFTTable go" where
  "fs_the_MFT ntfs = (case fs_MFT ntfs of None \<Rightarrow> panic Nil_dereference | Some t \<Rightarrow> ret t)"

definition fs_HasValidSignature :: "fs_NTFS \<Rightarrow> bool go" where
  "fs_HasValidSignature ntfs = gbind (fs_the_VBR ntfs) (\<lambda>v. ret (fs_Signature v = ''NTFS''))"

definition fs_GetSectorsPerCluster :: "fs_NTFS \<Rightarrow> i64 go" where
  "fs_GetSectorsPerCluster ntfs = gbind (fs_the_VBR ntfs) (\<lambda>v. ret (ucast (fs_SectorsPerCluster v)))"

definition fs_GetBytesPerSector :: "fs_NTFS \<Rightarrow> u64 go" where
  "fs_GetBytesPerSector ntfs = gbind (fs_the_VBR ntfs) (\<lambda>v. ret (ucast (fs_BytesPerSector v)))"

definition fs_GetSignature :: "fs_NTFS \<Rightarrow> string go" where
  "fs_GetSignature ntfs = gbind (fs_the_VBR ntfs) (\<lambda>v. ret (fs_Signature v))"

definition fs_GetMetadata :: "fs_NTFS \<Rightarrow> Records go" where
  "fs_GetMetadata ntfs = gbind (fs_the_MFT ntfs) (\<lambda>t. ret (Records t))"

definition fs_Parse :: "slice \<Rightarrow> fs_NTFS \<Rightarrow> fs_NTFS go" where
  "fs_Parse buffer ntfs =
     gbind (unmarshal_into fs_VBR_layout set_fs_VBR zero_fs_VBR buffer) (\<lambda>vbr. ret (ntfs\<lparr>fs_VBR := Some vbr\<rparr>))"

section \<open>The operations\<close>

definition fs_cluster_size :: "fs_VBR \<Rightarrow> i64" where
  "fs_cluster_size v = ucast (fs_SectorsPerCluster v) * ucast (fs_BytesPerSector v)"

definition fs_CollectMFTArea :: "reader \<Rightarrow> i64 \<Rightarrow> fs_NTFS \<Rightarrow> (byte list \<times> nat) go" where
  "fs_CollectMFTArea rd part ntfs =
     gbind (fs_the_MFT ntfs) (\<lambda>t.
     gbind (fs_the_VBR ntfs) (\<lambda>v.
     let grown = (of_int (mft_Size t) :: i64) * fs_cluster_size v in
     gbind (buffer_Grow 0 grown) (\<lambda>_.
     gbind (first_record t) (\<lambda>r.
     gbind (GetRunList (Records t) r ''DATA'') (\<lambda>runlist.
     gbind (mft_runs rd part (fs_cluster_size v) runlist 0 []) (\<lambda>buf. ret (buf, unat grown)))))))"

definition fs_ProcessMFT :: "nat \<Rightarrow> slice \<Rightarrow> int list \<Rightarrow> int \<Rightarrow> int \<Rightarrow> fs_NTFS \<Rightarrow> fs_NTFS go" where
  "fs_ProcessMFT slack data sel fromE toE ntfs =
     gbind (total_records data sel fromE toE) (\<lambda>total.
     let grown = (of_int total :: i64) * of_nat RecordSize in
     gbind (buffer_Grow 0 grown) (\<lambda>_.
     gbind (select_loop data sel fromE toE 0 []) (\<lambda>buf.
     gbind (fs_the_MFT ntfs) (\<lambda>t.
     gbind (ProcessRecords t (buffer_Bytes slack (unat grown) buf)) (\<lambda>(t', _).
       ret (ntfs\<lparr>fs_MFT := Some t'\<rparr>))))))"

definition fs_Process ::
  "reader \<Rightarrow> i64 \<Rightarrow> nat \<Rightarrow> (IndexEntries \<Rightarrow> IndexEntries) \<Rightarrow> i64 \<Rightarrow> int list \<Rightarrow> int \<Rightarrow> int \<Rightarrow> fs_NTFS \<Rightarrow> fs_NTFS go" where
  "fs_Process rd diskSize slack srt part sel fromE toE ntfs =
     gbind (fs_the_VBR ntfs) (\<lambda>v.
     gbind (rd (part + fs_MFTOffset v * ucast (fs_SectorsPerCluster v) * ucast (fs_BytesPerSector v)) 1024) (\<lambda>data.
     gbind (ProcessRecords \<lparr>Records = [], mft_Size = 0\<rparr> (full data)) (\<lambda>(t, _).
     gbind (DetermineClusterOffsetLength t) (\<lambda>t.
     gbind (fs_CollectMFTArea rd part (ntfs\<lparr>fs_MFT := Some t\<rparr>)) (\<lambda>(area, grown).
     gbind (fs_ProcessMFT slack (buffer_Bytes slack grown area) sel fromE toE (ntfs\<lparr>fs_MFT := Some t\<rparr>)) (\<lambda>ntfs'.
     gbind (fs_the_MFT ntfs') (\<lambda>t.
     gbind (ProcessNonResidentRecords rd diskSize slack part (fs_cluster_size v) (Records t)) (\<lambda>rs.
     if sel = [] \<and> fromE = - 1 \<and> toE = MaxUint32 then
       gbind (CreateLinkedRecords rs) (\<lambda>rs.
       gbind (FindParentRecords rs) (\<lambda>rs.
       gbind (CalculateFileSizes srt rs) (\<lambda>rs. ret (ntfs'\<lparr>fs_MFT := Some (t\<lparr>Records := rs\<rparr>)\<rparr>))))
     else ret (ntfs'\<lparr>fs_MFT := Some (t\<lparr>Records := rs\<rparr>)\<rparr>)))))))))"

fun fs_unallocated_loop ::
  "reader \<Rightarrow> i64 \<Rightarrow> fs_VBR \<Rightarrow> nat list \<Rightarrow> nat \<Rightarrow> nat list \<Rightarrow> nat \<Rightarrow> nat \<Rightarrow> byte list \<Rightarrow> byte list list go" where
  "fs_unallocated_loop rd part v clusters idx [] blockSize prev buf = ret []"
| "fs_unallocated_loop rd part v clusters idx (c # cs) blockSize prev buf =
     (if int c - int prev \<le> 1 then fs_unallocated_loop rd part v clusters (idx + 1) cs (blockSize + 1) c buf
      else
        gbind (buffer_Grow (length buf) (of_nat blockSize * ucast (fs_BytesPerSector v))) (\<lambda>_.
        let firstBlockCluster = clusters ! (idx - blockSize);
            offset = part + of_nat firstBlockCluster * ucast (fs_SectorsPerCluster v * (ucast (fs_BytesPerSector v) :: u8));
            len = (of_nat blockSize :: u16) * ((ucast (fs_SectorsPerCluster v) :: u16) * fs_BytesPerSector v) in
        gbind (rd offset (ucast len)) (\<lambda>d.
        gbind (fs_unallocated_loop rd part v clusters (idx + 1) cs 1 c (buf @ d)) (\<lambda>blocks.
          ret ((buf @ d) # blocks)))))"

definition fs_CollectUnallocated :: "reader \<Rightarrow> i64 \<Rightarrow> fs_NTFS \<Rightarrow> byte list list go" where
  "fs_CollectUnallocated rd part ntfs =
     gbind (fs_the_MFT ntfs) (\<lambda>t.
     gbind (first_record t) (\<lambda>r.
     gbind (case FindAttribute r ''BitMap'' of
         Some a \<Rightarrow> (case Body a of BBitmap b \<Rightarrow> ret b | _ \<Rightarrow> panic Failed_type_assertion)
       | None \<Rightarrow> panic Failed_type_assertion) (\<lambda>bitmap.
     gbind (GetUnallocatedClusters bitmap) (\<lambda>clusters.
     case clusters of
       [] \<Rightarrow> panic Index_out_of_range
     | c # cs \<Rightarrow>
         if cs = [] then ret []
         else gbind (fs_the_VBR ntfs) (\<lambda>v. fs_unallocated_loop rd part v clusters 1 cs 1 c [])))))"

section \<open>The two volumes\<close>

text \<open>The volume of \<open>disk/volume\<close> with the same table, and in its boot record the same fields and a given
  signature.\<close>

definition volume_VBR :: "byte list \<Rightarrow> fs_VBR \<Rightarrow> VBR" where
  "volume_VBR sig v = \<lparr>JumpInstruction = fs_JumpInstruction v, vbr_Signature = sig, NotUsed1 = fs_NotUsed1 v,
     BytesPerSector = fs_BytesPerSector v, SectorsPerCluster = fs_SectorsPerCluster v, NotUsed2 = fs_NotUsed2 v,
     TotalSectors = fs_TotalSectors v, MFTOffset = fs_MFTOffset v, MFTMirrOffset = fs_MFTMirrOffset v\<rparr>"

definition as_volume :: "byte list \<Rightarrow> fs_NTFS \<Rightarrow> NTFS" where
  "as_volume sig ntfs = \<lparr>ntfs_VBR = map_option (volume_VBR sig) (fs_VBR ntfs), ntfs_MFT = fs_MFT ntfs\<rparr>"

lemma volume_VBR_simps [simp]:
  "BytesPerSector (volume_VBR sig v) = fs_BytesPerSector v" "SectorsPerCluster (volume_VBR sig v) = fs_SectorsPerCluster v"
  "MFTOffset (volume_VBR sig v) = fs_MFTOffset v" "cluster_size (volume_VBR sig v) = fs_cluster_size v"
  by (simp_all add: volume_VBR_def cluster_size_def fs_cluster_size_def)

lemma the_VBR_as_volume: "the_VBR (as_volume sig ntfs) = gbind (fs_the_VBR ntfs) (\<lambda>v. ret (volume_VBR sig v))"
  by (simp add: the_VBR_def fs_the_VBR_def as_volume_def split: option.splits)

lemma the_MFT_as_volume: "the_MFT (as_volume sig ntfs) = fs_the_MFT ntfs"
  by (simp add: the_MFT_def fs_the_MFT_def as_volume_def)

lemma as_volume_MFT: "as_volume sig (ntfs\<lparr>fs_MFT := t\<rparr>) = (as_volume sig ntfs)\<lparr>ntfs_MFT := t\<rparr>"
  by (simp add: as_volume_def)

lemma CollectMFTArea_as_volume: "CollectMFTArea rd part (as_volume sig ntfs) = fs_CollectMFTArea rd part ntfs"
  by (simp add: CollectMFTArea_def fs_CollectMFTArea_def the_VBR_as_volume the_MFT_as_volume gbind_assoc)

lemma ProcessMFT_as_volume:
  "ProcessMFT slack data sel fromE toE (as_volume sig ntfs) =
    gbind (fs_ProcessMFT slack data sel fromE toE ntfs) (\<lambda>n. ret (as_volume sig n))"
  by (simp add: ProcessMFT_def fs_ProcessMFT_def the_MFT_as_volume gbind_assoc as_volume_MFT Let_def case_prod_unfold)

lemma Volume_Process_as_volume:
  "Volume_Process rd diskSize slack srt part sel fromE toE (as_volume sig ntfs) =
    gbind (fs_Process rd diskSize slack srt part sel fromE toE ntfs) (\<lambda>n. ret (as_volume sig n))"
  unfolding Volume_Process_def fs_Process_def
  by (simp add: the_VBR_as_volume the_MFT_as_volume as_volume_MFT [symmetric] CollectMFTArea_as_volume
      ProcessMFT_as_volume gbind_assoc gbind_if case_prod_unfold cong: if_cong)

lemma unallocated_loop_as_volume:
  "unallocated_loop rd part (volume_VBR sig v) clusters idx cs blockSize prev buf =
    fs_unallocated_loop rd part v clusters idx cs blockSize prev buf"
  by (induction rd part v clusters idx cs blockSize prev buf rule: fs_unallocated_loop.induct)
    (simp_all add: Let_def cong: gbind_cong)

lemma CollectUnallocated_as_volume: "CollectUnallocated rd part (as_volume sig ntfs) = fs_CollectUnallocated rd part ntfs"
  by (simp add: CollectUnallocated_def fs_CollectUnallocated_def the_VBR_as_volume the_MFT_as_volume gbind_assoc
      unallocated_loop_as_volume cong: if_cong list.case_cong)

text \<open>The boot record: what this parser reads is what the other reads when four bytes are put in for the signature.\<close>

lemma fs_Parse_as_volume:
  assumes "60 \<le> length bs" and "length sig = 4"
  shows "AddVolume (full (take 3 bs @ sig @ drop 3 bs)) (as_volume sig' ntfs) =
    gbind (fs_Parse (full bs) ntfs) (\<lambda>n. ret (as_volume sig n))"
proof -
  define X where "X = take 3 bs @ sig @ drop 3 bs"
  have X: "length X = length bs + 4" "take 3 X = take 3 bs" "take 4 (drop 3 X) = sig" using assms by (simp_all add: X_def)
  have "bs \<noteq> []" using assms(1) by auto
  have shift: "drop i X = drop (i - 4) bs" if "7 \<le> i" for i
    using that assms by (simp add: X_def)
  have "Unmarshal VBR_layout (full X) = ret (layout_values VBR_layout X 0, 64, True)"
    using Unmarshal_ok [of VBR_layout "full X"] X assms by (simp add: VBR_layout_def plain_layout_def)
  moreover have "Unmarshal fs_VBR_layout (full bs) = ret (layout_values fs_VBR_layout bs 0, 60, True)"
    using Unmarshal_ok [of fs_VBR_layout "full bs"] assms \<open>bs \<noteq> []\<close> by (simp add: fs_VBR_layout_def plain_layout_def)
  ultimately show ?thesis
    unfolding X_def [symmetric]
    by (simp add: AddVolume_def VBR_Parse_def fs_Parse_def unmarshal_into_def VBR_layout_def fs_VBR_layout_def
      as_volume_def volume_VBR_def set_VBR_def set_fs_VBR_def zero_VBR_def zero_fs_VBR_def le_at_def X shift)
qed

lemma fs_Parse_unsigned: "gbind (fs_Parse data ntfs) fs_HasValidSignature = m \<Longrightarrow> m \<noteq> ret True"
  by (auto simp: fs_Parse_def unmarshal_into_def fs_HasValidSignature_def fs_the_VBR_def set_fs_VBR_def zero_fs_VBR_def
      split: prod.splits)

text \<open>The two NTFS volumes. The volume of \<open>FS/NTFS\<close> on the bytes of a boot sector is the volume of
  \<open>disk/volume\<close> on the same bytes with any four bytes put in after the third, where the signature
  belongs: parsing and then processing it returns, panics or loops alike and with the same table,
  and so does collecting its unallocated clusters; only the signature is never valid.\<close>

theorem fs_NTFS_equivalence:
  assumes "60 \<le> length bs" and "length sig = 4"
  shows "gbind (AddVolume (full (take 3 bs @ sig @ drop 3 bs)) (as_volume sig ntfs))
      (Volume_Process rd diskSize slack srt part sel fromE toE) =
    gbind (fs_Parse (full bs) ntfs) (\<lambda>n.
      gbind (fs_Process rd diskSize slack srt part sel fromE toE n) (\<lambda>n. ret (as_volume sig n))) \<and>
    gbind (AddVolume (full (take 3 bs @ sig @ drop 3 bs)) (as_volume sig ntfs)) (CollectUnallocated rd part) =
    gbind (fs_Parse (full bs) ntfs) (fs_CollectUnallocated rd part) \<and>
    gbind (fs_Parse (full bs) ntfs) fs_HasValidSignature \<noteq> ret True"
  using fs_Parse_unsigned [OF refl]
  by (simp add: fs_Parse_as_volume [OF assms] gbind_assoc Volume_Process_as_volume CollectUnallocated_as_volume)

text \<open>A boot sector with 512 bytes per sector, 8 sectors per cluster and the MFT at cluster 4, without its signature.\<close>

definition unsigned_boot_sector :: "byte list" where
  "unsigned_boot_sector = [0xEB, 0x52, 0x90] @ [32, 32, 32, 32] @ le_bytes 2 512 @ [8] @ replicate 26 0 @
     le_bytes 8 4096 @ le_bytes 8 4 @ le_bytes 8 2 @ replicate 448 0"

theorem fs_NTFS_equivalence_witness:
  "gbind (AddVolume (full (take 3 unsigned_boot_sector @ [78, 84, 70, 83] @ drop 3 unsigned_boot_sector))
      (as_volume [78, 84, 70, 83] \<lparr>fs_VBR = None, fs_MFT = None\<rparr>)) (CollectUnallocated (\<lambda>_ _. ret []) 0) =
    gbind (fs_Parse (full unsigned_boot_sector) \<lparr>fs_VBR = None, fs_MFT = None\<rparr>) (fs_CollectUnallocated (\<lambda>_ _. ret []) 0) \<and>
    gbind (fs_Parse (full unsigned_boot_sector) \<lparr>fs_VBR = None, fs_MFT = None\<rparr>) fs_HasValidSignature \<noteq> ret True"
  using fs_NTFS_equivalence [of unsigned_boot_sector "[78, 84, 70, 83]" "\<lparr>fs_VBR = None, fs_MFT = None\<rparr>" "\<lambda>_ _. ret []"]
  by (simp add: unsigned_boot_sector_def)

end
