(* ===== verification/LVM_Label.thy ===== *)
theory LVM_Label
  imports LVM
begin

text \<open>
  The LVM2 labels of \<open>disk/lvm2/lvm.go\<close>, the second parser of the repository for them. Two strings of its
  label header are skipped by \<open>Unmarshal\<close>, the volume header is looked for 32 bytes behind the label header
  and the rest of the data areas behind the start of the volume header.
\<close>

section \<open>The headers\<close>

record lib_DataAreaDescriptor =
  lda_OffsetB :: i64
  lda_LenB :: u64

definition lib_DataAreaDescriptor_layout :: layout where
  "lib_DataAreaDescriptor_layout = [(''OffsetB'', Kint64), (''LenB'', Kuint64)]"

definition set_lib_DataAreaDescriptor :: "val list \<Rightarrow> lib_DataAreaDescriptor \<Rightarrow> lib_DataAreaDescriptor" where
  "set_lib_DataAreaDescriptor v r = r\<lparr>lda_OffsetB := put_i64 (v ! 0) (lda_OffsetB r), lda_LenB := put_u64 (v ! 1) (lda_LenB r)\<rparr>"

record lib_LabelHeader =
  ll_LVMSignature :: string
  ll_SectorNum :: u8
  ll_Chksum :: "byte list"
  ll_HeaderSize :: u32
  ll_IndicatorType :: string

definition lib_LabelHeader_layout :: layout where
  "lib_LabelHeader_layout = [(''LVMSignature'', Kother), (''SectorNum'', Kuint8), (''Chksum'', Karray 4), (''HeaderSize'', Kuint32),
     (''IndicatorType'', Kother)]"

definition zero_lib_LabelHeader :: lib_LabelHeader where
  "zero_lib_LabelHeader = \<lparr>ll_LVMSignature = [], ll_SectorNum = 0, ll_Chksum = replicate 4 0, ll_HeaderSize = 0, ll_IndicatorType = []\<rparr>"

definition set_lib_LabelHeader :: "val list \<Rightarrow> lib_LabelHeader \<Rightarrow> lib_LabelHeader" where
  "set_lib_LabelHeader v r = r\<lparr>ll_SectorNum := put_u8 (v ! 1) (ll_SectorNum r), ll_Chksum := put_arr (v ! 2) (ll_Chksum r),
     ll_HeaderSize := put_u32 (v ! 3) (ll_HeaderSize r)\<rparr>"

record lib_VolHeader =
  lv_UUID :: "byte list"
  lv_VolSize :: u64
  lv_DataAreaDescriptors :: "lib_DataAreaDescriptor list"

definition lib_VolHeader_layout :: layout where
  "lib_VolHeader_layout = [(''UUID'', Karray 32), (''VolSize'', Kuint64), (''DataAreaDescriptors'', Kother)]"

definition zero_lib_VolHeader :: lib_VolHeader where
  "zero_lib_VolHeader = \<lparr>lv_UUID = replicate 32 0, lv_VolSize = 0, lv_DataAreaDescriptors = []\<rparr>"

definition set_lib_VolHeader :: "val list \<Rightarrow> lib_VolHeader \<Rightarrow> lib_VolHeader" where
  "set_lib_VolHeader v r = r\<lparr>lv_UUID := put_arr (v ! 0) (lv_UUID r), lv_VolSize := put_u64 (v ! 1) (lv_VolSize r)\<rparr>"

record lib_PhysicalVolLabel =
  lib_LabelHeader_of :: lib_LabelHeader
  lib_VolHeader_of :: lib_VolHeader

record lib_LVM2 =
  lib_Header :: "lib_PhysicalVolLabel option"

section \<open>Parsing\<close>

text \<open>The loop ends at a descriptor with a zero, or with a panic behind the data.\<close>

function lib_areas_from :: "slice \<Rightarrow> nat \<Rightarrow> lib_DataAreaDescriptor \<Rightarrow> lib_DataAreaDescriptor list \<Rightarrow> lib_DataAreaDescriptor list go" where
  "lib_areas_from data currOffset desc acc =
     (if lda_LenB desc \<noteq> 0 \<and> lda_OffsetB desc \<noteq> 0 then
        gbind (sub_from data (32 + currOffset)) (\<lambda>d.
        gbind (unmarshal_count lib_DataAreaDescriptor_layout set_lib_DataAreaDescriptor desc d) (\<lambda>(desc', n).
          if n = 0 then None else lib_areas_from data (currOffset + n) desc' (acc @ [desc])))
      else ret acc)"
  by pat_completeness auto
termination
  by (relation "measure (\<lambda>(data, currOffset, desc, acc). Suc (slen data) - currOffset)") (auto simp: sub_from_eq_ret)

declare lib_areas_from.simps [simp del]

definition lib_VolHeader_Parse :: "slice \<Rightarrow> lib_VolHeader \<Rightarrow> lib_VolHeader go" where
  "lib_VolHeader_Parse data physicalVolHeader =
     gbind (sub_from data 32) (\<lambda>d.
     gbind (unmarshal_count lib_VolHeader_layout set_lib_VolHeader physicalVolHeader d) (\<lambda>(h, offset).
     gbind (sub_from data (32 + offset)) (\<lambda>d.
     gbind (unmarshal_count lib_DataAreaDescriptor_layout set_lib_DataAreaDescriptor \<lparr>lda_OffsetB = 0, lda_LenB = 0\<rparr> d) (\<lambda>(desc, currOffset).
     gbind (lib_areas_from data currOffset desc (lv_DataAreaDescriptors h)) (\<lambda>ds.
       ret (h\<lparr>lv_DataAreaDescriptors := ds\<rparr>))))))"

definition lib_Label_Parse :: "slice \<Rightarrow> lib_PhysicalVolLabel go" where
  "lib_Label_Parse data =
     gbind (sub data 0 32) (\<lambda>d.
     gbind (unmarshal_count lib_LabelHeader_layout set_lib_LabelHeader zero_lib_LabelHeader d) (\<lambda>(l, _).
     gbind (sub_from data 32) (\<lambda>d.
     gbind (lib_VolHeader_Parse d zero_lib_VolHeader) (\<lambda>h.
       ret \<lparr>lib_LabelHeader_of = l, lib_VolHeader_of = h\<rparr>))))"

definition lib_LVM2_Parse :: "slice \<Rightarrow> lib_LVM2 \<Rightarrow> lib_LVM2 go" where
  "lib_LVM2_Parse data lvm2 =
     gbind (sub_from data 512) (\<lambda>d.
     gbind (lib_Label_Parse d) (\<lambda>h. ret (lvm2\<lparr>lib_Header := Some h\<rparr>)))"

section \<open>The parser ends\<close>

lemma unmarshal_count_panics_or_returns:
  "(\<exists>c. unmarshal_count L setter r d = panic c) \<or> (\<exists>x n. unmarshal_count L setter r d = ret (x, n))"
  using unmarshal_count_ends [of L setter r d] by (cases "unmarshal_count L setter r d" rule: go_cases) auto

lemma area_read:
  "unmarshal_count lib_DataAreaDescriptor_layout set_lib_DataAreaDescriptor r d = ret (x, n) \<Longrightarrow> n = 16"
  by (auto simp: unmarshal_count_def lib_DataAreaDescriptor_layout_def Unmarshal_def go_simps split: if_splits)

lemma lib_areas_from_ends: "ends (lib_areas_from data currOffset desc acc)"
proof (induction data currOffset desc acc rule: lib_areas_from.induct)
  case (1 data currOffset desc acc)
  have "ends (if n = 0 then None else lib_areas_from data (currOffset + n) desc' (acc @ [desc]))"
    if "lda_LenB desc \<noteq> 0 \<and> lda_OffsetB desc \<noteq> 0" "sub_from data (32 + currOffset) = ret d"
      "unmarshal_count lib_DataAreaDescriptor_layout set_lib_DataAreaDescriptor desc d = ret (desc', n)" for d desc' n
    using "1.IH" [OF that(1,2) that(3) refl] area_read [OF that(3)] by simp
  then show ?case
    by (subst lib_areas_from.simps) (auto intro!: ends_gbind simp: sub_from_def)
qed

lemma lib_LVM2_Parse_ends: "ends (lib_LVM2_Parse data lvm2)"
  by (auto simp: lib_LVM2_Parse_def lib_Label_Parse_def lib_VolHeader_Parse_def sub_from_def sub_def
      intro!: ends_gbind lib_areas_from_ends)

end
