(* ===== verification/Flags.thy ===== *)
theory Flags
  imports Text
begin

text \<open>
  The command line of \<open>main.go\<close>: the flags it declares with their defaults, and how the standard library's
  package \<open>flag\<close> parses the arguments into them. A wrong argument ends the program.
\<close>

section \<open>Numbers\<close>

definition digit_value :: "char \<Rightarrow> nat option" where
  "digit_value c = (let n = of_char c :: nat in
     if 48 \<le> n \<and> n \<le> 57 then Some (n - 48)
     else if 97 \<le> n \<and> n \<le> 122 then Some (n - 87)
     else if 65 \<le> n \<and> n \<le> 90 then Some (n - 55)
     else None)"

text \<open>The loop of \<open>strconv.ParseUint\<close> for 64 bits; underscores are skipped here and checked apart.\<close>

fun uint_digits :: "nat \<Rightarrow> string \<Rightarrow> nat \<Rightarrow> nat option" where
  "uint_digits base [] n = Some n"
| "uint_digits base (c # cs) n =
     (if c = CHR ''_'' then uint_digits base cs n
      else case digit_value c of
          None \<Rightarrow> None
        | Some d \<Rightarrow> if base \<le> d \<or> 2 ^ 64 \<le> n * base + d then None else uint_digits base cs (n * base + d))"

definition prefix_base :: "string \<Rightarrow> (nat \<times> string) option" where
  "prefix_base s = (case s of
       c # p # rest \<Rightarrow>
         if c = CHR ''0'' \<and> p \<in> {CHR ''b'', CHR ''B''} then Some (2, rest)
         else if c = CHR ''0'' \<and> p \<in> {CHR ''o'', CHR ''O''} then Some (8, rest)
         else if c = CHR ''0'' \<and> p \<in> {CHR ''x'', CHR ''X''} then Some (16, rest)
         else None
     | _ \<Rightarrow> None)"

definition uint_base :: "string \<Rightarrow> nat \<times> string" where
  "uint_base s = (case (if 3 \<le> length s then prefix_base s else None) of
       Some b \<Rightarrow> b
     | None \<Rightarrow> (case s of c # rest \<Rightarrow> if c = CHR ''0'' then (8, rest) else (10, s) | [] \<Rightarrow> (10, s)))"

text \<open>An underscore must stand between digits, or behind the prefix of the base. What was seen last is
  \<open>^\<close> at the start, \<open>0\<close> for a digit, an underscore, or \<open>!\<close>.\<close>

fun underscores :: "bool \<Rightarrow> char \<Rightarrow> string \<Rightarrow> bool" where
  "underscores hex saw [] \<longleftrightarrow> saw \<noteq> CHR ''_''"
| "underscores hex saw (c # cs) \<longleftrightarrow>
     (if (case digit_value c of None \<Rightarrow> False | Some d \<Rightarrow> d < (if hex then 16 else 10)) then underscores hex (CHR ''0'') cs
      else if c = CHR ''_'' then saw = CHR ''0'' \<and> underscores hex (CHR ''_'') cs
      else saw \<noteq> CHR ''_'' \<and> underscores hex (CHR ''!'') cs)"

definition underscoreOK :: "string \<Rightarrow> bool" where
  "underscoreOK s = (case prefix_base s of
       Some (b, rest) \<Rightarrow> underscores (b = 16) (CHR ''0'') rest
     | None \<Rightarrow> underscores False (CHR ''^'') s)"

definition ParseUint_any :: "string \<Rightarrow> nat option" where
  "ParseUint_any s =
     (if s = [] then None
      else case uint_base s of (base, digits) \<Rightarrow> (case uint_digits base digits 0 of
          None \<Rightarrow> None
        | Some n \<Rightarrow> if CHR ''_'' \<in> set digits \<and> \<not> underscoreOK s then None else Some n))"

text \<open>\<open>strconv.ParseInt(s, 0, 64)\<close>.\<close>

definition ParseInt :: "string \<Rightarrow> int option" where
  "ParseInt s =
     (let (neg, t) = (case s of [] \<Rightarrow> (False, s)
         | c # cs \<Rightarrow> if c = CHR ''+'' then (False, cs) else if c = CHR ''-'' then (True, cs) else (False, s))
      in case ParseUint_any t of
          None \<Rightarrow> None
        | Some un \<Rightarrow>
            if \<not> neg \<and> 2 ^ 63 \<le> un then None
            else if neg \<and> 2 ^ 63 < un then None
            else Some (if neg then - int un else int un))"

definition ParseBool :: "string \<Rightarrow> bool option" where
  "ParseBool s =
     (if s \<in> {''1'', ''t'', ''T'', ''true'', ''TRUE'', ''True''} then Some True
      else if s \<in> {''0'', ''f'', ''F'', ''false'', ''FALSE'', ''False''} then Some False
      else None)"

section \<open>Parsing\<close>

datatype flag = StringFlag string | BoolFlag bool | IntFlag int

type_synonym flags = "string \<rightharpoonup> flag"

datatype flag_error = Bad_syntax | Not_defined | Help_requested | Needs_argument | Invalid_value

definition set_flag :: "flag \<Rightarrow> string \<Rightarrow> flag option" where
  "set_flag f v = (case f of
       StringFlag _ \<Rightarrow> Some (StringFlag v)
     | BoolFlag _ \<Rightarrow> map_option BoolFlag (ParseBool v)
     | IntFlag _ \<Rightarrow> map_option IntFlag (ParseInt v))"

text \<open>An argument is cut at its first equals sign behind the first character of the name.\<close>

fun cut_value :: "string \<Rightarrow> string \<times> string option" where
  "cut_value [] = ([], None)"
| "cut_value (c # cs) = (if c = CHR ''='' then ([], Some cs) else (case cut_value cs of (n, v) \<Rightarrow> (c # n, v)))"

definition flag_name :: "string \<Rightarrow> string \<times> string option" where
  "flag_name s = (case cut_value (tl s) of (n, v) \<Rightarrow> (hd s # n, v))"

text \<open>One flag \<open>text\<close> without its minus signs: the flags it sets and the arguments it leaves.\<close>

definition assign :: "flags \<Rightarrow> string \<Rightarrow> flag \<Rightarrow> string \<Rightarrow> string list \<Rightarrow> flag_error + flags \<times> string list" where
  "assign fs name f w args = (case set_flag f w of None \<Rightarrow> Inl Invalid_value | Some f' \<Rightarrow> Inr (fs(name \<mapsto> f'), args))"

definition parse_flag :: "flags \<Rightarrow> string \<Rightarrow> string list \<Rightarrow> flag_error + flags \<times> string list" where
  "parse_flag fs text args =
     (if hd text = CHR ''-'' \<or> hd text = CHR ''='' then Inl Bad_syntax
      else case flag_name text of (name, v) \<Rightarrow> (case fs name of
          None \<Rightarrow> Inl (if name \<in> {''help'', ''h''} then Help_requested else Not_defined)
        | Some f \<Rightarrow> (case v of
              Some w \<Rightarrow> assign fs name f w args
            | None \<Rightarrow> (case f of
                  BoolFlag _ \<Rightarrow> Inr (fs(name \<mapsto> BoolFlag True), args)
                | _ \<Rightarrow> (case args of [] \<Rightarrow> Inl Needs_argument | w # rest \<Rightarrow> assign fs name f w rest)))))"

lemma parse_flag_args: "parse_flag fs text args = Inr (fs', args') \<Longrightarrow> length args' \<le> length args"
  by (auto simp: parse_flag_def assign_def split: if_splits prod.splits option.splits flag.splits list.splits)

text \<open>The loop over \<open>parseOne\<close>, with the arguments that are left. An argument that is not a flag, or two minus signs, end it.\<close>

function flag_parse :: "flags \<Rightarrow> string list \<Rightarrow> flag_error + flags \<times> string list" where
  "flag_parse fs [] = Inr (fs, [])"
| "flag_parse fs (s # args) =
     (if length s < 2 \<or> hd s \<noteq> CHR ''-'' then Inr (fs, s # args)
      else if s = ''--'' then Inr (fs, args)
      else case parse_flag fs (drop (if s ! 1 = CHR ''-'' then 2 else 1) s) args of
          Inl e \<Rightarrow> Inl e
        | Inr (fs', args') \<Rightarrow> flag_parse fs' args')"
  by pat_completeness auto
termination
  by (relation "measure (\<lambda>(fs, args). length args)") (auto dest: parse_flag_args)

section \<open>The flags of the program\<close>

definition declared_flags :: flags where
  "declared_flags = map_of
    [(''MFT'', StringFlag []), (''evidence'', StringFlag []), (''vmdk'', StringFlag []), (''location'', StringFlag []),
     (''entries'', StringFlag []), (''showfilename'', StringFlag []), (''filenames'', StringFlag []),
     (''path'', StringFlag []), (''resident'', BoolFlag False), (''fromEntry'', IntFlag (- 1)),
     (''toEntry'', IntFlag (2 ^ 32 - 1)), (''runlist'', BoolFlag False), (''filesize'', BoolFlag False),
     (''vcns'', BoolFlag False), (''attributes'', StringFlag []), (''timestamps'', BoolFlag False),
     (''index'', BoolFlag False), (''physicaldrive'', IntFlag (- 1)), (''partition'', IntFlag (- 1)),
     (''tree'', BoolFlag False), (''showtree'', BoolFlag False), (''parent'', BoolFlag False),
     (''showusn'', BoolFlag False), (''showfull'', BoolFlag False), (''orphans'', BoolFlag False),
     (''deleted'', BoolFlag False), (''listpartitions'', BoolFlag False), (''extensions'', StringFlag []),
     (''unallocated'', BoolFlag False), (''hash'', StringFlag []), (''volinfo'', BoolFlag False),
     (''log'', BoolFlag False), (''showpath'', BoolFlag False), (''strategy'', StringFlag ''overwrite''),
     (''usnjrnl'', BoolFlag False)]"

definition str_flag :: "flags \<Rightarrow> string \<Rightarrow> string" where
  "str_flag fs n = (case fs n of Some (StringFlag s) \<Rightarrow> s | _ \<Rightarrow> [])"

definition bool_flag :: "flags \<Rightarrow> string \<Rightarrow> bool" where
  "bool_flag fs n = (case fs n of Some (BoolFlag b) \<Rightarrow> b | _ \<Rightarrow> False)"

definition int_flag :: "flags \<Rightarrow> string \<Rightarrow> int" where
  "int_flag fs n = (case fs n of Some (IntFlag i) \<Rightarrow> i | _ \<Rightarrow> 0)"

section \<open>The kinds of flags\<close>

fun same_kind :: "flag \<Rightarrow> flag \<Rightarrow> bool" where
  "same_kind (StringFlag _) (StringFlag _) = True"
| "same_kind (BoolFlag _) (BoolFlag _) = True"
| "same_kind (IntFlag _) (IntFlag _) = True"
| "same_kind _ _ = False"

lemma same_kind_refl [simp]: "same_kind f f"
  by (cases f) simp_all

lemma same_kind_trans: "same_kind f g \<Longrightarrow> same_kind g h \<Longrightarrow> same_kind f h"
  by (cases f; cases g; cases h) simp_all

lemma same_kind_set: "set_flag f v = Some f' \<Longrightarrow> same_kind f f'"
  by (auto simp: set_flag_def split: flag.splits)

definition kinds_kept :: "flags \<Rightarrow> flags \<Rightarrow> bool" where
  "kinds_kept fs fs' \<longleftrightarrow> (\<forall>n. rel_option same_kind (fs n) (fs' n))"

lemma kinds_kept_refl: "kinds_kept fs fs"
  by (simp add: kinds_kept_def option.rel_refl)

lemma kinds_kept_trans: "kinds_kept fs gs \<Longrightarrow> kinds_kept gs hs \<Longrightarrow> kinds_kept fs hs"
  unfolding kinds_kept_def by (metis option.rel_transp same_kind_trans transp_def)

lemma kinds_kept_update: "fs n = Some f \<Longrightarrow> same_kind f f' \<Longrightarrow> kinds_kept fs (fs(n \<mapsto> f'))"
  by (simp add: kinds_kept_def option.rel_refl)

lemma assign_kinds: "assign fs name f w args = Inr (fs', args') \<Longrightarrow> fs name = Some f \<Longrightarrow> kinds_kept fs fs'"
  by (auto simp: assign_def intro: kinds_kept_update same_kind_set split: option.splits)

lemma parse_flag_kinds: "parse_flag fs text args = Inr (fs', args') \<Longrightarrow> kinds_kept fs fs'"
  by (auto simp: parse_flag_def dest: assign_kinds intro: kinds_kept_update
      split: if_splits prod.splits option.splits flag.splits list.splits)

lemma flag_parse_kinds: "flag_parse fs args = Inr (fs', rest) \<Longrightarrow> kinds_kept fs fs'"
proof (induction fs args rule: flag_parse.induct)
  case (2 fs s args)
  then show ?case
    by (auto intro: kinds_kept_refl kinds_kept_trans dest: parse_flag_kinds split: if_splits sum.splits prod.splits)
qed (simp add: kinds_kept_refl)

section \<open>Rendering\<close>

text \<open>A setting as arguments: a string behind the flag, other values behind an equals sign.\<close>

fun flag_text :: "string \<times> flag \<Rightarrow> string list" where
  "flag_text (n, StringFlag s) = [''-'' @ n, s]"
| "flag_text (n, BoolFlag b) = [''--'' @ n @ ''='' @ (if b then ''true'' else ''false'')]"
| "flag_text (n, IntFlag i) = [''-'' @ n @ ''='' @ show_int i]"

fun in_range :: "flag \<Rightarrow> bool" where
  "in_range (IntFlag i) \<longleftrightarrow> - (2 ^ 63) \<le> i \<and> i < 2 ^ 63"
| "in_range _ \<longleftrightarrow> True"

definition proper_name :: "string \<Rightarrow> bool" where
  "proper_name n \<longleftrightarrow> n \<noteq> [] \<and> hd n \<noteq> CHR ''-'' \<and> CHR ''='' \<notin> set n"

lemma of_char_digit: "d < 10 \<Longrightarrow> of_char (char_of (48 + d) :: char) = (48 + d :: nat)"
  by (simp add: of_char_of)

lemma digit_value_digit: "d < 10 \<Longrightarrow> digit_value (char_of (48 + d)) = Some (d :: nat)"
  by (simp add: digit_value_def of_char_digit Let_def)

lemma digit_neq: "d < 10 \<Longrightarrow> of_char c \<noteq> (48 + d :: nat) \<Longrightarrow> char_of (48 + d) \<noteq> (c :: char)"
  using of_char_digit [of d] by auto

lemma uint_digits_append:
  "uint_digits base (xs @ ys) n = (case uint_digits base xs n of None \<Rightarrow> None | Some m \<Rightarrow> uint_digits base ys m)"
  by (induction xs arbitrary: n) (auto split: option.splits)

lemma decimal_digits: "c \<in> set (decimal n) \<Longrightarrow> \<exists>d<10. c = char_of (48 + d :: nat)"
proof (induction n rule: decimal.induct)
  case (1 n)
  show ?case
  proof (cases "n < 10")
    case True
    with "1.prems" show ?thesis by (subst (asm) decimal.simps) auto
  next
    case False
    with "1.prems" have "c \<in> set (decimal (n div 10)) \<or> c = char_of (48 + n mod 10)"
      by (subst (asm) decimal.simps) auto
    with "1.IH" False show ?thesis by (auto intro: exI [of _ "n mod 10"])
  qed
qed

lemma decimal_value: "n < 2 ^ 64 \<Longrightarrow> uint_digits 10 (decimal n) 0 = Some n"
proof (induction n rule: decimal.induct)
  case (1 n)
  have step: "uint_digits 10 [char_of (48 + d)] m = (if 2 ^ 64 \<le> m * 10 + d then None else Some (m * 10 + d))" if "d < 10" for d m
    using that digit_neq [OF that, of "CHR ''_''"] by (simp add: digit_value_digit)
  show ?case
  proof (cases "n < 10")
    case True
    then show ?thesis using step [of n 0] by (subst decimal.simps) simp
  next
    case False
    have "n div 10 * 10 + n mod 10 = n" by simp
    with False "1.IH" "1.prems" step [of "n mod 10" "n div 10"] show ?thesis
      by (subst decimal.simps) (simp add: uint_digits_append)
  qed
qed

lemma decimal_hd: "n \<noteq> 0 \<Longrightarrow> hd (decimal n) \<noteq> CHR ''0''"
proof (induction n rule: decimal.induct)
  case (1 n)
  have ne: "decimal m \<noteq> []" for m by (subst decimal.simps) simp
  show ?case
  proof (cases "n < 10")
    case True
    then show ?thesis using digit_neq [of n "CHR ''0''"] "1.prems" by (subst decimal.simps) simp
  next
    case False
    with "1.IH" ne show ?thesis by (subst decimal.simps) simp
  qed
qed

lemma decimal_Cons: "\<exists>c cs. decimal n = c # cs \<and> (n \<noteq> 0 \<longrightarrow> c \<noteq> CHR ''0'') \<and> c \<noteq> CHR ''-'' \<and> c \<noteq> CHR ''+''"
proof -
  obtain c cs where c: "decimal n = c # cs" by (cases "decimal n") (subst (asm) decimal.simps, simp split: if_splits)
  then obtain d where d: "d < 10" "c = char_of (48 + d :: nat)" using decimal_digits [of c n] by auto
  have "c \<noteq> CHR ''-''" "c \<noteq> CHR ''+''"
    unfolding d(2) using d(1) by (intro digit_neq; simp)+
  with c show ?thesis using decimal_hd [of n] by auto
qed

lemma ParseUint_decimal:
  assumes "n < 2 ^ 64"
  shows "ParseUint_any (decimal n) = Some n"
proof -
  obtain c cs where c: "decimal n = c # cs" "n \<noteq> 0 \<longrightarrow> c \<noteq> CHR ''0''" using decimal_Cons by blast
  have u: "CHR ''_'' \<notin> set (decimal n)"
  proof
    assume "CHR ''_'' \<in> set (decimal n)"
    then obtain d where d: "d < 10" "CHR ''_'' = char_of (48 + d :: nat)" using decimal_digits by blast
    have "of_char (CHR ''_'') \<noteq> 48 + d" using d(1) by simp
    from digit_neq [OF d(1) this] d(2) show False by metis
  qed
  show ?thesis
  proof (cases "n = 0")
    case True
    then have "decimal n = ''0''" by (subst decimal.simps) (simp add: char_of_def bit_0 bit_Suc)
    then show ?thesis using True by (simp add: ParseUint_any_def uint_base_def)
  next
    case False
    then have "uint_base (decimal n) = (10, decimal n)"
      using c by (simp add: uint_base_def prefix_base_def split: list.splits)
    then show ?thesis using decimal_value [OF assms] u c by (simp add: ParseUint_any_def)
  qed
qed

lemma ParseInt_show_int:
  assumes "- (2 ^ 63) \<le> i" and "i < 2 ^ 63"
  shows "ParseInt (show_int i) = Some i"
proof (cases "i < 0")
  case True
  with assms have "ParseUint_any (decimal (nat (- i))) = Some (nat (- i))" by (intro ParseUint_decimal) simp
  with True assms show ?thesis by (simp add: ParseInt_def show_int_def)
next
  case False
  with assms have "ParseUint_any (decimal (nat i)) = Some (nat i)" by (intro ParseUint_decimal) simp
  moreover obtain c cs where "decimal (nat i) = c # cs" "c \<noteq> CHR ''-''" "c \<noteq> CHR ''+''" using decimal_Cons by blast
  ultimately show ?thesis using False assms by (simp add: ParseInt_def show_int_def)
qed

lemma cut_value_name: "CHR ''='' \<notin> set n \<Longrightarrow> cut_value (n @ CHR ''='' # v) = (n, Some v)" "CHR ''='' \<notin> set n \<Longrightarrow> cut_value n = (n, None)"
  by (induction n) auto

lemma flag_name_value:
  assumes "proper_name n"
  shows "flag_name (n @ CHR ''='' # v) = (n, Some v)" "flag_name n = (n, None)"
  using assms cut_value_name [of "tl n"] by (cases n; simp add: flag_name_def proper_name_def)+

lemma parse_flag_text:
  assumes "proper_name n" and "fs n = Some g" and "same_kind g f" and "in_range f"
  shows "flag_parse fs (flag_text (n, f) @ args) = flag_parse (fs(n \<mapsto> f)) args"
proof -
  have hd: "hd (n @ v) = hd n" for v using assms(1) by (simp add: proper_name_def)
  obtain c cs where n: "n = c # cs" "c \<noteq> CHR ''-''" "c \<noteq> CHR ''=''"
    using assms(1) by (cases n) (auto simp: proper_name_def)
  show ?thesis
  proof (cases f)
    case (StringFlag w)
    with assms(3) obtain w' where "g = StringFlag w'" by (cases g) auto
    then have "parse_flag fs n (w # args) = Inr (fs(n \<mapsto> f), args)"
      using assms(1,2) n flag_name_value [OF assms(1)] StringFlag by (simp add: parse_flag_def assign_def set_flag_def)
    then show ?thesis using n StringFlag by simp
  next
    case (BoolFlag b)
    with assms(3) obtain b' where "g = BoolFlag b'" by (cases g) auto
    then have "parse_flag fs (n @ ''='' @ (if b then ''true'' else ''false'')) args = Inr (fs(n \<mapsto> f), args)"
      using assms(1,2) n flag_name_value [OF assms(1)] BoolFlag
      by (simp add: parse_flag_def assign_def set_flag_def ParseBool_def)
    then show ?thesis using n BoolFlag by simp
  next
    case (IntFlag i)
    with assms(3) obtain i' where "g = IntFlag i'" by (cases g) auto
    then have "parse_flag fs (n @ ''='' @ show_int i) args = Inr (fs(n \<mapsto> f), args)"
      using assms(1,2,4) n flag_name_value [OF assms(1)] IntFlag
      by (simp add: parse_flag_def assign_def set_flag_def ParseInt_show_int)
    then show ?thesis using n IntFlag by simp
  qed
qed

lemma flag_parse_settings:
  assumes "\<forall>(n, f) \<in> set settings. proper_name n \<and> in_range f \<and> (\<exists>g. fs n = Some g \<and> same_kind g f)"
  shows "flag_parse fs (concat (map flag_text settings) @ args) = flag_parse (fs ++ map_of (rev settings)) args"
  using assms
proof (induction settings arbitrary: fs)
  case (Cons x settings)
  obtain n f where x: "x = (n, f)" by (cases x)
  with Cons.prems obtain g where g: "proper_name n" "in_range f" "fs n = Some g" "same_kind g f" by auto
  have "\<exists>g'. (fs(n \<mapsto> f)) m = Some g' \<and> same_kind g' h" if "fs m = Some g'" "same_kind g' h" for m g' h
    using that g(3,4) by (cases "m = n"; cases g; cases h; cases f) auto
  then have "\<forall>(m, h) \<in> set settings. proper_name m \<and> in_range h \<and> (\<exists>g. (fs(n \<mapsto> f)) m = Some g \<and> same_kind g h)"
    using Cons.prems by fastforce
  from Cons.IH [OF this]
  have "flag_parse (fs(n \<mapsto> f)) (concat (map flag_text settings) @ args) = flag_parse (fs(n \<mapsto> f) ++ map_of (rev settings)) args" .
  moreover have "flag_parse fs (flag_text (n, f) @ as) = flag_parse (fs(n \<mapsto> f)) as" for as
    using g by (intro parse_flag_text) auto
  moreover have "fs(n \<mapsto> f) ++ map_of (rev settings) = fs ++ map_of (rev (x # settings))" by (simp add: x)
  ultimately show ?case by (simp only: x list.map concat.simps append_assoc)
qed simp

end
