(* ===== verification/Command_Line.thy ===== *)
theory Command_Line
  imports Reporting Flags
begin

text \<open>
  From the command line to what the program works with (\<open>main.go\<close>): the options and the reporter, and the usage that
  \<open>README.md\<close> documents, against which the declarations of the flags are checked.
\<close>

section \<open>Options\<close>

definition options_of :: "flags \<Rightarrow> Options" where
  "options_of fl = \<lparr>opt_MFTSelectedEntries = str_flag fl ''entries'', opt_exportFiles = str_flag fl ''filenames'',
     opt_exportFilesPath = str_flag fl ''path'', opt_fromMFTEntry = int_flag fl ''fromEntry'', opt_toMFTEntry = int_flag fl ''toEntry'',
     opt_partitionNum = int_flag fl ''partition'', opt_buildtree = bool_flag fl ''tree'', opt_orphans = bool_flag fl ''orphans'',
     opt_deleted = bool_flag fl ''deleted'', opt_fileExtensions = str_flag fl ''extensions'',
     opt_collectUnallocated = bool_flag fl ''unallocated'', opt_usnjrnl = bool_flag fl ''usnjrnl'',
     opt_exporter = \<lparr>Location = str_flag fl ''location'', Hash = str_flag fl ''hash'', Strategy = str_flag fl ''strategy''\<rparr>\<rparr>"

definition reporter_of :: "flags \<Rightarrow> Reporter" where
  "reporter_of fl = \<lparr>rep_ShowFileName = str_flag fl ''showfilename'', rep_ShowAttributes = str_flag fl ''attributes'',
     rep_ShowTimestamps = bool_flag fl ''timestamps'', rep_IsResident = bool_flag fl ''resident'',
     rep_ShowFull = bool_flag fl ''showfull'', rep_ShowRunList = bool_flag fl ''runlist'',
     rep_ShowFileSize = bool_flag fl ''filesize'', rep_ShowVCNs = bool_flag fl ''vcns'', rep_ShowIndex = bool_flag fl ''index'',
     rep_ShowParent = bool_flag fl ''parent'', rep_ShowPath = bool_flag fl ''showpath'',
     rep_ShowUSNJRNL = bool_flag fl ''showusn'', rep_ShowTree = bool_flag fl ''showtree''\<rparr>"

section \<open>The documented usage\<close>

text \<open>The options of the usage information in \<open>README.md\<close>, in its order, with the kinds of their values and the defaults.\<close>

definition usage :: "(string \<times> flag) list" where
  "usage =
    [(''MFT'', StringFlag []), (''attributes'', StringFlag []), (''deleted'', BoolFlag False),
     (''entries'', StringFlag []), (''evidence'', StringFlag []), (''extensions'', StringFlag []),
     (''filenames'', StringFlag []), (''filesize'', BoolFlag False), (''fromEntry'', IntFlag (- 1)),
     (''hash'', StringFlag []), (''index'', BoolFlag False), (''listpartitions'', BoolFlag False),
     (''location'', StringFlag []), (''log'', BoolFlag False), (''orphans'', BoolFlag False),
     (''parent'', BoolFlag False), (''partition'', IntFlag (- 1)), (''path'', StringFlag []),
     (''physicaldrive'', IntFlag (- 1)), (''resident'', BoolFlag False), (''runlist'', BoolFlag False),
     (''showfilename'', StringFlag []), (''showfull'', BoolFlag False), (''showpath'', BoolFlag False),
     (''showtree'', BoolFlag False), (''showusn'', BoolFlag False), (''strategy'', StringFlag ''overwrite''),
     (''timestamps'', BoolFlag False), (''toEntry'', IntFlag 4294967295), (''tree'', BoolFlag False),
     (''unallocated'', BoolFlag False), (''usnjrnl'', BoolFlag False), (''vcns'', BoolFlag False),
     (''vmdk'', StringFlag []), (''volinfo'', BoolFlag False)]"

text \<open>What one documented option changes of the options, and of the reporter.\<close>

fun apply_option :: "string \<times> flag \<Rightarrow> Options \<Rightarrow> Options" where
  "apply_option (n, StringFlag s) opts =
     (if n = ''entries'' then opts\<lparr>opt_MFTSelectedEntries := s\<rparr>
      else if n = ''filenames'' then opts\<lparr>opt_exportFiles := s\<rparr>
      else if n = ''path'' then opts\<lparr>opt_exportFilesPath := s\<rparr>
      else if n = ''extensions'' then opts\<lparr>opt_fileExtensions := s\<rparr>
      else if n = ''location'' then opts\<lparr>opt_exporter := (opt_exporter opts)\<lparr>Location := s\<rparr>\<rparr>
      else if n = ''hash'' then opts\<lparr>opt_exporter := (opt_exporter opts)\<lparr>Hash := s\<rparr>\<rparr>
      else if n = ''strategy'' then opts\<lparr>opt_exporter := (opt_exporter opts)\<lparr>Strategy := s\<rparr>\<rparr>
      else opts)"
| "apply_option (n, IntFlag i) opts =
     (if n = ''fromEntry'' then opts\<lparr>opt_fromMFTEntry := i\<rparr>
      else if n = ''toEntry'' then opts\<lparr>opt_toMFTEntry := i\<rparr>
      else if n = ''partition'' then opts\<lparr>opt_partitionNum := i\<rparr>
      else opts)"
| "apply_option (n, BoolFlag b) opts =
     (if n = ''tree'' then opts\<lparr>opt_buildtree := b\<rparr>
      else if n = ''orphans'' then opts\<lparr>opt_orphans := b\<rparr>
      else if n = ''deleted'' then opts\<lparr>opt_deleted := b\<rparr>
      else if n = ''unallocated'' then opts\<lparr>opt_collectUnallocated := b\<rparr>
      else if n = ''usnjrnl'' then opts\<lparr>opt_usnjrnl := b\<rparr>
      else opts)"

fun apply_report :: "string \<times> flag \<Rightarrow> Reporter \<Rightarrow> Reporter" where
  "apply_report (n, StringFlag s) rp =
     (if n = ''showfilename'' then rp\<lparr>rep_ShowFileName := s\<rparr>
      else if n = ''attributes'' then rp\<lparr>rep_ShowAttributes := s\<rparr>
      else rp)"
| "apply_report (n, BoolFlag b) rp =
     (if n = ''timestamps'' then rp\<lparr>rep_ShowTimestamps := b\<rparr>
      else if n = ''resident'' then rp\<lparr>rep_IsResident := b\<rparr>
      else if n = ''showfull'' then rp\<lparr>rep_ShowFull := b\<rparr>
      else if n = ''runlist'' then rp\<lparr>rep_ShowRunList := b\<rparr>
      else if n = ''filesize'' then rp\<lparr>rep_ShowFileSize := b\<rparr>
      else if n = ''vcns'' then rp\<lparr>rep_ShowVCNs := b\<rparr>
      else if n = ''index'' then rp\<lparr>rep_ShowIndex := b\<rparr>
      else if n = ''parent'' then rp\<lparr>rep_ShowParent := b\<rparr>
      else if n = ''showpath'' then rp\<lparr>rep_ShowPath := b\<rparr>
      else if n = ''showusn'' then rp\<lparr>rep_ShowUSNJRNL := b\<rparr>
      else if n = ''showtree'' then rp\<lparr>rep_ShowTree := b\<rparr>
      else rp)"
| "apply_report (n, IntFlag i) rp = rp"

definition default_options :: Options where
  "default_options = \<lparr>opt_MFTSelectedEntries = [], opt_exportFiles = [], opt_exportFilesPath = [], opt_fromMFTEntry = - 1,
     opt_toMFTEntry = 4294967295, opt_partitionNum = - 1, opt_buildtree = False, opt_orphans = False, opt_deleted = False,
     opt_fileExtensions = [], opt_collectUnallocated = False, opt_usnjrnl = False,
     opt_exporter = \<lparr>Location = [], Hash = [], Strategy = ''overwrite''\<rparr>\<rparr>"

definition default_reporter :: Reporter where
  "default_reporter = \<lparr>rep_ShowFileName = [], rep_ShowAttributes = [], rep_ShowTimestamps = False, rep_IsResident = False,
     rep_ShowFull = False, rep_ShowRunList = False, rep_ShowFileSize = False, rep_ShowVCNs = False, rep_ShowIndex = False,
     rep_ShowParent = False, rep_ShowPath = False, rep_ShowUSNJRNL = False, rep_ShowTree = False\<rparr>"

section \<open>The declared flags are the documented ones\<close>

lemma declared_usage: "declared_flags = map_of usage"
proof -
  have "map_of usage = declared_flags"
    unfolding declared_flags_def
    by (subst map_of_inject_set) (code_simp, code_simp, code_simp)
  then show ?thesis by simp
qed

lemma usage_names: "(n, g) \<in> set usage \<Longrightarrow> declared_flags n = Some g \<and> proper_name n"
proof -
  assume n: "(n, g) \<in> set usage"
  have "distinct (map fst usage)" by code_simp
  with n have "declared_flags n = Some g" by (simp add: declared_usage)
  moreover have "list_all (\<lambda>(n, g). proper_name n) usage" by code_simp
  ultimately show ?thesis using n by (auto simp: list_all_iff)
qed

lemma flag_parse_declared:
  assumes "\<forall>(n, f) \<in> set settings. proper_name n \<and> in_range f \<and> (\<exists>g. declared_flags n = Some g \<and> same_kind g f)"
  shows "flag_parse declared_flags (concat (map flag_text settings)) = Inr (declared_flags ++ map_of (rev settings), [])"
  using flag_parse_settings [OF assms, of "[]"] by simp

lemma flag_reads:
  "str_flag (fl(n \<mapsto> f)) m = (if m = n then (case f of StringFlag s \<Rightarrow> s | _ \<Rightarrow> []) else str_flag fl m)"
  "bool_flag (fl(n \<mapsto> f)) m = (if m = n then (case f of BoolFlag b \<Rightarrow> b | _ \<Rightarrow> False) else bool_flag fl m)"
  "int_flag (fl(n \<mapsto> f)) m = (if m = n then (case f of IntFlag i \<Rightarrow> i | _ \<Rightarrow> 0) else int_flag fl m)"
  by (simp_all add: str_flag_def bool_flag_def int_flag_def split: flag.splits)

text \<open>The options by the kind of their values.\<close>

definition texts :: "string list" where
  "texts = [''MFT'', ''attributes'', ''entries'', ''evidence'', ''extensions'', ''filenames'', ''hash'',
     ''location'', ''path'', ''showfilename'', ''strategy'', ''vmdk'']"

definition switches :: "string list" where
  "switches = [''deleted'', ''filesize'', ''index'', ''listpartitions'', ''log'', ''orphans'', ''parent'',
     ''resident'', ''runlist'', ''showfull'', ''showpath'', ''showtree'', ''showusn'', ''timestamps'',
     ''tree'', ''unallocated'', ''usnjrnl'', ''vcns'', ''volinfo'']"

definition numbers :: "string list" where
  "numbers = [''fromEntry'', ''partition'', ''physicaldrive'', ''toEntry'']"

lemma flag_kinds:
  assumes "(n, g) \<in> set usage" and "same_kind g f"
  shows "case f of StringFlag _ \<Rightarrow> n \<in> set texts
    | BoolFlag _ \<Rightarrow> n \<in> set switches
    | IntFlag _ \<Rightarrow> n \<in> set numbers"
proof -
  have "list_all (\<lambda>(n, g). case g of StringFlag _ \<Rightarrow> n \<in> set texts
    | BoolFlag _ \<Rightarrow> n \<in> set switches
    | IntFlag _ \<Rightarrow> n \<in> set numbers) usage" by code_simp
  with assms(1) have "case g of StringFlag _ \<Rightarrow> n \<in> set texts
    | BoolFlag _ \<Rightarrow> n \<in> set switches
    | IntFlag _ \<Rightarrow> n \<in> set numbers" unfolding list_all_iff by blast
  with assms(2) show ?thesis by (cases g; cases f) simp_all
qed

lemma set_text:
  assumes "n \<in> set texts"
  shows "options_of (fl(n \<mapsto> StringFlag s)) = apply_option (n, StringFlag s) (options_of fl)"
    "reporter_of (fl(n \<mapsto> StringFlag s)) = apply_report (n, StringFlag s) (reporter_of fl)"
  using assms unfolding texts_def switches_def numbers_def list.set insert_iff empty_iff
  by (elim disjE FalseE; simp add: options_of_def reporter_of_def flag_reads)+

lemma set_switch:
  assumes "n \<in> set switches"
  shows "options_of (fl(n \<mapsto> BoolFlag b)) = apply_option (n, BoolFlag b) (options_of fl)"
    "reporter_of (fl(n \<mapsto> BoolFlag b)) = apply_report (n, BoolFlag b) (reporter_of fl)"
  using assms unfolding texts_def switches_def numbers_def list.set insert_iff empty_iff
  by (elim disjE FalseE; simp add: options_of_def reporter_of_def flag_reads)+

lemma set_number:
  assumes "n \<in> set numbers"
  shows "options_of (fl(n \<mapsto> IntFlag i)) = apply_option (n, IntFlag i) (options_of fl)"
    "reporter_of (fl(n \<mapsto> IntFlag i)) = apply_report (n, IntFlag i) (reporter_of fl)"
  using assms unfolding texts_def switches_def numbers_def list.set insert_iff empty_iff
  by (elim disjE FalseE; simp add: options_of_def reporter_of_def flag_reads)+

lemma set_one:
  assumes "(n, g) \<in> set usage" and "same_kind g f"
  shows "options_of (fl(n \<mapsto> f)) = apply_option (n, f) (options_of fl) \<and> reporter_of (fl(n \<mapsto> f)) = apply_report (n, f) (reporter_of fl)"
proof (cases f)
  case (StringFlag s)
  then show ?thesis using flag_kinds [OF assms] set_text [of n fl s] by (simp only: flag.case)
next
  case (BoolFlag b)
  then show ?thesis using flag_kinds [OF assms] set_switch [of n fl b] by (simp only: flag.case)
next
  case (IntFlag i)
  then show ?thesis using flag_kinds [OF assms] set_number [of n fl i] by (simp only: flag.case)
qed

lemma set_all:
  assumes "\<forall>(n, f) \<in> set settings. \<exists>g. (n, g) \<in> set usage \<and> same_kind g f"
  shows "options_of (fl ++ map_of (rev settings)) = fold apply_option settings (options_of fl) \<and>
    reporter_of (fl ++ map_of (rev settings)) = fold apply_report settings (reporter_of fl)"
  using assms
proof (induction settings arbitrary: fl)
  case (Cons x settings)
  obtain n f where x: "x = (n, f)" by (cases x)
  with Cons.prems obtain g where "(n, g) \<in> set usage" "same_kind g f" by auto
  note one = set_one [OF this, of fl]
  have m: "fl ++ map_of (rev ((n, f) # settings)) = fl(n \<mapsto> f) ++ map_of (rev settings)" by simp
  have "\<forall>(n, f) \<in> set settings. \<exists>g. (n, g) \<in> set usage \<and> same_kind g f" using Cons.prems by simp
  from Cons.IH [OF this, of "fl(n \<mapsto> f)"] one show ?case unfolding x m fold.simps comp_apply by (simp only: simp_thms)
qed simp

lemma defaults: "options_of declared_flags = default_options" "reporter_of declared_flags = default_reporter"
  by (simp_all add: options_of_def reporter_of_def default_options_def default_reporter_def)
    (simp_all add: declared_flags_def str_flag_def bool_flag_def int_flag_def)

text \<open>C39: The command line is the documented one. Any list of settings of the options in the usage information,
  written as arguments, is accepted, and gives the documented defaults with the settings made in their order, the last one of
  an option counting: each option changes the one field of the options or of the reporter that it stands for, and
  an option that is in neither has the value of its last setting. A name that the usage does not list is refused.\<close>

theorem options_of_usage:
  assumes "\<forall>(n, f) \<in> set settings. in_range f \<and> (\<exists>g. (n, g) \<in> set usage \<and> same_kind g f)"
  shows "(\<exists>fl. flag_parse declared_flags (concat (map flag_text settings)) = Inr (fl, []) \<and>
      fl = map_of usage ++ map_of (rev settings) \<and>
      options_of fl = fold apply_option settings default_options \<and>
      reporter_of fl = fold apply_report settings default_reporter) \<and>
    (\<forall>n rest. proper_name n \<and> n \<notin> fst ` set usage \<and> n \<notin> {''h'', ''help''} \<longrightarrow>
      flag_parse declared_flags (concat (map flag_text settings) @ (CHR ''-'' # n) # rest) = Inl Not_defined)"
proof (intro conjI allI impI)
  have ok: "\<forall>(n, f) \<in> set settings. proper_name n \<and> in_range f \<and> (\<exists>g. declared_flags n = Some g \<and> same_kind g f)"
    using assms usage_names by fastforce
  have known: "\<forall>(n, f) \<in> set settings. \<exists>g. (n, g) \<in> set usage \<and> same_kind g f" using assms by fastforce
  show "\<exists>fl. flag_parse declared_flags (concat (map flag_text settings)) = Inr (fl, []) \<and>
      fl = map_of usage ++ map_of (rev settings) \<and> options_of fl = fold apply_option settings default_options \<and>
      reporter_of fl = fold apply_report settings default_reporter"
    using flag_parse_declared [OF ok] set_all [OF known, of declared_flags] defaults declared_usage by simp
  fix n rest assume n: "proper_name n \<and> n \<notin> fst ` set usage \<and> n \<notin> {''h'', ''help''}"
  then obtain c cs where c: "n = c # cs" "c \<noteq> CHR ''-''" "c \<noteq> CHR ''=''"
    by (cases n) (auto simp: proper_name_def)
  have "n \<notin> fst ` set settings"
  proof
    assume "n \<in> fst ` set settings"
    then obtain f where "(n, f) \<in> set settings" by auto
    with known obtain g where "(n, g) \<in> set usage" by blast
    then have "n \<in> fst ` set usage" by (rule image_eqI [rotated]) simp
    with n show False by blast
  qed
  then have "map_of (rev settings) n = None" by (simp add: map_of_eq_None_iff)
  moreover have "declared_flags n = None" using n by (simp add: declared_usage map_of_eq_None_iff)
  ultimately have none: "(declared_flags ++ map_of (rev settings)) n = None" by (simp only: map_add_None)
  have "hd n \<noteq> CHR ''-''" "hd n \<noteq> CHR ''=''" using c by simp_all
  then have "parse_flag (declared_flags ++ map_of (rev settings)) n rest = Inl Not_defined"
    using n none flag_name_value(2) [of n] by (simp add: parse_flag_def map_add_def)
  then have "flag_parse (declared_flags ++ map_of (rev settings)) ((CHR ''-'' # n) # rest) = Inl Not_defined" using c by simp
  then show "flag_parse declared_flags (concat (map flag_text settings) @ (CHR ''-'' # n) # rest) = Inl Not_defined"
    using flag_parse_settings [OF ok] by simp
qed

theorem options_of_usage_witness:
  "\<exists>fl. flag_parse declared_flags [''-entries'', ''1,2'', ''-fromEntry=-7'', ''--tree=true'', ''--vcns=true''] = Inr (fl, []) \<and>
     options_of fl = default_options\<lparr>opt_MFTSelectedEntries := ''1,2'', opt_fromMFTEntry := - 7, opt_buildtree := True\<rparr> \<and>
     reporter_of fl = default_reporter\<lparr>rep_ShowVCNs := True\<rparr>"
proof -
  let ?s = "[(''entries'', StringFlag ''1,2''), (''fromEntry'', IntFlag (- 7)), (''tree'', BoolFlag True), (''vcns'', BoolFlag True)]"
  have t: "concat (map flag_text ?s) = [''-entries'', ''1,2'', ''-fromEntry=-7'', ''--tree=true'', ''--vcns=true'']"
    by (simp add: show_int_def decimal.simps char_of_def bit_0 bit_Suc)
  have "\<forall>(n, f) \<in> set ?s. in_range f \<and> (\<exists>g. (n, g) \<in> set usage \<and> same_kind g f)"
    by (auto simp: usage_def)
  from options_of_usage [OF this] show ?thesis unfolding t by simp
qed

end
