(* ===== verification/Image_Readers.thy ===== *)
theory Image_Readers
  imports Disk_Reader
begin

text \<open>
  How a disk is opened (\<open>img/reader.go\<close> and the readers behind it). The libraries that read EWF and VMDK images and
  the calls of the operating system are the fields of \<open>libs\<close>; an evidence file stands for all
  files of its directory that look like a part of an EWF image.
\<close>

section \<open>Paths\<close>

text \<open>\<open>path.Ext\<close>: from the last dot, unless a slash comes behind it.\<close>

fun ext_of :: "string \<Rightarrow> string \<Rightarrow> string" where \<comment> \<open>the reversed path, and what was passed\<close>
  "ext_of [] acc = []"
| "ext_of (c # cs) acc =
     (if c = CHR ''/'' then [] else if c = CHR ''.'' then c # acc else ext_of cs (c # acc))"

definition path_Ext :: "string \<Rightarrow> string" where
  "path_Ext p = ext_of (rev p) []"

definition alnum :: "char \<Rightarrow> bool" where
  "alnum c \<longleftrightarrow> (let n = of_char c :: nat in 97 \<le> n \<and> n \<le> 122 \<or> 65 \<le> n \<and> n \<le> 90 \<or> 48 \<le> n \<and> n \<le> 57)"

text \<open>The expression \<open>\.[eE][a-zA-Z0-9]{1,2}$\<close>: the end of a name, read backwards.\<close>

definition evidence_name :: "string \<Rightarrow> bool" where
  "evidence_name name \<longleftrightarrow> (case rev name of
       a # b # c # cs \<Rightarrow> alnum a \<and>
         (b \<in> {CHR ''e'', CHR ''E''} \<and> c = CHR ''.'' \<or>
          alnum b \<and> c \<in> {CHR ''e'', CHR ''E''} \<and> cs \<noteq> [] \<and> hd cs = CHR ''.'')
     | _ \<Rightarrow> False)"

section \<open>Libraries\<close>

record ('ewf, 'vmdk, 'fd) libs =
  dir_of :: "string \<Rightarrow> string" \<comment> \<open>\<open>filepath.Dir\<close>\<close>
  join_path :: "string \<Rightarrow> string \<Rightarrow> string"
  ReadDir :: "string \<Rightarrow> (string \<times> bool) list option" \<comment> \<open>names, and whether they are directories\<close>
  ParseEvidence :: "string list \<Rightarrow> 'ewf"
  ewf_Retrieve :: "'ewf \<Rightarrow> reader"
  ewf_ChunkSize :: "'ewf \<Rightarrow> i64"
  ewf_NofChunks :: "'ewf \<Rightarrow> i64"
  vmdk_Image :: "string \<Rightarrow> 'vmdk" \<comment> \<open>after \<open>Process\<close>\<close>
  vmdk_Parent :: "'vmdk \<Rightarrow> 'vmdk option option" \<comment> \<open>whether there is one, and whether it is found\<close>
  vmdk_SetParent :: "'vmdk \<Rightarrow> 'vmdk \<Rightarrow> 'vmdk"
  vmdk_Retrieve :: "'vmdk \<Rightarrow> reader"
  vmdk_Size :: "'vmdk \<Rightarrow> i64"
  CreateFileW :: "string \<Rightarrow> 'fd option"
  ReadFileW :: "'fd \<Rightarrow> u32 \<Rightarrow> u32 \<Rightarrow> nat \<Rightarrow> byte list"
  Geometry :: "'fd \<Rightarrow> DISK_GEOMETRY option"

definition log_Fatal :: "'a go" where
  "log_Fatal = panic (Explicit_panic ''log.Fatal'')"

section \<open>Readers\<close>

definition FindEvidenceFiles :: "('ewf, 'vmdk, 'fd) libs \<Rightarrow> string \<Rightarrow> string list go" where
  "FindEvidenceFiles lib evidence =
     (let basePath = dir_of lib evidence in case ReadDir lib basePath of
         None \<Rightarrow> log_Fatal
       | Some files \<Rightarrow> ret (map (\<lambda>(name, _). join_path lib basePath name)
           (filter (\<lambda>(name, isDir). \<not> isDir \<and> evidence_name name) files)))"

definition ImageReader_CreateHandler :: "('ewf, 'vmdk, 'fd) libs \<Rightarrow> string \<Rightarrow> 'ewf go" where
  "ImageReader_CreateHandler lib p =
     (if ToLower (path_Ext p) = ''.e01'' then gbind (FindEvidenceFiles lib p) (\<lambda>filenames. ret (ParseEvidence lib filenames))
      else panic (Explicit_panic ''only EWF  images are supported''))"

definition ImageReader_GetDiskSize :: "('ewf, 'vmdk, 'fd) libs \<Rightarrow> 'ewf \<Rightarrow> i64" where
  "ImageReader_GetDiskSize lib fd = ewf_ChunkSize lib fd * ewf_NofChunks lib fd"

definition ImageReader_ReadFile :: "('ewf, 'vmdk, 'fd) libs \<Rightarrow> 'ewf \<Rightarrow> reader" where
  "ImageReader_ReadFile lib fd physicalOffset len = ewf_Retrieve lib fd physicalOffset len"

definition VMDKReader_CreateHandler :: "('ewf, 'vmdk, 'fd) libs \<Rightarrow> string \<Rightarrow> 'vmdk go" where
  "VMDKReader_CreateHandler lib p =
     (if ToLower (path_Ext p) = ''.vmdk'' then
        let vmdkimage = vmdk_Image lib p in case vmdk_Parent lib vmdkimage of
            Some (Some parent) \<Rightarrow> ret (vmdk_SetParent lib vmdkimage parent)
          | _ \<Rightarrow> ret vmdkimage
      else panic (Explicit_panic ''only VMDK Sparse  images are supported''))"

definition VMDKReader_ReadFile :: "('ewf, 'vmdk, 'fd) libs \<Rightarrow> 'vmdk \<Rightarrow> reader" where
  "VMDKReader_ReadFile lib fd physicalOffset len = vmdk_Retrieve lib fd physicalOffset len"

definition VMDKReader_GetDiskSize :: "('ewf, 'vmdk, 'fd) libs \<Rightarrow> 'vmdk \<Rightarrow> i64" where
  "VMDKReader_GetDiskSize lib fd = vmdk_Size lib fd"

definition WindowsReader_CreateHandler :: "('ewf, 'vmdk, 'fd) libs \<Rightarrow> string \<Rightarrow> 'fd go" where
  "WindowsReader_CreateHandler lib a_file = (case CreateFileW lib a_file of None \<Rightarrow> log_Fatal | Some fd \<Rightarrow> ret fd)"

definition WindowsReader_GetDiskSize :: "('ewf, 'vmdk, 'fd) libs \<Rightarrow> 'fd \<Rightarrow> i64 go" where
  "WindowsReader_GetDiskSize lib fd = (case Geometry lib fd of None \<Rightarrow> log_Fatal | Some g \<Rightarrow> ret (GetDiskSize g))"

text \<open>The interface \<open>DiskReader\<close>: the readers a mode selects. For another mode the interface is nil.\<close>

datatype ('ewf, 'vmdk, 'fd) DiskReader = DWindows 'fd | DImage 'ewf | DVMDK 'vmdk

definition GetHandler :: "('ewf, 'vmdk, 'fd) libs \<Rightarrow> string \<Rightarrow> string \<Rightarrow> ('ewf, 'vmdk, 'fd) DiskReader go" where
  "GetHandler lib pathToDisk mode =
     (if mode = ''physicalDrive'' then gbind (WindowsReader_CreateHandler lib pathToDisk) (\<lambda>fd. ret (DWindows fd))
      else if mode = ''ewf'' then gbind (ImageReader_CreateHandler lib pathToDisk) (\<lambda>fd. ret (DImage fd))
      else if mode = ''vmdk'' then gbind (VMDKReader_CreateHandler lib pathToDisk) (\<lambda>fd. ret (DVMDK fd))
      else panic Nil_dereference)"

fun handler_ReadFile :: "('ewf, 'vmdk, 'fd) libs \<Rightarrow> ('ewf, 'vmdk, 'fd) DiskReader \<Rightarrow> reader" where
  "handler_ReadFile lib (DWindows fd) = WindowsReader_ReadFile (ReadFileW lib fd)"
| "handler_ReadFile lib (DImage fd) = ImageReader_ReadFile lib fd"
| "handler_ReadFile lib (DVMDK fd) = VMDKReader_ReadFile lib fd"

fun handler_GetDiskSize :: "('ewf, 'vmdk, 'fd) libs \<Rightarrow> ('ewf, 'vmdk, 'fd) DiskReader \<Rightarrow> i64 go" where
  "handler_GetDiskSize lib (DWindows fd) = WindowsReader_GetDiskSize lib fd"
| "handler_GetDiskSize lib (DImage fd) = ret (ImageReader_GetDiskSize lib fd)"
| "handler_GetDiskSize lib (DVMDK fd) = ret (VMDKReader_GetDiskSize lib fd)"

text \<open>A physical drive honours the contract of a reader, whatever its system calls return; of the images it is the library's.\<close>

interpretation drive: disk_reader "handler_ReadFile lib (DWindows fd)" for lib fd
  using windows.disk_reader_axioms by simp

section \<open>The Unix reader\<close>

text \<open>It does not implement \<open>DiskReader\<close>, and nothing uses it. Its methods work on a copy of the reader: \<open>CreateHandler\<close> sets
  the descriptor of the copy. The system calls are arguments: \<open>open\<close> yields a descriptor, \<open>read\<close> what is read at an offset.\<close>

record UnixReader =
  ur_pathToDisk :: string
  ur_fd :: int

definition UnixReader_CreateHandler :: "(string \<Rightarrow> int option) \<Rightarrow> UnixReader \<Rightarrow> UnixReader go" where
  "UnixReader_CreateHandler open_call unixreader =
     (case open_call (ur_pathToDisk unixreader) of None \<Rightarrow> log_Fatal | Some fd \<Rightarrow>
        let copy = unixreader\<lparr>ur_fd := fd\<rparr> in ret unixreader)"

definition UnixReader_ReadFile :: "(int \<Rightarrow> i64 \<Rightarrow> nat \<Rightarrow> byte list option) \<Rightarrow> UnixReader \<Rightarrow> i64 \<Rightarrow> byte list \<Rightarrow> byte list go" where
  "UnixReader_ReadFile read_call unixreader buf_pointer buffer =
     (case read_call (ur_fd unixreader) buf_pointer (length buffer) of
         None \<Rightarrow> log_Fatal
       | Some bs \<Rightarrow> ret (take (length buffer) bs @ drop (length bs) buffer))"

definition UnixReader_GetDiskSize :: "UnixReader \<Rightarrow> i64" where
  "UnixReader_GetDiskSize unixreader = 0"

text \<open>So an opened reader still has the descriptor 0 of its zero value, and reads the standard input.\<close>

lemma UnixReader_reads_stdin:
  assumes "UnixReader_CreateHandler open_call \<lparr>ur_pathToDisk = p, ur_fd = 0\<rparr> = ret r"
  shows "UnixReader_ReadFile read_call r off buffer = UnixReader_ReadFile read_call \<lparr>ur_pathToDisk = p, ur_fd = 0\<rparr> off buffer \<and> ur_fd r = 0"
  using assms by (auto simp: UnixReader_CreateHandler_def log_Fatal_def Let_def split: option.splits)

section \<open>The disk\<close>

definition physical_drive :: "int \<Rightarrow> string" where
  "physical_drive n = [CHR 0x5C, CHR 0x5C] @ ''.'' @ [CHR 0x5C] @ ''PHYSICALDRIVE'' @ show_int n"

definition Disk_Initialize :: "('ewf, 'vmdk, 'fd) libs \<Rightarrow> string \<Rightarrow> int \<Rightarrow> string \<Rightarrow> ('ewf, 'vmdk, 'fd) DiskReader go" where
  "Disk_Initialize lib evidencefile physicaldrive vmdkfile =
     (if evidencefile \<noteq> [] then GetHandler lib evidencefile ''ewf''
      else if physicaldrive \<noteq> - 1 then GetHandler lib (physical_drive physicaldrive) ''physicalDrive''
      else GetHandler lib vmdkfile ''vmdk'')"

section \<open>Which files are read as evidence\<close>

lemma path_Ext_base: "CHR ''/'' \<notin> set e \<Longrightarrow> CHR ''.'' \<notin> set e \<Longrightarrow> path_Ext (base @ CHR ''.'' # e) = CHR ''.'' # e"
proof -
  assume e: "CHR ''/'' \<notin> set e" "CHR ''.'' \<notin> set e"
  have "CHR ''/'' \<notin> set xs \<Longrightarrow> CHR ''.'' \<notin> set xs \<Longrightarrow> ext_of (xs @ CHR ''.'' # ys) acc = CHR ''.'' # rev xs @ acc" for xs ys acc
    by (induction xs arbitrary: acc) auto
  from this [of "rev e" "rev base" "[]"] e show ?thesis by (simp add: path_Ext_def)
qed

text \<open>The end of the name of a segment: a dot, an E in upper or lower case, and one or two letters or digits.\<close>

definition segment_name :: "string \<Rightarrow> bool" where
  "segment_name name \<longleftrightarrow> (\<exists>base e k. name = base @ [CHR ''.'', e] @ k \<and> e \<in> {CHR ''e'', CHR ''E''} \<and> length k \<in> {1, 2} \<and>
     set k \<subseteq> set ''abcdefghijklmnopqrstuvwxyzABCDEFGHIJKLMNOPQRSTUVWXYZ0123456789'')"

lemma alnum_chars: "alnum c \<longleftrightarrow> c \<in> set ''abcdefghijklmnopqrstuvwxyzABCDEFGHIJKLMNOPQRSTUVWXYZ0123456789''"
proof -
  have "\<forall>c \<in> set (Enum.enum :: char list). alnum c \<longleftrightarrow>
      c \<in> set ''abcdefghijklmnopqrstuvwxyzABCDEFGHIJKLMNOPQRSTUVWXYZ0123456789''" by code_simp
  then show ?thesis by (simp only: enum_UNIV) blast
qed

lemma evidence_name_segment: "evidence_name name \<longleftrightarrow> segment_name name"
proof
  assume e: "evidence_name name"
  then obtain a b c cs where r: "rev name = a # b # c # cs" by (auto simp: evidence_name_def split: list.splits)
  then have n: "name = rev cs @ [c, b, a]" using rev_rev_ident [of name] by simp
  have a: "alnum a" using e by (simp add: evidence_name_def r)
  from e consider "b \<in> {CHR ''e'', CHR ''E''}" "c = CHR ''.''"
    | ds where "alnum b" "c \<in> {CHR ''e'', CHR ''E''}" "cs = CHR ''.'' # ds"
    by (cases cs) (auto simp: evidence_name_def r)
  then show "segment_name name"
  proof cases
    case 1
    then have "name = rev cs @ [CHR ''.'', b] @ [a]" using n by simp
    then show ?thesis using 1 a unfolding segment_name_def alnum_chars
      by (intro exI [of _ "rev cs"] exI [of _ b] exI [of _ "[a]"]) simp
  next
    case 2
    then have "name = rev ds @ [CHR ''.'', c] @ [b, a]" using n by simp
    then show ?thesis using 2 a unfolding segment_name_def alnum_chars
      by (intro exI [of _ "rev ds"] exI [of _ c] exI [of _ "[b, a]"]) simp
  qed
next
  assume "segment_name name"
  then obtain base e k where k: "name = base @ [CHR ''.'', e] @ k" "e \<in> {CHR ''e'', CHR ''E''}" "length k \<in> {1, 2}" "\<forall>c \<in> set k. alnum c"
    unfolding segment_name_def subset_eq Ball_def alnum_chars by blast
  from k(3) consider a where "k = [a]" | b a where "k = [b, a]"
    by (auto simp: length_Suc_conv numeral_2_eq_2)
  then show "evidence_name name" using k by cases (auto simp: evidence_name_def)
qed

text \<open>C40: Opening an EWF image. A path with the extension of a first segment in a directory that can be listed
  opens; any other extension panics. The segments handed to the library are exactly the files of the directory, in
  its order and without its directories, whose names end like a segment, in a dot, an E in either case and one or
  two letters or digits, whatever the part of their names before it: two images in one directory are
  opened as one, whichever of them is asked for.\<close>

theorem GetHandler_evidence:
  assumes "ReadDir lib (dir_of lib p) = Some files"
  shows "(ToLower (path_Ext p) \<noteq> ''.e01'' \<longrightarrow>
      GetHandler lib p ''ewf'' = panic (Explicit_panic ''only EWF  images are supported'')) \<and>
    (ToLower (path_Ext p) = ''.e01'' \<longrightarrow>
      GetHandler lib p ''ewf'' = ret (DImage (ParseEvidence lib (map (\<lambda>(name, _). join_path lib (dir_of lib p) name)
        (filter (\<lambda>(name, isDir). \<not> isDir \<and> segment_name name) files)))) \<and>
      (\<forall>p'. dir_of lib p' = dir_of lib p \<and> ToLower (path_Ext p') = ''.e01'' \<longrightarrow>
        GetHandler lib p' ''ewf'' = GetHandler lib p ''ewf''))"
  using assms by (simp add: GetHandler_def ImageReader_CreateHandler_def FindEvidenceFiles_def evidence_name_segment)

text \<open>A directory with the first two segments of one image and the first of another.\<close>

definition sample_libs :: "(string list, string, unit) libs" where
  "sample_libs = \<lparr>dir_of = (\<lambda>_. ''/ev''), join_path = (\<lambda>a b. a @ ''/'' @ b),
     ReadDir = (\<lambda>_. Some [(''a.E01'', False), (''a.E02'', False), (''b.E01'', False), (''notes.txt'', False)]),
     ParseEvidence = id, ewf_Retrieve = (\<lambda>_ _ len. ret (replicate (unat len) 0)), ewf_ChunkSize = (\<lambda>_. 32768), ewf_NofChunks = (\<lambda>_. 2),
     vmdk_Image = id, vmdk_Parent = (\<lambda>_. None), vmdk_SetParent = (\<lambda>v _. v), vmdk_Retrieve = (\<lambda>_ _ len. ret (replicate (unat len) 0)),
     vmdk_Size = (\<lambda>_. 0), CreateFileW = (\<lambda>_. None), ReadFileW = (\<lambda>_ _ _ _. []), Geometry = (\<lambda>_. None)\<rparr>"

theorem GetHandler_evidence_witness:
  "GetHandler sample_libs ''/ev/a.E01'' ''ewf'' = ret (DImage [''/ev/a.E01'', ''/ev/a.E02'', ''/ev/b.E01''])"
proof -
  have d: "ReadDir sample_libs (dir_of sample_libs ''/ev/a.E01'') = Some [(''a.E01'', False), (''a.E02'', False), (''b.E01'', False), (''notes.txt'', False)]"
    by (simp add: sample_libs_def)
  have "path_Ext ''/ev/a.E01'' = ''.E01''" using path_Ext_base [of "''E01''" "''/ev/a''"] by simp
  then have x: "ToLower (path_Ext ''/ev/a.E01'') = ''.e01''" by (simp add: ToLower_def char_of_def bit_0 bit_Suc)
  have "segment_name ''a.E01''" "segment_name ''a.E02''" "segment_name ''b.E01''" "\<not> segment_name ''notes.txt''"
    unfolding evidence_name_segment [symmetric] by (simp_all add: evidence_name_def alnum_def)
  then show ?thesis using GetHandler_evidence [OF d] x by (simp add: sample_libs_def)
qed

end
