(* ===== verification/Hashing.thy ===== *)
theory Hashing
  imports Text
begin

text \<open>
  The digests of \<open>utils/hasher.go\<close>: MD5 and SHA-1 as the standard library computes them, over the words of
  the padded message in blocks of 64 bytes, and their hexadecimal form.
\<close>

section \<open>Padding and blocks\<close>

text \<open>The message is followed by the byte \<open>0x80\<close>, zeros up to 56 bytes in the last block, and its length in bits, in the
  byte order of the digest.\<close>

definition pad_zeros :: "nat \<Rightarrow> nat" where
  "pad_zeros n = (119 - n mod 64) mod 64"

definition word_bytes :: "nat \<Rightarrow> 'a::len word \<Rightarrow> byte list" where \<comment> \<open>the low bytes, the lowest first\<close>
  "word_bytes n w = map (\<lambda>i. ucast (drop_bit (8 * i) w)) [0..<n]"

definition padded :: "(byte list \<Rightarrow> byte list) \<Rightarrow> byte list \<Rightarrow> byte list" where
  "padded order m = m @ [0x80] @ replicate (pad_zeros (length m)) 0 @ order (word_bytes 8 (of_nat (8 * length m) :: u64))"

function blocks_of :: "nat \<Rightarrow> 'a list \<Rightarrow> 'a list list" where
  "blocks_of n xs = (if xs = [] \<or> n = 0 then [] else take n xs # blocks_of n (drop n xs))"
  by pat_completeness auto
termination
  by (relation "measure (\<lambda>(n, xs). length xs)") auto

declare blocks_of.simps [simp del]

fun word_of_bytes :: "byte list \<Rightarrow> u32" where
  "word_of_bytes [] = 0"
| "word_of_bytes (b # bs) = ucast b OR push_bit 8 (word_of_bytes bs)"

definition words_of :: "(byte list \<Rightarrow> byte list) \<Rightarrow> byte list \<Rightarrow> u32 list" where
  "words_of order block = map (\<lambda>w. word_of_bytes (order w)) (blocks_of 4 block)"

definition rotl :: "nat \<Rightarrow> u32 \<Rightarrow> u32" where
  "rotl n x = push_bit n x OR drop_bit (32 - n) x"

section \<open>MD5\<close>

definition md5_K :: "u32 list" where
  "md5_K = [0xd76aa478, 0xe8c7b756, 0x242070db, 0xc1bdceee, 0xf57c0faf, 0x4787c62a, 0xa8304613, 0xfd469501,
     0x698098d8, 0x8b44f7af, 0xffff5bb1, 0x895cd7be, 0x6b901122, 0xfd987193, 0xa679438e, 0x49b40821,
     0xf61e2562, 0xc040b340, 0x265e5a51, 0xe9b6c7aa, 0xd62f105d, 0x02441453, 0xd8a1e681, 0xe7d3fbc8,
     0x21e1cde6, 0xc33707d6, 0xf4d50d87, 0x455a14ed, 0xa9e3e905, 0xfcefa3f8, 0x676f02d9, 0x8d2a4c8a,
     0xfffa3942, 0x8771f681, 0x6d9d6122, 0xfde5380c, 0xa4beea44, 0x4bdecfa9, 0xf6bb4b60, 0xbebfbc70,
     0x289b7ec6, 0xeaa127fa, 0xd4ef3085, 0x04881d05, 0xd9d4d039, 0xe6db99e5, 0x1fa27cf8, 0xc4ac5665,
     0xf4292244, 0x432aff97, 0xab9423a7, 0xfc93a039, 0x655b59c3, 0x8f0ccc92, 0xffeff47d, 0x85845dd1,
     0x6fa87e4f, 0xfe2ce6e0, 0xa3014314, 0x4e0811a1, 0xf7537e82, 0xbd3af235, 0x2ad7d2bb, 0xeb86d391]"

definition md5_shifts :: "nat list" where
  "md5_shifts = concat (replicate 4 [7, 12, 17, 22]) @ concat (replicate 4 [5, 9, 14, 20]) @
     concat (replicate 4 [4, 11, 16, 23]) @ concat (replicate 4 [6, 10, 15, 21])"

type_synonym md5_state = "u32 \<times> u32 \<times> u32 \<times> u32"

text \<open>One of the 64 steps on a block with the words \<open>M\<close>: its number, constant and shift.\<close>

fun md5_step :: "u32 list \<Rightarrow> nat \<times> u32 \<times> nat \<Rightarrow> md5_state \<Rightarrow> md5_state" where
  "md5_step M (i, k, s) (a, b, c, d) =
     (let (f, g) = (if i < 16 then ((b AND c) OR (NOT b AND d), i)
          else if i < 32 then ((d AND b) OR (NOT d AND c), (5 * i + 1) mod 16)
          else if i < 48 then (b XOR c XOR d, (3 * i + 5) mod 16)
          else (c XOR (b OR NOT d), 7 * i mod 16))
      in (d, b + rotl s (a + f + k + M ! g), b, c))"

definition md5_steps :: "(nat \<times> u32 \<times> nat) list" where
  "md5_steps = zip [0..<64] (zip md5_K md5_shifts)"

fun md5_add :: "md5_state \<Rightarrow> md5_state \<Rightarrow> md5_state" where
  "md5_add (a, b, c, d) (a', b', c', d') = (a + a', b + b', c + c', d + d')"

definition md5_block :: "byte list \<Rightarrow> md5_state \<Rightarrow> md5_state" where
  "md5_block block st = md5_add st (fold (md5_step (words_of id block)) md5_steps st)"

definition MD5_Sum :: "byte list \<Rightarrow> byte list" where
  "MD5_Sum data =
     (case fold md5_block (blocks_of 64 (padded id data)) (0x67452301, 0xefcdab89, 0x98badcfe, 0x10325476) of
        (a, b, c, d) \<Rightarrow> concat (map (\<lambda>w. word_bytes 4 w) [a, b, c, d]))"

section \<open>SHA-1\<close>

text \<open>The schedule is kept with its newest word first.\<close>

definition sha1_extend :: "u32 list \<Rightarrow> u32 list" where
  "sha1_extend ws = rotl 1 (ws ! 2 XOR ws ! 7 XOR ws ! 13 XOR ws ! 15) # ws"

definition sha1_schedule :: "u32 list \<Rightarrow> u32 list" where
  "sha1_schedule block = rev (fold (\<lambda>_. sha1_extend) [0..<64 :: nat] (rev block))"

type_synonym sha1_state = "u32 \<times> u32 \<times> u32 \<times> u32 \<times> u32"

fun sha1_step :: "nat \<times> u32 \<Rightarrow> sha1_state \<Rightarrow> sha1_state" where
  "sha1_step (i, w) (a, b, c, d, e) =
     (let (f, k) = (if i < 20 then ((b AND c) OR (NOT b AND d), 0x5A827999)
          else if i < 40 then (b XOR c XOR d, 0x6ED9EBA1)
          else if i < 60 then ((b AND c) OR (b AND d) OR (c AND d), 0x8F1BBCDC)
          else (b XOR c XOR d, 0xCA62C1D6))
      in (rotl 5 a + f + e + k + w, a, rotl 30 b, c, d))"

fun sha1_add :: "sha1_state \<Rightarrow> sha1_state \<Rightarrow> sha1_state" where
  "sha1_add (a, b, c, d, e) (a', b', c', d', e') = (a + a', b + b', c + c', d + d', e + e')"

definition sha1_block :: "byte list \<Rightarrow> sha1_state \<Rightarrow> sha1_state" where
  "sha1_block block st = sha1_add st (fold sha1_step (zip [0..<80] (sha1_schedule (words_of rev block))) st)"

definition SHA1_Sum :: "byte list \<Rightarrow> byte list" where
  "SHA1_Sum data =
     (case fold sha1_block (blocks_of 64 (padded rev data)) (0x67452301, 0xEFCDAB89, 0x98BADCFE, 0x10325476, 0xC3D2E1F0) of
        (a, b, c, d, e) \<Rightarrow> concat (map (\<lambda>w. rev (word_bytes 4 w)) [a, b, c, d, e]))"

section \<open>The hasher\<close>

definition GetSHA1 :: "byte list \<Rightarrow> string" where
  "GetSHA1 data = Hexify (SHA1_Sum data)"

definition GetMD5 :: "byte list \<Rightarrow> string" where
  "GetMD5 data = Hexify (MD5_Sum data)"

section \<open>The blocks of a message\<close>

lemma pad_zeros_eq: "pad_zeros n = (if n mod 64 \<le> 55 then 55 - n mod 64 else 119 - n mod 64)"
proof (cases "n mod 64 \<le> 55")
  case True
  then have "119 - n mod 64 = 55 - n mod 64 + 64" by simp
  then have "pad_zeros n = (55 - n mod 64) mod 64" unfolding pad_zeros_def by (simp only: mod_add_self2)
  then show ?thesis using True by simp
qed (simp add: pad_zeros_def)

lemma length_padded:
  assumes "\<And>xs. length (order xs) = length xs"
  shows "length (padded order m) mod 64 = 0"
proof -
  let ?r = "length m mod 64"
  have r: "?r < 64" by simp
  have "?r + 9 + pad_zeros (length m) = 64 \<or> ?r + 9 + pad_zeros (length m) = 128"
    using r unfolding pad_zeros_eq by auto
  moreover have "(length m + 9 + pad_zeros (length m)) mod 64 = (?r + 9 + pad_zeros (length m)) mod 64"
    by (metis mod_add_left_eq)
  ultimately have "(length m + 9 + pad_zeros (length m)) mod 64 = 0" by (elim disjE) simp_all
  with assms show ?thesis by (simp add: padded_def word_bytes_def add.commute add.left_commute)
qed

lemma concat_blocks_of: "0 < n \<Longrightarrow> concat (blocks_of n xs) = xs"
proof (induction n xs rule: blocks_of.induct)
  case (1 n xs)
  then show ?case by (subst blocks_of.simps) auto
qed

lemma blocks_of_full: "0 < n \<Longrightarrow> length xs mod n = 0 \<Longrightarrow> b \<in> set (blocks_of n xs) \<Longrightarrow> length b = n"
proof (induction n xs rule: blocks_of.induct)
  case (1 n xs)
  show ?case
  proof (cases "xs = []")
    case True
    with "1.prems" show ?thesis by (subst (asm) blocks_of.simps) simp
  next
    case False
    then have n: "n \<le> length xs" using "1.prems" by (metis length_greater_0_conv mod_less not_le_imp_less less_not_refl)
    then have "length (drop n xs) mod n = 0" using "1.prems" by (simp add: le_mod_geq)
    moreover have "b = take n xs \<or> b \<in> set (blocks_of n (drop n xs))"
      using "1.prems"(1,3) False by (subst (asm) blocks_of.simps) auto
    ultimately show ?thesis using "1.IH" "1.prems"(1) n False by auto
  qed
qed

lemma length_digests: "length (MD5_Sum data) = 16" "length (SHA1_Sum data) = 20"
  by (simp_all add: MD5_Sum_def SHA1_Sum_def word_bytes_def split: prod.splits)

text \<open>A digest in the kernel.\<close>

lemma MD5_abc: "GetMD5 [0x61, 0x62, 0x63] = ''900150983cd24fb0d6963f7d28e17f72''"
  by code_simp

end
