(* ===== verification/Logging.thy ===== *)
theory Logging
  imports Go_Prelude
begin

text \<open>
  The log of \<open>logger/logger.go\<close>: three loggers of the standard library that write to one file, and a flag. A line
  is what \<open>Println\<close> writes, without the date and time behind the prefix.
\<close>

record Logger =
  lg_info :: "string option" \<comment> \<open>the prefix of the logger, or nil\<close>
  lg_warning :: "string option"
  lg_error :: "string option"
  lg_active :: bool

definition zero_Logger :: Logger where
  "zero_Logger = \<lparr>lg_info = None, lg_warning = None, lg_error = None, lg_active = False\<rparr>"

text \<open>The flag is whether the log file can be opened; if not, the program exits.\<close>

definition InitializeLogger :: "bool \<Rightarrow> bool \<Rightarrow> Logger go" where
  "InitializeLogger opened active =
     (if active then
        (if opened then ret \<lparr>lg_info = Some ''MFTExtractor|INFO: '', lg_warning = Some ''MFTExtractor|WARNING: '',
           lg_error = Some ''MFTExtractor|ERROR: '', lg_active = active\<rparr>
         else panic (Explicit_panic ''log.Fatal''))
      else ret (zero_Logger\<lparr>lg_active := active\<rparr>))"

definition Println :: "string option \<Rightarrow> string \<Rightarrow> string list \<Rightarrow> string list go" where
  "Println l msg log = (case l of None \<Rightarrow> panic Nil_dereference | Some prefix \<Rightarrow> ret (log @ [prefix @ msg]))"

definition Info :: "Logger \<Rightarrow> string \<Rightarrow> string list \<Rightarrow> string list go" where
  "Info logger msg log = (if lg_active logger then Println (lg_info logger) msg log else ret log)"

definition Error :: "Logger \<Rightarrow> string \<Rightarrow> string list \<Rightarrow> string list go" where
  "Error logger msg log = (if lg_active logger then Println (lg_error logger) msg log else ret log)"

definition Warning :: "Logger \<Rightarrow> string \<Rightarrow> string list \<Rightarrow> string list go" where
  "Warning logger msg log = (if lg_active logger then Println (lg_warning logger) msg log else ret log)"

section \<open>Logging never fails\<close>

text \<open>The global logger is the zero value or what \<open>InitializeLogger\<close> made.\<close>

definition usable :: "Logger \<Rightarrow> bool" where
  "usable l \<longleftrightarrow> (lg_active l \<longrightarrow> lg_info l \<noteq> None \<and> lg_warning l \<noteq> None \<and> lg_error l \<noteq> None)"

lemma usable_loggers: "usable zero_Logger" "InitializeLogger opened active = ret l \<Longrightarrow> usable l"
  by (auto simp: usable_def zero_Logger_def InitializeLogger_def split: if_splits)

text \<open>With such a logger no message panics, and an inactive one writes nothing: this is why the model of the rest of
  the program leaves the messages out.\<close>

lemma logging_returns:
  assumes "usable l" and "write \<in> {Info, Error, Warning}"
  shows "\<exists>lines. write l msg log = ret (log @ lines) \<and> (lines = [] \<longleftrightarrow> \<not> lg_active l)"
  using assms by (auto simp: usable_def Info_def Error_def Warning_def Println_def)

end
