(* ===== verification/Main_Program.thy ===== *)
theory Main_Program
  imports Command_Line Image_Readers Hashing Logging
begin

text \<open>
  The program of \<open>main.go\<close> from its arguments to what it prints and which files it leaves: the flags become the options and
  the reporter, and a disk or a file with the table is worked on. Of the output, the messages about progress are left out.
\<close>

section \<open>Surroundings\<close>

text \<open>What the program finds outside: the libraries of the readers, the functions of the standard library on paths, the orders
  of ranges over maps, the rendering of JSON, the text of the error for a missing file, the time as the name of the log
  shows it, whether the log file can be opened, what the loggers write to it during the run, the spare capacity of buffers,
  the sort, and the choice of the scheduler at the end of the program.\<close>

record ('ewf, 'vmdk, 'fd) env =
  env_libs :: "('ewf, 'vmdk, 'fd) libs"
  env_join :: "string \<Rightarrow> string \<Rightarrow> string"
  env_joins :: "string list \<Rightarrow> string"
  env_names :: "(string \<rightharpoonup> string) \<Rightarrow> string list"
  env_order :: "(nat \<rightharpoonup> Records) \<Rightarrow> nat list"
  env_json :: "string \<Rightarrow> string"
  env_enoent :: string
  env_now :: string
  env_log_opened :: bool
  env_logged :: "byte list"
  env_slack :: nat
  env_sort :: "IndexEntries \<Rightarrow> IndexEntries"
  env_late :: bool

section \<open>Hashing the exported files\<close>

definition hash_file :: "('ewf, 'vmdk, 'fd) env \<Rightarrow> Exporter \<Rightarrow> files \<Rightarrow> string \<Rightarrow> printed" where
  "hash_file env exp fs fname =
     (let path = env_join env (Location exp) fname in case fs path of
         None \<Rightarrow> [(''ERROR %s'', [AStr (''open '' @ path @ '': '' @ env_enoent env)])]
       | Some data \<Rightarrow>
           if Hash exp = ''MD5'' then [(ln ''File %s has %s %s '', [AStr fname, AStr (Hash exp), AStr (GetMD5 data)])]
           else if Hash exp = ''SHA1'' then [(ln ''File %s has %s %s '', [AStr fname, AStr (Hash exp), AStr (GetSHA1 data)])]
           else [])"

definition HashFiles :: "('ewf, 'vmdk, 'fd) env \<Rightarrow> Records \<Rightarrow> Exporter \<Rightarrow> Records \<Rightarrow> files \<Rightarrow> printed go" where
  "HashFiles env tbl exp records fs =
     (if Hash exp \<noteq> ''MD5'' \<and> Hash exp \<noteq> ''SHA1'' then
        ret [(ln ''Only Supported Hashes are MD5 or SHA1 and not %s!'', [AStr (Hash exp)])]
      else gbind (show_all (\<lambda>r. gbind (GetFname tbl r) (\<lambda>fname. ret (hash_file env exp fs fname))) records) (\<lambda>out.
        ret ((ln ''Hashing Stage'', []) # out)))"

section \<open>A disk\<close>

text \<open>The state the loop over the partitions works on: what is printed, the exported files, the journal records, the tree.\<close>

record Outcome =
  out_printed :: printed
  out_files :: files
  out_usnjrnl :: "UsnRecord list"
  out_tree :: Tree

definition main_partition ::
  "('ewf, 'vmdk, 'fd) env \<Rightarrow> reader \<Rightarrow> i64 \<Rightarrow> Options \<Rightarrow> Reporter \<Rightarrow> Disk \<Rightarrow> nat \<Rightarrow> Records \<Rightarrow> Outcome \<Rightarrow> Outcome go" where
  "main_partition env rd diskSize opts rp physicalDisk partitionId tbl out =
     (let exp = opt_exporter opts in
     gbind (ApplyFilters (env_joins env) tbl (registered opts) tbl) (\<lambda>records.
     gbind (if Location exp \<noteq> [] then ExportRecords (env_join env) rd diskSize tbl exp records physicalDisk partitionId (out_files out)
         else ret (out_files out)) (\<lambda>fs.
     gbind (if Location exp \<noteq> [] \<and> Hash exp \<noteq> [] then HashFiles env tbl exp records fs else ret []) (\<lambda>hashes.
     gbind (if opt_usnjrnl opts then Usn_Process rd diskSize tbl physicalDisk partitionId records else ret (out_usnjrnl out)) (\<lambda>us.
     gbind (if opt_buildtree opts then Build tbl records (out_tree out) else ret (out_tree out)) (\<lambda>tree.
     gbind (Reporter_Show (env_names env) (env_joins env) rp tbl records us (int partitionId) tree) (\<lambda>shown.
       ret \<lparr>out_printed = out_printed out @ hashes @ shown, out_files = fs, out_usnjrnl = us, out_tree = tree\<rparr>)))))))"

text \<open>A range over a map visits its keys in an order that the language leaves open. The size of the disk is asked for at
  once, in the code by each operation that needs it.\<close>

definition main_disk ::
  "('ewf, 'vmdk, 'fd) env \<Rightarrow> flags \<Rightarrow> files \<Rightarrow> Outcome go" where
  "main_disk env fl fs =
     (let opts = options_of fl in
     gbind (Disk_Initialize (env_libs env) (str_flag fl ''evidence'') (int_flag fl ''physicaldrive'') (str_flag fl ''vmdk'')) (\<lambda>handler.
     gbind (handler_GetDiskSize (env_libs env) handler) (\<lambda>diskSize.
     let rd = handler_ReadFile (env_libs env) handler in
     gbind (Disk_Process rd diskSize (env_slack env) (env_sort env) (opt_partitionNum opts) (GetEntriesInt (opt_MFTSelectedEntries opts))
         (opt_fromMFTEntry opts) (opt_toMFTEntry opts) empty_Disk) (\<lambda>(physicalDisk, recordsPerPartition).
     gbind (show_if (bool_flag fl ''listpartitions'') (ListPartitions physicalDisk)) (\<lambda>listed.
     gbind (show_if (bool_flag fl ''volinfo'') (ShowVolumeInfo (env_json env) physicalDisk)) (\<lambda>volumes.
     gbind (if opt_collectUnallocated opts then ExportUnallocated (env_late env) (env_join env) rd (opt_exporter opts) physicalDisk fs
         else ret fs) (\<lambda>fs.
     gfold (\<lambda>partitionId out. main_partition env rd diskSize opts (reporter_of fl) physicalDisk partitionId
         (case recordsPerPartition partitionId of None \<Rightarrow> [] | Some rs \<Rightarrow> rs) out)
       (env_order env recordsPerPartition)
       \<lparr>out_printed = listed @ volumes, out_files = fs, out_usnjrnl = [], out_tree = \<lparr>tree_root = None\<rparr>\<rparr>)))))))"

section \<open>A file with the table\<close>

definition ReadFile :: "files \<Rightarrow> string \<Rightarrow> byte list option" where
  "ReadFile fs inputfile = fs inputfile"

definition main_file :: "('ewf, 'vmdk, 'fd) env \<Rightarrow> flags \<Rightarrow> files \<Rightarrow> printed go" where
  "main_file env fl fs =
     (let inputfile = str_flag fl ''MFT'' in case ReadFile fs inputfile of
         None \<Rightarrow> ret [(''err %s in getting handle of file '', [AStr (''open '' @ inputfile @ '': '' @ env_enoent env)])]
       | Some data \<Rightarrow>
           let opts = options_of fl in
           gbind (table_of_file (env_slack env) opts data) (\<lambda>t.
           gbind (records_and_tree (env_joins env) opts t) (\<lambda>(records, tree).
             Reporter_Show (env_names env) (env_joins env) (reporter_of fl) (Records t) records [] 0 tree)))"

section \<open>The program\<close>

definition on_disk_asked :: "flags \<Rightarrow> bool" where
  "on_disk_asked fl \<longleftrightarrow> str_flag fl ''evidence'' \<noteq> [] \<or> int_flag fl ''physicaldrive'' \<noteq> - 1 \<or> str_flag fl ''vmdk'' \<noteq> []"

text \<open>The log file, which is created or opened to append to. The messages are not modelled: what they come to is
  appended at the end.\<close>

definition log_path :: "('ewf, 'vmdk, 'fd) env \<Rightarrow> string" where
  "log_path env = ''logs'' @ env_now env @ ''.txt''"

definition write_log :: "('ewf, 'vmdk, 'fd) env \<Rightarrow> Logger \<Rightarrow> byte list \<Rightarrow> files \<Rightarrow> files" where
  "write_log env logger lines fs = (if lg_active logger then WriteFile (log_path env) lines fs else fs)"

text \<open>A wrong argument ends the program with its error. Otherwise the result is what is printed and the files that are left.\<close>

definition main :: "('ewf, 'vmdk, 'fd) env \<Rightarrow> string list \<Rightarrow> files \<Rightarrow> (flag_error + printed \<times> files) go" where
  "main env args fs = (case flag_parse declared_flags args of
       Inl e \<Rightarrow> ret (Inl e)
     | Inr (fl, _) \<Rightarrow>
         gbind (if bool_flag fl ''log'' then InitializeLogger (env_log_opened env) True else ret zero_Logger) (\<lambda>logger.
         let fs = write_log env logger [] fs; logged = write_log env logger (env_logged env) in
         if on_disk_asked fl then gbind (main_disk env fl fs) (\<lambda>out. ret (Inr (out_printed out, logged (out_files out))))
         else if str_flag fl ''MFT'' \<noteq> ''Disk MFT'' then gbind (main_file env fl fs) (\<lambda>out. ret (Inr (out, logged fs)))
         else ret (Inr ([], logged fs))))"

section \<open>What is hashed\<close>

definition digest_line :: "Exporter \<Rightarrow> string \<Rightarrow> byte list \<Rightarrow> string \<times> arg list" where
  "digest_line exp fname data = (ln ''File %s has %s %s '',
     [AStr fname, AStr (Hash exp), AStr (if Hash exp = ''MD5'' then GetMD5 data else GetSHA1 data)])"

lemma show_all_ret:
  "show_all (\<lambda>r. gbind (f r) (\<lambda>n. ret (g n))) rs = ret out \<Longrightarrow> \<exists>ns. gmap f rs = ret ns \<and> out = concat (map g ns)"
proof (induction rs arbitrary: out)
  case (Cons r rs)
  then obtain n o' where "f r = ret n" "show_all (\<lambda>r. gbind (f r) (\<lambda>n. ret (g n))) rs = ret o'" "out = g n @ o'"
    by (auto simp: show_all_def)
  with Cons.IH [of o'] show ?case by auto
qed (simp add: show_all_def)

text \<open>C38: Hashing what was exported. After the worker's files have been exported and hashed: without the strategy \<open>Id\<close> the
  line of a name that the worker sent is the digest of the last content sent under it; with the strategy
  \<open>Id\<close> the files have other names than those that are opened, so that, unless an older file or an export happens to have that very path,
  every line is an error and nothing is hashed.\<close>

theorem HashFiles_exported:
  assumes "ExportRecords (env_join env) rd diskSize tbl exp records disk k fs = ret fs'"
    and "HashFiles env tbl exp records fs' = ret out"
    and "Location exp \<noteq> []" and "records \<noteq> []" and "Hash exp \<in> {''MD5'', ''SHA1''}"
  shows "\<exists>results names. Worker rd diskSize tbl disk k records = ret results \<and> gmap (GetFname tbl) records = ret names \<and>
    out = (ln ''Hashing Stage'', []) # concat (map (hash_file env exp fs') names) \<and>
    (\<forall>xs f ys. Strategy exp \<noteq> ''Id'' \<and> results = xs @ f # ys \<and>
      (\<forall>g \<in> set ys. env_join env (Location exp) (af_Fname g) \<noteq> env_join env (Location exp) (af_Fname f)) \<longrightarrow>
      hash_file env exp fs' (af_Fname f) = [digest_line exp (af_Fname f) (af_Content f)]) \<and>
    (\<forall>n. Strategy exp = ''Id'' \<and> fs (env_join env (Location exp) n) = None \<and>
      (\<forall>f \<in> set results. env_join env (Location exp) (''['' @ show_int (af_Id f) @ '']'' @ af_Fname f) \<noteq> env_join env (Location exp) n) \<longrightarrow>
      hash_file env exp fs' n = [(''ERROR %s'', [AStr (''open '' @ env_join env (Location exp) n @ '': '' @ env_enoent env)])])"
proof -
  obtain results where r: "Worker rd diskSize tbl disk k records = ret results" "fs' = ExportData (env_join env) exp results fs"
    using assms(1,3,4) by (auto simp: ExportRecords_def)
  obtain names where n: "gmap (GetFname tbl) records = ret names"
      "out = (ln ''Hashing Stage'', []) # concat (map (hash_file env exp fs') names)"
    using assms(2,5) by (auto simp: HashFiles_def dest!: show_all_ret)
  have fs': "fs' = fs ++ map_of (rev (map (\<lambda>f. (export_path (env_join env) exp f, af_Content f)) results))"
    unfolding r(2) by (rule ExportData_eq)
  have "hash_file env exp fs' (af_Fname f) = [digest_line exp (af_Fname f) (af_Content f)]"
    if "Strategy exp \<noteq> ''Id''" "results = xs @ f # ys"
      "\<forall>g \<in> set ys. env_join env (Location exp) (af_Fname g) \<noteq> env_join env (Location exp) (af_Fname f)" for xs f ys
  proof -
    have p: "export_path (env_join env) exp g = env_join env (Location exp) (af_Fname g)" for g
      using that(1) by (simp add: export_path_def export_name_def)
    have "fs' (env_join env (Location exp) (af_Fname f)) = Some (af_Content f)"
      unfolding fs' that(2) p using that(3) by (intro map_add_find_right map_of_last) simp
    then show ?thesis using assms(5) by (auto simp: hash_file_def digest_line_def)
  qed
  moreover have "hash_file env exp fs' n = [(''ERROR %s'', [AStr (''open '' @ env_join env (Location exp) n @ '': '' @ env_enoent env)])]"
    if "Strategy exp = ''Id''" "fs (env_join env (Location exp) n) = None"
      "\<forall>f \<in> set results. env_join env (Location exp) (''['' @ show_int (af_Id f) @ '']'' @ af_Fname f) \<noteq> env_join env (Location exp) n" for n
  proof -
    have "map_of (rev (map (\<lambda>f. (export_path (env_join env) exp f, af_Content f)) results)) (env_join env (Location exp) n) = None"
      using that(1,3) by (auto simp: map_of_eq_None_iff export_path_def export_name_def)
    then have "fs' (env_join env (Location exp) n) = None" unfolding fs' using that(2) by (simp add: map_add_None)
    then show ?thesis by (simp add: hash_file_def Let_def)
  qed
  ultimately show ?thesis using r(1) n by blast
qed

section \<open>What the program writes\<close>

lemma fold_WriteFile_other: "p \<noteq> q \<Longrightarrow> fold (WriteFile q) bs fs p = fs p"
  by (induction bs arbitrary: fs) (simp_all add: WriteFile_def)

lemma ExportUnallocated_other:
  "ExportUnallocated late join rd exp disk fs = ret fs' \<Longrightarrow> p \<noteq> unallocated_path join exp \<Longrightarrow> fs' p = fs p"
  by (auto simp: ExportUnallocated_def fold_WriteFile_other split: prod.splits)

text \<open>A file that only grows.\<close>

definition grows :: "byte list option \<Rightarrow> byte list option \<Rightarrow> bool" where
  "grows old new \<longleftrightarrow> (\<forall>c. old = Some c \<longrightarrow> (\<exists>d. new = Some (c @ d)))"

lemma grows_refl [simp]: "grows x x"
  by (auto simp: grows_def)

lemma grows_trans: "grows x y \<Longrightarrow> grows y z \<Longrightarrow> grows x z"
  by (fastforce simp: grows_def)

lemma WriteFile_grows: "grows (fs p) (WriteFile q content fs p)"
  by (auto simp: grows_def WriteFile_def)

lemma fold_WriteFile_grows: "grows (fs p) (fold (WriteFile q) bs fs p)"
  by (induction bs arbitrary: fs) (auto intro: grows_trans WriteFile_grows)

lemma ExportUnallocated_grows: "ExportUnallocated late join rd exp disk fs = ret fs' \<Longrightarrow> grows (fs p) (fs' p)"
  by (auto simp: ExportUnallocated_def intro: fold_WriteFile_grows split: prod.splits)

lemma main_disk_files:
  assumes "main_disk env fl fs = ret out" and "env_order env Map.empty = []"
  shows "(\<forall>p. out_files out p \<noteq> fs p \<longrightarrow>
      bool_flag fl ''unallocated'' \<and> p = env_join env (str_flag fl ''location'') ''Unallocated'') \<and>
    (\<forall>p. grows (fs p) (out_files out p)) \<and>
    (\<not> bool_flag fl ''listpartitions'' \<and> \<not> bool_flag fl ''volinfo'' \<longrightarrow> out_printed out = [])"
proof -
  let ?opts = "options_of fl"
  obtain hd diskSize d m listed volumes fs' where
    d: "Disk_Process (handler_ReadFile (env_libs env) hd) diskSize (env_slack env) (env_sort env) (opt_partitionNum ?opts)
      (GetEntriesInt (opt_MFTSelectedEntries ?opts)) (opt_fromMFTEntry ?opts) (opt_toMFTEntry ?opts) empty_Disk = ret (d, m)"
    and l: "show_if (bool_flag fl ''listpartitions'') (ListPartitions d) = ret listed"
    and v: "show_if (bool_flag fl ''volinfo'') (ShowVolumeInfo (env_json env) d) = ret volumes"
    and u: "(if opt_collectUnallocated ?opts then ExportUnallocated (env_late env) (env_join env) (handler_ReadFile (env_libs env) hd)
      (opt_exporter ?opts) d fs else ret fs) = ret fs'"
    and out: "gfold (\<lambda>i out. main_partition env (handler_ReadFile (env_libs env) hd) diskSize ?opts (reporter_of fl) d i
      (case m i of None \<Rightarrow> [] | Some rs \<Rightarrow> rs) out) (env_order env m)
      \<lparr>out_printed = listed @ volumes, out_files = fs', out_usnjrnl = [], out_tree = \<lparr>tree_root = None\<rparr>\<rparr> = ret out"
    using assms(1) by (auto simp: main_disk_def Let_def)
  have "m = Map.empty" using d by (rule Disk_Process_empty)
  then have out': "out = \<lparr>out_printed = listed @ volumes, out_files = fs', out_usnjrnl = [], out_tree = \<lparr>tree_root = None\<rparr>\<rparr>"
    using out assms(2) by simp
  have "bool_flag fl ''unallocated'' \<and> p = env_join env (str_flag fl ''location'') ''Unallocated''" if "fs' p \<noteq> fs p" for p
    using u that by (fastforce simp: options_of_def unallocated_path_def dest: ExportUnallocated_other split: if_splits)
  moreover have "listed @ volumes = []" if "\<not> bool_flag fl ''listpartitions'' \<and> \<not> bool_flag fl ''volinfo''"
    using l v that by (simp add: show_if_def)
  moreover have "grows (fs p) (fs' p)" for p
    using u by (auto dest: ExportUnallocated_grows split: if_splits)
  ultimately show ?thesis using out' by auto
qed

text \<open>What becomes of the files, given that the work leaves \<open>fs'\<close>.\<close>

lemma InitializeLogger_active: "InitializeLogger opened True = ret logger \<Longrightarrow> lg_active logger"
  by (auto simp: InitializeLogger_def split: if_splits)

lemma write_log_other: "lg_active logger \<longrightarrow> p \<noteq> log_path env \<Longrightarrow> write_log env logger lines fs p = fs p"
  by (auto simp: write_log_def WriteFile_def)

lemma write_log_grows: "grows (fs p) (write_log env logger lines fs p)"
  by (simp add: write_log_def WriteFile_grows)

text \<open>C10: What the program writes. Whatever the arguments, the evidence and the libraries, when the program returns it has
  changed at most two files: the log, named after the time, when logging was asked for, and the file of the unallocated
  clusters in the export location, only from a disk and when it was asked for. The log is there then, and keeps what was in a
  file of its name. No file of a disk is ever exported, and, unless a listing is asked for, nothing is reported of it, since the
  loop over the partitions has nothing to visit.\<close>

theorem main_writes:
  assumes "main env args fs = ret (Inr (out, fs'))" and "env_order env Map.empty = []"
  shows "\<exists>fl rest. flag_parse declared_flags args = Inr (fl, rest) \<and>
    (\<forall>p. fs' p \<noteq> fs p \<longrightarrow> bool_flag fl ''log'' \<and> p = ''logs'' @ env_now env @ ''.txt'' \<or>
      on_disk_asked fl \<and> bool_flag fl ''unallocated'' \<and> p = env_join env (str_flag fl ''location'') ''Unallocated'') \<and>
    (bool_flag fl ''log'' \<longrightarrow> (\<exists>lines. fs' (''logs'' @ env_now env @ ''.txt'') =
      Some ((case fs (''logs'' @ env_now env @ ''.txt'') of None \<Rightarrow> [] | Some old \<Rightarrow> old) @ lines))) \<and>
    (on_disk_asked fl \<and> \<not> bool_flag fl ''listpartitions'' \<and> \<not> bool_flag fl ''volinfo'' \<longrightarrow> out = [])"
proof -
  obtain fl rest where fl: "flag_parse declared_flags args = Inr (fl, rest)"
    using assms(1) by (auto simp: main_def split: sum.splits)
  from assms(1) fl obtain logger where
    logger: "(if bool_flag fl ''log'' then InitializeLogger (env_log_opened env) True else ret zero_Logger) = ret logger"
    by (auto simp: main_def)
  then have active: "lg_active logger \<longleftrightarrow> bool_flag fl ''log''"
    by (auto simp: zero_Logger_def InitializeLogger_active split: if_splits)
  let ?fs = "write_log env logger [] fs"
  obtain ws where ws: "fs' = write_log env logger (env_logged env) ws" "\<forall>p. grows (?fs p) (ws p)"
      "\<forall>p. ws p \<noteq> ?fs p \<longrightarrow> on_disk_asked fl \<and> bool_flag fl ''unallocated'' \<and> p = env_join env (str_flag fl ''location'') ''Unallocated''"
      "on_disk_asked fl \<and> \<not> bool_flag fl ''listpartitions'' \<and> \<not> bool_flag fl ''volinfo'' \<longrightarrow> out = []"
  proof (cases "on_disk_asked fl")
    case False
    then have "fs' = write_log env logger (env_logged env) ?fs"
      using assms(1) fl logger by (auto simp: main_def Let_def split: if_splits)
    then show ?thesis using False by (intro that [of ?fs]) auto
  next
    case True
    with assms(1) fl logger obtain o' where o': "main_disk env fl ?fs = ret o'" "out = out_printed o'"
        "fs' = write_log env logger (env_logged env) (out_files o')"
      by (auto simp: main_def Let_def)
    from main_disk_files [OF o'(1) assms(2)] o' True show ?thesis by (intro that [of "out_files o'"]) auto
  qed
  have "fs' p = fs p" if "\<not> (bool_flag fl ''log'' \<and> p = log_path env)" "ws p = ?fs p" for p
    using that ws(1) active by (simp add: write_log_other)
  with ws(3) have "\<forall>p. fs' p \<noteq> fs p \<longrightarrow> bool_flag fl ''log'' \<and> p = log_path env \<or>
      on_disk_asked fl \<and> bool_flag fl ''unallocated'' \<and> p = env_join env (str_flag fl ''location'') ''Unallocated''" by blast
  moreover have "\<exists>lines. fs' (log_path env) = Some ((case fs (log_path env) of None \<Rightarrow> [] | Some old \<Rightarrow> old) @ lines)"
    if "bool_flag fl ''log''"
  proof -
    have "?fs (log_path env) = Some (case fs (log_path env) of None \<Rightarrow> [] | Some old \<Rightarrow> old)"
      using that active by (simp add: write_log_def WriteFile_def split: option.splits)
    moreover have "grows (?fs (log_path env)) (fs' (log_path env))"
      using grows_trans [OF ws(2) [rule_format]] write_log_grows [of ws "log_path env"] unfolding ws(1) by blast
    ultimately show ?thesis by (auto simp: grows_def)
  qed
  ultimately show ?thesis using fl ws(4) unfolding log_path_def by blast
qed

section \<open>What the program reports about a table file\<close>

text \<open>C9: Which reports of a table file succeed. Once the table of a file has been read and filtered, the program prints
  everything it is asked for and returns with the files unchanged, whatever the bytes of the file were, with
  three exceptions, in which it panics: the sizes of a record that has no file name (such as an
  unused slot of the table), the run lists of an attribute whose run list was not parsed, and the
  tree when none was built.\<close>

theorem main_reports:
  assumes "flag_parse declared_flags args = Inr (fl, rest)" and "\<not> on_disk_asked fl" and "\<not> bool_flag fl ''log''"
    and "fs (str_flag fl ''MFT'') = Some data" and "str_flag fl ''MFT'' \<noteq> ''Disk MFT''"
    and "main_MFT_file (env_joins env) (env_slack env) (options_of fl) data = ret (records, tree)"
  shows "(\<exists>out. main env args fs = ret (Inr (out, fs))) \<longleftrightarrow>
    \<not> ((bool_flag fl ''filesize'' \<or> bool_flag fl ''showfull'') \<and> (\<exists>r \<in> set records. FindAttribute r ''FileName'' = None)) \<and>
    \<not> ((bool_flag fl ''runlist'' \<or> bool_flag fl ''showfull'') \<and>
        (\<exists>r \<in> set records. \<exists>a \<in> set (FindNonResidentAttributes r). \<not> has_run_list a)) \<and>
    \<not> (bool_flag fl ''showtree'' \<and> tree_root tree = None)"
proof -
  obtain t where t: "table_of_file (env_slack env) (options_of fl) data = ret t" "records_and_tree (env_joins env) (options_of fl) t = ret (records, tree)"
    using assms(6) by (auto simp: main_MFT_file_def)
  let ?show = "Reporter_Show (env_names env) (env_joins env) (reporter_of fl) (Records t) records [] 0 tree"
  have "main env args fs = gbind ?show (\<lambda>out. ret (Inr (out, fs)))"
    using assms(1-5) t by (simp add: main_def main_file_def ReadFile_def write_log_def zero_Logger_def)
  then have "(\<exists>out. main env args fs = ret (Inr (out, fs))) \<longleftrightarrow> returns ?show"
    by (cases ?show rule: go_cases) auto
  moreover have "rep_ShowFileSize (reporter_of fl) = bool_flag fl ''filesize''" "rep_ShowFull (reporter_of fl) = bool_flag fl ''showfull''"
    "rep_ShowRunList (reporter_of fl) = bool_flag fl ''runlist''" "rep_ShowTree (reporter_of fl) = bool_flag fl ''showtree''"
    by (simp_all add: reporter_of_def)
  ultimately show ?thesis
    using main_MFT_file_table [OF assms(6)] by (simp add: Reporter_Show_returns unanswerable_def) blast
qed

section \<open>Sample invocations\<close>

definition sample_env :: "(string list, string, unit) env" where
  "sample_env = \<lparr>env_libs = sample_libs\<lparr>vmdk_Retrieve := (\<lambda>_. zero_reader), vmdk_Size := (\<lambda>_. 1000)\<rparr>, env_join = (\<lambda>a b. a @ ''/'' @ b),
     env_joins = concat, env_names = (\<lambda>_. []), env_order = (\<lambda>_. []), env_json = id, env_enoent = ''not found'',
     env_now = ''now'', env_log_opened = True, env_logged = [65], env_slack = 0, env_sort = id, env_late = False\<rparr>"

definition vmdk_args :: "string list" where
  "vmdk_args = [''-vmdk'', ''a.vmdk'', ''--log=true'']"

lemma vmdk_flags: "flag_parse declared_flags vmdk_args = Inr (declared_flags(''vmdk'' \<mapsto> StringFlag ''a.vmdk'', ''log'' \<mapsto> BoolFlag True), [])"
  using flag_parse_declared [of "[(''vmdk'', StringFlag ''a.vmdk''), (''log'', BoolFlag True)]"]
  by (simp add: vmdk_args_def declared_flags_def proper_name_def)

lemma vmdk_main: "\<exists>out fs'. main sample_env vmdk_args [''a'' \<mapsto> [1]] = ret (Inr (out, fs'))"
proof -
  let ?fl = "declared_flags(''vmdk'' \<mapsto> StringFlag ''a.vmdk'', ''log'' \<mapsto> BoolFlag True)"
  have f: "str_flag declared_flags ''evidence'' = []" "str_flag declared_flags ''entries'' = []" "int_flag declared_flags ''physicaldrive'' = - 1"
      "int_flag declared_flags ''fromEntry'' = - 1" "int_flag declared_flags ''partition'' = - 1"
      "int_flag declared_flags ''toEntry'' = MaxUint32"
      "\<not> bool_flag declared_flags ''listpartitions''" "\<not> bool_flag declared_flags ''volinfo''"
      "\<not> bool_flag declared_flags ''unallocated''"
    by (simp_all add: declared_flags_def str_flag_def bool_flag_def int_flag_def MaxUint32_def)
  obtain d where d: "Disk_Process zero_reader 1000 0 id (- 1) [] (- 1) MaxUint32 empty_Disk = ret (d, Map.empty)"
    using zero_disk_Process by blast
  have e: "GetEntriesInt [] = []" by (simp add: GetEntriesInt_def GetEntries_def)
  have x: "path_Ext ''a.vmdk'' = ''.vmdk''" using path_Ext_base [of "''vmdk''" "''a''"] by simp
  have h: "Disk_Initialize (env_libs sample_env) [] (- 1) ''a.vmdk'' = ret (DVMDK ''a.vmdk'')"
    by (simp add: Disk_Initialize_def GetHandler_def VMDKReader_CreateHandler_def x ToLower_def sample_env_def sample_libs_def
        char_of_def bit_0 bit_Suc)
  have r: "VMDKReader_ReadFile (env_libs sample_env) v = zero_reader" "VMDKReader_GetDiskSize (env_libs sample_env) v = 1000" for v
    by (simp_all add: sample_env_def VMDKReader_ReadFile_def VMDKReader_GetDiskSize_def fun_eq_iff)
  have opts: "opt_MFTSelectedEntries (options_of ?fl) = []" "opt_fromMFTEntry (options_of ?fl) = - 1" "opt_toMFTEntry (options_of ?fl) = MaxUint32"
      "opt_partitionNum (options_of ?fl) = - 1" "\<not> opt_collectUnallocated (options_of ?fl)"
    using f by (simp_all add: options_of_def flag_reads)
  have env: "env_slack sample_env = 0" "env_sort sample_env = id" "env_order sample_env m = []" for m
    by (simp_all add: sample_env_def)
  have fl: "str_flag ?fl ''evidence'' = []" "int_flag ?fl ''physicaldrive'' = - 1" "str_flag ?fl ''vmdk'' = ''a.vmdk''"
      "\<not> bool_flag ?fl ''listpartitions''" "\<not> bool_flag ?fl ''volinfo''"
    using f by (simp_all add: flag_reads)
  have "main_disk sample_env ?fl fs = ret \<lparr>out_printed = [], out_files = fs, out_usnjrnl = [], out_tree = \<lparr>tree_root = None\<rparr>\<rparr>" for fs
    by (simp add: main_disk_def fl opts env h r e d show_if_def Let_def)
  then show ?thesis
    using vmdk_flags f by (simp add: main_def flag_reads on_disk_asked_def InitializeLogger_def sample_env_def Let_def)
qed

theorem main_writes_witness:
  "\<exists>fs' lines. main sample_env vmdk_args [''a'' \<mapsto> [1]] = ret (Inr ([], fs')) \<and> fs' ''a'' = Some [1] \<and> fs' ''b'' = None \<and>
    fs' ''logsnow.txt'' = Some lines"
proof -
  let ?fl = "declared_flags(''vmdk'' \<mapsto> StringFlag ''a.vmdk'', ''log'' \<mapsto> BoolFlag True)"
  obtain out fs' where m: "main sample_env vmdk_args [''a'' \<mapsto> [1]] = ret (Inr (out, fs'))" using vmdk_main by blast
  have n: "\<not> bool_flag ?fl ''unallocated''" "on_disk_asked ?fl" "\<not> bool_flag ?fl ''listpartitions''" "\<not> bool_flag ?fl ''volinfo''"
      "bool_flag ?fl ''log''"
    by (simp_all add: flag_reads on_disk_asked_def) (simp_all add: declared_flags_def bool_flag_def)
  have "env_order sample_env Map.empty = []" by (simp add: sample_env_def)
  from main_writes [OF m this] vmdk_flags n have w: "out = []"
      "\<forall>p. fs' p \<noteq> [''a'' \<mapsto> [1]] p \<longrightarrow> p = ''logs'' @ env_now sample_env @ ''.txt''"
      "\<exists>lines. fs' (''logs'' @ env_now sample_env @ ''.txt'') = Some lines" by auto
  have l: "''logs'' @ env_now sample_env @ ''.txt'' = ''logsnow.txt''" by (simp add: sample_env_def)
  have "fs' p = [''a'' \<mapsto> [1]] p" if "p \<noteq> ''logsnow.txt''" for p
    using w(2) that unfolding l by blast
  from this [of "''a''"] this [of "''b''"] have "fs' ''a'' = Some [1]" "fs' ''b'' = None" by simp_all
  with m w(1,3) show ?thesis unfolding l by auto
qed

definition table_args :: "string list" where
  "table_args = [''-MFT'', ''t'', ''-location'', ''out'', ''-strategy'', ''Id'', ''--usnjrnl=true'', ''--tree=false'']"

theorem main_reports_witness:
  "\<exists>out. main sample_env table_args [''t'' \<mapsto> replicate 4096 0] = ret (Inr (out, [''t'' \<mapsto> replicate 4096 0]))"
proof -
  let ?s = "[(''MFT'', StringFlag ''t''), (''location'', StringFlag ''out''), (''strategy'', StringFlag ''Id''), (''usnjrnl'', BoolFlag True),
    (''tree'', BoolFlag False)]"
  let ?fl = "declared_flags ++ map_of (rev ?s)"
  have p: "flag_parse declared_flags table_args = Inr (?fl, [])"
    using flag_parse_declared [of ?s] by (simp add: table_args_def declared_flags_def proper_name_def)
  have o': "options_of ?fl = sample_options"
    by (simp add: options_of_def sample_options_def flag_reads)
      (simp add: declared_flags_def str_flag_def int_flag_def bool_flag_def MaxUint32_def)
  have t: "main_MFT_file (env_joins sample_env) (env_slack sample_env) (options_of ?fl) (replicate 4096 0) =
      ret (replicate 4 zero_Record, \<lparr>tree_root = None\<rparr>)"
    using zero_file_main unfolding o' by (simp add: sample_env_def)
  have n: "\<not> on_disk_asked ?fl" "\<not> bool_flag ?fl ''log''" "str_flag ?fl ''MFT'' = ''t''" "\<not> bool_flag ?fl ''filesize''"
      "\<not> bool_flag ?fl ''showfull''" "\<not> bool_flag ?fl ''runlist''" "\<not> bool_flag ?fl ''showtree''"
    by (simp_all add: on_disk_asked_def flag_reads) (simp_all add: declared_flags_def str_flag_def int_flag_def bool_flag_def)
  have "[''t'' \<mapsto> replicate 4096 0] (str_flag ?fl ''MFT'') = Some (replicate 4096 0)" "str_flag ?fl ''MFT'' \<noteq> ''Disk MFT''" using n(3) by simp_all
  from main_reports [where env = sample_env and fs = "[''t'' \<mapsto> replicate 4096 0]" and data = "replicate 4096 0", OF p n(1,2) this t] n
  show ?thesis by simp
qed

theorem HashFiles_exported_witness:
  "\<exists>fs' data. ExportRecords (env_join sample_env) sample_reader 1000 [] \<lparr>Location = ''out'', Hash = ''MD5'', Strategy = ''overwrite''\<rparr>
      [sample_nonresident] sample_export_disk 0 Map.empty = ret fs' \<and> data = [32, 33, 34, 35, 36, 37, 38, 39, 24, 25, 26, 27, 28, 29, 30, 31] \<and>
    HashFiles sample_env [] \<lparr>Location = ''out'', Hash = ''MD5'', Strategy = ''overwrite''\<rparr> [sample_nonresident] fs' =
      ret [(ln ''Hashing Stage'', []), (ln ''File %s has %s %s '', [AStr ''f'', AStr ''MD5'', AStr (GetMD5 data)])]"
proof -
  let ?exp = "\<lparr>Location = ''out'', Hash = ''MD5'', Strategy = ''overwrite''\<rparr>"
  let ?data = "[32, 33, 34, 35, 36, 37, 38, 39, 24, 25, 26, 27, 28, 29, 30, 31] :: byte list"
  obtain fs' where e: "ExportRecords (env_join sample_env) sample_reader 1000 [] ?exp [sample_nonresident] sample_export_disk 0 Map.empty = ret fs'"
    by (simp add: ExportRecords_def sample_Worker)
  obtain out where h: "HashFiles sample_env [] ?exp [sample_nonresident] fs' = ret out"
    by (simp add: HashFiles_def show_all_def sample_nonresident_facts)
  let ?f = "\<lparr>af_Fname = ''f'', af_Id = 40, af_Content = ?data\<rparr>"
  have w: "Worker sample_reader 1000 [] sample_export_disk 0 [sample_nonresident] = ret [?f]" using sample_Worker by simp
  obtain results names where n: "Worker sample_reader 1000 [] sample_export_disk 0 [sample_nonresident] = ret results"
      "gmap (GetFname []) [sample_nonresident] = ret names" "out = (ln ''Hashing Stage'', []) # concat (map (hash_file sample_env ?exp fs') names)"
      "\<forall>xs f ys. Strategy ?exp \<noteq> ''Id'' \<and> results = xs @ f # ys \<and>
        (\<forall>g \<in> set ys. env_join sample_env (Location ?exp) (af_Fname g) \<noteq> env_join sample_env (Location ?exp) (af_Fname f)) \<longrightarrow>
        hash_file sample_env ?exp fs' (af_Fname f) = [digest_line ?exp (af_Fname f) (af_Content f)]"
    using HashFiles_exported [OF e h] by auto
  have "names = [''f'']" using n(2) by (simp add: sample_nonresident_facts)
  moreover have "hash_file sample_env ?exp fs' ''f'' = [digest_line ?exp ''f'' ?data]"
    using n(4) [rule_format, of "[]" ?f "[]"] n(1) w by simp
  ultimately have "out = [(ln ''Hashing Stage'', []), digest_line ?exp ''f'' ?data]" using n(3) by simp
  then show ?thesis using e h by (intro exI [of _ fs'] exI [of _ ?data]) (simp add: digest_line_def)
qed

end
