(* ===== verification/Attribute_Methods.thy ===== *)
theory Attribute_Methods
  imports Reporting
begin

text \<open>
  The interface \<open>Attribute\<close> and the fourteen types that implement it (\<open>FS/NTFS/MFT/attributes\<close>). A value of a type points to
  its header, which is nil until \<open>SetHeader\<close> is called; a call on the interface selects the method of the dynamic type. It is
  shown that these calls are the operations on attributes that the rest of the development uses.
\<close>

section \<open>Method sets\<close>

type_synonym 'b headed = "AttributeHeader option \<times> 'b"

record 'b methods =
  m_SetHeader :: "AttributeHeader \<Rightarrow> 'b headed \<Rightarrow> 'b headed"
  m_GetHeader :: "'b headed \<Rightarrow> AttributeHeader go"
  m_Parse :: "slice \<Rightarrow> 'b headed \<Rightarrow> 'b headed go"
  m_FindType :: "'b headed \<Rightarrow> string go"
  m_IsNoNResident :: "'b headed \<Rightarrow> bool go"
  m_ShowInfo :: "'b headed \<Rightarrow> printed go"

definition the_header :: "'b headed \<Rightarrow> AttributeHeader go" where
  "the_header x = (case fst x of None \<Rightarrow> panic Nil_dereference | Some h \<Rightarrow> ret h)"

definition header_type :: "'b headed \<Rightarrow> string go" where
  "header_type x = gbind (the_header x) (\<lambda>h. ret (GetType h))"

text \<open>The methods on the header have the same bodies in every type but \<open>IndexRoot\<close>.\<close>

definition methods :: "(slice \<Rightarrow> 'b \<Rightarrow> 'b go) \<Rightarrow> ('b headed \<Rightarrow> printed go) \<Rightarrow> 'b methods" where
  "methods parse show = \<lparr>m_SetHeader = (\<lambda>h x. (Some h, snd x)), m_GetHeader = the_header,
     m_Parse = (\<lambda>d x. gbind (parse d (snd x)) (\<lambda>b. ret (fst x, b))), m_FindType = header_type,
     m_IsNoNResident = (\<lambda>x. gbind (the_header x) (\<lambda>h. ret (IsNoNResident h))), m_ShowInfo = show\<rparr>"

definition FNAttribute_methods :: "FNAttribute methods" where
  "FNAttribute_methods = methods FNAttribute_Parse (\<lambda>x. gbind (header_type x) (\<lambda>t.
     ret [(ln ''type %s Par Ref %d name %s atime %s ctime %s mtime %s mfttime %s'',
       [AStr t, UNum (fn_ParRef (snd x)), AStr (Fname (snd x))] @ times (FNAttribute_GetTimestamps (snd x)))]))"

definition Reparse_methods :: "Reparse methods" where
  "Reparse_methods = methods Reparse_Parse (\<lambda>x. gbind (header_type x) (\<lambda>t.
     ret [(''Type %s Target Name %s Print Name %s'', [AStr t, AStr (rp_Name (snd x)), AStr (PrintName (snd x))])]))"

definition DATA_methods :: "DATA methods" where
  "DATA_methods = methods DATA_Parse (\<lambda>x. gbind (header_type x) (\<lambda>t. gbind (the_header x) (\<lambda>h.
     ret [(ln ''type %s %t '', [AStr t, ABool (IsNoNResident h)])])))"

definition ObjectID_methods :: "ObjectID methods" where
  "ObjectID_methods = methods ObjectID_Parse (\<lambda>x. gbind (header_type x) (\<lambda>t. ret [(ln ''type %s'', [AStr t])]))"

definition AttributeListEntries_methods :: "AttributeListEntries methods" where
  "AttributeListEntries_methods = methods AttributeListEntries_Parse (\<lambda>x. ret (concat (map AttributeList_ShowInfo (snd x))))"

definition BitMap_methods :: "BitMap methods" where
  "BitMap_methods = methods BitMap_Parse (\<lambda>x. gbind (header_type x) (\<lambda>t. BitMap_ShowInfo t (snd x)))"

definition VolumeName_methods :: "VolumeName methods" where
  "VolumeName_methods = methods VolumeName_Parse (\<lambda>x. ret [])"

definition VolumeInfo_methods :: "VolumeInfo methods" where
  "VolumeInfo_methods = methods VolumeInfo_Parse (\<lambda>x. ret [])"

definition IndexRoot_methods :: "IndexRoot methods" where
  "IndexRoot_methods = (methods IndexRoot_Parse (\<lambda>x. gbind (header_type x) (\<lambda>t. ret (IndexRoot_ShowInfo t (snd x)))))
     \<lparr>m_IsNoNResident := (\<lambda>x. ret False)\<rparr>"

definition IndexAllocation_methods :: "IndexAllocation methods" where
  "IndexAllocation_methods = methods IndexAllocation_Parse (\<lambda>x. gbind (header_type x) (\<lambda>t. ret (IndexAllocation_ShowInfo t (snd x))))"

definition SIAttribute_methods :: "SIAttribute methods" where
  "SIAttribute_methods = methods SIAttribute_Parse (\<lambda>x. gbind (header_type x) (\<lambda>t.
     ret [(ln ''type %s usn  %d atime %s ctime %s mtime %s mfttime %s'',
       [AStr t, UNum (si_USN (snd x))] @ times (SIAttribute_GetTimestamps (snd x)))]))"

definition LoggedUtilityStream_methods :: "LoggedUtilityStream methods" where
  "LoggedUtilityStream_methods = methods LoggedUtilityStream_Parse (\<lambda>x. ret [])"

definition ExtendedAttribute_methods :: "ExtendedAttribute methods" where
  "ExtendedAttribute_methods = methods ExtendedAttribute_Parse (\<lambda>x. ret [])"

definition EA_INFORMATION_methods :: "EA_INFORMATION methods" where
  "EA_INFORMATION_methods = methods EA_INFORMATION_Parse (\<lambda>x. ret [])"

section \<open>Dynamic dispatch\<close>

text \<open>The methods of a value, bound to it.\<close>

record bound =
  b_SetHeader :: "AttributeHeader \<Rightarrow> attr_body headed"
  b_GetHeader :: "AttributeHeader go"
  b_Parse :: "slice \<Rightarrow> attr_body headed go"
  b_FindType :: "string go"
  b_IsNoNResident :: "bool go"
  b_ShowInfo :: "printed go"

definition bound_to :: "('b \<Rightarrow> attr_body) \<Rightarrow> 'b methods \<Rightarrow> 'b headed \<Rightarrow> bound" where
  "bound_to C m x = \<lparr>b_SetHeader = (\<lambda>h. map_prod id C (m_SetHeader m h x)), b_GetHeader = m_GetHeader m x,
     b_Parse = (\<lambda>d. gbind (m_Parse m d x) (\<lambda>y. ret (map_prod id C y))), b_FindType = m_FindType m x,
     b_IsNoNResident = m_IsNoNResident m x, b_ShowInfo = m_ShowInfo m x\<rparr>"

fun interface :: "attr_body headed \<Rightarrow> bound" where
  "interface (h, BFileName x) = bound_to BFileName FNAttribute_methods (h, x)"
| "interface (h, BReparse x) = bound_to BReparse Reparse_methods (h, x)"
| "interface (h, BData x) = bound_to BData DATA_methods (h, x)"
| "interface (h, BObject x) = bound_to BObject ObjectID_methods (h, x)"
| "interface (h, BAttrList x) = bound_to BAttrList AttributeListEntries_methods (h, x)"
| "interface (h, BBitmap x) = bound_to BBitmap BitMap_methods (h, x)"
| "interface (h, BVolumeName x) = bound_to BVolumeName VolumeName_methods (h, x)"
| "interface (h, BVolumeInfo x) = bound_to BVolumeInfo VolumeInfo_methods (h, x)"
| "interface (h, BIndexRoot x) = bound_to BIndexRoot IndexRoot_methods (h, x)"
| "interface (h, BIndexAllocation x) = bound_to BIndexAllocation IndexAllocation_methods (h, x)"
| "interface (h, BStdInfo x) = bound_to BStdInfo SIAttribute_methods (h, x)"
| "interface (h, BLoggedUtility x) = bound_to BLoggedUtility LoggedUtilityStream_methods (h, x)"
| "interface (h, BExtended x) = bound_to BExtended ExtendedAttribute_methods (h, x)"
| "interface (h, BEAInfo x) = bound_to BEAInfo EA_INFORMATION_methods (h, x)"

lemmas method_sets = methods_def FNAttribute_methods_def Reparse_methods_def DATA_methods_def ObjectID_methods_def
  AttributeListEntries_methods_def BitMap_methods_def VolumeName_methods_def VolumeInfo_methods_def IndexRoot_methods_def
  IndexAllocation_methods_def SIAttribute_methods_def LoggedUtilityStream_methods_def ExtendedAttribute_methods_def
  EA_INFORMATION_methods_def bound_to_def the_header_def header_type_def

text \<open>An attribute of the development as a value of the interface whose header is set.\<close>

definition value_of :: "Attribute \<Rightarrow> attr_body headed" where
  "value_of a = (Some (GetHeader a), Body a)"

text \<open>The interface of the attributes. On a value whose header is set, the calls through the interface are the operations
  on attributes: the type and the resident flag come from the header (but an index root is always
  resident), parsing keeps the header, and \<open>ShowInfo\<close> prints the same. On a value without a header, asking
  for the header or the type panics.\<close>

theorem attribute_dispatch:
  "b_SetHeader (interface (value_of a)) h = value_of (SetHeader h a) \<and>
   b_GetHeader (interface (value_of a)) = ret (GetHeader a) \<and>
   b_Parse (interface (value_of a)) d = gbind (Attribute_Parse d a) (\<lambda>b. ret (value_of b)) \<and>
   b_FindType (interface (value_of a)) = ret (FindType a) \<and>
   b_IsNoNResident (interface (value_of a)) = ret (Attribute_IsNoNResident a) \<and>
   b_ShowInfo (interface (value_of a)) = Attribute_ShowInfo a \<and>
   b_SetHeader (interface (None, Body a)) h = value_of (SetHeader h a) \<and>
   b_GetHeader (interface (None, Body a)) = panic Nil_dereference \<and>
   b_FindType (interface (None, Body a)) = panic Nil_dereference"
proof (cases "Body a")
qed (simp_all add: method_sets value_of_def SetHeader_def FindType_def Attribute_Parse_def Attribute_IsNoNResident_def
    Attribute_ShowInfo_def gbind_assoc)

end
