(* ===== verification/Spec2Isabelle.thy ===== *)
theory Spec2Isabelle
  imports BTRFS_Show FS_NTFS LVM_Label Main_Program Attribute_Methods
begin

text \<open>
  A verification library for FileSystemForensics (module \<open>MFTExtractor\<close>), a Go program that reads NTFS
  volumes, and the beginnings of BTRFS and LVM2 volumes, from disks, images and \<open>$MFT\<close> files,
  reconstructs names, paths and contents of files, and exports them.

  The program and its parts. \<open>main.go\<close> works on a disk or on a table file. On a disk, \<open>disk/disk.go\<close>
  discovers the partitions (\<open>disk/partition\<close>), probes each for a volume (\<open>disk/volume\<close>) and lets the
  volumes process themselves. An NTFS volume reads the first record of \<open>$MFT\<close>, collects the runs that
  this record describes, parses the selected records into the table (\<open>FS/NTFS/MFT\<close>), fetches the
  attributes that live outside their records, and links parents, index sizes and attribute lists. An
  LVM2 volume reads its labels and a BTRFS superblock (\<open>FS/BTRFS\<close>). Filters select records, the
  exporter writes their contents, and the change journal and the tree are built from them.

  Semantics. \<open>Go_Prelude\<close> holds the fragment of Go that all parts share: \<open>'a go\<close>, a computation that
  returns, panics or never returns; byte slices as a view of an underlying array with a length, where
  slicing is checked against the capacity; little-endian numbers. Machine integers keep their width;
  \<open>int\<close> is 64 bits. A loop that may run for ever is a \<open>partial_function (option)\<close>, so not returning
  is the value \<open>None\<close>; all other loops are structural or have a measure, and no fuel is used anywhere.
  Pointers between records, and between directory entries, are indices into the table that holds them.
  What the program calls outside of its own source is a parameter: reading from a disk (\<open>reader\<close>), the libraries for EWF and
  VMDK images and the system calls (\<open>libs\<close>), the sort of the standard library (\<open>srt\<close>), joining paths (\<open>join\<close>),
  the spare capacity of grown buffers (\<open>slack\<close>), the order of a range over a map (\<open>order\<close>). The whole program takes
  them as one record, \<open>env\<close>, which also holds the time of the start and, for the log, whether its file can be created and
  what ends up in it. The flag parser, the digests and the integer readers of the standard library are
  written out. \<open>make\<close> and \<open>Grow\<close> panic for a negative size and for one above the address space of the 64-bit
  targets, \<open>max_alloc\<close>; a machine that has less memory is not modelled, nor is a buffer that outgrows
  the limit by the bytes written to it.

  Theories and code.
  \<^item> \<open>Unmarshal\<close>, \<open>Text\<close>, \<open>CRC32\<close>: \<open>utils/utils.go\<close> and \<open>utils/crc32.go\<close>; a struct is a \<open>layout\<close> of
    named kinds, read by the field loop of \<open>Unmarshal\<close>. What is read back of the values that \<open>marshal\<close> writes,
    for every layout: booleans come back false and times without their nanoseconds, and a field \<open>ChildVCN\<close> panics; the
    integer readers; the checksum equals the bitwise CRC-32C.
  \<^item> \<open>Attr_Header\<close>, \<open>Attributes\<close>, \<open>Index\<close>: \<open>FS/NTFS/MFT/attributes\<close>: headers, run lists, bodies and directory
    indexes. Round trips of run lists and names, the bitmap, the walk of the index.
  \<^item> \<open>MFT_Record\<close>, \<open>Record_Walk\<close>, \<open>Record_Access\<close>, \<open>Record_Facts\<close>: \<open>MFT.go\<close>: a record, the fix-up, the loop over the
    attributes as a chain of length fields, and the queries (names, sizes, paths). Every processed
    record is typed, names come from the best name space, paths follow the ancestors.
  \<^item> \<open>MFT_Table\<close>, \<open>Disk_Reader\<close>, \<open>MFT_Data\<close>: \<open>Table.go\<close>, the interface of a reader with \<open>img/reader_windows.go\<close>, and the reading of contents. A slot of the table is
    zero or holds the record with its number; the passes over the table change only what they are
    for; the content of a file is the concatenation of its runs.
  \<^item> \<open>Filters\<close>, \<open>Tree_Builder\<close>, \<open>Exporter\<close>, \<open>UsnJrnl\<close>: \<open>filters\<close>, \<open>filtermanager\<close>, \<open>tree/builder.go\<close>, \<open>exporter\<close>,
    \<open>FS/NTFS/usnjrnl\<close>.
  \<^item> \<open>Volume_Table\<close>: what \<open>Process\<close> of a volume leaves in the table, by composing the passes.
  \<^item> \<open>Volume_NTFS\<close>, \<open>FS_NTFS\<close>: the volumes of \<open>disk/volume/ntfs.go\<close> and \<open>FS/NTFS/ntfs.go\<close>, and their equivalence up to the
    boot record.
  \<^item> \<open>BTRFS_Leaf\<close>, \<open>BTRFS_Node\<close>: \<open>FS/BTRFS\<close>: items of leaves, nodes with their checksum, the superblock with its chunks, and
    directory entries with their paths.
  \<^item> \<open>LVM\<close>, \<open>LVM_Label\<close>: the labels of \<open>disk/volume/lvm.go\<close> and of \<open>disk/lvm2/lvm.go\<close>.
  \<^item> \<open>Partitions\<close>, \<open>Disk\<close>: MBR, extended and GPT partitions with the RAID superblock, and \<open>disk/disk.go\<close>.
  \<^item> \<open>Channels\<close>: the step relation of a producer and a consumer on a channel, with what every run comes to.
  \<^item> \<open>Image_Readers\<close>, \<open>Hashing\<close>, \<open>Logging\<close>: \<open>img\<close> with \<open>FindEvidenceFiles\<close>, \<open>utils/hasher.go\<close>, \<open>logger\<close>. Which files are
    opened as one image, the lengths of the digests, and that logging never fails.
  \<^item> \<open>Flags\<close>, \<open>Command_Line\<close>: the flags that \<open>main.go\<close> declares, the parser of the package \<open>flag\<close>, and what the program makes of
    the arguments. Every argument that the usage of the README lists sets the option or the report that it names.
  \<^item> \<open>Program\<close>, \<open>Main_Program\<close>: \<open>main.go\<close>: the options, the filters, and the program from its arguments to what is printed and
    which files are left. What it can write at all, what is hashed, and which reports of a table file succeed.
  \<^item> \<open>Reporting\<close>, \<open>Attribute_Methods\<close>: what is printed about records, the journal and the tree (\<open>reporter/reporter.go\<close> and the \<open>Show\<close>
    methods it calls), as the list of the calls of \<open>fmt.Printf\<close>, and exactly when the reporter panics; the listings of
    a disk; the method sets of the attribute types, with the dispatch of the interface.
  \<^item> \<open>BTRFS_Show\<close>: the same for BTRFS nodes, with the type invariant of parsed leaves.

  Interfaces. A locale states what a client relies on, and is interpreted on the model's own
  definitions: \<open>disk_reader\<close> (a reader returns what it is asked for), \<open>sort_contract\<close> (the sort of index
  entries), \<open>attribute_interface\<close> (the methods all attributes share), \<open>filter_contract\<close> (a filter selects),
  \<open>volume_interface\<close> and \<open>partition_interface\<close> (processing keeps the geometry, a volume put back is found
  again), which \<open>processed_partition\<close> extends for the disk, and \<open>consumer\<close> (what is done for a value is a
  sequence of actions), interpreted on the exporter, the file of the unallocated clusters and the parser of the journal.

  Interleaving. A goroutine that produces for a channel is what it does to the channel, sending and closing, and how it
  ends. The sequential definitions are the composition of producer and consumer; that every schedule comes to the same, for
  every capacity, is proved with the step relation of \<open>Channels\<close>. Where it does not, the exported unallocated
  clusters, the choice of the scheduler is an argument, and it is proved that the choices are just the outcomes of the
  runs. The termination measure of a network is the number of steps that are left at most.

  Not modelled. How \<open>fmt\<close> formats what is printed, and messages about progress; when which line is written to the log;
  closing of handles; \<open>WriteToCSV\<close>, which hands its text to an open file and which nothing uses; how a time is
  formatted; methods with an empty body; the types of \<open>disk/lvm2\<close> and \<open>FS/BTRFS\<close> that nothing uses; and
  errors of the operating system other than a missing file, a directory that cannot be listed and a file or drive that cannot
  be opened.
\<close>

end
